(* ===== verification/Prelude.thy ===== *)
theory Prelude
  imports Main
begin

text \<open>
  Shared vocabulary of the development: Python exceptions as values of a sum type, the sequencing
  of checks and calls that may raise, timezone-aware timestamps, and the generic list lemmas the
  component theories use.

  \<^item> A call that may raise returns \<open>'a result\<close>: \<open>Inl e\<close> is the raised exception, \<open>Inr x\<close> the
    returned value.  \<open>bindE\<close> runs the continuation only on a returned value, \<open>checks\<close> is a block
    of guard statements (the first one that raises wins), \<open>thenE\<close> is a block of guards followed by
    the rest of the function.
  \<^item> \<open>datetime\<close> is Python's class: an optional UTC offset and an instant in microseconds (of UTC
    for an aware value, of the wall clock for a naive one); \<open>timedelta\<close> is a number of microseconds.
\<close>

named_theorems result_simps \<open>reading a returned value off a chain of checks and calls\<close>

section \<open>Exceptions as values\<close>

datatype py_error =
    ValueError string
  | TypeError string
  | LookupError string
  | PermissionError string
  | RuntimeError string
  | ArithmeticError string
  | DivisionByZero
  | AssertionError
  | InsufficientMargin string
  | IllegalOrderTransition string
  | FilterRejection string
  | FillRejection string "string option"
  | ExitExecutionHalt string "string option"
  | FrameIdentityConflict string

type_synonym 'a result = "py_error + 'a"

fun bindE :: "'err + 'x \<Rightarrow> ('x \<Rightarrow> 'err + 'y) \<Rightarrow> 'err + 'y" where
  "bindE (Inl e) k = Inl e"
| "bindE (Inr v) k = k v"

definition thenE :: "'e + unit \<Rightarrow> 'e + 'b \<Rightarrow> 'e + 'b" where
  "thenE m k = bindE m (\<lambda>_. k)"

definition raise_if :: "bool \<Rightarrow> 'e \<Rightarrow> 'e + unit" where
  "raise_if b e = (if b then Inl e else Inr ())"

fun checks :: "('e + unit) list \<Rightarrow> 'e + unit" where
  "checks [] = Inr ()"
| "checks (c # cs) = (case c of Inl e \<Rightarrow> Inl e | Inr _ \<Rightarrow> checks cs)"

fun mapE :: "('a \<Rightarrow> 'e + 'b) \<Rightarrow> 'a list \<Rightarrow> 'e + 'b list" where
  "mapE f [] = Inr []"
| "mapE f (x # xs) = bindE (f x) (\<lambda>y. bindE (mapE f xs) (\<lambda>ys. Inr (y # ys)))"

lemma bindE_Inr_iff [result_simps]:
  "bindE m f = Inr y \<longleftrightarrow> (\<exists>x. m = Inr x \<and> f x = Inr y)"
  by (cases m) simp_all

lemma bindE_Inl_iff [result_simps]:
  "bindE m f = Inl e \<longleftrightarrow> m = Inl e \<or> (\<exists>x. m = Inr x \<and> f x = Inl e)"
  by (cases m) simp_all

lemma bindE_return: "bindE m Inr = m"
  by (cases m) simp_all

lemma thenE_simps [simp]:
  "thenE (Inl e) k = Inl e"
  "thenE (Inr u) k = k"
  by (simp_all add: thenE_def)

lemma thenE_Inr_iff [result_simps]: "thenE m k = Inr y \<longleftrightarrow> m = Inr () \<and> k = Inr y"
  by (cases m) simp_all

lemma thenE_Inl_iff [result_simps]: "thenE m k = Inl e \<longleftrightarrow> m = Inl e \<or> (m = Inr () \<and> k = Inl e)"
  by (cases m) simp_all

lemma raise_if_simps [simp]:
  "raise_if True e = Inl e"
  "raise_if False e = Inr ()"
  by (simp_all add: raise_if_def)

lemma raise_if_Inr_iff [result_simps]: "raise_if b e = Inr u \<longleftrightarrow> \<not> b"
  by (simp add: raise_if_def)

lemma raise_if_Inl_iff [result_simps]: "raise_if b e = Inl e' \<longleftrightarrow> b \<and> e' = e"
  by (auto simp: raise_if_def)

lemma checks_Cons_Inr_iff [result_simps]:
  "(case c of Inl e \<Rightarrow> Inl e | Inr _ \<Rightarrow> checks cs) = Inr u \<longleftrightarrow> c = Inr () \<and> checks cs = Inr ()"
  by (cases c) simp_all

lemma checks_Cons_Inl_iff [result_simps]:
  "(case c of Inl e \<Rightarrow> Inl e | Inr _ \<Rightarrow> checks cs) = Inl e' \<longleftrightarrow> c = Inl e' \<or> c = Inr () \<and> checks cs = Inl e'"
  by (cases c) auto

lemma checks_Inr_iff: "checks cs = Inr () \<longleftrightarrow> (\<forall>c \<in> set cs. c = Inr ())"
  by (induction cs) (auto simp: result_simps)

lemma checks_append: "checks (cs @ ds) = thenE (checks cs) (checks ds)"
  by (induction cs) (auto split: sum.splits)

lemma mapE_Inr_map: "(\<And>x. x \<in> set xs \<Longrightarrow> f x = Inr (g x)) \<Longrightarrow> mapE f xs = Inr (map g xs)"
  by (induction xs) simp_all

lemma mapE_length: "mapE f xs = Inr ys \<Longrightarrow> length ys = length xs"
  by (induction xs arbitrary: ys) (auto simp: result_simps)

lemma mapE_nth: "mapE f xs = Inr ys \<Longrightarrow> i < length xs \<Longrightarrow> f (xs ! i) = Inr (ys ! i)"
proof (induction xs arbitrary: ys i)
  case Nil
  then show ?case by simp
next
  case (Cons x xs)
  then show ?case by (cases i) (auto simp: result_simps)
qed

lemma mapE_set: "mapE f xs = Inr ys \<Longrightarrow> y \<in> set ys \<Longrightarrow> \<exists>x \<in> set xs. f x = Inr y"
  by (induction xs arbitrary: ys) (auto simp: result_simps)

lemma find_first: "list_all P xs \<Longrightarrow> \<not> P x \<Longrightarrow> find (\<lambda>y. \<not> P y) (xs @ x # ys) = Some x"
  by (induction xs) auto

lemma mapE_ok: "\<forall>x \<in> set xs. \<exists>y. f x = Inr y \<Longrightarrow> \<exists>ys. mapE f xs = Inr ys"
  by (induction xs) auto

lemma mapE_all:
  assumes "\<forall>x \<in> set xs. \<exists>y. f x = Inr y \<and> P y"
  shows "\<exists>ys. mapE f xs = Inr ys \<and> list_all P ys"
  using assms by (induction xs) fastforce+

lemma sort_Nil_iff [simp]: "sort xs = [] \<longleftrightarrow> xs = []"
  by (metis set_empty set_sort)

lemma option_eqI: "(\<And>e. x = Some e \<longleftrightarrow> y = Some e) \<Longrightarrow> x = y"
  by (cases x; cases y) auto

text \<open>The exceptions a call can raise, followed through the sequencing of calls.\<close>

definition only_raises :: "('e \<Rightarrow> bool) \<Rightarrow> 'e + 'a \<Rightarrow> bool" where
  "only_raises P r \<longleftrightarrow> (\<forall>e. r = Inl e \<longrightarrow> P e)"

named_theorems raises_intros \<open>which exceptions a composed call can raise\<close>

lemma only_raises_simps [simp]: "only_raises P (Inr v)" "only_raises P (Inl e) \<longleftrightarrow> P e"
  by (simp_all add: only_raises_def)

lemma only_raises_bindE [raises_intros]:
  "only_raises P m \<Longrightarrow> (\<And>v. only_raises P (k v)) \<Longrightarrow> only_raises P (bindE m k)"
  by (cases m) simp_all

lemma only_raises_thenE [raises_intros]: "only_raises P m \<Longrightarrow> only_raises P k \<Longrightarrow> only_raises P (thenE m k)"
  by (cases m) simp_all

lemma only_raises_checks [raises_intros]: "(\<And>c. c \<in> set cs \<Longrightarrow> only_raises P c) \<Longrightarrow> only_raises P (checks cs)"
  by (induction cs) (auto split: sum.splits simp: only_raises_def)

lemma only_raises_case [raises_intros]:
  "only_raises P c \<Longrightarrow> only_raises P (checks cs) \<Longrightarrow> only_raises P (case c of Inl e \<Rightarrow> Inl e | Inr _ \<Rightarrow> checks cs)"
  by (cases c) simp_all

lemma only_raises_raise_if [simp]: "only_raises P (raise_if b e) \<longleftrightarrow> b \<longrightarrow> P e"
  by (simp add: raise_if_def)

lemma only_raises_if [raises_intros]:
  "(b \<Longrightarrow> only_raises P r) \<Longrightarrow> (\<not> b \<Longrightarrow> only_raises P s) \<Longrightarrow> only_raises P (if b then r else s)"
  by simp

text \<open>A sequence of fallible steps, stopping at the first error.\<close>

fun foldE :: "('s \<Rightarrow> 'c \<Rightarrow> 'e + 's) \<Rightarrow> 's \<Rightarrow> 'c list \<Rightarrow> 'e + 's" where
  "foldE f s [] = Inr s"
| "foldE f s (c # cs) = bindE (f s c) (\<lambda>s'. foldE f s' cs)"

lemma foldE_append: "foldE f s (cs @ ds) = bindE (foldE f s cs) (\<lambda>s'. foldE f s' ds)"
proof (induction cs arbitrary: s)
  case (Cons c cs)
  then show ?case by (cases "f s c") simp_all
qed simp

lemma foldE_snoc_iff [result_simps]:
  "foldE f s (cs @ [c]) = Inr s'' \<longleftrightarrow> (\<exists>s'. foldE f s cs = Inr s' \<and> f s' c = Inr s'')"
  by (simp add: foldE_append result_simps)

lemma foldE_Cons_iff [result_simps]:
  "foldE f s (c # cs) = Inr s'' \<longleftrightarrow> (\<exists>s'. f s c = Inr s' \<and> foldE f s' cs = Inr s'')"
  by (simp add: result_simps)

lemma foldE_invariant:
  assumes "foldE f s cs = Inr s'" "P s" "\<And>s c s'. c \<in> set cs \<Longrightarrow> P s \<Longrightarrow> f s c = Inr s' \<Longrightarrow> P s'"
  shows "P s'"
  using assms by (induction cs arbitrary: s) (auto simp: result_simps)

section \<open>Timestamps\<close>

type_synonym timedelta = int

datatype datetime = DateTime (utcoffset: "int option") (instant: int)

text \<open>
  The order of aware values is the order of their instants; the offset only breaks ties, so that
  the order is a total order of the type.
\<close>

instantiation datetime :: linorder
begin

definition less_eq_datetime :: "datetime \<Rightarrow> datetime \<Rightarrow> bool" where
  "a \<le> b \<longleftrightarrow> instant a < instant b \<or> (instant a = instant b \<and>
     (case (utcoffset a, utcoffset b) of
        (None, _) \<Rightarrow> True | (Some x, None) \<Rightarrow> False | (Some x, Some y) \<Rightarrow> x \<le> y))"

definition less_datetime :: "datetime \<Rightarrow> datetime \<Rightarrow> bool" where
  "(a :: datetime) < b \<longleftrightarrow> a \<le> b \<and> \<not> b \<le> a"

instance
proof
  fix x y z :: datetime
  show "(x < y) = (x \<le> y \<and> \<not> y \<le> x)"
    by (simp add: less_datetime_def)
  show "x \<le> x"
    by (auto simp: less_eq_datetime_def split: option.splits)
  show "x \<le> y \<Longrightarrow> y \<le> z \<Longrightarrow> x \<le> z"
    by (auto simp: less_eq_datetime_def split: option.splits)
  show "x \<le> y \<Longrightarrow> y \<le> x \<Longrightarrow> x = y"
    by (cases x; cases y) (auto simp: less_eq_datetime_def split: option.splits)
  show "x \<le> y \<or> y \<le> x"
    by (auto simp: less_eq_datetime_def split: option.splits)
qed

end

abbreviation utc :: "int \<Rightarrow> datetime" where
  "utc t \<equiv> DateTime (Some 0) t"

definition is_utc :: "datetime \<Rightarrow> bool" where
  "is_utc t \<longleftrightarrow> utcoffset t = Some 0"

definition dt_add :: "datetime \<Rightarrow> timedelta \<Rightarrow> datetime" where
  "dt_add t d = DateTime (utcoffset t) (instant t + d)"

definition dt_diff :: "datetime \<Rightarrow> datetime \<Rightarrow> timedelta" where
  "dt_diff a b = instant a - instant b"

text \<open>
  Python's \<^verbatim>\<open>==\<close>: aware values are equal when their instants are, whatever their offsets; an aware and a
  naive value are never equal.
\<close>

definition dt_eq :: "datetime \<Rightarrow> datetime \<Rightarrow> bool" where
  "dt_eq a b \<longleftrightarrow> (utcoffset a = None \<longleftrightarrow> utcoffset b = None) \<and> instant a = instant b"

abbreviation seconds :: "int \<Rightarrow> timedelta" where
  "seconds n \<equiv> n * 1000000"

lemma is_utc_utc [simp]: "is_utc (utc t)"
  by (simp add: is_utc_def)

lemma utc_less_iff: "is_utc a \<Longrightarrow> is_utc b \<Longrightarrow> a < b \<longleftrightarrow> instant a < instant b"
  by (auto simp: is_utc_def less_datetime_def less_eq_datetime_def)

lemma utc_le_iff: "is_utc a \<Longrightarrow> is_utc b \<Longrightarrow> a \<le> b \<longleftrightarrow> instant a \<le> instant b"
  by (auto simp: is_utc_def less_eq_datetime_def)

lemma dt_eq_utc: "is_utc a \<Longrightarrow> is_utc b \<Longrightarrow> dt_eq a b \<longleftrightarrow> a = b"
  by (auto simp: dt_eq_def is_utc_def datetime.expand)

lemma utc_compare [simp]:
  "utc a < utc b \<longleftrightarrow> a < b"
  "utc a \<le> utc b \<longleftrightarrow> a \<le> b"
  by (simp_all add: utc_less_iff utc_le_iff)

lemma is_utc_dt_add [simp]: "is_utc (dt_add t d) \<longleftrightarrow> is_utc t"
  by (simp add: is_utc_def dt_add_def)

lemma dt_add_pos: "is_utc t \<Longrightarrow> 0 < d \<Longrightarrow> t < dt_add t d"
  by (simp add: utc_less_iff) (simp add: dt_add_def)

section \<open>Lists\<close>

text \<open>Consecutive pairs of a list, as \<open>zip(xs, xs[1:])\<close> enumerates them.\<close>

fun adjacent_ok :: "('a \<Rightarrow> 'a \<Rightarrow> bool) \<Rightarrow> 'a list \<Rightarrow> bool" where
  "adjacent_ok P (x # y # zs) = (P x y \<and> adjacent_ok P (y # zs))"
| "adjacent_ok P xs = True"

lemma adjacent_ok_Cons: "adjacent_ok P (x # xs) \<Longrightarrow> adjacent_ok P xs"
  by (cases xs) simp_all

lemma adjacent_ok_snoc: "adjacent_ok P (xs @ [y]) \<longleftrightarrow> adjacent_ok P xs \<and> (xs \<noteq> [] \<longrightarrow> P (last xs) y)"
  by (induction P xs rule: adjacent_ok.induct) auto

lemma adjacent_ok_sorted_wrt: "transp P \<Longrightarrow> adjacent_ok P xs \<longleftrightarrow> sorted_wrt P xs"
proof (induction xs)
  case Nil
  then show ?case by simp
next
  case (Cons x xs)
  then show ?case
    by (cases xs) (auto dest: transpD)
qed

text \<open>The first element a key sorts to the front: \<open>min(xs, key=...)\<close> and \<open>sorted(xs, key=...)[0]\<close>.\<close>

fun min_key :: "('a \<Rightarrow> 'k :: linorder) \<Rightarrow> 'a list \<Rightarrow> 'a option" where
  "min_key k [] = None"
| "min_key k (x # xs) =
     (case min_key k xs of None \<Rightarrow> Some x | Some y \<Rightarrow> if k x \<le> k y then Some x else Some y)"

lemma min_key_None [simp]: "min_key k xs = None \<longleftrightarrow> xs = []"
  by (cases xs) (auto split: option.splits)

lemma min_key_in: "min_key k xs = Some x \<Longrightarrow> x \<in> set xs"
  by (induction xs arbitrary: x) (auto split: option.splits if_splits)

lemma min_key_le: "min_key k xs = Some x \<Longrightarrow> y \<in> set xs \<Longrightarrow> k x \<le> k y"
  by (induction xs arbitrary: x) (auto split: option.splits if_splits)

lemma hd_sort_key_min_key: "xs \<noteq> [] \<Longrightarrow> min_key k xs = Some (hd (sort_key k xs))"
proof (induction xs)
  case Nil
  then show ?case by simp
next
  case (Cons x xs)
  show ?case
  proof (cases "xs = []")
    case True
    then show ?thesis by simp
  next
    case False
    then obtain y ys where s: "sort_key k xs = y # ys"
      by (cases "sort_key k xs") (auto simp: sort_key_simps dest: arg_cong [where f = length])
    have "hd (insort_key k x (y # ys)) = (if k x \<le> k y then x else y)"
      by simp
    with Cons.IH False s show ?thesis by simp
  qed
qed

text \<open>The first element with the greatest key: \<open>max(xs, key=...)\<close>.\<close>

fun max_key :: "('a \<Rightarrow> 'k :: linorder) \<Rightarrow> 'a list \<Rightarrow> 'a option" where
  "max_key k [] = None"
| "max_key k (x # xs) =
     (case max_key k xs of None \<Rightarrow> Some x | Some y \<Rightarrow> if k y \<le> k x then Some x else Some y)"

lemma max_key_None [simp]: "max_key k xs = None \<longleftrightarrow> xs = []"
  by (cases xs) (auto split: option.splits)

lemma max_key_in: "max_key k xs = Some x \<Longrightarrow> x \<in> set xs"
  by (induction xs arbitrary: x) (auto split: option.splits if_splits)

lemma max_key_ge: "max_key k xs = Some x \<Longrightarrow> y \<in> set xs \<Longrightarrow> k y \<le> k x"
  by (induction xs arbitrary: x) (auto split: option.splits if_splits)

lemma max_key_map: "max_key k (map g xs) = map_option g (max_key (\<lambda>x. k (g x)) xs)"
  by (induction xs) (auto split: option.splits)

text \<open>With no ties the greatest element depends on the set of the candidates only.\<close>

lemma max_key_set:
  assumes "set xs = set ys" and "inj_on k (set xs)"
  shows "max_key k xs = max_key k ys"
proof (cases "max_key k xs")
  case None
  then show ?thesis using assms(1) by simp
next
  case (Some x)
  then obtain y where y: "max_key k ys = Some y" using assms(1) by (cases "max_key k ys") auto
  have "x \<in> set xs" "y \<in> set xs" using max_key_in [OF Some] max_key_in [OF y] assms(1) by simp_all
  moreover from this have "k x = k y" using max_key_ge [OF Some] max_key_ge [OF y] assms(1) by (intro antisym) simp_all
  ultimately show ?thesis using assms(2) Some y by (simp add: inj_on_def)
qed

section \<open>Logs of numbered events\<close>

text \<open>
  The contract of an aggregate that records one numbered event per command: every accepted command
  appends exactly one event, numbered by the next version.
\<close>

locale event_log =
  fixes step :: "'s \<Rightarrow> 'c \<Rightarrow> 'e + 's"
    and version :: "'s \<Rightarrow> int"
    and events :: "'s \<Rightarrow> 'v list"
    and number :: "'v \<Rightarrow> int"
  assumes step_version: "step s c = Inr s' \<Longrightarrow> version s' = version s + 1"
    and step_events: "step s c = Inr s' \<Longrightarrow> \<exists>e. events s' = events s @ [e] \<and> number e = version s + 1"
begin

lemma run_version: "foldE step s cs = Inr s' \<Longrightarrow> version s' = version s + int (length cs)"
  by (induction cs arbitrary: s) (auto simp: result_simps dest: step_version)

lemma run_events:
  assumes "foldE step s cs = Inr s'"
  shows "\<exists>es. events s' = events s @ es \<and> length es = length cs \<and>
    map number es = [version s + 1 .. version s']"
  using assms
proof (induction cs arbitrary: s' rule: rev_induct)
  case Nil
  then show ?case by simp
next
  case (snoc c cs)
  then obtain s1 where run: "foldE step s cs = Inr s1" and last: "step s1 c = Inr s'"
    by (auto simp: result_simps)
  obtain e where e: "events s' = events s1 @ [e]" "number e = version s1 + 1"
    using step_events [OF last] by blast
  obtain es where es: "events s1 = events s @ es" "length es = length cs"
      "map number es = [version s + 1 .. version s1]"
    using snoc.IH [OF run] by blast
  have "version s \<le> version s1" using run_version [OF run] by simp
  then have "[version s + 1 .. version s'] = [version s + 1 .. version s1] @ [version s']"
    using step_version [OF last] upto_split2 [of "version s + 1" "version s'" "version s'"]
    by (simp add: upto_rec2)
  then show ?case using e es step_version [OF last] by (intro exI [of _ "es @ [e]"]) simp
qed

lemma run_numbered:
  assumes "foldE step s cs = Inr s'" "map number (events s) = [1 .. version s]" "0 \<le> version s"
  shows "map number (events s') = [1 .. version s']"
proof -
  obtain es where "events s' = events s @ es" "map number es = [version s + 1 .. version s']"
    using run_events [OF assms(1)] by blast
  then show ?thesis
    using assms(2,3) run_version [OF assms(1)] upto_split1 [of 1 "version s + 1" "version s'"]
    by (cases "version s' = version s") (auto simp: upto_split2 [of 1 "version s" "version s'"])
qed

end

end
