(* ===== verification/Decimal.thy ===== *)
theory Decimal
  imports Complex_Main Prelude
begin

text \<open>
  Python's \<^verbatim>\<open>decimal.Decimal\<close> under the default context (28 significant digits,
  \<^verbatim>\<open>ROUND_HALF_EVEN\<close>), which the program never changes.

  A finite Decimal is represented by its value, a rational number: comparison, \<open>==\<close>, \<open>min\<close> and
  \<open>max\<close> are exact in Python and are the ones of \<open>rat\<close>; every arithmetic operation, unary minus and
  \<open>abs\<close> included, computes the exact result and rounds it once to the context's precision
  (\<open>dround\<close>).  Non-finite Decimals are rejected by the program's \<open>is_finite\<close> guards before they take
  part in arithmetic, so they have no counterpart here, and the exponent range of the context
  (\<^verbatim>\<open>Emin\<close> and \<^verbatim>\<open>Emax\<close>, one million digits) is not modelled.
\<close>

type_synonym decimal = rat

section \<open>Rounding to a number of significant digits\<close>

definition round_half_even :: "rat \<Rightarrow> int" where
  "round_half_even x =
     (let f = \<lfloor>x\<rfloor>; r = x - of_int f
      in if r < 1 / 2 then f else if 1 / 2 < r then f + 1 else if even f then f else f + 1)"

text \<open>The number of decimal digits of a positive integer.\<close>

function num_digits :: "int \<Rightarrow> nat" where
  "num_digits p = (if p < 10 then 1 else Suc (num_digits (p div 10)))"
  by pat_completeness auto
termination
  by (relation "measure nat") auto

declare num_digits.simps [simp del]

text \<open>\<open>Decimal.adjusted\<close>: the power of ten of the most significant digit.\<close>

definition adjusted :: "rat \<Rightarrow> int" where
  "adjusted x =
     (let (p, q) = quotient_of \<bar>x\<bar>;
          est = int (num_digits p) - int (num_digits q)
      in if 10 powi est \<le> \<bar>x\<bar> then est else est - 1)"

definition round_prec :: "nat \<Rightarrow> rat \<Rightarrow> rat" where
  "round_prec n x =
     (if x = 0 then 0
      else let e = adjusted x - int n + 1
           in of_int (round_half_even (x / 10 powi e)) * 10 powi e)"

definition dround :: "rat \<Rightarrow> decimal" where
  "dround x = round_prec 28 x"

definition dadd :: "decimal \<Rightarrow> decimal \<Rightarrow> decimal" where
  "dadd a b = dround (a + b)"

definition dsub :: "decimal \<Rightarrow> decimal \<Rightarrow> decimal" where
  "dsub a b = dround (a - b)"

definition dmul :: "decimal \<Rightarrow> decimal \<Rightarrow> decimal" where
  "dmul a b = dround (a * b)"

definition dneg :: "decimal \<Rightarrow> decimal" where
  "dneg a = dround (- a)"

definition dabs :: "decimal \<Rightarrow> decimal" where
  "dabs a = dround \<bar>a\<bar>"

text \<open>
  Division raises \<^verbatim>\<open>DivisionByZero\<close> (or \<^verbatim>\<open>InvalidOperation\<close> for \<open>0/0\<close>) on a zero divisor.  \<open>ddiv\<close> is the
  value of a division whose divisor the code has made nonzero, \<open>ddivE\<close> the general operation.
\<close>

definition ddiv :: "decimal \<Rightarrow> decimal \<Rightarrow> decimal" where
  "ddiv a b = dround (a / b)"

definition ddivE :: "decimal \<Rightarrow> decimal \<Rightarrow> decimal result" where
  "ddivE a b = (if b = 0 then Inl DivisionByZero else Inr (ddiv a b))"

text \<open>\<open>sum(xs, start=Decimal("0"))\<close>: additions from the left, each rounded.\<close>

definition dsum :: "decimal list \<Rightarrow> decimal" where
  "dsum xs = foldl dadd 0 xs"

section \<open>The nearest integer\<close>

lemma round_half_even_error: "\<bar>of_int (round_half_even x) - x\<bar> \<le> 1 / 2"
proof -
  have "of_int \<lfloor>x\<rfloor> \<le> x" "x < of_int \<lfloor>x\<rfloor> + 1"
    by linarith+
  then show ?thesis
    unfolding round_half_even_def Let_def by (auto simp: abs_le_iff)
qed

lemma round_half_even_of_int [simp]: "round_half_even (of_int n) = n"
  by (simp add: round_half_even_def)

lemma round_half_even_mono:
  assumes "x \<le> y"
  shows "round_half_even x \<le> round_half_even y"
proof (cases "\<lfloor>x\<rfloor> = \<lfloor>y\<rfloor>")
  case True
  with assms show ?thesis
    unfolding round_half_even_def Let_def by auto
next
  case False
  with assms have "\<lfloor>x\<rfloor> < \<lfloor>y\<rfloor>"
    using floor_mono [OF assms] by linarith
  moreover have "round_half_even x \<le> \<lfloor>x\<rfloor> + 1" "\<lfloor>y\<rfloor> \<le> round_half_even y"
    unfolding round_half_even_def Let_def by auto
  ultimately show ?thesis by linarith
qed

lemma round_half_even_minus: "round_half_even (- x) = - round_half_even x"
proof (cases "x = of_int \<lfloor>x\<rfloor>")
  case True
  then show ?thesis
    by (metis of_int_minus round_half_even_of_int)
next
  case False
  then have "\<lfloor>- x\<rfloor> = - \<lfloor>x\<rfloor> - 1"
    by linarith
  with False show ?thesis
    unfolding round_half_even_def Let_def by auto
qed

section \<open>The position of the leading digit\<close>

lemma num_digits_bounds: "0 < p \<Longrightarrow> 10 ^ (num_digits p - 1) \<le> p \<and> p < 10 ^ num_digits p"
proof (induction p rule: num_digits.induct)
  case (1 p)
  show ?case
  proof (cases "p < 10")
    case True
    with "1.prems" show ?thesis by (simp add: num_digits.simps [of p])
  next
    case False
    define n where "n = num_digits (p div 10)"
    have IH: "10 ^ (n - 1) \<le> p div 10" "p div 10 < 10 ^ n"
      using "1.IH" False by (simp_all add: n_def)
    then have "0 < n" by (cases n) (use False in auto)
    have "10 ^ n = 10 * (10 :: int) ^ (n - 1)"
      using \<open>0 < n\<close> by (simp add: power_eq_if)
    with IH have "10 ^ n \<le> p" "p < 10 * 10 ^ n" by linarith+
    with False show ?thesis by (simp add: num_digits.simps [of p] n_def)
  qed
qed

lemma num_digits_pos: "0 < num_digits p"
  by (subst num_digits.simps) simp

lemma num_digits_bounds_rat:
  assumes "0 < p"
  shows "(10 :: rat) powi (int (num_digits p) - 1) \<le> of_int p"
    and "of_int p < (10 :: rat) powi int (num_digits p)"
proof -
  have n: "10 ^ (num_digits p - 1) \<le> p" "p < 10 ^ num_digits p"
    using num_digits_bounds [OF assms] by auto
  have "of_int (10 ^ (num_digits p - 1)) \<le> (of_int p :: rat)"
    using n(1) by (simp only: of_int_le_iff)
  then show "(10 :: rat) powi (int (num_digits p) - 1) \<le> of_int p"
    using num_digits_pos [of p] by (simp add: power_int_def nat_diff_distrib)
  have "(of_int p :: rat) < of_int (10 ^ num_digits p)"
    using n(2) by (simp only: of_int_less_iff)
  then show "of_int p < (10 :: rat) powi int (num_digits p)"
    by (simp add: power_int_def)
qed

lemma powi10_pos [simp]: "0 < (10 :: rat) powi k"
  by simp

lemma powi10_less_iff [simp]: "(10 :: rat) powi a < 10 powi b \<longleftrightarrow> a < b"
proof
  assume "(10 :: rat) powi a < 10 powi b"
  then show "a < b"
    using power_int_increasing [of b a "10 :: rat"] by (auto simp: not_less [symmetric])
next
  assume "a < b"
  then show "(10 :: rat) powi a < 10 powi b"
    by (rule power_int_strict_increasing) simp
qed

lemma powi10_le_iff [simp]: "(10 :: rat) powi a \<le> 10 powi b \<longleftrightarrow> a \<le> b"
  using powi10_less_iff [of b a] by (simp add: not_less [symmetric])

lemma adjusted_bounds:
  assumes "x \<noteq> 0"
  shows "10 powi adjusted x \<le> \<bar>x\<bar>" and "\<bar>x\<bar> < 10 powi (adjusted x + 1)"
proof -
  obtain p q where pq: "quotient_of \<bar>x\<bar> = (p, q)"
    by fastforce
  define m where "m = int (num_digits p)"
  define n where "n = int (num_digits q)"
  have q: "0 < q" and x: "\<bar>x\<bar> = of_int p / of_int q"
    using pq quotient_of_denom_pos quotient_of_div by blast+
  have "0 < (of_int p / of_int q :: rat)"
    using assms x by (metis zero_less_abs_iff)
  with q have p: "0 < p"
    by (simp add: zero_less_divide_iff)
  have bp: "10 powi (m - 1) \<le> (of_int p :: rat)" "of_int p < (10 :: rat) powi m"
    and bq: "10 powi (n - 1) \<le> (of_int q :: rat)" "of_int q < (10 :: rat) powi n"
    using num_digits_bounds_rat p q by (auto simp: m_def n_def)
  have "\<bar>x\<bar> < 10 powi m / 10 powi (n - 1)"
    unfolding x by (rule frac_less) (use bp bq p q in auto)
  also have "\<dots> = 10 powi (m - n + 1)"
    by (subst power_int_diff [symmetric]) (auto simp: algebra_simps)
  finally have up: "\<bar>x\<bar> < 10 powi (m - n + 1)" .
  have "10 powi (m - n - 1) = (10 :: rat) powi (m - 1) / 10 powi n"
    by (subst power_int_diff [symmetric]) (auto simp: algebra_simps)
  also have "\<dots> \<le> \<bar>x\<bar>"
    unfolding x by (rule frac_le) (use bp bq p q in auto)
  finally have low: "10 powi (m - n - 1) \<le> \<bar>x\<bar>" .
  have adj: "adjusted x = (if 10 powi (m - n) \<le> \<bar>x\<bar> then m - n else m - n - 1)"
    by (simp add: adjusted_def pq m_def n_def)
  show "10 powi adjusted x \<le> \<bar>x\<bar>" "\<bar>x\<bar> < 10 powi (adjusted x + 1)"
    using adj up low by auto
qed

lemma adjusted_unique:
  assumes "10 powi k \<le> \<bar>x\<bar>" "\<bar>x\<bar> < 10 powi (k + 1)"
  shows "adjusted x = k"
proof -
  have "x \<noteq> 0"
    using assms(1) powi10_pos [of k] by (auto simp: not_less [symmetric] simp del: powi10_pos zero_less_power_int)
  note b = adjusted_bounds [OF this]
  have "(10 :: rat) powi adjusted x < 10 powi (k + 1)" "(10 :: rat) powi k < 10 powi (adjusted x + 1)"
    using assms b by linarith+
  then show ?thesis by simp
qed

lemma adjusted_minus [simp]: "adjusted (- x) = adjusted x"
  by (simp add: adjusted_def)

lemma adjusted_mono:
  assumes "0 < x" "x \<le> y"
  shows "adjusted x \<le> adjusted y"
proof -
  have "(10 :: rat) powi adjusted x < 10 powi (adjusted y + 1)"
    using assms adjusted_bounds(1) [of x] adjusted_bounds(2) [of y] by linarith
  then show ?thesis by simp
qed

section \<open>Rounding: exactness, error and monotonicity\<close>

definition sig_digits :: "nat \<Rightarrow> rat \<Rightarrow> bool" where
  "sig_digits n x \<longleftrightarrow> (\<exists>m k. x = of_int m * 10 powi k \<and> \<bar>m\<bar> \<le> 10 ^ n)"

abbreviation representable :: "rat \<Rightarrow> bool" where
  "representable x \<equiv> sig_digits 28 x"

lemma powi10_split: "(10 :: rat) powi a * 10 powi b = 10 powi (a + b)"
  by (simp add: power_int_add)

lemma round_prec_0 [simp]: "round_prec n 0 = 0"
  by (simp add: round_prec_def)

lemma round_prec_minus: "round_prec n (- x) = - round_prec n x"
  by (simp add: round_prec_def Let_def round_half_even_minus)

lemma scaled_bounds:
  assumes "x \<noteq> 0"
  shows "10 ^ n \<le> \<bar>x / 10 powi (adjusted x - int n)\<bar>"
    and "\<bar>x / 10 powi (adjusted x - int n)\<bar> < 10 ^ Suc n"
proof -
  let ?e = "adjusted x - int n"
  have a: "(10 :: rat) ^ n * 10 powi ?e = 10 powi adjusted x"
    by (subst power_int_of_nat [symmetric], subst powi10_split) simp
  have b: "(10 :: rat) ^ Suc n * 10 powi ?e = 10 powi (adjusted x + 1)"
    by (subst power_int_of_nat [symmetric], subst powi10_split) (simp add: algebra_simps)
  have c: "\<bar>x / 10 powi ?e\<bar> = \<bar>x\<bar> / 10 powi ?e"
    by (simp add: abs_divide)
  show "10 ^ n \<le> \<bar>x / 10 powi ?e\<bar>"
    unfolding c using adjusted_bounds(1) [OF assms] a by (simp add: pos_le_divide_eq)
  show "\<bar>x / 10 powi ?e\<bar> < 10 ^ Suc n"
    unfolding c using adjusted_bounds(2) [OF assms] b by (subst pos_divide_less_eq) auto
qed

lemma round_prec_error:
  assumes "x \<noteq> 0"
  shows "\<bar>round_prec n x - x\<bar> \<le> 10 powi (adjusted x - int n + 1) / 2"
proof -
  let ?e = "adjusted x - int n + 1" and ?r = "of_int (round_half_even (x / 10 powi (adjusted x - int n + 1)))"
  have "round_prec n x - x = (?r - x / 10 powi ?e) * 10 powi ?e"
    using assms by (simp add: round_prec_def Let_def field_simps)
  then have "\<bar>round_prec n x - x\<bar> = \<bar>?r - x / 10 powi ?e\<bar> * 10 powi ?e"
    by (simp add: abs_mult)
  also have "\<dots> \<le> 1 / 2 * 10 powi ?e"
    by (intro mult_right_mono round_half_even_error) simp
  finally show ?thesis by simp
qed

lemma round_prec_bounds:
  assumes "0 < x" "0 < n"
  shows "10 powi adjusted x \<le> round_prec n x" and "round_prec n x \<le> 10 powi (adjusted x + 1)"
proof -
  define k where "k = n - 1"
  have n: "n = Suc k" using assms(2) by (simp add: k_def)
  let ?y = "x / 10 powi (adjusted x - int k)"
  have y: "10 ^ k \<le> ?y" "?y < 10 ^ Suc k"
    using scaled_bounds [of x k] assms(1) by auto
  have "10 ^ k = round_half_even (of_int (10 ^ k))" "round_half_even (of_int (10 ^ Suc k)) = 10 ^ Suc k"
    by (rule round_half_even_of_int [symmetric], rule round_half_even_of_int)
  moreover have "round_half_even (of_int (10 ^ k)) \<le> round_half_even ?y"
    "round_half_even ?y \<le> round_half_even (of_int (10 ^ Suc k))"
    using y by (auto intro!: round_half_even_mono)
  ultimately have r: "10 ^ k \<le> round_half_even ?y" "round_half_even ?y \<le> 10 ^ Suc k"
    by linarith+
  have eq: "round_prec n x = of_int (round_half_even ?y) * 10 powi (adjusted x - int k)"
    using assms(1) by (simp add: round_prec_def Let_def n)
  have "10 powi adjusted x = (10 :: rat) ^ k * 10 powi (adjusted x - int k)"
    by (subst power_int_of_nat [symmetric], subst powi10_split) simp
  also have "\<dots> = of_int (10 ^ k) * 10 powi (adjusted x - int k)" by simp
  also have "\<dots> \<le> round_prec n x"
    unfolding eq using r(1) by (intro mult_right_mono) (simp_all only: of_int_le_iff, simp)
  finally show "10 powi adjusted x \<le> round_prec n x" .
  have "round_prec n x \<le> of_int (10 ^ Suc k) * 10 powi (adjusted x - int k)"
    unfolding eq using r(2) by (intro mult_right_mono) (simp_all only: of_int_le_iff, simp)
  also have "\<dots> = (10 :: rat) ^ Suc k * 10 powi (adjusted x - int k)" by simp
  also have "\<dots> = 10 powi (adjusted x + 1)"
    by (subst power_int_of_nat [symmetric], subst powi10_split) (simp add: algebra_simps)
  finally show "round_prec n x \<le> 10 powi (adjusted x + 1)" .
qed

lemma round_prec_nonneg: "0 \<le> x \<Longrightarrow> 0 < n \<Longrightarrow> 0 \<le> round_prec n x"
  using round_prec_bounds(1) [of x n] powi10_pos [of "adjusted x"]
  by (cases "x = 0") (auto simp del: powi10_pos zero_less_power_int)

lemma round_prec_mono_pos:
  assumes "0 < x" "x \<le> y" "0 < n"
  shows "round_prec n x \<le> round_prec n y"
proof (cases "adjusted x = adjusted y")
  case True
  have "x / 10 powi (adjusted y - int n + 1) \<le> y / 10 powi (adjusted y - int n + 1)"
    using assms(2) by (simp add: divide_right_mono)
  then have "round_half_even (x / 10 powi (adjusted y - int n + 1))
      \<le> round_half_even (y / 10 powi (adjusted y - int n + 1))"
    by (rule round_half_even_mono)
  with True assms show ?thesis
    by (simp add: round_prec_def Let_def mult_right_mono)
next
  case False
  then have "adjusted x + 1 \<le> adjusted y"
    using adjusted_mono [OF assms(1,2)] by linarith
  then have "(10 :: rat) powi (adjusted x + 1) \<le> 10 powi adjusted y"
    by simp
  with round_prec_bounds(2) [of x n] round_prec_bounds(1) [of y n] assms show ?thesis
    by linarith
qed

lemma round_prec_mono:
  assumes "x \<le> y" "0 < n"
  shows "round_prec n x \<le> round_prec n y"
proof -
  consider "0 < x" | "x \<le> 0" "0 \<le> y" | "y < 0" by linarith
  then show ?thesis
  proof cases
    case 1
    with assms show ?thesis by (intro round_prec_mono_pos)
  next
    case 2
    then have "0 \<le> round_prec n (- x)" "0 \<le> round_prec n y"
      using assms(2) by (auto intro: round_prec_nonneg)
    then show ?thesis by (simp add: round_prec_minus)
  next
    case 3
    with assms have "round_prec n (- y) \<le> round_prec n (- x)"
      by (intro round_prec_mono_pos) auto
    then show ?thesis by (simp add: round_prec_minus)
  qed
qed

lemma round_prec_exact_below:
  assumes "x = of_int m * 10 powi k" "\<bar>m\<bar> < 10 ^ n"
  shows "round_prec n x = x"
proof (cases "x = 0")
  case True
  then show ?thesis by simp
next
  case False
  let ?e = "adjusted x - int n + 1"
  have "of_int \<bar>m\<bar> < (of_int (10 ^ n) :: rat)"
    using assms(2) by (simp only: of_int_less_iff)
  then have "\<bar>x\<bar> < 10 powi int n * 10 powi k"
    unfolding assms(1) by (simp add: abs_mult)
  then have "10 powi adjusted x < (10 :: rat) powi (int n + k)"
    using adjusted_bounds(1) [OF False] by (simp only: powi10_split)
  then have le: "?e \<le> k" by simp
  have "x / 10 powi ?e = of_int m * (10 powi k / 10 powi ?e)"
    by (simp add: assms(1))
  also have "(10 :: rat) powi k / 10 powi ?e = 10 powi (k - ?e)"
    by (rule power_int_diff [symmetric]) simp
  also have "\<dots> = of_int (10 ^ nat (k - ?e))"
    using le by (simp add: power_int_def)
  finally have "x / 10 powi ?e = of_int (m * 10 ^ nat (k - ?e))"
    by simp
  then have "round_half_even (x / 10 powi ?e) = m * 10 ^ nat (k - ?e)"
    by (simp only: round_half_even_of_int)
  with \<open>x / 10 powi ?e = of_int (m * 10 ^ nat (k - ?e))\<close>
  have "of_int (round_half_even (x / 10 powi ?e)) = x / 10 powi ?e"
    by simp
  with False show ?thesis
    by (simp add: round_prec_def Let_def)
qed

lemma round_prec_exact:
  assumes "sig_digits n x" "0 < n"
  shows "round_prec n x = x"
proof -
  obtain m k where x: "x = of_int m * 10 powi k" and m: "\<bar>m\<bar> \<le> 10 ^ n"
    using assms(1) by (auto simp: sig_digits_def)
  show ?thesis
  proof (cases "\<bar>m\<bar> < 10 ^ n")
    case True
    with x show ?thesis by (rule round_prec_exact_below)
  next
    case False
    with m have m': "m = 10 ^ n \<or> m = - (10 ^ n)" by linarith
    have "(10 :: rat) ^ n * 10 powi k = 10 powi (int n + k)"
      by (subst power_int_of_nat [symmetric], rule powi10_split)
    then have "x = of_int (sgn m) * 10 powi (int n + k)"
      unfolding x using m' by auto
    moreover have "\<bar>sgn m\<bar> < 10 ^ n"
      using m' assms(2) by (auto simp: sgn_if one_less_power)
    ultimately show ?thesis by (rule round_prec_exact_below)
  qed
qed

lemma sig_digits_round_prec:
  assumes "0 < n"
  shows "sig_digits n (round_prec n x)"
proof (cases "x = 0")
  case True
  then show ?thesis by (auto simp: sig_digits_def intro: exI [of _ 0])
next
  case False
  obtain k where n: "n = Suc k" using assms by (cases n) auto
  let ?y = "x / 10 powi (adjusted x - int k)"
  have "\<bar>?y\<bar> < of_int (10 ^ n)"
    using scaled_bounds(2) [OF False, of k] by (simp add: n)
  then have "?y < of_int (10 ^ n)" "- ?y < of_int (10 ^ n)"
    unfolding abs_less_iff by blast+
  then have "?y \<le> of_int (10 ^ n)" "of_int (- (10 ^ n)) \<le> ?y"
    unfolding of_int_minus by linarith+
  then have "round_half_even ?y \<le> 10 ^ n" "- (10 ^ n) \<le> round_half_even ?y"
    by (metis round_half_even_mono round_half_even_of_int)+
  then have "\<bar>round_half_even ?y\<bar> \<le> 10 ^ n" by linarith
  moreover have "round_prec n x = of_int (round_half_even ?y) * 10 powi (adjusted x - int k)"
    using False by (simp add: round_prec_def Let_def n)
  ultimately show ?thesis unfolding sig_digits_def by blast
qed

section \<open>The contract of the context's rounding\<close>

text \<open>
  What the components rely on of the arithmetic: rounding is monotone, odd and idempotent.  The
  facts below are proved from these laws alone; \<open>fixed x\<close> says that \<open>x\<close> is a value the context
  represents exactly.
\<close>

locale decimal_context =
  fixes rnd :: "rat \<Rightarrow> rat"
  assumes rnd_mono: "x \<le> y \<Longrightarrow> rnd x \<le> rnd y"
    and rnd_minus: "rnd (- x) = - rnd x"
    and rnd_idem: "rnd (rnd x) = rnd x"
begin

lemma rnd_zero: "rnd 0 = 0"
  using rnd_minus [of 0] by simp

lemma rnd_nonneg: "0 \<le> x \<Longrightarrow> 0 \<le> rnd x"
  using rnd_mono [of 0 x] by (simp add: rnd_zero)

lemma rnd_nonpos: "x \<le> 0 \<Longrightarrow> rnd x \<le> 0"
  using rnd_mono [of x 0] by (simp add: rnd_zero)

lemma rnd_ge_fixed: "rnd a = a \<Longrightarrow> a \<le> x \<Longrightarrow> a \<le> rnd x"
  using rnd_mono [of a x] by simp

lemma rnd_le_fixed: "rnd b = b \<Longrightarrow> x \<le> b \<Longrightarrow> rnd x \<le> b"
  using rnd_mono [of x b] by simp

lemma rnd_add_ge: "rnd a = a \<Longrightarrow> 0 \<le> b \<Longrightarrow> a \<le> rnd (a + b)"
  by (rule rnd_ge_fixed) simp_all

lemma rnd_sub_le: "rnd a = a \<Longrightarrow> 0 \<le> b \<Longrightarrow> rnd (a - b) \<le> a"
  by (rule rnd_le_fixed) simp_all

lemma foldl_rnd_nonneg:
  "0 \<le> a \<Longrightarrow> \<forall>x \<in> set xs. 0 \<le> x \<Longrightarrow> 0 \<le> foldl (\<lambda>s x. rnd (s + x)) a xs"
proof (induction xs arbitrary: a)
  case Nil
  then show ?case by simp
next
  case (Cons x xs)
  then have "0 \<le> rnd (a + x)" by (auto intro: rnd_nonneg)
  with Cons show ?case by simp
qed

lemma foldl_rnd_ge_start:
  "rnd a = a \<Longrightarrow> \<forall>x \<in> set xs. 0 \<le> x \<Longrightarrow> a \<le> foldl (\<lambda>s x. rnd (s + x)) a xs"
proof (induction xs arbitrary: a)
  case Nil
  then show ?case by simp
next
  case (Cons x xs)
  then have "a \<le> rnd (a + x)" by (auto intro: rnd_add_ge)
  also have "\<dots> \<le> foldl (\<lambda>s x. rnd (s + x)) (rnd (a + x)) xs"
    using Cons.prems by (intro Cons.IH) (auto simp: rnd_idem)
  finally show ?case by simp
qed

lemma foldl_rnd_fixed: "rnd a = a \<Longrightarrow> rnd (foldl (\<lambda>s x. rnd (s + x)) a xs) = foldl (\<lambda>s x. rnd (s + x)) a xs"
  by (induction xs arbitrary: a) (auto simp: rnd_idem)

lemma foldl_rnd_mono:
  "a \<le> b \<Longrightarrow> list_all2 (\<le>) xs ys \<Longrightarrow>
     foldl (\<lambda>s x. rnd (s + x)) a xs \<le> foldl (\<lambda>s x. rnd (s + x)) b ys"
proof (induction xs arbitrary: a b ys)
  case Nil
  then show ?case by simp
next
  case (Cons x xs)
  then obtain y ys' where "ys = y # ys'" "x \<le> y" "list_all2 (\<le>) xs ys'"
    by (auto simp: list_all2_Cons1)
  with Cons show ?case by (auto intro!: Cons.IH rnd_mono add_mono)
qed

end

interpretation ctx: decimal_context dround
proof
  show "x \<le> y \<Longrightarrow> dround x \<le> dround y" for x y
    by (simp add: dround_def round_prec_mono)
  show "dround (- x) = - dround x" for x
    by (simp add: dround_def round_prec_minus)
  show "dround (dround x) = dround x" for x
    by (simp add: dround_def round_prec_exact sig_digits_round_prec)
qed

lemmas dec_defs = dadd_def dsub_def dmul_def dneg_def dabs_def ddiv_def

lemma dround_zero [simp]: "dround 0 = 0"
  by (rule ctx.rnd_zero)

lemma dround_minus [simp]: "dround (- x) = - dround x"
  by (rule ctx.rnd_minus)

lemma dround_dround [simp]: "dround (dround x) = dround x"
  by (rule ctx.rnd_idem)

lemma dround_exact: "representable x \<Longrightarrow> dround x = x"
  by (simp add: dround_def round_prec_exact)

lemma dround_representable: "representable (dround x)"
  by (simp add: dround_def sig_digits_round_prec)

lemma dround_eq_iff: "dround x = x \<longleftrightarrow> representable x"
  using dround_exact dround_representable by metis

lemma ddivE_ok [simp]: "b \<noteq> 0 \<Longrightarrow> ddivE a b = Inr (ddiv a b)"
  by (simp add: ddivE_def)

lemma ddivE_iff [result_simps]: "ddivE a b = Inr c \<longleftrightarrow> b \<noteq> 0 \<and> c = ddiv a b"
  by (auto simp: ddivE_def)

lemma dround_pos:
  assumes "0 < x"
  shows "0 < dround x"
  using round_prec_bounds(1) [OF assms, of 28] powi10_pos [of "adjusted x"]
  unfolding dround_def by linarith

lemma dround_pos_iff [simp]: "0 < dround x \<longleftrightarrow> 0 < x"
  using dround_pos [of x] ctx.rnd_nonpos [of x] by linarith

lemma dround_neg_iff [simp]: "dround x < 0 \<longleftrightarrow> x < 0"
  using dround_pos_iff [of "- x"] by simp

lemma dround_nonneg_iff [simp]: "0 \<le> dround x \<longleftrightarrow> 0 \<le> x"
  using dround_neg_iff [of x] by linarith

lemma dround_nonpos_iff [simp]: "dround x \<le> 0 \<longleftrightarrow> x \<le> 0"
  using dround_pos_iff [of x] by linarith

lemma dround_eq_0_iff [simp]: "dround x = 0 \<longleftrightarrow> x = 0"
  using dround_pos_iff [of x] dround_neg_iff [of x] by (metis linorder_neq_iff dround_zero)

text \<open>Sums: each addition rounds, so a sum of nonnegative values is nonnegative and sums are monotone.\<close>

lemma dsum_foldl: "dsum xs = foldl (\<lambda>s x. dround (s + x)) 0 xs"
  unfolding dsum_def by (rule arg_cong [of _ _ "\<lambda>g. foldl g 0 xs"]) (simp add: fun_eq_iff dadd_def)

lemma dsum_nonneg: "\<forall>x \<in> set xs. 0 \<le> x \<Longrightarrow> 0 \<le> dsum xs"
  unfolding dsum_foldl by (rule ctx.foldl_rnd_nonneg) simp_all

lemma dsum_mono: "list_all2 (\<le>) xs ys \<Longrightarrow> dsum xs \<le> dsum ys"
  unfolding dsum_foldl by (rule ctx.foldl_rnd_mono) simp_all

text \<open>Half a unit in the last place, relative to the result: the accuracy of every operation.\<close>

lemma dround_mono: "x \<le> y \<Longrightarrow> dround x \<le> dround y"
  using ctx.rnd_mono by blast

lemma dround_relative_error: "\<bar>dround x - x\<bar> \<le> \<bar>x\<bar> * (5 / 10 ^ 28)"
proof (cases "x = 0")
  case True
  then show ?thesis by simp
next
  case False
  have "\<bar>dround x - x\<bar> \<le> 10 powi (adjusted x - 27) / 2"
    using round_prec_error [OF False, of 28] by (simp add: dround_def)
  also have "(10 :: rat) powi (adjusted x - 27) = 10 powi adjusted x / 10 ^ 27"
    by (simp add: power_int_diff)
  also have "\<dots> \<le> \<bar>x\<bar> / 10 ^ 27"
    using adjusted_bounds(1) [OF False] by (simp add: divide_right_mono)
  finally show ?thesis by simp
qed

section \<open>Amounts on a decimal grid\<close>

text \<open>
  Quantities and prices of an exchange are multiples of a power of ten.  Sums and products of such
  amounts stay on a grid, and an amount on the grid of \<open>k\<close> decimal places that is at most
  \<open>10 ^ (28 - k)\<close> in size is never rounded.
\<close>

definition on_grid :: "nat \<Rightarrow> rat \<Rightarrow> bool" where
  "on_grid k x \<longleftrightarrow> x * 10 ^ k \<in> \<int>"

lemma on_grid_0 [simp]: "on_grid k 0"
  by (simp add: on_grid_def)

lemma on_grid_of_int [simp]: "on_grid k (of_int n)"
  by (simp add: on_grid_def)

lemma on_grid_minus [simp]: "on_grid k (- x) \<longleftrightarrow> on_grid k x"
  by (simp add: on_grid_def)

lemma on_grid_add: "on_grid k x \<Longrightarrow> on_grid k y \<Longrightarrow> on_grid k (x + y)"
  by (simp add: on_grid_def distrib_right)

lemma on_grid_diff: "on_grid k x \<Longrightarrow> on_grid k y \<Longrightarrow> on_grid k (x - y)"
  by (simp add: on_grid_def left_diff_distrib)

lemma on_grid_mult: "on_grid k x \<Longrightarrow> on_grid l y \<Longrightarrow> on_grid (k + l) (x * y)"
  using Ints_mult [of "x * 10 ^ k" "y * 10 ^ l"] by (simp add: on_grid_def power_add mult.assoc mult.left_commute)

lemma on_grid_mono:
  assumes "on_grid k x" "k \<le> l"
  shows "on_grid l x"
proof -
  have "x * 10 ^ l = (x * 10 ^ k) * of_int (10 ^ (l - k))"
    using assms(2) by (simp add: power_add [symmetric])
  with assms(1) show ?thesis
    unfolding on_grid_def by (metis Ints_mult Ints_of_int)
qed

lemma on_grid_sum_list: "\<forall>x \<in> set xs. on_grid k x \<Longrightarrow> on_grid k (sum_list xs)"
  by (induction xs) (auto intro: on_grid_add)

lemma dround_on_grid:
  assumes "on_grid k x" "k \<le> 28" "\<bar>x\<bar> \<le> 10 ^ (28 - k)"
  shows "dround x = x"
proof -
  obtain m where m: "x * 10 ^ k = of_int m"
    using assms(1) by (auto simp: on_grid_def elim: Ints_cases)
  then have x: "x = of_int m * 10 powi (- int k)"
    by (simp add: power_int_minus field_simps)
  have "\<bar>of_int m :: rat\<bar> = \<bar>x\<bar> * 10 ^ k"
    by (simp add: m [symmetric] abs_mult)
  also have "\<dots> \<le> 10 ^ (28 - k) * 10 ^ k"
    using assms(3) by (rule mult_right_mono) simp
  also have "\<dots> = of_int (10 ^ 28)"
    using assms(2) by (simp add: power_add [symmetric])
  finally have "\<bar>m\<bar> \<le> 10 ^ 28"
    by (simp only: of_int_abs [symmetric] of_int_le_iff)
  with x have "representable x"
    unfolding sig_digits_def by blast
  then show ?thesis by (rule dround_exact)
qed

lemma dround_mult_on_grid:
  assumes "on_grid k x" "on_grid l y" "k + l \<le> 28" "\<bar>x * y\<bar> \<le> 10 ^ (28 - (k + l))"
  shows "dround (x * y) = x * y"
  using on_grid_mult [OF assms(1,2)] assms(3,4) by (rule dround_on_grid)

lemma dsum_on_grid:
  assumes "\<forall>x \<in> set xs. on_grid k x" "k \<le> 28" "sum_list (map abs xs) \<le> 10 ^ (28 - k)"
  shows "dsum xs = sum_list xs"
proof -
  have "foldl dadd a ys = a + sum_list ys"
    if "\<forall>x \<in> set ys. on_grid k x" "on_grid k a" "\<bar>a\<bar> + sum_list (map abs ys) \<le> 10 ^ (28 - k)" for a ys
    using that
  proof (induction ys arbitrary: a)
    case Nil
    then show ?case by simp
  next
    case (Cons y ys)
    have "0 \<le> sum_list (map abs ys)"
      by (rule sum_list_nonneg) auto
    then have b: "\<bar>a + y\<bar> \<le> 10 ^ (28 - k)" "\<bar>a + y\<bar> + sum_list (map abs ys) \<le> 10 ^ (28 - k)"
      using Cons.prems(3) by auto
    moreover have g: "on_grid k (a + y)"
      using Cons.prems by (auto intro: on_grid_add)
    ultimately have "dadd a y = a + y"
      unfolding dadd_def using assms(2) by (intro dround_on_grid)
    with Cons b g show ?case by simp
  qed
  from this [of xs 0] assms show ?thesis by (simp add: dsum_def)
qed

lemma dsub_on_grid:
  "on_grid k a \<Longrightarrow> on_grid k b \<Longrightarrow> k \<le> 28 \<Longrightarrow> 0 \<le> b \<Longrightarrow> b \<le> a \<Longrightarrow> a \<le> 10 ^ (28 - k) \<Longrightarrow>
     dsub a b = a - b"
  unfolding dsub_def by (rule dround_on_grid) (auto intro: on_grid_diff)

lemma grid_quantity_ge:
  assumes "on_grid k q" "0 < q"
  shows "1 \<le> q * 10 ^ k"
proof -
  obtain n where "q * 10 ^ k = of_int n"
    using assms(1) by (auto simp: on_grid_def elim: Ints_cases)
  moreover have "0 < q * 10 ^ k" using assms(2) by simp
  ultimately show ?thesis by simp
qed

lemma grid_factor_le:
  assumes "on_grid k x" "0 < x" "x * y \<le> 10 ^ (28 - (k + l))" "k + l \<le> 28"
  shows "y \<le> 10 ^ (28 - l)"
proof (cases "0 < y")
  case True
  have "y * 1 \<le> y * (x * 10 ^ k)"
    using grid_quantity_ge [OF assms(1,2)] True by (intro mult_left_mono) auto
  also have "\<dots> \<le> 10 ^ (28 - (k + l)) * 10 ^ k"
    using assms(3) by (simp add: mult.assoc [symmetric] mult.commute [of y] mult_right_mono)
  also have "\<dots> = 10 ^ (28 - l)"
    using assms(4) by (simp add: power_add [symmetric])
  finally show ?thesis by simp
next
  case False
  then have "y \<le> 0" by simp
  also have "0 \<le> (10 :: rat) ^ (28 - l)" by simp
  finally show ?thesis .
qed

section \<open>Evaluating concrete roundings\<close>

named_theorems dec_eval \<open>rounding of literals that need no rounding\<close>

lemma dround_1 [dec_eval]: "dround 1 = 1"
  using dround_on_grid [of 0 1] on_grid_of_int [of 0 1] by simp

lemma dround_numeral [dec_eval]:
  assumes "numeral p \<le> (10 ^ 28 :: int)"
  shows "dround (numeral p) = numeral p"
proof (rule dround_on_grid [of 0])
  show "on_grid 0 (numeral p)"
    using on_grid_of_int [of 0 "numeral p"] by simp
  have "of_int (numeral p) \<le> (of_int (10 ^ 28) :: rat)"
    using assms by (simp only: of_int_le_iff)
  then show "\<bar>numeral p\<bar> \<le> (10 :: rat) ^ (28 - 0)" by simp
qed simp

lemma dround_frac:
  assumes "q dvd (10 ^ 12 :: int)" "0 < q" "\<bar>p\<bar> \<le> 10 ^ 16"
  shows "dround (of_int p / of_int q) = of_int p / of_int q"
proof (rule dround_on_grid [of 12])
  obtain r where r: "10 ^ 12 = q * r" using assms(1) by (rule dvdE)
  have "(10 :: rat) ^ 12 = of_int (10 ^ 12)" by simp
  also have "\<dots> = of_int q * of_int r" by (simp only: r of_int_mult)
  finally have t: "(10 :: rat) ^ 12 = of_int q * of_int r" .
  have "of_int p / of_int q * (10 :: rat) ^ 12 = of_int (p * r)"
    unfolding t using assms(2) by simp
  then show "on_grid 12 (of_int p / of_int q)"
    unfolding on_grid_def by (metis Ints_of_int)
  have "\<bar>of_int p / of_int q :: rat\<bar> = \<bar>of_int p\<bar> / of_int q"
    using assms(2) by (simp add: abs_divide)
  also have "\<dots> \<le> \<bar>of_int p\<bar>"
    using assms(2) by (simp add: divide_le_eq mult_le_cancel_left1)
  also have "\<dots> \<le> of_int (10 ^ 16)"
    using assms(3) by (simp only: of_int_abs [symmetric] of_int_le_iff)
  finally show "\<bar>of_int p / of_int q :: rat\<bar> \<le> 10 ^ (28 - 12)" by simp
qed simp

lemma dround_frac_literal [dec_eval]:
  "numeral q dvd (10 ^ 12 :: int) \<Longrightarrow> numeral p \<le> (10 ^ 16 :: int) \<Longrightarrow>
     dround (numeral p / numeral q) = numeral p / numeral q"
  "numeral q dvd (10 ^ 12 :: int) \<Longrightarrow> dround (1 / numeral q) = 1 / numeral q"
  using dround_frac [of "numeral q" "numeral p"] dround_frac [of "numeral q" 1] by simp_all

text \<open>A literal result of a rounding that does round: the nearest value with 28 digits.\<close>

lemma dround_literal:
  assumes "\<bar>x - of_int m * 10 powi e\<bar> < 10 powi e / 2" "10 ^ 27 \<le> m" "m < 10 ^ 28"
    and "10 powi (e + 27) \<le> x"
  shows "dround x = of_int m * 10 powi e"
proof -
  have pos: "(0 :: rat) < 10 powi e" by simp
  have "of_int m \<le> (of_int (10 ^ 28 - 1) :: rat)"
    using assms(3) by (subst of_int_le_iff) simp
  then have "of_int m * 10 powi e \<le> (10 ^ 28 - 1) * (10 :: rat) powi e"
    by (intro mult_right_mono) simp_all
  moreover have "(10 :: rat) ^ 28 * 10 powi e = 10 powi (e + 28)"
    by (simp add: power_int_add)
  ultimately have "x < 10 powi (e + 28)"
    using assms(1) pos unfolding abs_less_iff left_diff_distrib mult_1 by linarith
  moreover have x: "0 < x" using assms(4) powi10_pos [of "e + 27"] by linarith
  ultimately have adj: "adjusted x = e + 27"
    using assms(4) by (intro adjusted_unique) (auto simp: add.assoc)
  have d: "\<bar>x / 10 powi e - of_int m\<bar> < 1 / 2"
  proof -
    have "x / 10 powi e - of_int m = (x - of_int m * 10 powi e) / 10 powi e"
      by (simp add: diff_divide_distrib)
    then have "\<bar>x / 10 powi e - of_int m\<bar> = \<bar>x - of_int m * 10 powi e\<bar> / 10 powi e"
      using pos by (simp only: abs_divide abs_of_pos)
    also have "\<dots> < 1 / 2"
      using assms(1) pos by (simp add: divide_less_eq)
    finally show ?thesis .
  qed
  have "\<bar>of_int (round_half_even (x / 10 powi e)) - of_int m\<bar> < (1 :: rat)"
    using round_half_even_error [of "x / 10 powi e"] d by linarith
  then have "\<bar>round_half_even (x / 10 powi e) - m\<bar> < 1"
    by (simp only: of_int_diff [symmetric] of_int_abs [symmetric] of_int_less_1_iff)
  then have "round_half_even (x / 10 powi e) = m" by simp
  with x adj show ?thesis
    by (simp add: dround_def round_prec_def Let_def)
qed

end
