(* ===== verification/Domain.thy ===== *)
theory Domain
  imports "HOL-Library.Word" Decimal
begin

text \<open>
  The enumerations of \<^verbatim>\<open>maais/domain/enums.py\<close> that the modelled components use, each with the
  string value of its members, and identifiers: a UUID is its 128-bit integer.
\<close>

type_synonym uuid = "128 word"

datatype direction = LONG | SHORT | NEUTRAL

fun direction_value :: "direction \<Rightarrow> string" where
  "direction_value LONG = ''long''"
| "direction_value SHORT = ''short''"
| "direction_value NEUTRAL = ''neutral''"

datatype quality_status = PASSED | FAILED | NOT_APPLICABLE

fun quality_status_value :: "quality_status \<Rightarrow> string" where
  "quality_status_value PASSED = ''passed''"
| "quality_status_value FAILED = ''failed''"
| "quality_status_value NOT_APPLICABLE = ''not_applicable''"

datatype paper_order_side = BUY | SELL

fun paper_order_side_value :: "paper_order_side \<Rightarrow> string" where
  "paper_order_side_value BUY = ''buy''"
| "paper_order_side_value SELL = ''sell''"

datatype paper_order_type = MARKET | LIMIT | STOP_MARKET

fun paper_order_type_value :: "paper_order_type \<Rightarrow> string" where
  "paper_order_type_value MARKET = ''market''"
| "paper_order_type_value LIMIT = ''limit''"
| "paper_order_type_value STOP_MARKET = ''stop_market''"

datatype paper_order_status =
  CREATED | AUTHORIZED | ACCEPTED | PARTIALLY_FILLED | FILLED | CANCELED | REJECTED | EXPIRED

fun paper_order_status_value :: "paper_order_status \<Rightarrow> string" where
  "paper_order_status_value CREATED = ''created''"
| "paper_order_status_value AUTHORIZED = ''authorized''"
| "paper_order_status_value ACCEPTED = ''accepted''"
| "paper_order_status_value PARTIALLY_FILLED = ''partially_filled''"
| "paper_order_status_value FILLED = ''filled''"
| "paper_order_status_value CANCELED = ''canceled''"
| "paper_order_status_value REJECTED = ''rejected''"
| "paper_order_status_value EXPIRED = ''expired''"

datatype position_effect = OPEN | REDUCE

fun position_effect_value :: "position_effect \<Rightarrow> string" where
  "position_effect_value OPEN = ''open''"
| "position_effect_value REDUCE = ''reduce''"

end
