(* ===== verification/Json.thy ===== *)
theory Json
  imports "HOL-Library.Char_ord" "HOL-Library.List_Lexorder" Domain Sha256
begin

text \<open>
  \<^verbatim>\<open>maais/domain/json.py\<close>: the normalisation of Python values into an immutable JSON tree, the
  canonical serialisation (\<^verbatim>\<open>json.dumps\<close> with sorted keys, compact separators and UTF-8 output) and
  the content hash over it.

  A \<open>string\<close> is the UTF-8 encoding of a Python string, so the order of keys by code points is the
  order of their bytes.  A float is represented by the two things the code reads of it: whether it
  is finite, and its \<^verbatim>\<open>repr\<close>.  A dict is the list of its items in insertion order.
\<close>

section \<open>Values\<close>

datatype json =
    JNull
  | JBool bool
  | JInt int
  | JFloat string
  | JStr string
  | JTuple "json list"
  | JObject "(string \<times> json) list"

datatype pyval =
    PyNone
  | PyBool bool
  | PyInt int
  | PyFloat bool string
  | PyStr string
  | PyDecimal decimal
  | PyDatetime datetime
  | PyUUID uuid
  | PyEnum pyval
  | PyMapping "(pyval \<times> pyval) list"
  | PySet "pyval list"
  | PySequence "pyval list"
  | PyOther string

section \<open>Text of numbers, timestamps and identifiers\<close>

function digits_of :: "int \<Rightarrow> string" where
  "digits_of n =
     (if n < 10 then [''0123456789'' ! nat n]
      else digits_of (n div 10) @ [''0123456789'' ! nat (n mod 10)])"
  by pat_completeness auto
termination
  by (relation "measure nat") auto

declare digits_of.simps [simp del]

definition show_int :: "int \<Rightarrow> string" where
  "show_int i = (if i < 0 then ''-'' @ digits_of (- i) else digits_of i)"

definition pad_left :: "nat \<Rightarrow> string \<Rightarrow> string" where
  "pad_left w s = replicate (w - length s) CHR ''0'' @ s"

text \<open>Removing trailing zeros of a coefficient, as \<^verbatim>\<open>Decimal.normalize\<close> does.\<close>

fun strip_zeros :: "nat \<Rightarrow> int \<Rightarrow> int \<Rightarrow> int \<times> int" where
  "strip_zeros 0 m e = (m, e)"
| "strip_zeros (Suc f) m e = (if m mod 10 = 0 then strip_zeros f (m div 10) (e + 1) else (m, e))"

definition fixed_point :: "int \<Rightarrow> int \<Rightarrow> string" where
  "fixed_point m e =
     (let ds = digits_of m
      in if 0 \<le> e then ds @ replicate (nat e) CHR ''0''
         else let k = nat (- e)
              in if k < length ds then take (length ds - k) ds @ ''.'' @ drop (length ds - k) ds
                 else ''0.'' @ replicate (k - length ds) CHR ''0'' @ ds)"

text \<open>\<open>format(value.normalize(), "f")\<close> of a nonzero value: at most 28 digits, no exponent.\<close>

definition format_decimal :: "decimal \<Rightarrow> string" where
  "format_decimal x =
     (let e = adjusted x - 27;
          m = \<bar>round_half_even (x / 10 powi e)\<bar>;
          (m', e') = strip_zeros 28 m e
      in (if x < 0 then ''-'' else []) @ fixed_point m' e')"

text \<open>The proleptic Gregorian date of a day count from 1970-01-01.\<close>

definition civil_from_days :: "int \<Rightarrow> int \<times> int \<times> int" where
  "civil_from_days days =
     (let z = days + 719468;
          era = z div 146097;
          doe = z mod 146097;
          yoe = (doe - doe div 1460 + doe div 36524 - doe div 146096) div 365;
          doy = doe - (365 * yoe + yoe div 4 - yoe div 100);
          mp = (5 * doy + 2) div 153;
          d = doy - (153 * mp + 2) div 5 + 1;
          m = (if mp < 10 then mp + 3 else mp - 9)
      in (yoe + era * 400 + (if m \<le> 2 then 1 else 0), m, d))"

definition two :: "int \<Rightarrow> string" where
  "two n = pad_left 2 (show_int n)"

definition isoformat_utc :: "datetime \<Rightarrow> string" where
  "isoformat_utc t =
     (let us = instant t mod 1000000;
          s = instant t div 1000000;
          (y, m, d) = civil_from_days (s div 86400);
          r = s mod 86400
      in pad_left 4 (show_int y) @ ''-'' @ two m @ ''-'' @ two d @ ''T'' @
         two (r div 3600) @ '':'' @ two (r mod 3600 div 60) @ '':'' @ two (r mod 60) @
         (if us = 0 then [] else ''.'' @ pad_left 6 (show_int us)))"

text \<open>\<open>isoformat\<close> of a timestamp: its wall clock and, if it is aware, its offset.\<close>

definition offset_text :: "int \<Rightarrow> string" where
  "offset_text off =
     (let s = \<bar>off\<bar> div 1000000; us = \<bar>off\<bar> mod 1000000
      in (if off < 0 then ''-'' else ''+'') @ two (s div 3600) @ '':'' @ two (s mod 3600 div 60) @
         (if s mod 60 = 0 \<and> us = 0 then [] else '':'' @ two (s mod 60)) @
         (if us = 0 then [] else ''.'' @ pad_left 6 (show_int us)))"

definition isoformat :: "datetime \<Rightarrow> string" where
  "isoformat t =
     (case utcoffset t of
        None \<Rightarrow> isoformat_utc t
      | Some off \<Rightarrow> isoformat_utc (DateTime (Some off) (instant t + off)) @ offset_text off)"

definition utc_iso :: "datetime \<Rightarrow> string result" where
  "utc_iso t =
     (if \<not> is_utc t then Inl (ValueError ''datetime values must be UTC-aware'')
      else Inr (isoformat_utc t @ ''Z''))"

definition uuid_hex :: "uuid \<Rightarrow> nat \<Rightarrow> nat \<Rightarrow> string" where
  "uuid_hex u i n = map (\<lambda>k. hex_digit (nat (uint u div 16 ^ (31 - k) mod 16))) [i..<i + n]"

definition uuid_str :: "uuid \<Rightarrow> string" where
  "uuid_str u = uuid_hex u 0 8 @ ''-'' @ uuid_hex u 8 4 @ ''-'' @ uuid_hex u 12 4 @ ''-'' @
     uuid_hex u 16 4 @ ''-'' @ uuid_hex u 20 12"

section \<open>Serialisation\<close>

definition escape_char :: "char \<Rightarrow> string" where
  "escape_char c =
     (if c = CHR 0x22 then [CHR 0x5C, CHR 0x22]
      else if c = CHR 0x5C then [CHR 0x5C, CHR 0x5C]
      else if c = CHR 0x0A then [CHR 0x5C, CHR ''n'']
      else if c = CHR 0x0D then [CHR 0x5C, CHR ''r'']
      else if c = CHR 0x09 then [CHR 0x5C, CHR ''t'']
      else if c = CHR 0x0C then [CHR 0x5C, CHR ''f'']
      else if c = CHR 0x08 then [CHR 0x5C, CHR ''b'']
      else if c < CHR 0x20 then
        [CHR 0x5C, CHR ''u'', CHR ''0'', CHR ''0'',
         hex_digit (of_char c div 16), hex_digit (of_char c)]
      else [c])"

definition quote_string :: "string \<Rightarrow> string" where
  "quote_string s = [CHR 0x22] @ concat (map escape_char s) @ [CHR 0x22]"

fun join :: "string \<Rightarrow> string list \<Rightarrow> string" where
  "join sep [] = []"
| "join sep [x] = x"
| "join sep (x # xs) = x @ sep @ join sep xs"

definition dump_members :: "(string \<times> string) list \<Rightarrow> string" where
  "dump_members ms =
     ''{'' @ join '','' (map (\<lambda>(k, s). quote_string k @ '':'' @ s) (sort_key fst ms)) @ ''}''"

fun dumps :: "json \<Rightarrow> string"
  and dumps_list :: "json list \<Rightarrow> string list"
  and dumps_members :: "(string \<times> json) list \<Rightarrow> (string \<times> string) list" where
  "dumps JNull = ''null''"
| "dumps (JBool b) = (if b then ''true'' else ''false'')"
| "dumps (JInt i) = show_int i"
| "dumps (JFloat r) = r"
| "dumps (JStr s) = quote_string s"
| "dumps (JTuple js) = ''['' @ join '','' (dumps_list js) @ '']''"
| "dumps (JObject ms) = dump_members (dumps_members ms)"
| "dumps_list [] = []"
| "dumps_list (j # js) = dumps j # dumps_list js"
| "dumps_members [] = []"
| "dumps_members ((k, j) # ms) = (k, dumps j) # dumps_members ms"

section \<open>Normalisation\<close>

fun freeze_json :: "pyval \<Rightarrow> json result"
  and freeze_list :: "pyval list \<Rightarrow> json list result"
  and freeze_items :: "(pyval \<times> pyval) list \<Rightarrow> (string \<times> json) list result" where
  "freeze_json (PyEnum v) = freeze_json v"
| "freeze_json (PyDecimal d) = Inr (JStr (if d = 0 then ''0'' else format_decimal d))"
| "freeze_json (PyDatetime t) = bindE (utc_iso t) (\<lambda>s. Inr (JStr s))"
| "freeze_json (PyUUID u) = Inr (JStr (uuid_str u))"
| "freeze_json PyNone = Inr JNull"
| "freeze_json (PyStr s) = Inr (JStr s)"
| "freeze_json (PyBool b) = Inr (JBool b)"
| "freeze_json (PyInt i) = Inr (JInt i)"
| "freeze_json (PyFloat fin r) =
     (if \<not> fin then Inl (ValueError ''JSON floats must be finite'') else Inr (JFloat r))"
| "freeze_json (PyMapping kvs) = bindE (freeze_items kvs) (\<lambda>ms. Inr (JObject ms))"
| "freeze_json (PySet vs) = bindE (freeze_list vs) (\<lambda>js. Inr (JTuple (sort_key dumps js)))"
| "freeze_json (PySequence vs) = bindE (freeze_list vs) (\<lambda>js. Inr (JTuple js))"
| "freeze_json (PyOther name) = Inl (TypeError (''unsupported JSON value: '' @ name))"
| "freeze_list [] = Inr []"
| "freeze_list (v # vs) = bindE (freeze_json v) (\<lambda>j. bindE (freeze_list vs) (\<lambda>js. Inr (j # js)))"
| "freeze_items [] = Inr []"
| "freeze_items ((k, v) # kvs) =
     (case k of
        PyStr s \<Rightarrow> bindE (freeze_json v) (\<lambda>j. bindE (freeze_items kvs) (\<lambda>ms. Inr ((s, j) # ms)))
      | _ \<Rightarrow> Inl (TypeError ''JSON object keys must be strings''))"

definition utf8 :: "string \<Rightarrow> byte list" where
  "utf8 s = map of_char s"

definition canonical_json_bytes :: "pyval \<Rightarrow> byte list result" where
  "canonical_json_bytes v = bindE (freeze_json v) (\<lambda>j. Inr (utf8 (dumps j)))"

definition content_hash :: "pyval \<Rightarrow> string result" where
  "content_hash v = bindE (canonical_json_bytes v) (\<lambda>bs. Inr (hexdigest (sha256 bs)))"

text \<open>A dict literal with string keys.\<close>

definition pydict :: "(string \<times> pyval) list \<Rightarrow> pyval" where
  "pydict kvs = PyMapping (map (\<lambda>(k, v). (PyStr k, v)) kvs)"

definition py_option :: "('a \<Rightarrow> pyval) \<Rightarrow> 'a option \<Rightarrow> pyval" where
  "py_option f x = (case x of None \<Rightarrow> PyNone | Some v \<Rightarrow> f v)"

text \<open>A normalised tree is itself a value; normalising it again changes nothing.\<close>

fun json_pyval :: "json \<Rightarrow> pyval" where
  "json_pyval JNull = PyNone"
| "json_pyval (JBool b) = PyBool b"
| "json_pyval (JInt i) = PyInt i"
| "json_pyval (JFloat r) = PyFloat True r"
| "json_pyval (JStr s) = PyStr s"
| "json_pyval (JTuple js) = PySequence (map json_pyval js)"
| "json_pyval (JObject ms) = PyMapping (map (\<lambda>(k, j). (PyStr k, json_pyval j)) ms)"

lemma freeze_json_pyval:
  "freeze_json (json_pyval j) = Inr j"
  "freeze_list (map json_pyval js) = Inr js"
  "freeze_items (map (\<lambda>(k, j). (PyStr k, json_pyval j)) ms) = Inr ms"
  by (induction j and js and ms rule: dumps_dumps_list_dumps_members.induct) auto

lemma freeze_pydict_Cons [simp]:
  "freeze_items (map (\<lambda>(k, v). (PyStr k, v)) ((s, v) # kvs)) =
     bindE (freeze_json v) (\<lambda>j. bindE (freeze_items (map (\<lambda>(k, v). (PyStr k, v)) kvs)) (\<lambda>ms. Inr ((s, j) # ms)))"
  by simp

lemma freeze_pydict_Inr:
  "freeze_json (pydict kvs) = Inr j \<Longrightarrow> \<exists>ms. j = JObject ms"
  by (auto simp: pydict_def result_simps)

lemma freeze_list_ok: "\<forall>v \<in> set vs. \<exists>j. freeze_json v = Inr j \<Longrightarrow> \<exists>js. freeze_list vs = Inr js"
  by (induction vs) auto

lemma freeze_pydict_ok:
  assumes "\<forall>kv \<in> set kvs. \<exists>j. freeze_json (snd kv) = Inr j"
  shows "\<exists>ms. freeze_json (pydict kvs) = Inr (JObject ms)"
proof -
  have "\<exists>ms. freeze_items (map (\<lambda>(k, v). (PyStr k, v)) kvs) = Inr ms"
    using assms by (induction kvs) auto
  then show ?thesis by (auto simp: pydict_def)
qed

section \<open>Helpers of the components\<close>

text \<open>\<open>str.upper\<close> and \<open>str.strip\<close> on ASCII text, as symbols and names are.\<close>

definition upper_char :: "char \<Rightarrow> char" where
  "upper_char ch = (if CHR ''a'' \<le> ch \<and> ch \<le> CHR ''z'' then char_of ((of_char ch :: nat) - 32) else ch)"

definition upper :: "string \<Rightarrow> string" where
  "upper s = map upper_char s"

definition py_space :: "char \<Rightarrow> bool" where
  "py_space c \<longleftrightarrow> c = CHR '' '' \<or> CHR 0x09 \<le> c \<and> c \<le> CHR 0x0D \<or> CHR 0x1C \<le> c \<and> c \<le> CHR 0x1F"

definition blank :: "string \<Rightarrow> bool" where
  "blank s \<longleftrightarrow> list_all py_space s"

text \<open>Values of the payloads: a tuple of strings, a dict of Decimals, and a value that must be an object.\<close>

definition strings :: "string list \<Rightarrow> pyval" where
  "strings ss = PySequence (map PyStr ss)"

definition decimals :: "(string \<times> decimal) list \<Rightarrow> pyval" where
  "decimals kvs = pydict (map (\<lambda>(k, x). (k, PyDecimal x)) kvs)"

definition require_mapping :: "string \<Rightarrow> json \<Rightarrow> json result" where
  "require_mapping message j = (case j of JObject _ \<Rightarrow> Inr j | _ \<Rightarrow> Inl (TypeError message))"

lemma strings_freeze [simp]: "\<exists>j. freeze_json (strings ss) = Inr j"
  using freeze_list_ok [of "map PyStr ss"] by (auto simp: strings_def)

lemma decimals_freeze [simp]: "\<exists>j. freeze_json (decimals kvs) = Inr j"
  using freeze_pydict_ok [of "map (\<lambda>(k, x). (k, PyDecimal x)) kvs"] by (auto simp: decimals_def split_def)

lemma require_mapping_Inr_iff [result_simps]:
  "require_mapping message j = Inr k \<longleftrightarrow> k = j \<and> (\<exists>ms. j = JObject ms)"
  by (auto simp: require_mapping_def split: json.splits)

text \<open>The values that normalise.\<close>

definition freezes :: "pyval \<Rightarrow> bool" where
  "freezes v \<longleftrightarrow> (\<exists>j. freeze_json v = Inr j)"

lemma freezes_simps [simp]:
  "freezes PyNone" "freezes (PyBool b)" "freezes (PyInt i)" "freezes (PyStr s)" "freezes (PyDecimal x)" "freezes (PyUUID u)"
  "freezes (PyFloat fin r) \<longleftrightarrow> fin" "freezes (PyDatetime t) \<longleftrightarrow> is_utc t" "freezes (PyEnum v) \<longleftrightarrow> freezes v"
  "freezes (json_pyval j)" "freezes (strings ss)" "freezes (decimals ds)"
  by (auto simp: freezes_def utc_iso_def freeze_json_pyval)

lemma freezes_sequence [simp]: "freezes (PySequence vs) \<longleftrightarrow> list_all freezes vs"
  by (induction vs) (auto simp: freezes_def result_simps)

lemma freezes_pydict [simp]: "freezes (pydict kvs) \<longleftrightarrow> list_all (\<lambda>(k, v). freezes v) kvs"
  by (induction kvs) (auto simp: freezes_def pydict_def result_simps)

lemma freezes_option [simp]: "freezes (py_option f x) \<longleftrightarrow> (\<forall>v. x = Some v \<longrightarrow> freezes (f v))"
  by (cases x) (simp_all add: py_option_def)

lemma freezes_object:
  "freezes (pydict kvs) \<Longrightarrow> \<exists>j. bindE (freeze_json (pydict kvs)) (require_mapping message) = Inr j"
  using freeze_pydict_Inr by (fastforce simp: freezes_def require_mapping_def)

lemma content_hash_shape: "freeze_json v = Inr j \<Longrightarrow> \<exists>h. content_hash v = Inr h \<and> length h = 64"
  by (simp add: content_hash_def canonical_json_bytes_def)

end
