(* ===== verification/Market.thy ===== *)
theory Market
  imports "HOL-Library.Product_Lexorder" Domain
begin

text \<open>
  \<^verbatim>\<open>maais/execution/paper/clock.py\<close> and \<^verbatim>\<open>market.py\<close>: the guards on timestamps and Decimals every
  other component calls, the latency clock that decides which observed event an order may use, and
  the order-book and trade snapshots.  A \<open>_post_init\<close> function is the dataclass's \<open>__post_init__\<close>:
  the constructor returns the record exactly when it returns.
\<close>

section \<open>Guards\<close>

definition require_utc :: "datetime \<Rightarrow> string \<Rightarrow> unit result" where
  "require_utc t field = raise_if (utcoffset t \<noteq> Some 0) (ValueError (field @ '' must be UTC-aware''))"

definition require_positive_decimal :: "decimal \<Rightarrow> string \<Rightarrow> unit result" where
  "require_positive_decimal x field =
     raise_if (x \<le> 0) (ValueError (field @ '' must be a positive finite Decimal''))"

lemma require_utc_iff [result_simps]: "require_utc t f = Inr u \<longleftrightarrow> is_utc t"
  by (simp add: require_utc_def is_utc_def result_simps)

lemma require_positive_decimal_iff [result_simps]: "require_positive_decimal x f = Inr u \<longleftrightarrow> 0 < x"
  by (auto simp: require_positive_decimal_def result_simps)

lemma require_utc_ok [simp]: "is_utc t \<Longrightarrow> require_utc t f = Inr ()"
  by (simp add: result_simps)

lemma require_positive_decimal_ok [simp]: "0 < x \<Longrightarrow> require_positive_decimal x f = Inr ()"
  by (simp add: result_simps)

lemma require_utc_Inl [result_simps]:
  "require_utc t f = Inl e \<longleftrightarrow> \<not> is_utc t \<and> e = ValueError (f @ '' must be UTC-aware'')"
  by (simp add: require_utc_def is_utc_def result_simps)

lemma require_positive_decimal_Inl [result_simps]:
  "require_positive_decimal x f = Inl e \<longleftrightarrow>
     x \<le> 0 \<and> e = ValueError (f @ '' must be a positive finite Decimal'')"
  by (simp add: require_positive_decimal_def result_simps)

section \<open>The deterministic clock\<close>

record order_eligibility =
  el_decided_at :: datetime
  el_latency :: timedelta
  el_eligible_at :: datetime

record observed_event =
  ev_event_id :: string
  ev_observed_at :: datetime
  ev_sequence :: int

definition observed_event_post_init :: "observed_event \<Rightarrow> observed_event result" where
  "observed_event_post_init e =
     thenE (checks
       [require_utc (ev_observed_at e) ''observed_at'',
        raise_if (ev_event_id e = []) (ValueError ''event_id is required''),
        raise_if (ev_sequence e < 0) (ValueError ''sequence must be nonnegative'')])
     (Inr e)"

definition eligibility :: "datetime \<Rightarrow> timedelta \<Rightarrow> order_eligibility result" where
  "eligibility decided_at latency =
     thenE (checks
       [require_utc decided_at ''decided_at'',
        raise_if (latency \<le> 0) (ValueError ''latency must be positive'')])
     (Inr \<lparr>el_decided_at = decided_at, el_latency = latency,
           el_eligible_at = dt_add decided_at latency\<rparr>)"

text \<open>Events are compared by the pair of their observation time and their sequence number.\<close>

definition event_key :: "observed_event \<Rightarrow> datetime \<times> int" where
  "event_key e = (ev_observed_at e, ev_sequence e)"

definition first_eligible :: "order_eligibility \<Rightarrow> observed_event list \<Rightarrow> observed_event result" where
  "first_eligible el events =
     (case min_key event_key (filter (\<lambda>e. ev_observed_at e > el_eligible_at el) events) of
        None \<Rightarrow> Inl (LookupError ''no eligible observed market event'')
      | Some e \<Rightarrow> Inr e)"

section \<open>Order books and trades\<close>

record book_level =
  lv_price :: decimal
  lv_quantity :: decimal

definition book_level_post_init :: "book_level \<Rightarrow> book_level result" where
  "book_level_post_init l =
     thenE (checks
       [require_positive_decimal (lv_price l) ''level price'',
        require_positive_decimal (lv_quantity l) ''level quantity''])
     (Inr l)"

record book_snapshot =
  bk_event_id :: string
  bk_symbol :: string
  bk_venue_event_at :: datetime
  bk_observed_at :: datetime
  bk_sequence :: int
  bk_bids :: "book_level list"
  bk_asks :: "book_level list"
  bk_mark_price :: decimal

text \<open>
  The properties read the first level of a side; a constructed snapshot has one on each side, so
  the empty case below is never evaluated on a constructed book.
\<close>

definition best_bid :: "book_snapshot \<Rightarrow> decimal" where
  "best_bid b = (case bk_bids b of [] \<Rightarrow> 0 | l # _ \<Rightarrow> lv_price l)"

definition best_ask :: "book_snapshot \<Rightarrow> decimal" where
  "best_ask b = (case bk_asks b of [] \<Rightarrow> 0 | l # _ \<Rightarrow> lv_price l)"

definition midpoint :: "book_snapshot \<Rightarrow> decimal" where
  "midpoint b = ddiv (dadd (best_bid b) (best_ask b)) 2"

definition book_snapshot_post_init :: "book_snapshot \<Rightarrow> book_snapshot result" where
  "book_snapshot_post_init b =
     thenE (checks
       [raise_if (bk_event_id b = [] \<or> bk_symbol b = [])
          (ValueError ''event_id and symbol are required''),
        require_utc (bk_venue_event_at b) ''venue_event_at'',
        require_utc (bk_observed_at b) ''observed_at'',
        raise_if (bk_venue_event_at b > bk_observed_at b)
          (ValueError ''venue_event_at cannot follow observed_at''),
        raise_if (bk_sequence b < 0) (ValueError ''sequence must be nonnegative''),
        raise_if (bk_bids b = [] \<or> bk_asks b = [])
          (ValueError ''both bid and ask depth are required''),
        raise_if (\<not> adjacent_ok (>) (map lv_price (bk_bids b)))
          (ValueError ''bids must be strictly descending''),
        raise_if (\<not> adjacent_ok (<) (map lv_price (bk_asks b)))
          (ValueError ''asks must be strictly ascending''),
        raise_if (best_bid b \<ge> best_ask b) (ValueError ''book must not be crossed or locked''),
        require_positive_decimal (bk_mark_price b) ''mark_price''])
     (Inr b)"

record trade_print =
  tr_event_id :: string
  tr_symbol :: string
  tr_venue_event_at :: datetime
  tr_observed_at :: datetime
  tr_sequence :: int
  tr_price :: decimal
  tr_quantity :: decimal
  tr_aggressor_side :: string

definition trade_print_post_init :: "trade_print \<Rightarrow> trade_print result" where
  "trade_print_post_init t =
     thenE (checks
       [raise_if (tr_event_id t = [] \<or> tr_symbol t = [])
          (ValueError ''event_id and symbol are required''),
        require_utc (tr_venue_event_at t) ''venue_event_at'',
        require_utc (tr_observed_at t) ''observed_at'',
        raise_if (tr_venue_event_at t > tr_observed_at t)
          (ValueError ''venue_event_at cannot follow observed_at''),
        raise_if (tr_sequence t < 0) (ValueError ''sequence must be nonnegative''),
        require_positive_decimal (tr_price t) ''trade price'',
        require_positive_decimal (tr_quantity t) ''trade quantity'',
        raise_if (tr_aggressor_side t \<notin> {''buy'', ''sell''})
          (ValueError ''aggressor_side must be buy or sell'')])
     (Inr t)"

text \<open>A constructed book: its levels and the snapshot itself passed their constructors.\<close>

definition book_ok :: "book_snapshot \<Rightarrow> bool" where
  "book_ok b \<longleftrightarrow> book_snapshot_post_init b = Inr b \<and>
     (\<forall>l \<in> set (bk_bids b @ bk_asks b). book_level_post_init l = Inr l)"

lemma book_level_ok_iff: "book_level_post_init l = Inr l \<longleftrightarrow> 0 < lv_price l \<and> 0 < lv_quantity l"
  by (auto simp: book_level_post_init_def result_simps)

lemma book_okD:
  assumes "book_ok b"
  shows "bk_event_id b \<noteq> []" "bk_symbol b \<noteq> []" "is_utc (bk_venue_event_at b)" "is_utc (bk_observed_at b)"
    "bk_venue_event_at b \<le> bk_observed_at b" "bk_bids b \<noteq> []" "bk_asks b \<noteq> []"
    "best_bid b < best_ask b" "0 < bk_mark_price b"
    "sorted_wrt (>) (map lv_price (bk_bids b))" "sorted_wrt (<) (map lv_price (bk_asks b))"
    "l \<in> set (bk_bids b) \<Longrightarrow> 0 < lv_price l \<and> 0 < lv_quantity l"
    "l \<in> set (bk_asks b) \<Longrightarrow> 0 < lv_price l \<and> 0 < lv_quantity l"
  using assms
  by (auto simp: book_ok_def book_snapshot_post_init_def result_simps book_level_ok_iff
      adjacent_ok_sorted_wrt)

end
