(* ===== verification/Authorization.thy ===== *)
theory Authorization
  imports Json Market
begin

text \<open>
  \<^verbatim>\<open>maais/execution/paper/authorization.py\<close>: execution capabilities, the claims of an approved
  proposal signed with a process-local key.
\<close>

record authorization_claims =
  cl_experiment_id :: uuid
  cl_decision_cycle_id :: uuid
  cl_proposal_id :: uuid
  cl_gate_chain_hash :: string
  cl_symbol :: string
  cl_side :: paper_order_side
  cl_quantity :: decimal
  cl_approved_notional :: decimal
  cl_issued_at :: datetime
  cl_expires_at :: datetime

definition authorization_claims_post_init :: "authorization_claims \<Rightarrow> authorization_claims result" where
  "authorization_claims_post_init c =
     thenE (checks
       [raise_if (length (cl_gate_chain_hash c) \<noteq> 64) (ValueError ''gate_chain_hash must be a SHA-256 hex digest''),
        raise_if (cl_symbol c = []) (ValueError ''symbol is required''),
        raise_if (cl_quantity c \<le> 0) (ValueError ''quantity must be a positive finite Decimal''),
        raise_if (cl_approved_notional c \<le> 0) (ValueError ''approved_notional must be a positive finite Decimal''),
        require_utc (cl_issued_at c) ''issued_at'',
        require_utc (cl_expires_at c) ''expires_at'',
        raise_if (cl_expires_at c \<le> cl_issued_at c) (ValueError ''expires_at must follow issued_at'')])
     (Inr c)"

definition signing_payload :: "authorization_claims \<Rightarrow> pyval" where
  "signing_payload c = pydict
     [(''experiment_id'', PyUUID (cl_experiment_id c)),
      (''decision_cycle_id'', PyUUID (cl_decision_cycle_id c)),
      (''proposal_id'', PyUUID (cl_proposal_id c)),
      (''gate_chain_hash'', PyStr (cl_gate_chain_hash c)),
      (''symbol'', PyStr (cl_symbol c)),
      (''side'', PyEnum (PyStr (paper_order_side_value (cl_side c)))),
      (''quantity'', PyDecimal (cl_quantity c)),
      (''approved_notional'', PyDecimal (cl_approved_notional c)),
      (''issued_at'', PyDatetime (cl_issued_at c)),
      (''expires_at'', PyDatetime (cl_expires_at c))]"

record execution_capability =
  cp_claims :: authorization_claims
  cp_signature :: string

definition execution_authorizer_init :: "byte list \<Rightarrow> byte list result" where
  "execution_authorizer_init signing_key =
     (if length signing_key < 32 then Inl (ValueError ''signing key must contain at least 32 bytes'')
      else Inr signing_key)"

definition claims_signature :: "byte list \<Rightarrow> authorization_claims \<Rightarrow> string result" where
  "claims_signature key c =
     bindE (canonical_json_bytes (signing_payload c)) (\<lambda>payload. Inr (hexdigest (hmac_sha256 key payload)))"

definition issue :: "byte list \<Rightarrow> authorization_claims \<Rightarrow> bool \<Rightarrow> execution_capability result" where
  "issue key c all_gates_passed =
     (if \<not> all_gates_passed then Inl (PermissionError ''execution capability requires a passed gate chain'')
      else bindE (claims_signature key c) (\<lambda>s. Inr \<lparr>cp_claims = c, cp_signature = s\<rparr>))"

text \<open>\<open>hmac.compare_digest\<close> on two strings, which must be ASCII.\<close>

definition compare_digest :: "string \<Rightarrow> string \<Rightarrow> bool result" where
  "compare_digest a b =
     (if list_all (\<lambda>ch. (of_char ch :: nat) < 128) (a @ b) then Inr (a = b)
      else Inl (TypeError ''comparing strings with non-ASCII characters is not supported''))"

definition verify :: "byte list \<Rightarrow> execution_capability \<Rightarrow> datetime \<Rightarrow> bool result" where
  "verify key capability tm =
     thenE (require_utc tm ''verification time'')
     (if tm > cl_expires_at (cp_claims capability) \<or> tm < cl_issued_at (cp_claims capability) then Inr False
      else bindE (claims_signature key (cp_claims capability)) (\<lambda>expected.
             compare_digest expected (cp_signature capability)))"

section \<open>Issuing and verifying\<close>

lemma hex_digit_ascii: "(of_char (hex_digit n) :: nat) < 128"
proof -
  have "list_all (\<lambda>ch. (of_char ch :: nat) < 128) ''0123456789abcdef''" by simp
  moreover have "n mod 16 < length ''0123456789abcdef''" by simp
  ultimately show ?thesis unfolding hex_digit_def list_all_length by blast
qed

lemma hexdigest_ascii: "list_all (\<lambda>ch. (of_char ch :: nat) < 128) (hexdigest bs)"
  by (induction bs) (simp_all add: hexdigest_def hex_byte_def hex_digit_ascii)

lemma claims_okD:
  assumes "authorization_claims_post_init c = Inr c"
  shows "is_utc (cl_issued_at c)" "is_utc (cl_expires_at c)" "cl_issued_at c < cl_expires_at c"
    "0 < cl_quantity c" "0 < cl_approved_notional c" "length (cl_gate_chain_hash c) = 64"
  using assms by (auto simp: authorization_claims_post_init_def result_simps not_le)

lemma claims_signature_ok:
  assumes "is_utc (cl_issued_at c)" "is_utc (cl_expires_at c)"
  obtains payload where "canonical_json_bytes (signing_payload c) = Inr payload"
    "claims_signature key c = Inr (hexdigest (hmac_sha256 key payload))"
  using assms that
  by (simp add: claims_signature_def canonical_json_bytes_def signing_payload_def utc_iso_def pydict_def)

lemma claims_signature_shape:
  assumes "claims_signature key c = Inr s"
  shows "length s = 64" "list_all (\<lambda>ch. (of_char ch :: nat) < 128) s"
  using assms hexdigest_ascii by (auto simp: claims_signature_def result_simps)

lemma verify_Inr_iff:
  "verify key capability tm = Inr True \<longleftrightarrow> is_utc tm \<and> cl_issued_at (cp_claims capability) \<le> tm \<and>
     tm \<le> cl_expires_at (cp_claims capability) \<and> claims_signature key (cp_claims capability) = Inr (cp_signature capability)"
  using claims_signature_shape(2)
  by (auto simp: verify_def result_simps compare_digest_def not_le not_less split: if_splits)

text \<open>
  C17: A capability is honoured exactly in its window.  For claims that pass the constructor,
  issuing with a passed gate chain always returns a capability for these claims with a signature of
  64 characters, verification of it under the same key never raises and answers yes from the issue
  to the expiry time and no outside; without a passed gate chain nothing is issued, and a capability
  whose claims or signature were altered is accepted only if it carries the keyed hash of its claims.
\<close>

theorem capability_window:
  assumes "authorization_claims_post_init c = Inr c"
  shows "\<exists>cap. issue key c True = Inr cap \<and> cp_claims cap = c \<and> length (cp_signature cap) = 64
      \<and> (\<forall>tm. is_utc tm \<longrightarrow> verify key cap tm = Inr (cl_issued_at c \<le> tm \<and> tm \<le> cl_expires_at c))
      \<and> (\<forall>s tm. verify key (cap\<lparr>cp_signature := s\<rparr>) tm = Inr True \<longrightarrow> s = cp_signature cap)
      \<and> (\<forall>c' tm. verify key (cap\<lparr>cp_claims := c'\<rparr>) tm = Inr True \<longrightarrow>
           claims_signature key c' = claims_signature key c)
      \<and> issue key c False = Inl (PermissionError ''execution capability requires a passed gate chain'')"
proof -
  note c = claims_okD [OF assms]
  obtain payload where s: "claims_signature key c = Inr (hexdigest (hmac_sha256 key payload))"
    using claims_signature_ok [OF c(1,2)] by metis
  let ?cap = "\<lparr>cp_claims = c, cp_signature = hexdigest (hmac_sha256 key payload)\<rparr>"
  have "issue key c True = Inr ?cap" by (simp add: issue_def s)
  moreover have "verify key ?cap tm = Inr (cl_issued_at c \<le> tm \<and> tm \<le> cl_expires_at c)" if "is_utc tm" for tm
    using that hexdigest_ascii
    by (auto simp: verify_def s compare_digest_def not_less)
  ultimately show ?thesis
    using s by (intro exI [of _ ?cap]) (simp add: verify_Inr_iff issue_def)
qed

section \<open>Example\<close>

definition ex_claims :: authorization_claims where
  "ex_claims = \<lparr>cl_experiment_id = 1, cl_decision_cycle_id = 2, cl_proposal_id = 3,
     cl_gate_chain_hash = replicate 64 CHR ''a'', cl_symbol = ''BTCUSDT'', cl_side = BUY, cl_quantity = 2,
     cl_approved_notional = 500, cl_issued_at = utc 1000000, cl_expires_at = utc 61000000\<rparr>"

lemma ex_claims_ok: "authorization_claims_post_init ex_claims = Inr ex_claims"
  by (simp add: ex_claims_def authorization_claims_post_init_def require_utc_def utc_compare)

theorem capability_window_witness:
  "\<exists>cap. issue (replicate 32 7) ex_claims True = Inr cap \<and> verify (replicate 32 7) cap (utc 2000000) = Inr True \<and>
     verify (replicate 32 7) cap (utc 62000000) = Inr False"
proof -
  obtain cap where "issue (replicate 32 7) ex_claims True = Inr cap"
    "\<forall>tm. is_utc tm \<longrightarrow> verify (replicate 32 7) cap tm = Inr (cl_issued_at ex_claims \<le> tm \<and> tm \<le> cl_expires_at ex_claims)"
    using capability_window [OF ex_claims_ok] by blast
  moreover have "is_utc (utc t)" for t by (simp add: is_utc_def)
  ultimately show ?thesis by (simp add: ex_claims_def utc_compare)
qed

end
