(* ===== verification/Fills.thy ===== *)
theory Fills
  imports Market
begin

text \<open>
  \<^verbatim>\<open>maais/execution/paper/fills.py\<close>: the market-fill engine walks the visible depth of the first
  eligible order book and prices the fill.
\<close>

record market_fill_request =
  fr_symbol :: string
  fr_side :: paper_order_side
  fr_quantity :: decimal
  fr_eligible_after :: datetime
  fr_decision_executable_price :: decimal
  fr_taker_fee_rate :: decimal

definition market_fill_request_post_init :: "market_fill_request \<Rightarrow> market_fill_request result" where
  "market_fill_request_post_init r =
     thenE (checks
       [raise_if (fr_symbol r = []) (ValueError ''symbol is required''),
        require_positive_decimal (fr_quantity r) ''quantity'',
        require_positive_decimal (fr_decision_executable_price r) ''decision_executable_price'',
        raise_if (\<not> (0 \<le> fr_taker_fee_rate r \<and> fr_taker_fee_rate r \<le> 1))
          (ValueError ''taker_fee_rate must be a finite Decimal in [0, 1]''),
        require_utc (fr_eligible_after r) ''eligible_after''])
     (Inr r)"

record fill_slice =
  sl_price :: decimal
  sl_quantity :: decimal

definition fill_slice_post_init :: "fill_slice \<Rightarrow> fill_slice result" where
  "fill_slice_post_init s =
     thenE (checks
       [require_positive_decimal (sl_price s) ''fill slice price'',
        require_positive_decimal (sl_quantity s) ''fill slice quantity''])
     (Inr s)"

record paper_fill =
  pf_market_event_id :: string
  pf_symbol :: string
  pf_side :: paper_order_side
  pf_fill_at :: datetime
  pf_quantity :: decimal
  pf_price :: decimal
  pf_notional :: decimal
  pf_slices :: "fill_slice list"
  pf_liquidity_role :: string
  pf_fee :: decimal
  pf_spread_cost :: decimal
  pf_depth_slippage :: decimal
  pf_latency_slippage :: decimal
  pf_total_slippage :: decimal
  pf_book :: book_snapshot

definition slices_quantity :: "fill_slice list \<Rightarrow> decimal" where
  "slices_quantity ss = dsum (map sl_quantity ss)"

definition slices_notional :: "fill_slice list \<Rightarrow> decimal" where
  "slices_notional ss = dsum (map (\<lambda>s. dmul (sl_quantity s) (sl_price s)) ss)"

definition paper_fill_post_init :: "paper_fill \<Rightarrow> paper_fill result" where
  "paper_fill_post_init f =
     thenE (checks
       [raise_if (pf_market_event_id f = [] \<or> pf_symbol f = [])
          (ValueError ''market_event_id and symbol are required''),
        require_utc (pf_fill_at f) ''fill_at'',
        require_positive_decimal (pf_quantity f) ''fill quantity'',
        require_positive_decimal (pf_price f) ''fill price'',
        require_positive_decimal (pf_notional f) ''fill notional'',
        raise_if (pf_fee f < 0) (ValueError ''fee must be nonnegative''),
        raise_if (pf_slices f = [] \<or> slices_quantity (pf_slices f) \<noteq> pf_quantity f
                  \<or> slices_notional (pf_slices f) \<noteq> pf_notional f)
          (ValueError ''fill slices do not reconcile to quantity and notional''),
        raise_if (pf_price f \<noteq> ddiv (pf_notional f) (pf_quantity f))
          (ValueError ''fill price does not reconcile to notional and quantity''),
        raise_if (pf_total_slippage f \<noteq>
                  dadd (dadd (pf_spread_cost f) (pf_depth_slippage f)) (pf_latency_slippage f))
          (ValueError ''total slippage does not reconcile to its components''),
        raise_if (bk_event_id (pf_book f) \<noteq> pf_market_event_id f \<or> bk_symbol (pf_book f) \<noteq> pf_symbol f
                  \<or> bk_observed_at (pf_book f) \<noteq> pf_fill_at f)
          (ValueError ''fill identity differs from its source book'')])
     (Inr f)"

definition market_fill_engine_init :: "timedelta \<Rightarrow> timedelta result" where
  "market_fill_engine_init max_book_age =
     thenE (raise_if (max_book_age \<le> 0) (ValueError ''max_book_age must be positive'')) (Inr max_book_age)"

text \<open>
  The loop of \<open>_walk\<close>: take the smaller of the level's and the remaining quantity from each level,
  best price first, until nothing remains; the result is the slices and what remains.
\<close>

fun walk_levels :: "book_level list \<Rightarrow> decimal \<Rightarrow> (fill_slice list \<times> decimal) result" where
  "walk_levels [] remaining = Inr ([], remaining)"
| "walk_levels (l # ls) remaining =
     (if remaining \<le> 0 then Inr ([], remaining)
      else let q = min (lv_quantity l) remaining
           in bindE (fill_slice_post_init \<lparr>sl_price = lv_price l, sl_quantity = q\<rparr>) (\<lambda>s.
              bindE (walk_levels ls (dsub remaining q)) (\<lambda>(ss, r). Inr (s # ss, r))))"

definition walk :: "book_level list \<Rightarrow> decimal \<Rightarrow> string \<Rightarrow> fill_slice list result" where
  "walk levels requested market_event_id =
     bindE (walk_levels levels requested) (\<lambda>(slices, remaining).
       if remaining > 0 then Inl (FillRejection ''insufficient_visible_depth'' (Some market_event_id))
       else Inr slices)"

definition book_key :: "book_snapshot \<Rightarrow> datetime \<times> int" where
  "book_key b = (bk_observed_at b, bk_sequence b)"

definition eligible_books :: "market_fill_request \<Rightarrow> book_snapshot list \<Rightarrow> book_snapshot list" where
  "eligible_books r books =
     sort_key book_key
       (filter (\<lambda>b. bk_symbol b = fr_symbol r \<and> bk_observed_at b > fr_eligible_after r) books)"

definition side_levels :: "paper_order_side \<Rightarrow> book_snapshot \<Rightarrow> book_level list" where
  "side_levels side b = (if side = BUY then bk_asks b else bk_bids b)"

text \<open>The three components of the execution cost.\<close>

definition spread_cost_of :: "market_fill_request \<Rightarrow> book_snapshot \<Rightarrow> decimal \<Rightarrow> decimal" where
  "spread_cost_of r b first_price =
     dmul (if fr_side r = BUY then dsub first_price (midpoint b) else dsub (midpoint b) first_price)
       (fr_quantity r)"

definition depth_slippage_of :: "market_fill_request \<Rightarrow> decimal \<Rightarrow> decimal \<Rightarrow> decimal" where
  "depth_slippage_of r first_price average_price =
     dmul (if fr_side r = BUY then dsub average_price first_price else dsub first_price average_price)
       (fr_quantity r)"

definition latency_slippage_of :: "market_fill_request \<Rightarrow> decimal \<Rightarrow> decimal" where
  "latency_slippage_of r first_price =
     dmul (if fr_side r = BUY then dsub first_price (fr_decision_executable_price r)
           else dsub (fr_decision_executable_price r) first_price)
       (fr_quantity r)"

definition fill_from_book :: "market_fill_request \<Rightarrow> book_snapshot \<Rightarrow> fill_slice list \<Rightarrow> paper_fill result" where
  "fill_from_book r book slices =
     (let filled_notional = dsum (map (\<lambda>s. dmul (sl_price s) (sl_quantity s)) slices)
      in bindE (ddivE filled_notional (fr_quantity r)) (\<lambda>average_price.
         let first_price = (if fr_side r = BUY then best_ask book else best_bid book);
             spread_cost = spread_cost_of r book first_price;
             depth_slippage = depth_slippage_of r first_price average_price;
             latency_slippage = latency_slippage_of r first_price
         in paper_fill_post_init
              \<lparr>pf_market_event_id = bk_event_id book, pf_symbol = fr_symbol r, pf_side = fr_side r,
               pf_fill_at = bk_observed_at book, pf_quantity = fr_quantity r, pf_price = average_price,
               pf_notional = filled_notional, pf_slices = slices, pf_liquidity_role = ''taker'',
               pf_fee = dmul filled_notional (fr_taker_fee_rate r), pf_spread_cost = spread_cost,
               pf_depth_slippage = depth_slippage, pf_latency_slippage = latency_slippage,
               pf_total_slippage = dadd (dadd spread_cost depth_slippage) latency_slippage,
               pf_book = book\<rparr>))"

definition market_fill ::
  "timedelta \<Rightarrow> market_fill_request \<Rightarrow> book_snapshot list \<Rightarrow> paper_fill result" where
  "market_fill max_book_age r books =
     (case eligible_books r books of
        [] \<Rightarrow> Inl (FillRejection ''no_eligible_book'' None)
      | book # _ \<Rightarrow>
          if dt_diff (bk_observed_at book) (bk_venue_event_at book) > max_book_age
          then Inl (FillRejection ''stale_book'' (Some (bk_event_id book)))
          else bindE (walk (side_levels (fr_side r) book) (fr_quantity r) (bk_event_id book))
                 (fill_from_book r book))"


section \<open>Walking the book\<close>

lemma fill_slice_iff [result_simps]:
  "fill_slice_post_init s = Inr s' \<longleftrightarrow> s' = s \<and> 0 < sl_price s \<and> 0 < sl_quantity s"
  by (auto simp: fill_slice_post_init_def result_simps)

lemma walk_levels_prefix:
  assumes "walk_levels ls r = Inr (ss, r')"
  shows "length ss \<le> length ls" and "map sl_price ss = take (length ss) (map lv_price ls)"
    and "\<forall>i < length ss. 0 < sl_quantity (ss ! i) \<and> sl_quantity (ss ! i) \<le> lv_quantity (ls ! i)"
  using assms
proof (induction ls arbitrary: r ss)
  case (Cons l ls)
  case 1
  with Cons.IH(1) show ?case
    by (auto simp: result_simps Let_def split: if_splits prod.splits)
next
  case (Cons l ls)
  case 2
  with Cons.IH(2) show ?case
    by (auto simp: result_simps Let_def split: if_splits prod.splits)
next
  case (Cons l ls)
  case 3
  show ?case
  proof (cases "r \<le> 0")
    case True
    with 3 show ?thesis by auto
  next
    case False
    with 3 obtain ss' where ss: "ss = \<lparr>sl_price = lv_price l, sl_quantity = min (lv_quantity l) r\<rparr> # ss'"
      and rest: "walk_levels ls (dsub r (min (lv_quantity l) r)) = Inr (ss', r')"
      and pos: "0 < min (lv_quantity l) r"
      by (auto simp: result_simps Let_def)
    show ?thesis
      unfolding ss using Cons.IH(3) [OF rest] pos by (auto simp: nth_Cons split: nat.splits)
  qed
qed simp_all

text \<open>Every level but the last one touched is taken whole: the walk is greedy.\<close>

lemma walk_levels_nonpos: "r \<le> 0 \<Longrightarrow> walk_levels ls r = Inr ([], r)"
  by (cases ls) simp_all

lemma walk_levels_total:
  assumes "\<forall>l \<in> set ls. 0 < lv_price l \<and> 0 < lv_quantity l"
  shows "\<exists>ss r'. walk_levels ls r = Inr (ss, r')"
  using assms
proof (induction ls arbitrary: r)
  case (Cons l ls)
  from Cons.IH [of "dsub r (min (lv_quantity l) r)"] Cons.prems show ?case
    by (cases "r \<le> 0") (auto simp: Let_def fill_slice_post_init_def)
qed simp

lemma walk_levels_exact:
  assumes "\<forall>l \<in> set ls. on_grid k (lv_quantity l) \<and> 0 < lv_quantity l" "on_grid k r" "0 \<le> r" "k \<le> 28"
    "r \<le> 10 ^ (28 - k)" "walk_levels ls r = Inr (ss, r')"
  shows "sum_list (map sl_quantity ss) + r' = r \<and> (\<forall>s \<in> set ss. on_grid k (sl_quantity s))
    \<and> r' = max 0 (r - sum_list (map lv_quantity ls))"
  using assms
proof (induction ls arbitrary: r ss)
  case Nil
  then show ?case by simp
next
  case (Cons l ls)
  let ?q = "min (lv_quantity l) r"
  have l: "0 < lv_quantity l" "on_grid k (lv_quantity l)" and "\<forall>l \<in> set ls. 0 < lv_quantity l"
    using Cons.prems(1) by auto
  then have nn: "0 \<le> sum_list (map lv_quantity ls)"
    by (intro sum_list_nonneg) (auto intro: less_imp_le)
  show ?case
  proof (cases "r \<le> 0")
    case True
    with Cons.prems nn l show ?thesis by auto
  next
    case False
    then have q: "0 \<le> r - ?q" "on_grid k ?q" "on_grid k (r - ?q)" "r - ?q \<le> 10 ^ (28 - k)" "dsub r ?q = r - ?q"
      using Cons.prems l by (auto simp: min_def dsub_def [of r r] intro: dsub_on_grid on_grid_diff)
    obtain ss' where ss: "ss = \<lparr>sl_price = lv_price l, sl_quantity = ?q\<rparr> # ss'"
      and rest: "walk_levels ls (r - ?q) = Inr (ss', r')"
      using Cons.prems(6) False q(5) by (auto simp: result_simps Let_def)
    have "sum_list (map sl_quantity ss') + r' = r - ?q \<and> (\<forall>s \<in> set ss'. on_grid k (sl_quantity s))
        \<and> r' = max 0 (r - ?q - sum_list (map lv_quantity ls))"
      using Cons.prems q rest by (intro Cons.IH) auto
    with q(2) nn show ?thesis by (auto simp: ss min_def max_def)
  qed
qed

section \<open>The fill\<close>

lemma paper_fill_post_init_iff [result_simps]:
  "paper_fill_post_init f = Inr f' \<longleftrightarrow> f' = f \<and> pf_market_event_id f \<noteq> [] \<and> pf_symbol f \<noteq> [] \<and>
     is_utc (pf_fill_at f) \<and> 0 < pf_quantity f \<and> 0 < pf_price f \<and> 0 < pf_notional f \<and> 0 \<le> pf_fee f \<and>
     pf_slices f \<noteq> [] \<and> slices_quantity (pf_slices f) = pf_quantity f \<and>
     slices_notional (pf_slices f) = pf_notional f \<and>
     pf_price f = ddiv (pf_notional f) (pf_quantity f) \<and>
     pf_total_slippage f = dadd (dadd (pf_spread_cost f) (pf_depth_slippage f)) (pf_latency_slippage f) \<and>
     bk_event_id (pf_book f) = pf_market_event_id f \<and> bk_symbol (pf_book f) = pf_symbol f \<and>
     bk_observed_at (pf_book f) = pf_fill_at f"
  by (auto simp: paper_fill_post_init_def result_simps)

lemma dmul_commute: "dmul a b = dmul b a"
  by (simp add: dmul_def mult.commute)

lemma eligible_books_Cons:
  assumes "eligible_books r books = b # bs"
  shows "b \<in> set books" "bk_symbol b = fr_symbol r" "fr_eligible_after r < bk_observed_at b"
    "c \<in> set books \<Longrightarrow> bk_symbol c = fr_symbol r \<Longrightarrow> fr_eligible_after r < bk_observed_at c \<Longrightarrow>
       book_key b \<le> book_key c"
proof -
  let ?P = "\<lambda>b. bk_symbol b = fr_symbol r \<and> bk_observed_at b > fr_eligible_after r"
  have set: "set (b # bs) = {b \<in> set books. ?P b}"
    unfolding assms [symmetric] eligible_books_def by simp
  then show "b \<in> set books" "bk_symbol b = fr_symbol r" "fr_eligible_after r < bk_observed_at b"
    by auto
  have "sorted (map book_key (b # bs))"
    unfolding assms [symmetric] eligible_books_def by simp
  then have "\<forall>c \<in> set (b # bs). book_key b \<le> book_key c" by simp
  then show "c \<in> set books \<Longrightarrow> bk_symbol c = fr_symbol r \<Longrightarrow> fr_eligible_after r < bk_observed_at c \<Longrightarrow>
      book_key b \<le> book_key c"
    unfolding set by simp
qed

lemma fill_from_book_result:
  assumes "fill_from_book r b ss = Inr f"
  shows "pf_book f = b" "pf_slices f = ss" "pf_symbol f = fr_symbol r" "pf_side f = fr_side r"
    "pf_market_event_id f = bk_event_id b" "pf_fill_at f = bk_observed_at b" "pf_quantity f = fr_quantity r"
    "slices_quantity ss = fr_quantity r" "slices_notional ss = pf_notional f"
    "pf_notional f = dsum (map (\<lambda>s. dmul (sl_price s) (sl_quantity s)) ss)"
    "pf_price f = ddiv (pf_notional f) (fr_quantity r)"
    "pf_fee f = dmul (pf_notional f) (fr_taker_fee_rate r)"
    "0 < fr_quantity r" "0 < pf_price f" "0 < pf_notional f" "0 \<le> pf_fee f" "is_utc (pf_fill_at f)"
    "pf_spread_cost f = spread_cost_of r b (if fr_side r = BUY then best_ask b else best_bid b)"
    "pf_depth_slippage f =
       depth_slippage_of r (if fr_side r = BUY then best_ask b else best_bid b) (pf_price f)"
    "pf_total_slippage f = dadd (dadd (pf_spread_cost f) (pf_depth_slippage f)) (pf_latency_slippage f)"
  using assms by (auto simp: fill_from_book_def Let_def result_simps)

lemma market_fill_cases:
  assumes "market_fill age r books = Inr f"
  obtains bs where "eligible_books r books = pf_book f # bs"
    "dt_diff (bk_observed_at (pf_book f)) (bk_venue_event_at (pf_book f)) \<le> age"
    "walk (side_levels (fr_side r) (pf_book f)) (fr_quantity r) (bk_event_id (pf_book f)) = Inr (pf_slices f)"
    "fill_from_book r (pf_book f) (pf_slices f) = Inr f"
proof -
  obtain b bs where e: "eligible_books r books = b # bs"
    using assms by (cases "eligible_books r books") (auto simp: market_fill_def)
  with assms obtain ss where fresh: "dt_diff (bk_observed_at b) (bk_venue_event_at b) \<le> age"
    and ss: "walk (side_levels (fr_side r) b) (fr_quantity r) (bk_event_id b) = Inr ss"
    and f: "fill_from_book r b ss = Inr f"
    by (auto simp: market_fill_def result_simps split: if_splits)
  have "pf_book f = b" "pf_slices f = ss"
    using fill_from_book_result [OF f] by auto
  with e fresh ss f that show thesis by auto
qed

text \<open>
  C5: A market fill uses the first book (by observation time, then sequence) of the symbol
  that was observed strictly after the order became eligible, the book is fresh, the slices take
  the best prices of the right side in order and never more than a level shows, and quantity,
  notional and price of the fill reconcile to the slices.
\<close>

theorem market_fill_sound:
  assumes "market_fill age r books = Inr f"
  defines "levels \<equiv> side_levels (fr_side r) (pf_book f)"
  shows "pf_book f \<in> set books \<and> bk_symbol (pf_book f) = fr_symbol r
    \<and> fr_eligible_after r < bk_observed_at (pf_book f) \<and> pf_fill_at f = bk_observed_at (pf_book f)
    \<and> (\<forall>c \<in> set books. bk_symbol c = fr_symbol r \<and> fr_eligible_after r < bk_observed_at c
          \<longrightarrow> book_key (pf_book f) \<le> book_key c)
    \<and> dt_diff (bk_observed_at (pf_book f)) (bk_venue_event_at (pf_book f)) \<le> age
    \<and> map sl_price (pf_slices f) = take (length (pf_slices f)) (map lv_price levels)
    \<and> (\<forall>i < length (pf_slices f). 0 < sl_quantity (pf_slices f ! i)
          \<and> sl_quantity (pf_slices f ! i) \<le> lv_quantity (levels ! i))
    \<and> pf_quantity f = fr_quantity r \<and> slices_quantity (pf_slices f) = fr_quantity r
    \<and> slices_notional (pf_slices f) = pf_notional f
    \<and> pf_price f = ddiv (pf_notional f) (fr_quantity r)
    \<and> pf_fee f = dmul (pf_notional f) (fr_taker_fee_rate r)"
proof -
  obtain bs where e: "eligible_books r books = pf_book f # bs"
    and fresh: "dt_diff (bk_observed_at (pf_book f)) (bk_venue_event_at (pf_book f)) \<le> age"
    and w: "walk levels (fr_quantity r) (bk_event_id (pf_book f)) = Inr (pf_slices f)"
    and f: "fill_from_book r (pf_book f) (pf_slices f) = Inr f"
    using assms(1) unfolding levels_def by (rule market_fill_cases)
  from w obtain r' where w': "walk_levels levels (fr_quantity r) = Inr (pf_slices f, r')"
    by (auto simp: walk_def result_simps split: if_splits)
  note res = fill_from_book_result [OF f]
  from eligible_books_Cons [OF e] fresh walk_levels_prefix [OF w'] res show ?thesis by simp
qed


lemma weighted_sum_le:
  assumes "\<forall>s \<in> set ss. 0 < sl_quantity s \<and> sl_price s * q \<le> B" "0 < q"
    "sum_list (map sl_quantity ss) = q"
  shows "sum_list (map (\<lambda>s. sl_price s * sl_quantity s) ss) \<le> (B :: rat)"
proof -
  have "sum_list (map (\<lambda>s. sl_price s * sl_quantity s) ss) \<le> sum_list (map (\<lambda>s. B / q * sl_quantity s) ss)"
    using assms(1,2) by (intro sum_list_mono mult_right_mono) (auto simp: pos_le_divide_eq)
  also have "\<dots> = B / q * q"
    by (simp only: sum_list_const_mult assms(3))
  finally show ?thesis using assms(2) by simp
qed

lemma weighted_sum_ge:
  assumes "\<forall>s \<in> set ss. 0 < sl_quantity s \<and> p \<le> sl_price s"
  shows "p * sum_list (map sl_quantity ss) \<le> sum_list (map (\<lambda>s. sl_price s * sl_quantity s) ss)"
proof -
  have "p * sum_list (map sl_quantity ss) = sum_list (map (\<lambda>s. p * sl_quantity s) ss)"
    by (simp add: sum_list_const_mult)
  also have "\<dots> \<le> sum_list (map (\<lambda>s. sl_price s * sl_quantity s) ss)"
    using assms by (intro sum_list_mono mult_right_mono) auto
  finally show ?thesis .
qed

lemma weighted_sum_le_price:
  assumes "\<forall>s \<in> set ss. 0 < sl_quantity s \<and> sl_price s \<le> p"
  shows "sum_list (map (\<lambda>s. sl_price s * sl_quantity s) ss) \<le> p * sum_list (map sl_quantity ss)"
proof -
  have "sum_list (map (\<lambda>s. sl_price s * sl_quantity s) ss) \<le> sum_list (map (\<lambda>s. p * sl_quantity s) ss)"
    using assms by (intro sum_list_mono mult_right_mono) auto
  then show ?thesis by (simp add: sum_list_const_mult)
qed

text \<open>
  A request and the depth it may use lie on the grid: quantities have \<open>k\<close> decimals, prices \<open>l\<close>,
  and the notional at every level's price keeps 28 digits.
\<close>

definition grid_depth :: "nat \<Rightarrow> nat \<Rightarrow> decimal \<Rightarrow> book_level list \<Rightarrow> bool" where
  "grid_depth k l q levels \<longleftrightarrow> k + l \<le> 28 \<and> on_grid k q \<and> q \<le> 10 ^ (28 - k) \<and>
     (\<forall>v \<in> set levels. on_grid k (lv_quantity v) \<and> on_grid l (lv_price v) \<and>
        lv_price v * q \<le> 10 ^ (28 - (k + l)))"

lemma grid_price_fixed:
  assumes "grid_depth k l q levels" "0 < q" "v \<in> set levels" "0 < lv_price v"
  shows "dround (lv_price v) = lv_price v"
proof (rule dround_on_grid)
  show "on_grid l (lv_price v)" "l \<le> 28" using assms by (auto simp: grid_depth_def)
  have "on_grid k q" "q * lv_price v \<le> 10 ^ (28 - (k + l))" "k + l \<le> 28"
    using assms by (auto simp: grid_depth_def mult.commute)
  from grid_factor_le [OF this(1) assms(2) this(2,3)] show "\<bar>lv_price v\<bar> \<le> 10 ^ (28 - l)"
    using assms(4) by simp
qed

lemma walk_grid:
  assumes g: "grid_depth k l q levels" and q: "0 < q"
    and pos: "\<forall>v \<in> set levels. 0 < lv_price v \<and> 0 < lv_quantity v"
    and depth: "q \<le> sum_list (map lv_quantity levels)"
  obtains ss where "walk levels q eid = Inr ss" "ss \<noteq> []" "sum_list (map sl_quantity ss) = q"
    "slices_quantity ss = q"
    "dsum (map (\<lambda>s. dmul (sl_price s) (sl_quantity s)) ss) =
       sum_list (map (\<lambda>s. sl_price s * sl_quantity s) ss)"
    "\<forall>s \<in> set ss. 0 < sl_quantity s \<and> (\<exists>v \<in> set levels. sl_price s = lv_price v)"
proof -
  obtain ss r' where w: "walk_levels levels q = Inr (ss, r')"
    using walk_levels_total pos by blast
  have k: "k \<le> 28" "k + l \<le> 28" "on_grid k q" "q \<le> 10 ^ (28 - k)"
    using g by (auto simp: grid_depth_def)
  have ex: "sum_list (map sl_quantity ss) + r' = q" "\<forall>s \<in> set ss. on_grid k (sl_quantity s)"
    "r' = max 0 (q - sum_list (map lv_quantity levels))"
    using walk_levels_exact [OF _ k(3) _ k(1) k(4) w] g pos q by (auto simp: grid_depth_def)
  then have r': "r' = 0" and sq: "sum_list (map sl_quantity ss) = q"
    using depth by auto
  have sp: "\<forall>s \<in> set ss. 0 < sl_quantity s \<and> (\<exists>v \<in> set levels. sl_price s = lv_price v)"
  proof
    fix s assume "s \<in> set ss"
    then obtain i where i: "i < length ss" "s = ss ! i" by (auto simp: in_set_conv_nth)
    have "i < length levels" using walk_levels_prefix(1) [OF w] i by simp
    moreover have "sl_price s = lv_price (levels ! i)"
      using arg_cong [OF walk_levels_prefix(2) [OF w], of "\<lambda>xs. xs ! i"] i \<open>i < length levels\<close> by simp
    ultimately show "0 < sl_quantity s \<and> (\<exists>v \<in> set levels. sl_price s = lv_price v)"
      using walk_levels_prefix(3) [OF w] i by auto
  qed
  have sB: "\<forall>s \<in> set ss. 0 < sl_quantity s \<and> sl_price s * q \<le> 10 ^ (28 - (k + l)) \<and>
      on_grid l (sl_price s) \<and> 0 < sl_price s"
    using sp g pos by (fastforce simp: grid_depth_def)
  have le_q: "\<forall>s \<in> set ss. sl_quantity s \<le> q"
  proof
    fix s assume s: "s \<in> set ss"
    have "sl_quantity s \<le> sum_list (map sl_quantity ss)"
      using s sB by (intro member_le_sum_list) (auto intro: less_imp_le)
    then show "sl_quantity s \<le> q" by (simp add: sq)
  qed
  have dm: "dmul (sl_price s) (sl_quantity s) = sl_price s * sl_quantity s" if "s \<in> set ss" for s
  proof -
    have "sl_price s * sl_quantity s \<le> sl_price s * q"
      using sB le_q that by (intro mult_left_mono) (auto intro: less_imp_le)
    also have "\<dots> \<le> 10 ^ (28 - (k + l))" using sB that by auto
    finally show ?thesis
      unfolding dmul_def using sB ex(2) k that
      by (intro dround_mult_on_grid [of l _ k]) (auto simp: add.commute abs_mult)
  qed
  have "dsum (map (\<lambda>s. dmul (sl_price s) (sl_quantity s)) ss) =
      dsum (map (\<lambda>s. sl_price s * sl_quantity s) ss)"
    using dm by (auto cong: map_cong)
  also have "\<dots> = sum_list (map (\<lambda>s. sl_price s * sl_quantity s) ss)"
  proof (rule dsum_on_grid [of _ "k + l"])
    show "\<forall>x \<in> set (map (\<lambda>s. sl_price s * sl_quantity s) ss). on_grid (k + l) x"
      using sB ex(2) by (auto simp: mult.commute [of "sl_price _"] intro: on_grid_mult)
    have "map abs (map (\<lambda>s. sl_price s * sl_quantity s) ss) = map (\<lambda>s. sl_price s * sl_quantity s) ss"
      using sB by (auto simp: abs_mult)
    then show "sum_list (map abs (map (\<lambda>s. sl_price s * sl_quantity s) ss)) \<le> 10 ^ (28 - (k + l))"
      using weighted_sum_le [of ss q] sB q sq by (simp only:) blast
  qed (rule k)
  finally have notional: "dsum (map (\<lambda>s. dmul (sl_price s) (sl_quantity s)) ss) =
      sum_list (map (\<lambda>s. sl_price s * sl_quantity s) ss)" .
  have "map abs (map sl_quantity ss) = map sl_quantity ss" using sB by auto
  then have "sum_list (map abs (map sl_quantity ss)) \<le> 10 ^ (28 - k)" using sq k(4) by (simp only:)
  then have "slices_quantity ss = q"
    unfolding slices_quantity_def using ex(2) k q sq
    by (subst dsum_on_grid [of _ k]) auto
  moreover have "walk levels q eid = Inr ss"
    using w r' by (simp add: walk_def)
  moreover have "ss \<noteq> []" using sq q by auto
  ultimately show thesis using that sq notional sp by blast
qed

lemma slices_notional_eq: "slices_notional ss = dsum (map (\<lambda>s. dmul (sl_price s) (sl_quantity s)) ss)"
  by (simp add: slices_notional_def dmul_def mult.commute)

lemma side_levels_pos:
  assumes "book_ok b" "v \<in> set (side_levels side b)"
  shows "0 < lv_price v \<and> 0 < lv_quantity v"
  using assms book_okD(12,13) [OF assms(1)] by (auto simp: side_levels_def split: if_splits)

lemma best_price_extreme:
  assumes "book_ok b"
  shows "v \<in> set (bk_asks b) \<Longrightarrow> best_ask b \<le> lv_price v"
    and "v \<in> set (bk_bids b) \<Longrightarrow> lv_price v \<le> best_bid b"
  using book_okD(6,7,10,11) [OF assms]
  by (auto simp: best_ask_def best_bid_def order_less_imp_le split: list.splits)

lemma best_price_mem:
  assumes "book_ok b"
  shows "\<exists>v \<in> set (side_levels side b). (if side = BUY then best_ask b else best_bid b) = lv_price v"
  using book_okD(6,7) [OF assms]
  by (auto simp: side_levels_def best_ask_def best_bid_def split: list.splits)

lemma vwap_bounds:
  assumes b: "book_ok b" and g: "grid_depth k l q (side_levels side b)" and q: "0 < q"
    and ss: "\<forall>s \<in> set ss. 0 < sl_quantity s \<and> (\<exists>v \<in> set (side_levels side b). sl_price s = lv_price v)"
    and sq: "sum_list (map sl_quantity ss) = q"
  defines "p \<equiv> ddiv (sum_list (map (\<lambda>s. sl_price s * sl_quantity s) ss)) q"
  shows "0 < p" and "side = BUY \<Longrightarrow> best_ask b \<le> p" and "side \<noteq> BUY \<Longrightarrow> p \<le> best_bid b"
proof -
  let ?n = "sum_list (map (\<lambda>s. sl_price s * sl_quantity s) ss)"
  have pos: "\<forall>s \<in> set ss. 0 < sl_price s * sl_quantity s"
    using ss side_levels_pos [OF b] by fastforce
  have "ss \<noteq> []" using q sq by auto
  then have "0 < ?n"
    using pos by (cases ss) (auto intro!: add_pos_nonneg sum_list_nonneg simp: order_less_imp_le)
  then show "0 < p" using q by (simp add: p_def ddiv_def dround_pos)
  have fix1: "dround (if side = BUY then best_ask b else best_bid b) = (if side = BUY then best_ask b else best_bid b)"
    using best_price_mem [OF b, of side] grid_price_fixed [OF g q] side_levels_pos [OF b] by metis
  show "best_ask b \<le> p" if "side = BUY"
  proof -
    have "best_ask b * q \<le> ?n"
      unfolding sq [symmetric] using ss that best_price_extreme(1) [OF b]
      by (intro weighted_sum_ge) (auto simp: side_levels_def)
    then show ?thesis
      using ctx.rnd_ge_fixed [of "best_ask b" "?n / q"] fix1 that q by (simp add: p_def ddiv_def pos_le_divide_eq)
  qed
  show "p \<le> best_bid b" if "side \<noteq> BUY"
  proof -
    have "?n \<le> best_bid b * q"
      unfolding sq [symmetric] using ss that best_price_extreme(2) [OF b]
      by (intro weighted_sum_le_price) (auto simp: side_levels_def)
    then show ?thesis
      using ctx.rnd_le_fixed [of "best_bid b" "?n / q"] fix1 that q by (simp add: p_def ddiv_def pos_divide_le_eq)
  qed
qed

text \<open>
  C8: Total correctness of the market fill on the venue's grid.  When the first eligible book
  is fresh and its side shows at least the requested quantity, and quantities and prices lie on a
  grid whose notionals fit 28 digits, the engine returns a fill: of that book, for the exact
  quantity and the exact notional, at a price no better than the best price of the book, with a
  depth slippage and a fee that are never negative.
\<close>

theorem market_fill_complete:
  assumes ok: "\<forall>b \<in> set books. book_ok b" and r: "market_fill_request_post_init r = Inr r"
    and e: "eligible_books r books = b # bs"
    and fresh: "dt_diff (bk_observed_at b) (bk_venue_event_at b) \<le> age"
    and g: "grid_depth k l (fr_quantity r) (side_levels (fr_side r) b)"
    and depth: "fr_quantity r \<le> sum_list (map lv_quantity (side_levels (fr_side r) b))"
  shows "\<exists>f. market_fill age r books = Inr f \<and> pf_book f = b
    \<and> sum_list (map sl_quantity (pf_slices f)) = fr_quantity r
    \<and> pf_notional f = sum_list (map (\<lambda>s. sl_price s * sl_quantity s) (pf_slices f))
    \<and> (if fr_side r = BUY then best_ask b \<le> pf_price f else pf_price f \<le> best_bid b)
    \<and> 0 \<le> pf_depth_slippage f \<and> 0 \<le> pf_fee f"
proof -
  note eb = eligible_books_Cons [OF e]
  have b: "book_ok b" using ok eb(1) by auto
  have rq: "fr_symbol r \<noteq> []" "0 < fr_quantity r" "0 \<le> fr_taker_fee_rate r"
    using r by (auto simp: market_fill_request_post_init_def result_simps)
  obtain ss where ss: "walk (side_levels (fr_side r) b) (fr_quantity r) (bk_event_id b) = Inr ss"
      "ss \<noteq> []" "sum_list (map sl_quantity ss) = fr_quantity r" "slices_quantity ss = fr_quantity r"
      "dsum (map (\<lambda>s. dmul (sl_price s) (sl_quantity s)) ss) = sum_list (map (\<lambda>s. sl_price s * sl_quantity s) ss)"
      "\<forall>s \<in> set ss. 0 < sl_quantity s \<and> (\<exists>v \<in> set (side_levels (fr_side r) b). sl_price s = lv_price v)"
    by (rule walk_grid [OF g rq(2) _ depth]) (use side_levels_pos [OF b] in blast)+
  let ?n = "sum_list (map (\<lambda>s. sl_price s * sl_quantity s) ss)"
  let ?p = "ddiv ?n (fr_quantity r)"
  note vw = vwap_bounds [OF b g rq(2) ss(6) ss(3)]
  have n: "0 < ?n"
    using vw(1) rq(2) by (simp add: ddiv_def dround_pos_iff zero_less_divide_iff)
  have "\<exists>f. fill_from_book r b ss = Inr f \<and> pf_book f = b \<and> pf_slices f = ss \<and> pf_notional f = ?n
      \<and> pf_price f = ?p"
    using ss(2,4,5) rq n vw(1) eb(2) book_okD(1,4) [OF b]
    by (auto simp: fill_from_book_def Let_def result_simps slices_notional_eq dmul_def [of _ "fr_taker_fee_rate r"]
        intro!: ctx.rnd_nonneg)
  then obtain f where f: "fill_from_book r b ss = Inr f" "pf_book f = b" "pf_slices f = ss"
      "pf_notional f = ?n" "pf_price f = ?p" by blast
  have "market_fill age r books = Inr f"
    using e fresh ss(1) f(1) by (simp add: market_fill_def)
  moreover have "0 \<le> pf_depth_slippage f"
    using vw(2,3) rq(2) fill_from_book_result(19) [OF f(1)] f(5)
    by (auto simp: depth_slippage_of_def dmul_def dsub_def intro!: ctx.rnd_nonneg mult_nonneg_nonneg)
  ultimately show ?thesis
    using f ss(3) vw(2,3) fill_from_book_result(16) [OF f(1)] by auto
qed


section \<open>An example\<close>

definition ex_book :: "book_snapshot" where
  "ex_book = \<lparr>bk_event_id = ''book-1'', bk_symbol = ''BTCUSDT'', bk_venue_event_at = utc 2000000,
     bk_observed_at = utc 2100000, bk_sequence = 7,
     bk_bids = [\<lparr>lv_price = 100, lv_quantity = 2\<rparr>, \<lparr>lv_price = 199/2, lv_quantity = 3\<rparr>],
     bk_asks = [\<lparr>lv_price = 201/2, lv_quantity = 1\<rparr>, \<lparr>lv_price = 101, lv_quantity = 4\<rparr>],
     bk_mark_price = 401/4\<rparr>"

definition ex_request :: "market_fill_request" where
  "ex_request = \<lparr>fr_symbol = ''BTCUSDT'', fr_side = BUY, fr_quantity = 2, fr_eligible_after = utc 1000000,
     fr_decision_executable_price = 100, fr_taker_fee_rate = 1/2000\<rparr>"

lemmas ex_fill_defs = ex_book_def ex_request_def

lemma ex_book_ok: "book_ok ex_book"
  by (simp add: ex_book_def book_ok_def book_snapshot_post_init_def book_level_ok_iff result_simps
      best_bid_def best_ask_def)

lemma ex_request_ok: "market_fill_request_post_init ex_request = Inr ex_request"
  by (simp add: ex_request_def market_fill_request_post_init_def result_simps)

lemma ex_eligible: "eligible_books ex_request [ex_book] = [ex_book]"
  by (simp add: ex_fill_defs eligible_books_def utc_compare)

lemma ex_grid: "grid_depth 3 2 (fr_quantity ex_request) (side_levels BUY ex_book)"
  by (simp add: ex_fill_defs grid_depth_def side_levels_def on_grid_def)

definition ex_fill :: "paper_fill" where
  "ex_fill = \<lparr>pf_market_event_id = ''book-1'', pf_symbol = ''BTCUSDT'', pf_side = BUY,
     pf_fill_at = utc 2100000, pf_quantity = 2, pf_price = 403/4, pf_notional = 403/2,
     pf_slices = [\<lparr>sl_price = 201/2, sl_quantity = 1\<rparr>, \<lparr>sl_price = 101, sl_quantity = 1\<rparr>],
     pf_liquidity_role = ''taker'', pf_fee = 403/4000, pf_spread_cost = 1/2, pf_depth_slippage = 1/2,
     pf_latency_slippage = 1, pf_total_slippage = 2, pf_book = ex_book\<rparr>"

lemma ex_walk: "walk (bk_asks ex_book) 2 eid = Inr (pf_slices ex_fill)"
  by (simp add: ex_book_def ex_fill_def walk_def fill_slice_post_init_def dec_defs dec_eval)

lemma ex_fill_from_book: "fill_from_book ex_request ex_book (pf_slices ex_fill) = Inr ex_fill"
  by (simp add: ex_fill_defs ex_fill_def fill_from_book_def result_simps dec_defs dec_eval slices_quantity_def
      slices_notional_def dsum_def Let_def spread_cost_of_def depth_slippage_of_def latency_slippage_of_def midpoint_def
      best_ask_def best_bid_def)

lemma ex_market_fill: "market_fill 500000 ex_request [ex_book] = Inr ex_fill"
  using ex_walk ex_fill_from_book
  by (simp add: market_fill_def ex_eligible) (simp add: ex_fill_defs side_levels_def dt_diff_def)

theorem market_fill_sound_witness:
  "market_fill 500000 ex_request [ex_book] = Inr ex_fill \<and>
     slices_quantity (pf_slices ex_fill) = fr_quantity ex_request"
  using market_fill_sound [OF ex_market_fill] ex_market_fill by blast

theorem market_fill_complete_witness:
  "book_ok ex_book \<and> (\<exists>f. market_fill 500000 ex_request [ex_book] = Inr f \<and> best_ask ex_book \<le> pf_price f)"
proof -
  have "fr_side ex_request = BUY" "dt_diff (bk_observed_at ex_book) (bk_venue_event_at ex_book) \<le> 500000"
    "fr_quantity ex_request \<le> sum_list (map lv_quantity (side_levels BUY ex_book))"
    by (simp_all add: ex_fill_defs side_levels_def dt_diff_def)
  then show ?thesis
    using market_fill_complete [of "[ex_book]" ex_request ex_book "[]" 500000 3 2]
      ex_book_ok ex_request_ok ex_eligible ex_grid by auto
qed

end
