(* ===== verification/Positions.thy ===== *)
theory Positions
  imports Market
begin

text \<open>
  \<^verbatim>\<open>maais/execution/paper/positions.py\<close>: a one-way position as the list of its opening lots, closed
  first in, first out.
\<close>

record position_lot =
  lot_lot_id :: uuid
  lot_opening_fill_id :: uuid
  lot_opened_at :: datetime
  lot_entry_price :: decimal
  lot_original_quantity :: decimal
  lot_remaining_quantity :: decimal
  lot_opening_fee :: decimal
  lot_remaining_opening_fee :: decimal
  lot_funding :: decimal

record position_state =
  ps_position_id :: uuid
  ps_experiment_id :: uuid
  ps_symbol :: string
  ps_side :: direction
  ps_mark_price :: decimal
  ps_average_entry :: decimal
  ps_realized_pnl :: decimal
  ps_fees :: decimal
  ps_funding :: decimal
  ps_lots :: "position_lot list"
  ps_opened_at :: "datetime option"
  ps_closed_at :: "datetime option"
  ps_version :: int

definition require_nonnegative :: "decimal \<Rightarrow> string \<Rightarrow> unit result" where
  "require_nonnegative x field =
     raise_if (x < 0) (ValueError (field @ '' must be a nonnegative finite Decimal''))"

lemma require_nonnegative_iff [result_simps]: "require_nonnegative x f = Inr u \<longleftrightarrow> 0 \<le> x"
  by (auto simp: require_nonnegative_def result_simps)

lemma require_nonnegative_ok [simp]: "0 \<le> x \<Longrightarrow> require_nonnegative x f = Inr ()"
  by (simp add: result_simps)

definition position_empty :: "uuid \<Rightarrow> uuid \<Rightarrow> string \<Rightarrow> position_state result" where
  "position_empty position_id experiment_id symbol =
     (if symbol = [] then Inl (ValueError ''symbol is required'')
      else Inr \<lparr>ps_position_id = position_id, ps_experiment_id = experiment_id, ps_symbol = symbol,
                ps_side = NEUTRAL, ps_mark_price = 0, ps_average_entry = 0, ps_realized_pnl = 0,
                ps_fees = 0, ps_funding = 0, ps_lots = [], ps_opened_at = None, ps_closed_at = None,
                ps_version = 0\<rparr>)"

definition lots_quantity :: "position_lot list \<Rightarrow> decimal" where
  "lots_quantity lots = dsum (map lot_remaining_quantity lots)"

definition ps_quantity :: "position_state \<Rightarrow> decimal" where
  "ps_quantity p = lots_quantity (ps_lots p)"

definition is_flat :: "position_state \<Rightarrow> bool" where
  "is_flat p \<longleftrightarrow> ps_quantity p = 0"

definition lot_pnl :: "direction \<Rightarrow> decimal \<Rightarrow> decimal \<Rightarrow> decimal \<Rightarrow> decimal" where
  "lot_pnl side price entry_price quantity =
     dmul (if side = LONG then dsub price entry_price else dsub entry_price price) quantity"

definition ps_unrealized_pnl :: "position_state \<Rightarrow> decimal" where
  "ps_unrealized_pnl p =
     (if is_flat p then 0
      else dsum (map (\<lambda>lot. lot_pnl (ps_side p) (ps_mark_price p) (lot_entry_price lot)
                                (lot_remaining_quantity lot)) (ps_lots p)))"

definition ps_gross_notional :: "position_state \<Rightarrow> decimal" where
  "ps_gross_notional p = dmul (ps_quantity p) (ps_mark_price p)"

definition lots_cost :: "position_lot list \<Rightarrow> decimal" where
  "lots_cost lots = dsum (map (\<lambda>lot. dmul (lot_entry_price lot) (lot_remaining_quantity lot)) lots)"

definition open_fill ::
  "position_state \<Rightarrow> uuid \<Rightarrow> direction \<Rightarrow> decimal \<Rightarrow> decimal \<Rightarrow> decimal \<Rightarrow> datetime \<Rightarrow> position_state result" where
  "open_fill p fill_id side quantity price fee fill_at =
     thenE (checks
       [raise_if (side \<noteq> LONG \<and> side \<noteq> SHORT) (ValueError ''opening side must be long or short''),
        raise_if (\<not> is_flat p \<and> ps_side p \<noteq> side)
          (ValueError ''one-way position can only scale in the same direction''),
        require_positive_decimal quantity ''quantity'',
        require_positive_decimal price ''price'',
        require_nonnegative fee ''fee'',
        require_utc fill_at ''fill_at''])
     (let lot = \<lparr>lot_lot_id = fill_id, lot_opening_fill_id = fill_id, lot_opened_at = fill_at,
                 lot_entry_price = price, lot_original_quantity = quantity,
                 lot_remaining_quantity = quantity, lot_opening_fee = fee,
                 lot_remaining_opening_fee = fee, lot_funding = 0\<rparr>;
          lots = ps_lots p @ [lot];
          total_quantity = dadd (ps_quantity p) quantity
      in bindE (ddivE (lots_cost lots) total_quantity) (\<lambda>average_entry.
         Inr (p\<lparr>ps_side := side, ps_mark_price := price, ps_average_entry := average_entry,
                ps_fees := dadd (ps_fees p) fee, ps_lots := lots,
                ps_opened_at := (if \<not> is_flat p then ps_opened_at p else Some fill_at),
                ps_closed_at := None, ps_version := ps_version p + 1\<rparr>)))"

text \<open>The loop of \<open>close_fill\<close> over the lots, with what remains to close and the profit realised so far.\<close>

definition close_lot :: "position_lot \<Rightarrow> decimal \<Rightarrow> position_lot" where
  "close_lot lot closing =
     lot\<lparr>lot_remaining_quantity := dsub (lot_remaining_quantity lot) closing,
         lot_remaining_opening_fee := dsub (lot_remaining_opening_fee lot)
           (ddiv (dmul (lot_remaining_opening_fee lot) closing) (lot_remaining_quantity lot))\<rparr>"

fun close_lots ::
  "direction \<Rightarrow> decimal \<Rightarrow> decimal \<Rightarrow> decimal \<Rightarrow> position_lot list \<Rightarrow> position_lot list \<times> decimal" where
  "close_lots side price remaining_to_close realized [] = ([], realized)"
| "close_lots side price remaining_to_close realized (lot # lots) =
     (if remaining_to_close \<le> 0 \<or> lot_remaining_quantity lot \<le> 0
      then let (updated, r) = close_lots side price remaining_to_close realized lots in (lot # updated, r)
      else
        let closing = min (lot_remaining_quantity lot) remaining_to_close;
            realized' = dadd realized (lot_pnl side price (lot_entry_price lot) closing);
            (updated, r) = close_lots side price (dsub remaining_to_close closing) realized' lots
        in (close_lot lot closing # updated, r))"

definition close_fill ::
  "position_state \<Rightarrow> decimal \<Rightarrow> decimal \<Rightarrow> decimal \<Rightarrow> datetime \<Rightarrow> position_state result" where
  "close_fill p quantity price fee fill_at =
     thenE (checks
       [require_positive_decimal quantity ''quantity'',
        require_positive_decimal price ''price'',
        require_nonnegative fee ''fee'',
        require_utc fill_at ''fill_at'',
        raise_if (is_flat p \<or> quantity > ps_quantity p) (ValueError ''close quantity exceeds open quantity'')])
     (let (updated, realized) = close_lots (ps_side p) price quantity 0 (ps_lots p);
          remaining_quantity = dsub (ps_quantity p) quantity;
          (average_entry, side, closed_at) =
            (if remaining_quantity > 0
             then (ddiv (lots_cost updated) remaining_quantity, ps_side p, None)
             else (0, NEUTRAL, Some fill_at))
      in Inr (p\<lparr>ps_side := side, ps_mark_price := price, ps_average_entry := average_entry,
                ps_realized_pnl := dadd (ps_realized_pnl p) realized, ps_fees := dadd (ps_fees p) fee,
                ps_lots := updated, ps_closed_at := closed_at, ps_version := ps_version p + 1\<rparr>))"

definition position_mark :: "position_state \<Rightarrow> decimal \<Rightarrow> position_state result" where
  "position_mark p price =
     thenE (require_positive_decimal price ''mark price'')
       (Inr (p\<lparr>ps_mark_price := price, ps_version := ps_version p + 1\<rparr>))"

definition position_apply_funding :: "position_state \<Rightarrow> decimal \<Rightarrow> position_state result" where
  "position_apply_funding p amount =
     (if is_flat p then Inl (ValueError ''cannot apply funding to a flat position'')
      else let quantity = ps_quantity p;
               lots = map (\<lambda>lot. if lot_remaining_quantity lot > 0
                        then lot\<lparr>lot_funding := dadd (lot_funding lot)
                               (ddiv (dmul amount (lot_remaining_quantity lot)) quantity)\<rparr>
                        else lot) (ps_lots p)
           in Inr (p\<lparr>ps_funding := dadd (ps_funding p) amount, ps_lots := lots,
                     ps_version := ps_version p + 1\<rparr>))"

end
