(* ===== verification/Account.thy ===== *)
theory Account
  imports "HOL-Library.AList" Positions
begin

text \<open>
  \<^verbatim>\<open>maais/execution/paper/account.py\<close>: the paper account.  The dict of positions is an association
  list in insertion order: the order of the sums matters to their rounding.
\<close>

record account_snapshot =
  sn_cash_balance :: decimal
  sn_equity :: decimal
  sn_used_margin :: decimal
  sn_free_margin :: decimal
  sn_gross_notional :: decimal
  sn_unrealized_pnl :: decimal
  sn_realized_pnl :: decimal
  sn_fees :: decimal
  sn_funding :: decimal
  sn_peak_equity :: decimal
  sn_drawdown :: decimal

record account_state =
  ac_experiment_id :: uuid
  ac_initial_capital :: decimal
  ac_currency :: string
  ac_leverage :: int
  ac_cash_balance :: decimal
  ac_peak_equity :: decimal
  ac_positions :: "(string \<times> position_state) list"
  ac_version :: int
  ac_updated_at :: "datetime option"

definition account_create :: "uuid \<Rightarrow> decimal \<Rightarrow> string \<Rightarrow> int \<Rightarrow> account_state result" where
  "account_create experiment_id initial_capital currency leverage =
     thenE (checks
       [require_positive_decimal initial_capital ''initial_capital'',
        raise_if (currency = []) (ValueError ''currency is required''),
        raise_if (\<not> (1 \<le> leverage \<and> leverage \<le> 5)) (ValueError ''leverage must be between 1 and 5'')])
     (Inr \<lparr>ac_experiment_id = experiment_id, ac_initial_capital = initial_capital,
           ac_currency = currency, ac_leverage = leverage, ac_cash_balance = initial_capital,
           ac_peak_equity = initial_capital, ac_positions = [], ac_version = 0, ac_updated_at = None\<rparr>)"

definition account_position :: "account_state \<Rightarrow> string \<Rightarrow> position_state result" where
  "account_position a symbol =
     (case map_of (ac_positions a) symbol of
        None \<Rightarrow> Inl (LookupError (''no position for '' @ symbol))
      | Some p \<Rightarrow> Inr p)"

abbreviation position_values :: "account_state \<Rightarrow> position_state list" where
  "position_values a \<equiv> map snd (ac_positions a)"

definition ac_realized_pnl :: "account_state \<Rightarrow> decimal" where
  "ac_realized_pnl a = dsum (map ps_realized_pnl (position_values a))"

definition ac_unrealized_pnl :: "account_state \<Rightarrow> decimal" where
  "ac_unrealized_pnl a = dsum (map ps_unrealized_pnl (position_values a))"

definition ac_fees :: "account_state \<Rightarrow> decimal" where
  "ac_fees a = dsum (map ps_fees (position_values a))"

definition ac_funding :: "account_state \<Rightarrow> decimal" where
  "ac_funding a = dsum (map ps_funding (position_values a))"

definition ac_gross_notional :: "account_state \<Rightarrow> decimal" where
  "ac_gross_notional a = dsum (map ps_gross_notional (position_values a))"

definition ac_used_margin :: "account_state \<Rightarrow> decimal" where
  "ac_used_margin a = ddiv (ac_gross_notional a) (of_int (ac_leverage a))"

definition ac_equity :: "account_state \<Rightarrow> decimal" where
  "ac_equity a = dadd (ac_cash_balance a) (ac_unrealized_pnl a)"

definition ac_free_margin :: "account_state \<Rightarrow> decimal" where
  "ac_free_margin a = dsub (ac_equity a) (ac_used_margin a)"

definition ac_drawdown :: "account_state \<Rightarrow> decimal" where
  "ac_drawdown a =
     (if ac_peak_equity a \<le> 0 then 0
      else max 0 (ddiv (dsub (ac_peak_equity a) (ac_equity a)) (ac_peak_equity a)))"

definition account_snapshot_of :: "account_state \<Rightarrow> account_snapshot" where
  "account_snapshot_of a =
     \<lparr>sn_cash_balance = ac_cash_balance a, sn_equity = ac_equity a, sn_used_margin = ac_used_margin a,
      sn_free_margin = ac_free_margin a, sn_gross_notional = ac_gross_notional a,
      sn_unrealized_pnl = ac_unrealized_pnl a, sn_realized_pnl = ac_realized_pnl a, sn_fees = ac_fees a,
      sn_funding = ac_funding a, sn_peak_equity = ac_peak_equity a, sn_drawdown = ac_drawdown a\<rparr>"

section \<open>Reconciliation\<close>

type_synonym reconciliation_report = "decimal \<times> decimal \<times> decimal"

definition report_ok :: "reconciliation_report \<Rightarrow> bool" where
  "report_ok r = (case r of (cash, equity, margin) \<Rightarrow> cash = 0 \<and> equity = 0 \<and> margin = 0)"

definition reconcile :: "account_state \<Rightarrow> reconciliation_report" where
  "reconcile a =
     (let expected_cash =
            dadd (dsub (dadd (ac_initial_capital a) (ac_realized_pnl a)) (ac_fees a)) (ac_funding a);
          expected_margin =
            dsum (map (\<lambda>p. ddiv (dmul (ps_quantity p) (ps_mark_price p)) (of_int (ac_leverage a)))
                    (position_values a))
      in (dsub (ac_cash_balance a) expected_cash,
          dsub (ac_equity a) (dadd (ac_cash_balance a) (ac_unrealized_pnl a)),
          dsub (ac_used_margin a) expected_margin))"

section \<open>Fills, marks and funding\<close>

record account_fill =
  af_fill_id :: uuid
  af_position_id :: uuid
  af_symbol :: string
  af_side :: paper_order_side
  af_position_effect :: position_effect
  af_quantity :: decimal
  af_price :: decimal
  af_fee :: decimal
  af_fill_at :: datetime

text \<open>The position after the fill and the cash balance after it.\<close>

definition fill_opening :: "account_state \<Rightarrow> account_fill \<Rightarrow> (position_state \<times> decimal) result" where
  "fill_opening a f =
     bindE (case map_of (ac_positions a) (af_symbol f) of
              None \<Rightarrow> position_empty (af_position_id f) (ac_experiment_id a) (af_symbol f)
            | Some p \<Rightarrow> thenE (raise_if (\<not> is_flat p \<and> ps_position_id p \<noteq> af_position_id f)
                            (ValueError ''position_id does not match the open position'')) (Inr p)) (\<lambda>current.
     bindE (open_fill current (af_fill_id f) (if af_side f = BUY then LONG else SHORT)
              (af_quantity f) (af_price f) (af_fee f) (af_fill_at f)) (\<lambda>candidate.
       Inr (candidate, dsub (ac_cash_balance a) (af_fee f))))"

definition fill_reducing :: "account_state \<Rightarrow> account_fill \<Rightarrow> (position_state \<times> decimal) result" where
  "fill_reducing a f =
     (case map_of (ac_positions a) (af_symbol f) of
        None \<Rightarrow> Inl (ValueError ''reduce-only fill has no open quantity'')
      | Some current \<Rightarrow>
          if is_flat current then Inl (ValueError ''reduce-only fill has no open quantity'')
          else if af_side f \<noteq> (if ps_side current = LONG then SELL else BUY)
            then Inl (ValueError ''reduce-only fill side does not close the position'')
          else bindE (close_fill current (af_quantity f) (af_price f) (af_fee f) (af_fill_at f)) (\<lambda>candidate.
            let realized_delta = dsub (ps_realized_pnl candidate) (ps_realized_pnl current)
            in Inr (candidate, dsub (dadd (ac_cash_balance a) realized_delta) (af_fee f))))"

definition with_peak :: "account_state \<Rightarrow> account_state" where
  "with_peak candidate = candidate\<lparr>ac_peak_equity := max (ac_peak_equity candidate) (ac_equity candidate)\<rparr>"

definition account_apply_fill :: "account_state \<Rightarrow> account_fill \<Rightarrow> account_state result" where
  "account_apply_fill a f =
     thenE (checks
       [require_positive_decimal (af_quantity f) ''quantity'',
        require_positive_decimal (af_price f) ''price'',
        raise_if (af_fee f < 0) (ValueError ''fee must be a nonnegative finite Decimal''),
        require_utc (af_fill_at f) ''fill_at''])
     (bindE (if af_position_effect f = OPEN then fill_opening a f else fill_reducing a f)
       (\<lambda>(candidate_position, cash_balance).
        let candidate = with_peak
              (a\<lparr>ac_cash_balance := cash_balance,
                 ac_positions := AList.update (af_symbol f) candidate_position (ac_positions a),
                 ac_version := ac_version a + 1, ac_updated_at := Some (af_fill_at f)\<rparr>)
        in if af_position_effect f = OPEN \<and> ac_free_margin candidate < 0
           then Inl (InsufficientMargin ''paper account has insufficient free margin'')
           else if \<not> report_ok (reconcile candidate)
           then Inl (ArithmeticError ''account reconciliation failed after fill'')
           else Inr candidate))"

definition account_mark :: "account_state \<Rightarrow> string \<Rightarrow> decimal \<Rightarrow> datetime \<Rightarrow> account_state result" where
  "account_mark a symbol price observed_at =
     thenE (require_utc observed_at ''observed_at'')
     (bindE (account_position a symbol) (\<lambda>p.
      bindE (position_mark p price) (\<lambda>p'.
        Inr (with_peak
          (a\<lparr>ac_positions := AList.update symbol p' (ac_positions a),
             ac_version := ac_version a + 1, ac_updated_at := Some observed_at\<rparr>)))))"

definition account_apply_funding :: "account_state \<Rightarrow> string \<Rightarrow> decimal \<Rightarrow> datetime \<Rightarrow> account_state result" where
  "account_apply_funding a symbol rate observed_at =
     thenE (require_utc observed_at ''observed_at'')
     (bindE (account_position a symbol) (\<lambda>p.
        if is_flat p then Inl (ValueError ''cannot apply funding to a flat position'')
        else let signed_amount = dmul (ps_gross_notional p) rate;
                 amount = (if ps_side p = LONG then dneg signed_amount else signed_amount)
             in bindE (position_apply_funding p amount) (\<lambda>p'.
                let candidate = with_peak
                      (a\<lparr>ac_cash_balance := dadd (ac_cash_balance a) amount,
                         ac_positions := AList.update symbol p' (ac_positions a),
                         ac_version := ac_version a + 1, ac_updated_at := Some observed_at\<rparr>)
                in if \<not> report_ok (reconcile candidate)
                   then Inl (ArithmeticError ''account reconciliation failed after funding'')
                   else Inr candidate)))"

end
