(* ===== verification/Exits.thy ===== *)
theory Exits
  imports Market
begin

text \<open>
  \<^verbatim>\<open>maais/execution/paper/exits.py\<close>: the exit plan of an open position, its stop and target levels,
  and the triggers that turn it into a reduce-only intent.
\<close>

datatype exit_plan_status = ACTIVE | TRIGGERED | SUPERSEDED | CLOSED

fun exit_plan_status_value :: "exit_plan_status \<Rightarrow> string" where
  "exit_plan_status_value ACTIVE = ''active''"
| "exit_plan_status_value TRIGGERED = ''triggered''"
| "exit_plan_status_value SUPERSEDED = ''superseded''"
| "exit_plan_status_value CLOSED = ''closed''"

datatype exit_reason = STOP | TARGET | MAXIMUM_HOLD | OPPOSING_SIGNAL | EMERGENCY

record exit_intent =
  xi_position_id :: uuid
  xi_side :: paper_order_side
  xi_order_type :: paper_order_type
  xi_quantity :: decimal
  xi_reduce_only :: bool
  xi_reason :: exit_reason
  xi_triggered_at :: datetime
  xi_trigger_price :: "decimal option"

record exit_plan =
  xp_plan_id :: uuid
  xp_position_id :: uuid
  xp_side :: direction
  xp_quantity :: decimal
  xp_average_entry :: decimal
  xp_expected_loss_fraction :: decimal
  xp_expected_gain_fraction :: decimal
  xp_stop_price :: decimal
  xp_target_price :: decimal
  xp_maximum_bars :: int
  xp_bars_elapsed :: int
  xp_opposite_signal_streak :: int
  xp_status :: exit_plan_status
  xp_created_at :: datetime
  xp_changed_at :: datetime
  xp_version :: int
  xp_trigger_reason :: "exit_reason option"
  xp_triggered_at :: "datetime option"
  xp_trigger_price :: "decimal option"
  xp_trigger_executable_price :: "decimal option"

type_synonym exit_evaluation = "exit_plan \<times> exit_intent option"

text \<open>The constructor's checks, which every \<open>replace\<close> runs again.\<close>

definition exit_plan_post_init :: "exit_plan \<Rightarrow> exit_plan result" where
  "exit_plan_post_init x =
     thenE (checks
       [raise_if (xp_status x = ACTIVE \<and> (xp_trigger_reason x \<noteq> None \<or> xp_triggered_at x \<noteq> None
            \<or> xp_trigger_executable_price x \<noteq> None \<or> xp_trigger_price x \<noteq> None))
          (ValueError ''active exit plan cannot contain trigger metadata''),
        raise_if (xp_status x \<in> {TRIGGERED, CLOSED} \<and> (xp_trigger_reason x = None \<or> xp_triggered_at x = None
            \<or> xp_trigger_executable_price x = None))
          (ValueError ''triggered and closed exit plans require restart metadata''),
        (case xp_triggered_at x of
           None \<Rightarrow> Inr ()
         | Some t \<Rightarrow> checks [require_utc t ''triggered_at'',
             raise_if (t < xp_created_at x) (ValueError ''exit trigger cannot precede plan creation'')]),
        (case xp_trigger_price x of
           None \<Rightarrow> Inr () | Some p \<Rightarrow> require_positive_decimal p ''trigger_price''),
        (case xp_trigger_executable_price x of
           None \<Rightarrow> Inr () | Some p \<Rightarrow> require_positive_decimal p ''trigger_executable_price'')])
     (Inr x)"

definition require_fraction :: "decimal \<Rightarrow> string \<Rightarrow> unit result" where
  "require_fraction x field =
     raise_if (\<not> (0 < x \<and> x < 1)) (ValueError (field @ '' must be a finite Decimal in (0, 1)''))"

definition exit_levels :: "direction \<Rightarrow> decimal \<Rightarrow> decimal \<Rightarrow> decimal \<Rightarrow> decimal \<times> decimal" where
  "exit_levels side average_entry loss gain =
     (if side = LONG
      then (dmul average_entry (dsub 1 loss), dmul average_entry (dadd 1 gain))
      else (dmul average_entry (dadd 1 loss), dmul average_entry (dsub 1 gain)))"

definition exit_plan_create ::
  "uuid \<Rightarrow> uuid \<Rightarrow> direction \<Rightarrow> decimal \<Rightarrow> decimal \<Rightarrow> decimal \<Rightarrow> decimal \<Rightarrow> datetime \<Rightarrow> int \<Rightarrow> exit_plan result" where
  "exit_plan_create plan_id position_id side quantity average_entry loss gain created_at maximum_bars =
     thenE (checks
       [raise_if (side \<noteq> LONG \<and> side \<noteq> SHORT) (ValueError ''exit plan side must be long or short''),
        require_positive_decimal quantity ''quantity'',
        require_positive_decimal average_entry ''average_entry'',
        require_fraction loss ''expected_loss_fraction'',
        require_fraction gain ''expected_gain_fraction'',
        require_utc created_at ''created_at'',
        raise_if (maximum_bars \<le> 0) (ValueError ''maximum_bars must be positive'')])
     (let (stop, target) = exit_levels side average_entry loss gain
      in exit_plan_post_init
        \<lparr>xp_plan_id = plan_id, xp_position_id = position_id, xp_side = side, xp_quantity = quantity,
         xp_average_entry = average_entry, xp_expected_loss_fraction = loss, xp_expected_gain_fraction = gain,
         xp_stop_price = stop, xp_target_price = target, xp_maximum_bars = maximum_bars, xp_bars_elapsed = 0,
         xp_opposite_signal_streak = 0, xp_status = ACTIVE, xp_created_at = created_at,
         xp_changed_at = created_at, xp_version = 1, xp_trigger_reason = None, xp_triggered_at = None,
         xp_trigger_price = None, xp_trigger_executable_price = None\<rparr>)"

definition require_active :: "exit_plan \<Rightarrow> unit result" where
  "require_active x =
     raise_if (xp_status x \<noteq> ACTIVE) (RuntimeError (''exit plan is not active: '' @ exit_plan_status_value (xp_status x)))"

definition closing_side :: "direction \<Rightarrow> paper_order_side" where
  "closing_side side = (if side = LONG then SELL else BUY)"

definition exit_trigger ::
  "exit_plan \<Rightarrow> exit_reason \<Rightarrow> datetime \<Rightarrow> decimal option \<Rightarrow> decimal \<Rightarrow> exit_evaluation result" where
  "exit_trigger x reason triggered_at trigger_price executable_price =
     bindE (exit_plan_post_init
       (x\<lparr>xp_status := TRIGGERED, xp_changed_at := triggered_at, xp_version := xp_version x + 1,
          xp_trigger_reason := Some reason, xp_triggered_at := Some triggered_at,
          xp_trigger_price := trigger_price, xp_trigger_executable_price := Some executable_price\<rparr>)) (\<lambda>triggered.
     Inr (triggered,
       Some \<lparr>xi_position_id = xp_position_id x, xi_side = closing_side (xp_side x), xi_order_type = MARKET,
             xi_quantity = xp_quantity x, xi_reduce_only = True, xi_reason = reason,
             xi_triggered_at = triggered_at, xi_trigger_price = trigger_price\<rparr>))"

text \<open>Which level a mark price has reached; the stop is looked at first.\<close>

definition reached_level :: "exit_plan \<Rightarrow> decimal \<Rightarrow> exit_reason option" where
  "reached_level x mark =
     (if xp_side x = LONG
      then if mark \<le> xp_stop_price x then Some STOP else if mark \<ge> xp_target_price x then Some TARGET else None
      else if mark \<ge> xp_stop_price x then Some STOP else if mark \<le> xp_target_price x then Some TARGET else None)"

definition evaluate_mark ::
  "exit_plan \<Rightarrow> decimal \<Rightarrow> datetime \<Rightarrow> decimal option \<Rightarrow> exit_evaluation result" where
  "evaluate_mark x mark_price observed_at executable_price =
     thenE (checks
       [require_active x,
        require_positive_decimal mark_price ''mark_price'',
        require_utc observed_at ''observed_at'',
        (case executable_price of
           None \<Rightarrow> Inr () | Some p \<Rightarrow> require_positive_decimal p ''executable_price'')])
     (case reached_level x mark_price of
        None \<Rightarrow> Inr (x, None)
      | Some reason \<Rightarrow> exit_trigger x reason observed_at (Some mark_price)
          (case executable_price of None \<Rightarrow> mark_price | Some p \<Rightarrow> p))"

definition opposing_signal :: "exit_plan \<Rightarrow> direction \<Rightarrow> bool \<Rightarrow> bool" where
  "opposing_signal x decision_direction decision_approved \<longleftrightarrow>
     decision_approved \<and> (xp_side x = LONG \<and> decision_direction = SHORT \<or> xp_side x = SHORT \<and> decision_direction = LONG)"

definition observe_closed_bar ::
  "exit_plan \<Rightarrow> direction \<Rightarrow> bool \<Rightarrow> datetime \<Rightarrow> decimal \<Rightarrow> exit_evaluation result" where
  "observe_closed_bar x decision_direction decision_approved closed_at executable_price =
     thenE (checks
       [require_active x,
        require_utc closed_at ''closed_at'',
        require_positive_decimal executable_price ''executable_price''])
     (let streak = (if opposing_signal x decision_direction decision_approved
                    then xp_opposite_signal_streak x + 1 else 0)
      in bindE (exit_plan_post_init
           (x\<lparr>xp_bars_elapsed := xp_bars_elapsed x + 1, xp_opposite_signal_streak := streak,
              xp_changed_at := closed_at, xp_version := xp_version x + 1\<rparr>)) (\<lambda>updated.
         if streak \<ge> 2 then exit_trigger updated OPPOSING_SIGNAL closed_at None executable_price
         else if xp_bars_elapsed updated \<ge> xp_maximum_bars updated
         then exit_trigger updated MAXIMUM_HOLD closed_at None executable_price
         else Inr (updated, None)))"

definition exit_resize :: "exit_plan \<Rightarrow> decimal \<Rightarrow> decimal \<Rightarrow> datetime \<Rightarrow> exit_plan result" where
  "exit_resize x quantity average_entry changed_at =
     thenE (checks
       [require_active x,
        require_positive_decimal quantity ''quantity'',
        require_positive_decimal average_entry ''average_entry'',
        require_utc changed_at ''changed_at''])
     (let (proposed_stop, target) =
            exit_levels (xp_side x) average_entry (xp_expected_loss_fraction x) (xp_expected_gain_fraction x);
          stop = (if xp_side x = LONG then max (xp_stop_price x) proposed_stop
                  else min (xp_stop_price x) proposed_stop)
      in exit_plan_post_init
           (x\<lparr>xp_quantity := quantity, xp_average_entry := average_entry, xp_stop_price := stop,
              xp_target_price := target, xp_changed_at := changed_at, xp_version := xp_version x + 1\<rparr>))"

definition tighten_stop :: "exit_plan \<Rightarrow> decimal \<Rightarrow> datetime \<Rightarrow> exit_plan result" where
  "tighten_stop x stop_price changed_at =
     thenE (checks
       [require_active x,
        require_positive_decimal stop_price ''stop_price'',
        require_utc changed_at ''changed_at'',
        raise_if (xp_side x = LONG \<and> stop_price < xp_stop_price x \<or> xp_side x = SHORT \<and> stop_price > xp_stop_price x)
          (ValueError ''stop cannot move away from risk'')])
     (exit_plan_post_init
        (x\<lparr>xp_stop_price := stop_price, xp_changed_at := changed_at, xp_version := xp_version x + 1\<rparr>))"

definition emergency_flatten :: "exit_plan \<Rightarrow> datetime \<Rightarrow> decimal \<Rightarrow> exit_evaluation result" where
  "emergency_flatten x triggered_at executable_price =
     thenE (checks
       [require_active x,
        require_utc triggered_at ''triggered_at'',
        require_positive_decimal executable_price ''executable_price''])
     (exit_trigger x EMERGENCY triggered_at None executable_price)"

text \<open>The two assertions of the source fail with an \<open>AssertionError\<close>; no constructed plan reaches it.\<close>

definition pending_intent :: "exit_plan \<Rightarrow> exit_intent result" where
  "pending_intent x =
     (if xp_status x \<noteq> TRIGGERED then Inl (RuntimeError ''only a triggered exit plan has a pending intent'')
      else case (xp_trigger_reason x, xp_triggered_at x) of
          (Some reason, Some t) \<Rightarrow>
            Inr \<lparr>xi_position_id = xp_position_id x, xi_side = closing_side (xp_side x), xi_order_type = MARKET,
                 xi_quantity = xp_quantity x, xi_reduce_only = True, xi_reason = reason,
                 xi_triggered_at = t, xi_trigger_price = xp_trigger_price x\<rparr>
        | _ \<Rightarrow> Inl AssertionError)"

definition exit_close :: "exit_plan \<Rightarrow> datetime \<Rightarrow> exit_plan result" where
  "exit_close x closed_at =
     thenE (checks
       [require_utc closed_at ''closed_at'',
        raise_if (xp_status x \<noteq> TRIGGERED) (RuntimeError ''only a triggered exit plan can be closed'')])
     (exit_plan_post_init (x\<lparr>xp_status := CLOSED, xp_changed_at := closed_at, xp_version := xp_version x + 1\<rparr>))"

text \<open>The operations as commands; the result carries the intent the operation emits, if any.\<close>

datatype exit_command =
    EvaluateMark decimal datetime "decimal option"
  | ObserveClosedBar direction bool datetime decimal
  | Resize decimal decimal datetime
  | TightenStop decimal datetime
  | EmergencyFlatten datetime decimal
  | CloseExit datetime

definition no_intent :: "exit_plan result \<Rightarrow> exit_evaluation result" where
  "no_intent r = bindE r (\<lambda>x. Inr (x, None))"

fun exit_operation :: "exit_plan \<Rightarrow> exit_command \<Rightarrow> exit_evaluation result" where
  "exit_operation x (EvaluateMark m t e) = evaluate_mark x m t e"
| "exit_operation x (ObserveClosedBar d a t e) = observe_closed_bar x d a t e"
| "exit_operation x (Resize q p t) = no_intent (exit_resize x q p t)"
| "exit_operation x (TightenStop p t) = no_intent (tighten_stop x p t)"
| "exit_operation x (EmergencyFlatten t e) = emergency_flatten x t e"
| "exit_operation x (CloseExit t) = no_intent (exit_close x t)"

definition exit_step :: "exit_plan \<Rightarrow> exit_command \<Rightarrow> exit_plan result" where
  "exit_step x c = bindE (exit_operation x c) (\<lambda>(x', i). Inr x')"

section \<open>The plan over any sequence of operations\<close>

definition plan_valid :: "exit_plan \<Rightarrow> bool" where
  "plan_valid x \<longleftrightarrow> exit_plan_post_init x = Inr x"

lemma post_init_same [result_simps]: "exit_plan_post_init x = Inr y \<longleftrightarrow> y = x \<and> plan_valid x"
  unfolding plan_valid_def by (auto simp: exit_plan_post_init_def result_simps)

lemma require_active_iff [result_simps]: "require_active x = Inr u \<longleftrightarrow> xp_status x = ACTIVE"
  by (auto simp: require_active_def result_simps)

lemma require_fraction_iff [result_simps]: "require_fraction x f = Inr u \<longleftrightarrow> 0 < x \<and> x < 1"
  by (auto simp: require_fraction_def result_simps)

definition stop_tightens :: "exit_plan \<Rightarrow> exit_plan \<Rightarrow> bool" where
  "stop_tightens x x' \<longleftrightarrow>
     (if xp_side x = LONG then xp_stop_price x \<le> xp_stop_price x' else xp_stop_price x' \<le> xp_stop_price x)"

fun closed_bars :: "exit_command \<Rightarrow> int" where
  "closed_bars (ObserveClosedBar d a t e) = 1"
| "closed_bars _ = 0"

text \<open>
  The updates an operation makes to the version besides the one of a trigger: looking at a mark and
  flattening only change the plan when they trigger it, everything else is a new version.
\<close>

fun plan_updates :: "exit_command \<Rightarrow> int" where
  "plan_updates (EvaluateMark m t e) = 0"
| "plan_updates (EmergencyFlatten t e) = 0"
| "plan_updates _ = 1"

definition trigger_updates :: "exit_plan \<Rightarrow> int" where
  "trigger_updates x = (if xp_status x \<in> {TRIGGERED, CLOSED} then 1 else 0)"

text \<open>Quantity and average entry after an operation: a resize sets them.\<close>

fun plan_size :: "decimal \<times> decimal \<Rightarrow> exit_command \<Rightarrow> decimal \<times> decimal" where
  "plan_size z (Resize q p t) = (q, p)"
| "plan_size z _ = z"

text \<open>What a plan is made with and keeps for life.\<close>

definition plan_terms :: "exit_plan \<Rightarrow> uuid \<times> uuid \<times> direction \<times> decimal \<times> decimal \<times> int \<times> datetime" where
  "plan_terms x = (xp_plan_id x, xp_position_id x, xp_side x, xp_expected_loss_fraction x, xp_expected_gain_fraction x,
     xp_maximum_bars x, xp_created_at x)"

text \<open>The only status changes of a plan; there is no way back.\<close>

inductive exit_lifecycle :: "exit_plan_status \<Rightarrow> exit_plan_status \<Rightarrow> bool" where
  trigger: "exit_lifecycle ACTIVE TRIGGERED"
| close: "exit_lifecycle TRIGGERED CLOSED"

text \<open>
  The invariant of a plan: constructed, still inside its holding period while active, and with the
  target its entry and its expected gain give.
\<close>

definition exit_plan_ok :: "exit_plan \<Rightarrow> bool" where
  "exit_plan_ok x \<longleftrightarrow> plan_valid x \<and> xp_status x \<noteq> SUPERSEDED \<and> xp_side x \<in> {LONG, SHORT} \<and>
     0 < xp_quantity x \<and> 0 \<le> xp_bars_elapsed x \<and> xp_bars_elapsed x \<le> xp_maximum_bars x \<and>
     xp_target_price x = snd (exit_levels (xp_side x) (xp_average_entry x) (xp_expected_loss_fraction x)
       (xp_expected_gain_fraction x)) \<and>
     (xp_status x = ACTIVE \<longrightarrow> xp_bars_elapsed x < xp_maximum_bars x \<and> xp_opposite_signal_streak x \<in> {0, 1})"

text \<open>What one operation does, whichever it is.\<close>

definition exit_moved :: "exit_plan \<Rightarrow> exit_command \<Rightarrow> exit_plan \<Rightarrow> exit_intent option \<Rightarrow> bool" where
  "exit_moved x c x' i \<longleftrightarrow> exit_plan_ok x' \<and> stop_tightens x x' \<and> plan_terms x' = plan_terms x \<and>
     xp_bars_elapsed x' = xp_bars_elapsed x + closed_bars c \<and>
     xp_version x' + trigger_updates x = xp_version x + plan_updates c + trigger_updates x' \<and>
     (xp_quantity x', xp_average_entry x') = plan_size (xp_quantity x, xp_average_entry x) c \<and>
     (case i of
        None \<Rightarrow> xp_status x' = xp_status x \<or> xp_status x = TRIGGERED \<and> xp_status x' = CLOSED
      | Some j \<Rightarrow> xp_status x = ACTIVE \<and> xp_status x' = TRIGGERED \<and> pending_intent x' = Inr j)"

lemmas exit_moved_simps = exit_moved_def stop_tightens_def exit_plan_ok_def plan_terms_def trigger_updates_def

lemma exit_moved_status: "exit_moved x c x' i \<Longrightarrow> exit_lifecycle\<^sup>*\<^sup>* (xp_status x) (xp_status x')"
  using r_into_rtranclp [of exit_lifecycle, OF trigger] r_into_rtranclp [of exit_lifecycle, OF close]
  by (cases i) (auto simp: exit_moved_def)

lemma exit_trigger_result:
  assumes "exit_trigger x reason t p e = Inr (x', i)"
  shows "plan_valid x'" "\<exists>j. i = Some j \<and> pending_intent x' = Inr j"
    "x' = x\<lparr>xp_status := TRIGGERED, xp_changed_at := t, xp_version := xp_version x + 1,
          xp_trigger_reason := Some reason, xp_triggered_at := Some t,
          xp_trigger_price := p, xp_trigger_executable_price := Some e\<rparr>"
proof -
  let ?y = "x\<lparr>xp_status := TRIGGERED, xp_changed_at := t, xp_version := xp_version x + 1,
          xp_trigger_reason := Some reason, xp_triggered_at := Some t,
          xp_trigger_price := p, xp_trigger_executable_price := Some e\<rparr>"
  have y: "plan_valid ?y" "x' = ?y"
    "i = Some \<lparr>xi_position_id = xp_position_id x, xi_side = closing_side (xp_side x), xi_order_type = MARKET,
       xi_quantity = xp_quantity x, xi_reduce_only = True, xi_reason = reason, xi_triggered_at = t, xi_trigger_price = p\<rparr>"
    using assms unfolding exit_trigger_def bindE_Inr_iff post_init_same by auto
  show "plan_valid x'" using y by simp
  show "\<exists>j. i = Some j \<and> pending_intent x' = Inr j" using y by (simp add: pending_intent_def)
  show "x' = ?y" by (rule y(2))
qed

lemma evaluate_mark_moved:
  assumes ok: "exit_plan_ok x" and r: "evaluate_mark x m t e = Inr (x', i)"
  shows "exit_moved x (EvaluateMark m t e) x' i"
proof (cases "reached_level x m")
  case None
  then have "x' = x" "i = None" using r by (auto simp: evaluate_mark_def result_simps)
  then show ?thesis using ok by (auto simp: exit_moved_simps)
next
  case (Some reason)
  then have a: "xp_status x = ACTIVE" and tr: "exit_trigger x reason t (Some m) (case e of None \<Rightarrow> m | Some p \<Rightarrow> p) = Inr (x', i)"
    using r by (auto simp: evaluate_mark_def result_simps)
  from exit_trigger_result [OF tr] a ok show ?thesis
    by (auto simp: exit_moved_simps)
qed

lemma emergency_flatten_moved:
  assumes ok: "exit_plan_ok x" and r: "emergency_flatten x t e = Inr (x', i)"
  shows "exit_moved x (EmergencyFlatten t e) x' i"
proof -
  have a: "xp_status x = ACTIVE" and tr: "exit_trigger x EMERGENCY t None e = Inr (x', i)"
    using r by (auto simp: emergency_flatten_def result_simps)
  from exit_trigger_result [OF tr] a ok show ?thesis
    by (auto simp: exit_moved_simps)
qed

lemma observe_closed_bar_moved:
  assumes ok: "exit_plan_ok x" and r: "observe_closed_bar x d a t e = Inr (x', i)"
  shows "exit_moved x (ObserveClosedBar d a t e) x' i"
proof -
  define s where "s = (if opposing_signal x d a then xp_opposite_signal_streak x + 1 else 0)"
  define u where "u = x\<lparr>xp_bars_elapsed := xp_bars_elapsed x + 1, xp_opposite_signal_streak := s,
      xp_changed_at := t, xp_version := xp_version x + 1\<rparr>"
  have act: "xp_status x = ACTIVE" and pu: "plan_valid u"
    and res: "(if s \<ge> 2 then exit_trigger u OPPOSING_SIGNAL t None e
         else if xp_bars_elapsed u \<ge> xp_maximum_bars u then exit_trigger u MAXIMUM_HOLD t None e
         else Inr (u, None)) = Inr (x', i)"
    using r unfolding observe_closed_bar_def Let_def s_def [symmetric] u_def [symmetric]
    by (simp_all add: result_simps)
  have u: "plan_terms u = plan_terms x" "xp_quantity u = xp_quantity x" "xp_stop_price u = xp_stop_price x"
    "xp_target_price u = xp_target_price x" "xp_average_entry u = xp_average_entry x" "xp_status u = xp_status x"
    "xp_bars_elapsed u = xp_bars_elapsed x + 1" "xp_opposite_signal_streak u = s" "xp_version u = xp_version x + 1"
    by (simp_all add: u_def plan_terms_def)
  have sb: "s \<in> {0, 1, 2}" using ok act by (auto simp: s_def exit_plan_ok_def)
  show ?thesis
  proof (cases "s \<ge> 2 \<or> xp_bars_elapsed u \<ge> xp_maximum_bars u")
    case True
    then obtain reason where "exit_trigger u reason t None e = Inr (x', i)" using res by (auto split: if_splits)
    from exit_trigger_result [OF this] u act ok show ?thesis
      by (auto simp: exit_moved_simps)
  next
    case False
    then have "x' = u" "i = None" using res by (auto split: if_splits)
    then show ?thesis
      using u pu act ok False sb by (auto simp: exit_moved_simps)
  qed
qed

lemma update_moved:
  assumes ok: "exit_plan_ok x" and r: "exit_operation x c = Inr (x', i)"
    and c: "c = Resize q p t \<or> c = TightenStop p t \<or> c = CloseExit t"
  shows "exit_moved x c x' i"
proof -
  have i: "i = None" using r c by (auto simp: no_intent_def result_simps)
  from c consider "c = Resize q p t" | "c = TightenStop p t" | "c = CloseExit t" by blast
  then show ?thesis
  proof cases
    case 1
    then have "exit_resize x q p t = Inr x'" using r by (auto simp: no_intent_def result_simps)
    then have "xp_status x = ACTIVE" "0 < q" "plan_valid x'"
      "\<exists>stop target. x' = x\<lparr>xp_quantity := q, xp_average_entry := p, xp_stop_price := stop, xp_target_price := target,
         xp_changed_at := t, xp_version := xp_version x + 1\<rparr> \<and>
         target = snd (exit_levels (xp_side x) p (xp_expected_loss_fraction x) (xp_expected_gain_fraction x)) \<and>
         (if xp_side x = LONG then xp_stop_price x \<le> stop else stop \<le> xp_stop_price x)"
      unfolding exit_resize_def Let_def by (auto simp: result_simps split: prod.splits if_splits)
    then show ?thesis using ok i 1 by (auto simp: exit_moved_simps)
  next
    case 2
    then have "tighten_stop x p t = Inr x'" using r by (auto simp: no_intent_def result_simps)
    then have "xp_status x = ACTIVE" "plan_valid x'"
      "x' = x\<lparr>xp_stop_price := p, xp_changed_at := t, xp_version := xp_version x + 1\<rparr>"
      "\<not> (xp_side x = LONG \<and> p < xp_stop_price x \<or> xp_side x = SHORT \<and> p > xp_stop_price x)"
      unfolding tighten_stop_def by (auto simp: result_simps)
    then show ?thesis using ok i 2 by (auto simp: exit_moved_simps)
  next
    case 3
    then have "exit_close x t = Inr x'" using r by (auto simp: no_intent_def result_simps)
    then have "xp_status x = TRIGGERED" "plan_valid x'"
      "x' = x\<lparr>xp_status := CLOSED, xp_changed_at := t, xp_version := xp_version x + 1\<rparr>"
      unfolding exit_close_def by (auto simp: result_simps)
    then show ?thesis using ok i 3 by (auto simp: exit_moved_simps)
  qed
qed

lemma exit_operation_moved:
  assumes "exit_plan_ok x" "exit_operation x c = Inr (x', i)"
  shows "exit_moved x c x' i"
  using assms evaluate_mark_moved emergency_flatten_moved observe_closed_bar_moved update_moved
  by (cases c) auto

lemma exit_create_ok:
  assumes "exit_plan_create pid qid side q avg loss gain t n = Inr x"
  shows "exit_plan_ok x" "xp_status x = ACTIVE" "xp_bars_elapsed x = 0" "xp_maximum_bars x = n" "xp_side x = side"
    "xp_created_at x = t" "(xp_stop_price x, xp_target_price x) = exit_levels side avg loss gain" "xp_quantity x = q"
    "0 < avg" "0 < loss" "loss < 1" "0 < gain" "gain < 1" "plan_terms x = (pid, qid, side, loss, gain, n, t)"
    "xp_version x = 1" "xp_average_entry x = avg"
  using assms
  by (auto simp: exit_plan_create_def result_simps exit_plan_ok_def plan_terms_def split: prod.splits)

lemma exit_step_moved:
  assumes "exit_plan_ok x" "exit_step x c = Inr x'"
  obtains i where "exit_operation x c = Inr (x', i)" "exit_moved x c x' i"
  using assms exit_operation_moved [OF assms(1)] by (auto simp: exit_step_def result_simps)

lemma exit_run_moved:
  "foldE exit_step x cs = Inr x' \<Longrightarrow> exit_plan_ok x \<Longrightarrow> exit_plan_ok x' \<and> stop_tightens x x' \<and>
     plan_terms x' = plan_terms x \<and> exit_lifecycle\<^sup>*\<^sup>* (xp_status x) (xp_status x') \<and>
     xp_bars_elapsed x' = xp_bars_elapsed x + sum_list (map closed_bars cs) \<and>
     xp_version x' + trigger_updates x = xp_version x + sum_list (map plan_updates cs) + trigger_updates x' \<and>
     (xp_quantity x', xp_average_entry x') = foldl plan_size (xp_quantity x, xp_average_entry x) cs"
proof (induction cs arbitrary: x)
  case (Cons c cs)
  then obtain s where s: "exit_step x c = Inr s" "foldE exit_step s cs = Inr x'" by (auto simp: result_simps)
  obtain i where m: "exit_moved x c s i" by (rule exit_step_moved [OF Cons.prems(2) s(1)])
  then have ok: "exit_plan_ok s" by (simp add: exit_moved_def)
  note IH = Cons.IH [OF s(2) ok]
  have "exit_lifecycle\<^sup>*\<^sup>* (xp_status x) (xp_status x')" using exit_moved_status [OF m] IH by (meson rtranclp_trans)
  moreover have "stop_tightens x x'" using m IH by (auto simp: exit_moved_def stop_tightens_def plan_terms_def)
  ultimately show ?case using m IH by (auto simp: exit_moved_def)
qed (simp add: stop_tightens_def)

text \<open>
  C10: Over any sequence of operations an exit plan accepts (here cs and then ds), its stop never
  moves away from risk (up for a long, down for a short) and its status never moves back (active,
  triggered, closed); plan, position, side, fractions, maximum hold and creation time stay those it
  was created with; quantity and average entry are those of the last resize and the target is the
  one they give; the version counts one for every closed bar, resize, tightening and close, and one
  for the trigger; the elapsed bars are the closed bars observed and never exceed the maximum, a
  plan that has seen its maximum of bars is no longer active, and the plan passes the constructor's
  checks.
\<close>

theorem exit_plan_run:
  assumes "exit_plan_create pid qid side q avg loss gain t n = Inr x0" and "foldE exit_step x0 cs = Inr x"
    and "foldE exit_step x ds = Inr y"
  shows "stop_tightens x y \<and> exit_lifecycle\<^sup>*\<^sup>* (xp_status x) (xp_status y)
    \<and> plan_terms y = (pid, qid, side, loss, gain, n, t)
    \<and> (xp_quantity y, xp_average_entry y) = foldl plan_size (q, avg) (cs @ ds)
    \<and> xp_target_price y = snd (exit_levels side (xp_average_entry y) loss gain)
    \<and> xp_version y = 1 + sum_list (map plan_updates (cs @ ds)) + trigger_updates y
    \<and> xp_bars_elapsed y = sum_list (map closed_bars (cs @ ds)) \<and> xp_bars_elapsed y \<le> n
    \<and> (xp_bars_elapsed y = n \<longrightarrow> xp_status y \<in> {TRIGGERED, CLOSED})
    \<and> exit_plan_post_init y = Inr y"
proof -
  note c = exit_create_ok [OF assms(1)]
  note r1 = exit_run_moved [OF assms(2) c(1)]
  have okx: "exit_plan_ok x" using r1 by blast
  note r2 = exit_run_moved [OF assms(3) okx]
  have terms: "plan_terms y = (pid, qid, side, loss, gain, n, t)" using r1 r2 c(14) by simp
  have oky: "exit_plan_ok y" using r2 by blast
  then have "xp_status y \<in> {TRIGGERED, CLOSED}" if "xp_bars_elapsed y = xp_maximum_bars y"
    using that by (cases "xp_status y") (auto simp: exit_plan_ok_def)
  moreover have "trigger_updates x0 = 0" using c(2) by (simp add: trigger_updates_def)
  ultimately show ?thesis using terms oky r1 r2 c by (auto simp: exit_plan_ok_def plan_valid_def plan_terms_def)
qed

text \<open>
  C22: A trigger can be resumed from the stored plan.  Whenever an operation on a plan reached by
  any sequence of operations emits an intent, the plan was active and is now triggered, the intent
  is a reduce-only market order that closes the plan's whole quantity on the opposite side, and the
  plan it leaves yields the same intent again after a restart.
\<close>

theorem exit_intent_resumable:
  assumes "exit_plan_create pid qid side q avg loss gain t n = Inr x0" and "foldE exit_step x0 cs = Inr x"
    and "exit_operation x c = Inr (x', Some j)"
  shows "xp_status x = ACTIVE \<and> xp_status x' = TRIGGERED \<and> pending_intent x' = Inr j
    \<and> xi_reduce_only j \<and> xi_order_type j = MARKET \<and> xi_side j = closing_side side
    \<and> xi_quantity j = xp_quantity x' \<and> xi_position_id j = xp_position_id x"
proof -
  note c = exit_create_ok [OF assms(1)]
  have inv: "exit_plan_ok x \<and> xp_side x = side"
  proof (rule foldE_invariant [OF assms(2)])
    fix s c s' assume "exit_plan_ok s \<and> xp_side s = side" "exit_step s c = Inr s'"
    then show "exit_plan_ok s' \<and> xp_side s' = side"
      by (auto simp: exit_moved_def plan_terms_def elim: exit_step_moved)
  qed (use c in simp)
  have m: "exit_moved x c x' (Some j)" using exit_operation_moved [OF _ assms(3)] inv by blast
  then have p: "pending_intent x' = Inr j" "xp_side x' = side" "xp_position_id x' = xp_position_id x"
    using inv by (auto simp: exit_moved_def plan_terms_def)
  then have "xi_reduce_only j \<and> xi_order_type j = MARKET \<and> xi_side j = closing_side side
      \<and> xi_quantity j = xp_quantity x' \<and> xi_position_id j = xp_position_id x"
    by (auto simp: pending_intent_def split: if_splits option.splits)
  with m show ?thesis by (auto simp: exit_moved_def)
qed

text \<open>
  C23: The protective levels fire exactly when the mark reaches them, whatever the executable
  price is.  For an active plan, a positive mark observed at or after the plan's creation and an
  executable price that is positive or absent, the evaluation never fails: it emits an intent
  exactly when the mark is at or beyond the stop or the target, with the stop taking precedence,
  and leaves the plan unchanged otherwise.  The triggered plan stores the reason, the mark, and the
  executable price, or the mark in its place.
\<close>

theorem evaluate_mark_exact:
  assumes "xp_status x = ACTIVE" and "0 < m" and "is_utc t" and "xp_created_at x \<le> t"
    and "\<forall>p. e = Some p \<longrightarrow> 0 < p"
  shows "\<exists>x' i. evaluate_mark x m t e = Inr (x', i)
    \<and> (case i of
         None \<Rightarrow> x' = x \<and> (if xp_side x = LONG then xp_stop_price x < m \<and> m < xp_target_price x
                         else xp_target_price x < m \<and> m < xp_stop_price x)
       | Some j \<Rightarrow> xi_trigger_price j = Some m
           \<and> (if xi_reason j = STOP then (if xp_side x = LONG then m \<le> xp_stop_price x else xp_stop_price x \<le> m)
              else xi_reason j = TARGET \<and> (if xp_side x = LONG then xp_stop_price x < m \<and> xp_target_price x \<le> m
                                           else m < xp_stop_price x \<and> m \<le> xp_target_price x))
           \<and> x' = x\<lparr>xp_status := TRIGGERED, xp_changed_at := t, xp_version := xp_version x + 1,
                xp_trigger_reason := Some (xi_reason j), xp_triggered_at := Some t, xp_trigger_price := Some m,
                xp_trigger_executable_price := Some (case e of None \<Rightarrow> m | Some p \<Rightarrow> p)\<rparr>)"
proof -
  have e: "(case e of None \<Rightarrow> Inr () | Some p \<Rightarrow> require_positive_decimal p ''executable_price'') = Inr ()"
    using assms(5) by (cases e) (simp_all add: result_simps)
  show ?thesis
  proof (cases "reached_level x m")
    case None
    then show ?thesis
      using assms(1-3) e
      by (auto simp: evaluate_mark_def result_simps require_active_def reached_level_def split: if_splits)
  next
    case (Some reason)
    let ?p = "case e of None \<Rightarrow> m | Some p \<Rightarrow> p"
    have "(t < xp_created_at x) = False" "0 < ?p" using assms(2,4,5) by (auto split: option.splits)
    then have "exit_trigger x reason t (Some m) ?p =
        Inr (x\<lparr>xp_status := TRIGGERED, xp_changed_at := t, xp_version := xp_version x + 1,
            xp_trigger_reason := Some reason, xp_triggered_at := Some t, xp_trigger_price := Some m,
            xp_trigger_executable_price := Some ?p\<rparr>,
          Some \<lparr>xi_position_id = xp_position_id x, xi_side = closing_side (xp_side x), xi_order_type = MARKET,
            xi_quantity = xp_quantity x, xi_reduce_only = True, xi_reason = reason, xi_triggered_at = t,
            xi_trigger_price = Some m\<rparr>)"
      using assms(2,3) by (simp add: exit_trigger_def exit_plan_post_init_def)
    then have "evaluate_mark x m t e = exit_trigger x reason t (Some m) ?p"
      using Some assms(1-3) e by (simp add: evaluate_mark_def require_active_def)
    then show ?thesis
      using Some \<open>exit_trigger x reason t (Some m) ?p = _\<close> by (auto simp: reached_level_def split: if_splits)
  qed
qed

text \<open>
  C24: The levels a plan is created with lie on the two sides of its entry: for a long the stop is
  at or below and the target at or above the average entry, for a short the other way round.
\<close>

theorem exit_levels_bracket:
  assumes "exit_plan_create pid qid side q avg loss gain t n = Inr x" and "dround avg = avg"
  shows "if side = LONG then xp_stop_price x \<le> avg \<and> avg \<le> xp_target_price x
         else xp_target_price x \<le> avg \<and> avg \<le> xp_stop_price x"
proof -
  note c = exit_create_ok [OF assms(1)]
  have one: "dround 1 = 1" by (rule dround_1)
  have below: "dmul avg (dsub 1 y) \<le> avg" if "0 < y" for y
  proof -
    have "dsub 1 y \<le> 1" unfolding dsub_def using that by (intro ctx.rnd_le_fixed one) simp
    then have "avg * dsub 1 y \<le> avg * 1" using c(9) by (intro mult_left_mono) auto
    then show ?thesis unfolding dmul_def using assms(2) by (intro ctx.rnd_le_fixed) simp_all
  qed
  have above: "avg \<le> dmul avg (dadd 1 y)" if "0 < y" for y
  proof -
    have "1 \<le> dadd 1 y" unfolding dadd_def using that by (intro ctx.rnd_ge_fixed one) simp
    then have "avg * 1 \<le> avg * dadd 1 y" using c(9) by (intro mult_left_mono) auto
    then show ?thesis unfolding dmul_def using assms(2) by (intro ctx.rnd_ge_fixed) simp_all
  qed
  show ?thesis using c below above by (auto simp: exit_levels_def)
qed

section \<open>Examples\<close>

definition ex_exit_plan :: exit_plan where
  "ex_exit_plan = \<lparr>xp_plan_id = 1, xp_position_id = 2, xp_side = LONG, xp_quantity = 3, xp_average_entry = 100,
     xp_expected_loss_fraction = 1/50, xp_expected_gain_fraction = 1/20, xp_stop_price = 98, xp_target_price = 105,
     xp_maximum_bars = 2, xp_bars_elapsed = 0, xp_opposite_signal_streak = 0, xp_status = ACTIVE,
     xp_created_at = utc 1000000, xp_changed_at = utc 1000000, xp_version = 1, xp_trigger_reason = None,
     xp_triggered_at = None, xp_trigger_price = None, xp_trigger_executable_price = None\<rparr>"

lemma ex_exit_create: "exit_plan_create 1 2 LONG 3 100 (1/50) (1/20) (utc 1000000) 2 = Inr ex_exit_plan"
  by (simp add: exit_plan_create_def ex_exit_plan_def require_fraction_def exit_levels_def exit_plan_post_init_def
      dec_defs dec_eval)

definition ex_exit_commands :: "exit_command list" where
  "ex_exit_commands = [ObserveClosedBar SHORT True (utc 2000000) 100, TightenStop 99 (utc 2000001)]"

lemma ex_exit_commands_run: "\<exists>x. foldE exit_step ex_exit_plan ex_exit_commands = Inr x \<and>
    (\<exists>x' j. exit_operation x (ObserveClosedBar NEUTRAL True (utc 3000000) 101) = Inr (x', Some j))"
  by (simp add: ex_exit_plan_def ex_exit_commands_def exit_step_def observe_closed_bar_def require_active_def
      opposing_signal_def exit_plan_post_init_def tighten_stop_def no_intent_def exit_trigger_def utc_compare)

lemma ex_exit_close_run: "\<exists>x y. foldE exit_step ex_exit_plan ex_exit_commands = Inr x \<and>
    foldE exit_step x [ObserveClosedBar NEUTRAL True (utc 3000000) 101, CloseExit (utc 4000000)] = Inr y \<and>
    xp_status y = CLOSED"
  by (simp add: ex_exit_plan_def ex_exit_commands_def exit_step_def observe_closed_bar_def require_active_def exit_close_def
      opposing_signal_def exit_plan_post_init_def tighten_stop_def no_intent_def exit_trigger_def utc_compare)

theorem exit_plan_run_witness:
  "\<exists>x y. foldE exit_step ex_exit_plan ex_exit_commands = Inr x \<and>
     foldE exit_step x [ObserveClosedBar NEUTRAL True (utc 3000000) 101, CloseExit (utc 4000000)] = Inr y \<and>
     xp_bars_elapsed y = 2 \<and> xp_version y = 6 \<and> stop_tightens x y"
proof -
  obtain x y where x: "foldE exit_step ex_exit_plan ex_exit_commands = Inr x"
      and y: "foldE exit_step x [ObserveClosedBar NEUTRAL True (utc 3000000) 101, CloseExit (utc 4000000)] = Inr y"
      and s: "xp_status y = CLOSED"
    using ex_exit_close_run by blast
  from exit_plan_run [OF ex_exit_create x y] x y s show ?thesis by (simp add: ex_exit_commands_def trigger_updates_def)
qed

theorem exit_intent_resumable_witness:
  "\<exists>x x' j. foldE exit_step ex_exit_plan ex_exit_commands = Inr x \<and>
     exit_operation x (ObserveClosedBar NEUTRAL True (utc 3000000) 101) = Inr (x', Some j) \<and>
     pending_intent x' = Inr j \<and> xi_side j = SELL"
proof -
  obtain x x' j where x: "foldE exit_step ex_exit_plan ex_exit_commands = Inr x"
      "exit_operation x (ObserveClosedBar NEUTRAL True (utc 3000000) 101) = Inr (x', Some j)"
    using ex_exit_commands_run by blast
  from exit_intent_resumable [OF ex_exit_create x] x show ?thesis
    by (intro exI conjI) (auto simp: closing_side_def)
qed

theorem evaluate_mark_exact_witness:
  "\<exists>x' i. evaluate_mark ex_exit_plan 98 (utc 2000000) (Some 97) = Inr (x', i) \<and>
     (\<exists>j. i = Some j \<and> xi_reason j = STOP) \<and> xp_trigger_executable_price x' = Some 97"
proof -
  have "xp_status ex_exit_plan = ACTIVE" "xp_created_at ex_exit_plan \<le> utc 2000000"
    by (simp_all add: ex_exit_plan_def utc_compare)
  from evaluate_mark_exact [OF this(1) _ _ this(2), of 98 "Some 97"] show ?thesis
    by (auto simp: ex_exit_plan_def split: option.splits if_splits)
qed

theorem exit_levels_bracket_witness:
  "exit_plan_create 1 2 LONG 3 100 (1/50) (1/20) (utc 1000000) 2 = Inr ex_exit_plan \<and>
     xp_stop_price ex_exit_plan \<le> 100 \<and> 100 \<le> xp_target_price ex_exit_plan"
  using exit_levels_bracket [OF ex_exit_create] ex_exit_create by (simp add: dec_eval)

end
