(* ===== verification/Filters.thy ===== *)
theory Filters
  imports Json Market
begin

text \<open>
  \<^verbatim>\<open>maais/execution/paper/filters.py\<close>: the exchange's trading rules for a symbol, the quantisation of
  quantities and prices to them, and the preparation of an order.
\<close>

datatype rounding = ROUND_FLOOR | ROUND_CEILING

fun to_integral_value :: "rounding \<Rightarrow> decimal \<Rightarrow> int" where
  "to_integral_value ROUND_FLOOR x = \<lfloor>x\<rfloor>"
| "to_integral_value ROUND_CEILING x = \<lceil>x\<rceil>"

definition require_positive :: "decimal \<Rightarrow> string \<Rightarrow> unit result" where
  "require_positive x field =
     raise_if (x \<le> 0) (ValueError (field @ '' must be a positive finite Decimal''))"

definition multiple :: "decimal \<Rightarrow> decimal \<Rightarrow> rounding \<Rightarrow> decimal result" where
  "multiple value increment r =
     bindE (ddivE value increment) (\<lambda>q. Inr (dmul (of_int (to_integral_value r q)) increment))"

record prepared_order =
  pr_symbol :: string
  pr_side :: paper_order_side
  pr_order_type :: paper_order_type
  pr_requested_quantity :: decimal
  pr_approved_quantity :: decimal
  pr_quantity :: decimal
  pr_price :: "decimal option"
  pr_notional :: decimal

record exchange_filter_snapshot =
  fl_symbol :: string
  fl_status :: string
  fl_price_tick :: decimal
  fl_quantity_step :: decimal
  fl_minimum_quantity :: decimal
  fl_maximum_quantity :: decimal
  fl_minimum_notional :: decimal
  fl_supported_order_types :: "paper_order_type list"
  fl_captured_at :: datetime

definition exchange_filter_post_init :: "exchange_filter_snapshot \<Rightarrow> exchange_filter_snapshot result" where
  "exchange_filter_post_init f =
     thenE (checks
       [raise_if (fl_symbol f = []) (ValueError ''symbol is required''),
        require_positive (fl_price_tick f) ''price_tick'',
        require_positive (fl_quantity_step f) ''quantity_step'',
        require_positive (fl_minimum_quantity f) ''minimum_quantity'',
        require_positive (fl_maximum_quantity f) ''maximum_quantity'',
        require_positive (fl_minimum_notional f) ''minimum_notional'',
        raise_if (fl_minimum_quantity f > fl_maximum_quantity f)
          (ValueError ''minimum_quantity cannot exceed maximum_quantity''),
        raise_if (fl_supported_order_types f = [])
          (ValueError ''supported_order_types cannot be empty''),
        require_utc (fl_captured_at f) ''captured_at''])
     (Inr f)"

definition rules_items :: "exchange_filter_snapshot \<Rightarrow> (string \<times> pyval) list" where
  "rules_items f =
     [(''symbol'', PyStr (fl_symbol f)),
      (''status'', PyStr (fl_status f)),
      (''price_tick'', PyDecimal (fl_price_tick f)),
      (''quantity_step'', PyDecimal (fl_quantity_step f)),
      (''minimum_quantity'', PyDecimal (fl_minimum_quantity f)),
      (''maximum_quantity'', PyDecimal (fl_maximum_quantity f)),
      (''minimum_notional'', PyDecimal (fl_minimum_notional f)),
      (''supported_order_types'',
        PySequence (map (\<lambda>t. PyEnum (PyStr (paper_order_type_value t))) (fl_supported_order_types f)))]"

definition filter_rules_dict :: "exchange_filter_snapshot \<Rightarrow> pyval" where
  "filter_rules_dict f = pydict (rules_items f)"

definition filter_to_dict :: "exchange_filter_snapshot \<Rightarrow> pyval" where
  "filter_to_dict f = pydict (rules_items f @ [(''captured_at'', PyDatetime (fl_captured_at f))])"

definition filter_content_hash :: "exchange_filter_snapshot \<Rightarrow> string result" where
  "filter_content_hash f = content_hash (filter_to_dict f)"

definition filter_rules_hash :: "exchange_filter_snapshot \<Rightarrow> string result" where
  "filter_rules_hash f = content_hash (filter_rules_dict f)"

definition quantize_quantity :: "exchange_filter_snapshot \<Rightarrow> decimal \<Rightarrow> decimal result" where
  "quantize_quantity f value =
     thenE (require_positive value ''requested_quantity'')
       (multiple value (fl_quantity_step f) ROUND_FLOOR)"

definition quantize_price ::
  "exchange_filter_snapshot \<Rightarrow> paper_order_side \<Rightarrow> decimal \<Rightarrow> decimal result" where
  "quantize_price f side value =
     thenE (require_positive value ''price'')
       (multiple value (fl_price_tick f) (if side = BUY then ROUND_FLOOR else ROUND_CEILING))"

text \<open>
  The part of \<open>prepare\<close> that prices the order: the quantised price of a limit order (none for the
  other types) and the notional.
\<close>

definition prepare_price ::
  "exchange_filter_snapshot \<Rightarrow> paper_order_side \<Rightarrow> paper_order_type \<Rightarrow> decimal \<Rightarrow> decimal option
     \<Rightarrow> (decimal option \<times> decimal) result" where
  "prepare_price f side order_type quantity price =
     (if order_type = LIMIT then
        (case price of
           None \<Rightarrow> Inl (FilterRejection ''limit_price_required'')
         | Some p \<Rightarrow> bindE (quantize_price f side p) (\<lambda>qp. Inr (Some qp, dmul quantity qp)))
      else
        (case price of
           None \<Rightarrow> Inl (FilterRejection ''validation_price_required'')
         | Some p \<Rightarrow> thenE (require_positive p ''price'') (Inr (None, dmul quantity p))))"

definition prepare ::
  "exchange_filter_snapshot \<Rightarrow> paper_order_side \<Rightarrow> paper_order_type \<Rightarrow> decimal \<Rightarrow> decimal
     \<Rightarrow> decimal option \<Rightarrow> decimal \<Rightarrow> prepared_order result" where
  "prepare f side order_type requested_quantity approved_quantity price approved_notional =
     thenE (checks
       [raise_if (fl_status f \<noteq> ''TRADING'') (FilterRejection ''symbol_not_trading''),
        raise_if (order_type \<notin> set (fl_supported_order_types f)) (FilterRejection ''unsupported_order_type''),
        require_positive approved_quantity ''approved_quantity'',
        require_positive approved_notional ''approved_notional'',
        raise_if (requested_quantity > approved_quantity) (FilterRejection ''approved_quantity_exceeded'')])
     (bindE (quantize_quantity f requested_quantity) (\<lambda>quantity.
      thenE (checks
        [raise_if (quantity < fl_minimum_quantity f) (FilterRejection ''quantity_below_minimum''),
         raise_if (quantity > fl_maximum_quantity f) (FilterRejection ''quantity_above_maximum'')])
      (bindE (prepare_price f side order_type quantity price) (\<lambda>(quantized_price, notional).
       thenE (checks
         [raise_if (notional < fl_minimum_notional f) (FilterRejection ''notional_below_minimum''),
          raise_if (notional > approved_notional) (FilterRejection ''approved_notional_exceeded'')])
       (Inr \<lparr>pr_symbol = fl_symbol f, pr_side = side, pr_order_type = order_type,
             pr_requested_quantity = requested_quantity, pr_approved_quantity = approved_quantity,
             pr_quantity = quantity, pr_price = quantized_price, pr_notional = notional\<rparr>)))))"

section \<open>Quantisation\<close>

definition filter_ok :: "exchange_filter_snapshot \<Rightarrow> bool" where
  "filter_ok f \<longleftrightarrow> exchange_filter_post_init f = Inr f"

lemma require_positive_iff [result_simps]: "require_positive x f = Inr u \<longleftrightarrow> 0 < x"
  by (auto simp: require_positive_def result_simps)

lemma require_positive_ok [simp]: "0 < x \<Longrightarrow> require_positive x f = Inr ()"
  by (simp add: result_simps)

lemma filter_okD:
  assumes "filter_ok f"
  shows "fl_symbol f \<noteq> []" "0 < fl_price_tick f" "0 < fl_quantity_step f" "0 < fl_minimum_quantity f"
    "0 < fl_minimum_notional f" "is_utc (fl_captured_at f)"
  using assms by (auto simp: filter_ok_def exchange_filter_post_init_def result_simps)

text \<open>
  Where the increment is a power of ten, as exchanges publish it, and the value has at most 28
  digits, neither the division nor the multiplication of \<open>_multiple\<close> rounds.
\<close>

lemma representable_scale:
  assumes "representable x"
  shows "representable (x * 10 powi k)"
proof -
  obtain m e where "x = of_int m * 10 powi e" "\<bar>m\<bar> \<le> 10 ^ 28"
    using assms by (auto simp: sig_digits_def)
  then have "x * 10 powi k = of_int m * 10 powi (e + k)"
    by (simp add: power_int_add)
  with \<open>\<bar>m\<bar> \<le> 10 ^ 28\<close> show ?thesis unfolding sig_digits_def by blast
qed

lemma representable_floor:
  assumes "representable x"
  shows "representable (of_int \<lfloor>x\<rfloor>)"
proof -
  obtain m e where x: "x = of_int m * 10 powi e" "\<bar>m\<bar> \<le> 10 ^ 28"
    using assms by (auto simp: sig_digits_def)
  show ?thesis
  proof (cases "0 \<le> e")
    case True
    then have "x = of_int (m * 10 ^ nat e)" by (simp add: x(1) power_int_def)
    then have eq: "of_int \<lfloor>x\<rfloor> = x" by simp
    show ?thesis using assms unfolding eq .
  next
    case False
    then have "(10 :: rat) powi e \<le> 10 powi 0" by (subst powi10_le_iff) simp
    then have "\<bar>x\<bar> \<le> of_int \<bar>m\<bar> * 1"
      unfolding x(1) abs_mult by (intro mult_mono) auto
    also have "\<dots> \<le> of_int (10 ^ 28)"
      unfolding mult_1_right using x(2) by (simp only: of_int_le_iff)
    finally have "\<bar>\<lfloor>x\<rfloor>\<bar> \<le> 10 ^ 28" by linarith
    then show ?thesis unfolding sig_digits_def by (intro exI [of _ "\<lfloor>x\<rfloor>"] exI [of _ 0]) simp
  qed
qed

lemma multiple_floor_pow10:
  assumes "representable v" "multiple v (10 powi k) ROUND_FLOOR = Inr q"
  shows "q = of_int \<lfloor>v / 10 powi k\<rfloor> * 10 powi k"
proof -
  have "v / 10 powi k = v * 10 powi (- k)"
    by (simp add: power_int_minus divide_inverse)
  then have r: "representable (v / 10 powi k)"
    using representable_scale [OF assms(1), of "- k"] by simp
  then have d: "ddivE v (10 powi k) = Inr (v / 10 powi k)"
    by (simp add: ddivE_def ddiv_def dround_exact)
  have "representable (of_int \<lfloor>v / 10 powi k\<rfloor> * 10 powi k)"
    using representable_scale [OF representable_floor [OF r]] .
  with assms(2) show ?thesis
    by (simp add: multiple_def d dmul_def dround_exact)
qed

lemma multiple_floor_pow10_bounds:
  assumes "representable v" "multiple v (10 powi k) ROUND_FLOOR = Inr q"
  shows "q \<le> v" and "v < q + 10 powi k"
proof -
  have pos: "(0 :: rat) < 10 powi k" by simp
  have "of_int \<lfloor>v / 10 powi k\<rfloor> \<le> v / 10 powi k" "v / 10 powi k < of_int \<lfloor>v / 10 powi k\<rfloor> + 1"
    by linarith+
  then have "of_int \<lfloor>v / 10 powi k\<rfloor> * 10 powi k \<le> v" "v < (of_int \<lfloor>v / 10 powi k\<rfloor> + 1) * 10 powi k"
    using pos by (simp_all only: pos_le_divide_eq pos_divide_less_eq)
  then show "q \<le> v" "v < q + 10 powi k"
    using multiple_floor_pow10 [OF assms] by (simp_all add: distrib_right)
qed

lemma prepare_result:
  assumes "prepare f side ot rq aq price an = Inr p"
  shows "fl_status f = ''TRADING''" "ot \<in> set (fl_supported_order_types f)" "rq \<le> aq" "0 < rq" "0 < an"
    "pr_symbol p = fl_symbol f" "pr_side p = side" "pr_order_type p = ot"
    "pr_requested_quantity p = rq" "pr_approved_quantity p = aq"
    "quantize_quantity f rq = Inr (pr_quantity p)"
    "fl_minimum_quantity f \<le> pr_quantity p" "pr_quantity p \<le> fl_maximum_quantity f"
    "prepare_price f side ot (pr_quantity p) price = Inr (pr_price p, pr_notional p)"
    "fl_minimum_notional f \<le> pr_notional p" "pr_notional p \<le> an"
  using assms
  by (auto simp: prepare_def result_simps quantize_quantity_def split: prod.splits)

lemma prepare_quantity_pos: "filter_ok f \<Longrightarrow> prepare f side ot rq aq price an = Inr p \<Longrightarrow> 0 < pr_quantity p"
  using filter_okD(4) prepare_result(12) by (meson less_le_trans)

lemma representable_minus: "representable x \<Longrightarrow> representable (- x)"
proof -
  assume "representable x"
  then obtain m e where "x = of_int m * 10 powi e" "\<bar>m\<bar> \<le> 10 ^ 28" by (auto simp: sig_digits_def)
  then show ?thesis unfolding sig_digits_def by (intro exI [of _ "- m"] exI [of _ e]) simp
qed

lemma representable_ceiling: "representable x \<Longrightarrow> representable (of_int \<lceil>x\<rceil>)"
  using representable_minus [OF representable_floor [OF representable_minus [of x]]]
  by (simp add: ceiling_def)

lemma multiple_ceiling_pow10:
  assumes "representable v" "multiple v (10 powi k) ROUND_CEILING = Inr q"
  shows "q = of_int \<lceil>v / 10 powi k\<rceil> * 10 powi k"
proof -
  have "v / 10 powi k = v * 10 powi (- k)"
    by (simp add: power_int_minus divide_inverse)
  then have r: "representable (v / 10 powi k)"
    using representable_scale [OF assms(1), of "- k"] by simp
  then have d: "ddivE v (10 powi k) = Inr (v / 10 powi k)"
    by (simp add: ddivE_def ddiv_def dround_exact)
  have "representable (of_int \<lceil>v / 10 powi k\<rceil> * 10 powi k)"
    using representable_scale [OF representable_ceiling [OF r]] .
  with assms(2) show ?thesis
    by (simp add: multiple_def d dmul_def dround_exact)
qed

lemma multiple_ceiling_pow10_bounds:
  assumes "representable v" "multiple v (10 powi k) ROUND_CEILING = Inr q"
  shows "v \<le> q" and "q < v + 10 powi k"
proof -
  have pos: "(0 :: rat) < 10 powi k" by simp
  have "v / 10 powi k \<le> of_int \<lceil>v / 10 powi k\<rceil>" "of_int \<lceil>v / 10 powi k\<rceil> - 1 < v / 10 powi k"
    by linarith+
  then have "v \<le> of_int \<lceil>v / 10 powi k\<rceil> * 10 powi k" "(of_int \<lceil>v / 10 powi k\<rceil> - 1) * 10 powi k < v"
    using pos by (simp_all only: pos_less_divide_eq pos_divide_le_eq)
  then show "v \<le> q" "q < v + 10 powi k"
    using multiple_ceiling_pow10 [OF assms] by (simp_all add: left_diff_distrib)
qed

lemma prepare_price_sound:
  assumes "prepare_price f side ot q price = Inr (qp, notional)" and "fl_price_tick f = 10 powi l"
    and "\<forall>x. price = Some x \<longrightarrow> representable x"
  shows "case qp of
      None \<Rightarrow> ot \<noteq> LIMIT \<and> (\<exists>x. price = Some x \<and> notional = dmul q x)
    | Some y \<Rightarrow> ot = LIMIT \<and> notional = dmul q y \<and> (\<exists>n. y = of_int n * fl_price_tick f) \<and>
        (\<exists>x. price = Some x \<and> (if side = BUY then y \<le> x \<and> x < y + fl_price_tick f
                             else x \<le> y \<and> y < x + fl_price_tick f))"
proof -
  obtain x where x: "price = Some x" using assms(1) by (cases price) (auto simp: prepare_price_def split: if_splits)
  show ?thesis
  proof (cases "ot = LIMIT")
    case True
    then obtain y where y: "qp = Some y" "notional = dmul q y"
        "multiple x (10 powi l) (if side = BUY then ROUND_FLOOR else ROUND_CEILING) = Inr y"
      using assms(1,2) x by (auto simp: prepare_price_def quantize_price_def result_simps)
    then show ?thesis
      using True x assms(2,3) multiple_floor_pow10_bounds [of x l y] multiple_ceiling_pow10_bounds [of x l y]
        multiple_floor_pow10 [of x l y] multiple_ceiling_pow10 [of x l y]
      by (auto split: if_splits)
  next
    case False
    then show ?thesis using assms(1) x by (auto simp: prepare_price_def result_simps)
  qed
qed

text \<open>
  C25: What a venue order is allowed to be.  With power-of-ten increments (as the venues publish
  them) and values of at most 28 digits, an order is prepared only for a symbol in trading and a
  type the symbol supports; it never exceeds the requested or the approved quantity, loses less
  than one quantity step, is a whole number of steps within the symbol's limits, and keeps its
  notional between the minimum and the approved notional; a limit price is a whole number of
  ticks, moves by less than a tick and never to the side that is worse for the order.
\<close>

theorem prepare_sound:
  assumes "prepare f side ot rq aq price an = Inr p" and "fl_quantity_step f = 10 powi k"
    and "fl_price_tick f = 10 powi l" and "representable rq" and "\<forall>x. price = Some x \<longrightarrow> representable x"
  shows "fl_status f = ''TRADING'' \<and> ot \<in> set (fl_supported_order_types f)
    \<and> pr_symbol p = fl_symbol f \<and> pr_side p = side \<and> pr_order_type p = ot
    \<and> pr_quantity p \<le> rq \<and> rq \<le> aq \<and> rq < pr_quantity p + fl_quantity_step f
    \<and> (\<exists>n. pr_quantity p = of_int n * fl_quantity_step f)
    \<and> fl_minimum_quantity f \<le> pr_quantity p \<and> pr_quantity p \<le> fl_maximum_quantity f
    \<and> fl_minimum_notional f \<le> pr_notional p \<and> pr_notional p \<le> an
    \<and> (case pr_price p of
         None \<Rightarrow> ot \<noteq> LIMIT \<and> (\<exists>x. price = Some x \<and> pr_notional p = dmul (pr_quantity p) x)
       | Some y \<Rightarrow> ot = LIMIT \<and> pr_notional p = dmul (pr_quantity p) y \<and> (\<exists>n. y = of_int n * fl_price_tick f) \<and>
           (\<exists>x. price = Some x \<and> (if side = BUY then y \<le> x \<and> x < y + fl_price_tick f
                                else x \<le> y \<and> y < x + fl_price_tick f)))"
proof -
  note r = prepare_result [OF assms(1)]
  have m: "multiple rq (10 powi k) ROUND_FLOOR = Inr (pr_quantity p)"
    using r(11) assms(2) by (simp add: quantize_quantity_def result_simps)
  note q = multiple_floor_pow10_bounds [OF assms(4) m] multiple_floor_pow10 [OF assms(4) m]
  have pr: "case pr_price p of
         None \<Rightarrow> ot \<noteq> LIMIT \<and> (\<exists>x. price = Some x \<and> pr_notional p = dmul (pr_quantity p) x)
       | Some y \<Rightarrow> ot = LIMIT \<and> pr_notional p = dmul (pr_quantity p) y \<and> (\<exists>n. y = of_int n * fl_price_tick f) \<and>
           (\<exists>x. price = Some x \<and> (if side = BUY then y \<le> x \<and> x < y + fl_price_tick f
                                else x \<le> y \<and> y < x + fl_price_tick f))"
    by (rule prepare_price_sound [OF r(14) assms(3,5)])
  have "\<exists>n. pr_quantity p = of_int n * fl_quantity_step f" using q(3) assms(2) by auto
  with pr q(1,2) r(1-3,6-8,12,13,15,16) assms(2) show ?thesis by auto
qed

definition ex_filter :: exchange_filter_snapshot where
  "ex_filter = \<lparr>fl_symbol = ''BTCUSDT'', fl_status = ''TRADING'', fl_price_tick = 1/10, fl_quantity_step = 1/1000,
     fl_minimum_quantity = 1/1000, fl_maximum_quantity = 1000, fl_minimum_notional = 5,
     fl_supported_order_types = [MARKET, LIMIT], fl_captured_at = utc 500000\<rparr>"

lemma ex_filter_ok: "filter_ok ex_filter"
  by (simp add: filter_ok_def ex_filter_def exchange_filter_post_init_def)

lemma ex_prepare:
  "prepare ex_filter BUY LIMIT (12345/10000) 2 (Some (10012/100)) 200 =
     Inr \<lparr>pr_symbol = ''BTCUSDT'', pr_side = BUY, pr_order_type = LIMIT, pr_requested_quantity = 12345/10000,
          pr_approved_quantity = 2, pr_quantity = 617/500, pr_price = Some (1001/10), pr_notional = 617617/5000\<rparr>"
proof -
  have "\<lfloor>2469 / 2 :: rat\<rfloor> = 1234" "\<lfloor>5006 / 5 :: rat\<rfloor> = 1001" by (simp_all add: floor_eq_iff)
  then show ?thesis
    by (simp add: ex_filter_def prepare_def quantize_quantity_def multiple_def prepare_price_def quantize_price_def
      ddivE_def dec_defs dec_eval)
qed

theorem prepare_sound_witness:
  "\<exists>p. prepare ex_filter BUY LIMIT (12345/10000) 2 (Some (10012/100)) 200 = Inr p \<and> pr_quantity p \<le> 12345/10000"
proof -
  have k: "fl_quantity_step ex_filter = 10 powi (-3)" "fl_price_tick ex_filter = 10 powi (-1)"
    by (simp_all add: ex_filter_def power_int_minus)
  have "representable (12345/10000)"
    unfolding sig_digits_def by (rule exI [of _ 12345], rule exI [of _ "-4"]) (simp add: power_int_minus)
  moreover have "representable (10012/100)"
    unfolding sig_digits_def by (rule exI [of _ 10012], rule exI [of _ "-2"]) (simp add: power_int_minus)
  ultimately show ?thesis using prepare_sound [OF ex_prepare k] ex_prepare by simp
qed

end
