(* ===== verification/Orders.thy ===== *)
theory Orders
  imports Json Market
begin

text \<open>
  \<^verbatim>\<open>maais/execution/paper/orders.py\<close>: the queue model of a resting limit order, and the life cycle
  of a paper order as an append-only sequence of numbered events.
\<close>

definition TERMINAL_ORDER_STATUSES :: "paper_order_status set" where
  "TERMINAL_ORDER_STATUSES = {FILLED, CANCELED, REJECTED, EXPIRED}"

lemma terminal_iff [simp]:
  "s \<in> TERMINAL_ORDER_STATUSES \<longleftrightarrow> s = FILLED \<or> s = CANCELED \<or> s = REJECTED \<or> s = EXPIRED"
  by (simp add: TERMINAL_ORDER_STATUSES_def)

section \<open>The limit queue\<close>

record limit_fill =
  lf_market_event_id :: string
  lf_fill_at :: datetime
  lf_quantity :: decimal
  lf_price :: decimal
  lf_fee :: decimal

record limit_queue_state =
  lq_order_id :: uuid
  lq_symbol :: string
  lq_side :: paper_order_side
  lq_limit_price :: decimal
  lq_requested_quantity :: decimal
  lq_filled_quantity :: decimal
  lq_queue_ahead :: decimal
  lq_eligible_after :: datetime
  lq_expires_at :: datetime
  lq_maker_fee_rate :: decimal
  lq_status :: paper_order_status
  lq_last_sequence :: int

definition lq_remaining_quantity :: "limit_queue_state \<Rightarrow> decimal" where
  "lq_remaining_quantity s = dsub (lq_requested_quantity s) (lq_filled_quantity s)"

definition resting_quantity :: "decimal \<Rightarrow> book_level list \<Rightarrow> decimal" where
  "resting_quantity limit_price levels =
     (case find (\<lambda>l. lv_price l = limit_price) levels of None \<Rightarrow> 0 | Some l \<Rightarrow> lv_quantity l)"

definition limit_queue_from_book ::
  "uuid \<Rightarrow> paper_order_side \<Rightarrow> decimal \<Rightarrow> decimal \<Rightarrow> datetime \<Rightarrow> datetime \<Rightarrow> decimal \<Rightarrow> book_snapshot
     \<Rightarrow> limit_queue_state result" where
  "limit_queue_from_book order_id side limit_price quantity eligible_after expires_at maker_fee_rate book =
     thenE (checks
       [require_positive_decimal limit_price ''limit_price'',
        require_positive_decimal quantity ''quantity'',
        require_utc eligible_after ''eligible_after'',
        require_utc expires_at ''expires_at'',
        raise_if (expires_at \<le> eligible_after) (ValueError ''expires_at must follow eligible_after''),
        raise_if (maker_fee_rate < 0 \<or> maker_fee_rate > 1)
          (ValueError ''maker_fee_rate must be a finite Decimal in [0, 1]'')])
     (Inr \<lparr>lq_order_id = order_id, lq_symbol = bk_symbol book, lq_side = side,
           lq_limit_price = limit_price, lq_requested_quantity = quantity, lq_filled_quantity = 0,
           lq_queue_ahead = resting_quantity limit_price (if side = BUY then bk_bids book else bk_asks book),
           lq_eligible_after = eligible_after, lq_expires_at = expires_at,
           lq_maker_fee_rate = maker_fee_rate, lq_status = ACCEPTED, lq_last_sequence = bk_sequence book\<rparr>)"

definition limit_qualifies :: "limit_queue_state \<Rightarrow> trade_print \<Rightarrow> bool" where
  "limit_qualifies s t \<longleftrightarrow>
     (lq_side s = BUY \<and> tr_aggressor_side t = ''sell'' \<and> tr_price t < lq_limit_price s) \<or>
     (lq_side s = SELL \<and> tr_aggressor_side t = ''buy'' \<and> tr_price t > lq_limit_price s)"

text \<open>The queue ahead and the rest of the trade after the trade has consumed the queue.\<close>

definition consume_queue :: "decimal \<Rightarrow> decimal \<Rightarrow> decimal \<times> decimal" where
  "consume_queue queue_ahead trade_quantity =
     (if queue_ahead > 0
      then let consumed = min queue_ahead trade_quantity
           in (dsub queue_ahead consumed, dsub trade_quantity consumed)
      else (queue_ahead, trade_quantity))"

definition advance_limit_queue ::
  "limit_queue_state \<Rightarrow> trade_print \<Rightarrow> limit_queue_state \<times> limit_fill list" where
  "advance_limit_queue s t =
     (if lq_status s \<in> TERMINAL_ORDER_STATUSES then (s, [])
      else if tr_symbol t \<noteq> lq_symbol s then (s, [])
      else if tr_observed_at t \<ge> lq_expires_at s
        then (s\<lparr>lq_status := EXPIRED, lq_last_sequence := tr_sequence t\<rparr>, [])
      else if tr_observed_at t \<le> lq_eligible_after s \<or> tr_sequence t \<le> lq_last_sequence s then (s, [])
      else if \<not> limit_qualifies s t then (s\<lparr>lq_last_sequence := tr_sequence t\<rparr>, [])
      else
        let (queue_ahead, trade_remaining) = consume_queue (lq_queue_ahead s) (tr_quantity t);
            fill_quantity = min (lq_remaining_quantity s) (dmul trade_remaining (1 / 10))
        in if fill_quantity \<le> 0
           then (s\<lparr>lq_queue_ahead := queue_ahead, lq_last_sequence := tr_sequence t\<rparr>, [])
           else
             let cumulative = dadd (lq_filled_quantity s) fill_quantity;
                 status = (if cumulative = lq_requested_quantity s then FILLED else PARTIALLY_FILLED)
             in (s\<lparr>lq_filled_quantity := cumulative, lq_queue_ahead := queue_ahead, lq_status := status,
                   lq_last_sequence := tr_sequence t\<rparr>,
                 [\<lparr>lf_market_event_id = tr_event_id t, lf_fill_at = tr_observed_at t,
                   lf_quantity = fill_quantity, lf_price = tr_price t,
                   lf_fee = dmul (dmul fill_quantity (tr_price t)) (lq_maker_fee_rate s)\<rparr>]))"

section \<open>The paper order\<close>

record order_transition =
  ot_sequence :: int
  ot_event_type :: string
  ot_event_at :: datetime
  ot_payload :: json

record paper_order =
  po_order_id :: uuid
  po_experiment_id :: uuid
  po_proposal_id :: uuid
  po_client_order_id :: string
  po_command_hash :: string
  po_symbol :: string
  po_side :: paper_order_side
  po_order_type :: paper_order_type
  po_position_effect :: position_effect
  po_quantity :: decimal
  po_filled_quantity :: decimal
  po_limit_price :: "decimal option"
  po_reduce_only :: bool
  po_status :: paper_order_status
  po_created_at :: datetime
  po_expires_at :: datetime
  po_version :: int
  po_events :: "order_transition list"

definition po_remaining_quantity :: "paper_order \<Rightarrow> decimal" where
  "po_remaining_quantity o' = dsub (po_quantity o') (po_filled_quantity o')"

text \<open>The keyword arguments of \<open>PaperOrder.create\<close>.\<close>

record order_args =
  oa_order_id :: uuid
  oa_experiment_id :: uuid
  oa_proposal_id :: uuid
  oa_client_order_id :: string
  oa_command_hash :: string
  oa_symbol :: string
  oa_side :: paper_order_side
  oa_order_type :: paper_order_type
  oa_position_effect :: position_effect
  oa_quantity :: decimal
  oa_limit_price :: "decimal option"
  oa_reduce_only :: bool
  oa_open_quantity :: decimal
  oa_created_at :: datetime
  oa_expires_at :: datetime

definition order_payload :: "order_args \<Rightarrow> pyval" where
  "order_payload a = pydict
     [(''client_order_id'', PyStr (oa_client_order_id a)),
      (''command_hash'', PyStr (oa_command_hash a)),
      (''symbol'', PyStr (oa_symbol a)),
      (''side'', PyEnum (PyStr (paper_order_side_value (oa_side a)))),
      (''order_type'', PyEnum (PyStr (paper_order_type_value (oa_order_type a)))),
      (''position_effect'', PyEnum (PyStr (position_effect_value (oa_position_effect a)))),
      (''quantity'', PyDecimal (oa_quantity a)),
      (''limit_price'', py_option PyDecimal (oa_limit_price a)),
      (''reduce_only'', PyBool (oa_reduce_only a))]"

definition order_create_checks :: "order_args \<Rightarrow> unit result" where
  "order_create_checks a = checks
     [raise_if (oa_client_order_id a = [] \<or> oa_symbol a = [])
        (ValueError ''client_order_id and symbol are required''),
      raise_if (length (oa_command_hash a) \<noteq> 64) (ValueError ''command_hash must be a SHA-256 hex digest''),
      require_positive_decimal (oa_quantity a) ''quantity'',
      require_utc (oa_created_at a) ''created_at'',
      require_utc (oa_expires_at a) ''expires_at'',
      raise_if (oa_expires_at a \<le> oa_created_at a) (ValueError ''expires_at must follow created_at''),
      (if oa_order_type a = LIMIT
       then (case oa_limit_price a of
               None \<Rightarrow> Inl (ValueError ''limit orders require limit_price'')
             | Some p \<Rightarrow> require_positive_decimal p ''limit_price'')
       else raise_if (oa_limit_price a \<noteq> None) (ValueError ''non-limit orders cannot have limit_price'')),
      (if oa_position_effect a = REDUCE
       then checks [raise_if (\<not> oa_reduce_only a) (ValueError ''reduce position effect requires reduce_only''),
                    raise_if (oa_quantity a > oa_open_quantity a)
                      (ValueError ''reduce-only quantity exceeds open quantity'')]
       else raise_if (oa_reduce_only a) (ValueError ''open position effect cannot be reduce_only''))]"

definition order_create :: "order_args \<Rightarrow> paper_order result" where
  "order_create a =
     thenE (order_create_checks a)
     (bindE (freeze_json (order_payload a)) (\<lambda>payload.
        Inr \<lparr>po_order_id = oa_order_id a, po_experiment_id = oa_experiment_id a,
             po_proposal_id = oa_proposal_id a, po_client_order_id = oa_client_order_id a,
             po_command_hash = oa_command_hash a, po_symbol = oa_symbol a, po_side = oa_side a,
             po_order_type = oa_order_type a, po_position_effect = oa_position_effect a,
             po_quantity = oa_quantity a, po_filled_quantity = 0, po_limit_price = oa_limit_price a,
             po_reduce_only = oa_reduce_only a, po_status = CREATED, po_created_at = oa_created_at a,
             po_expires_at = oa_expires_at a, po_version = 1,
             po_events = [\<lparr>ot_sequence = 1, ot_event_type = ''order.created'',
                           ot_event_at = oa_created_at a, ot_payload = payload\<rparr>]\<rparr>))"

definition as_mapping :: "json \<Rightarrow> json result" where
  "as_mapping frozen =
     (case frozen of JObject _ \<Rightarrow> Inr frozen | _ \<Rightarrow> freeze_json (pydict [(''value'', json_pyval frozen)]))"

definition order_transition_to ::
  "paper_order \<Rightarrow> paper_order_status \<Rightarrow> string \<Rightarrow> datetime \<Rightarrow> pyval \<Rightarrow> paper_order result" where
  "order_transition_to o' status event_type event_at payload =
     thenE (checks
       [require_utc event_at ''event_at'',
        raise_if (po_status o' \<in> TERMINAL_ORDER_STATUSES)
          (IllegalOrderTransition (''order is terminal in '' @ paper_order_status_value (po_status o')))])
     (bindE (freeze_json payload) (\<lambda>frozen.
      bindE (as_mapping frozen) (\<lambda>mapping.
        Inr (o'\<lparr>po_status := status, po_version := po_version o' + 1,
                po_events := po_events o' @
                  [\<lparr>ot_sequence = po_version o' + 1, ot_event_type = event_type,
                    ot_event_at = event_at, ot_payload = mapping\<rparr>]\<rparr>))))"

definition order_authorize :: "paper_order \<Rightarrow> datetime \<Rightarrow> paper_order result" where
  "order_authorize o' event_at =
     (if po_status o' \<noteq> CREATED then Inl (IllegalOrderTransition ''only created orders can be authorized'')
      else order_transition_to o' AUTHORIZED ''order.authorized'' event_at (PySequence []))"

definition order_accept :: "paper_order \<Rightarrow> datetime \<Rightarrow> paper_order result" where
  "order_accept o' event_at =
     (if po_status o' \<noteq> AUTHORIZED then Inl (IllegalOrderTransition ''only authorized orders can be accepted'')
      else order_transition_to o' ACCEPTED ''order.accepted'' event_at (PySequence []))"

definition order_apply_fill :: "paper_order \<Rightarrow> decimal \<Rightarrow> datetime \<Rightarrow> paper_order result" where
  "order_apply_fill o' quantity event_at =
     (if po_status o' \<noteq> ACCEPTED \<and> po_status o' \<noteq> PARTIALLY_FILLED
      then Inl (IllegalOrderTransition ''order cannot fill from current status'')
      else thenE (checks
        [require_positive_decimal quantity ''fill quantity'',
         raise_if (quantity > po_remaining_quantity o') (ValueError ''fill quantity exceeds remaining quantity'')])
      (let next_filled = dadd (po_filled_quantity o') quantity;
           next_status = (if next_filled = po_quantity o' then FILLED else PARTIALLY_FILLED)
       in bindE (order_transition_to o' next_status
                  (if next_status = FILLED then ''order.filled'' else ''order.partially_filled'') event_at
                  (pydict [(''quantity'', PyDecimal quantity), (''cumulative_quantity'', PyDecimal next_filled)]))
          (\<lambda>transitioned. Inr (transitioned\<lparr>po_filled_quantity := next_filled\<rparr>))))"

definition order_cancel :: "paper_order \<Rightarrow> datetime \<Rightarrow> paper_order result" where
  "order_cancel o' event_at = order_transition_to o' CANCELED ''order.canceled'' event_at (PySequence [])"

definition order_expire :: "paper_order \<Rightarrow> datetime \<Rightarrow> paper_order result" where
  "order_expire o' event_at = order_transition_to o' EXPIRED ''order.expired'' event_at (PySequence [])"

definition order_reject :: "paper_order \<Rightarrow> datetime \<Rightarrow> string \<Rightarrow> paper_order result" where
  "order_reject o' event_at reason =
     (if reason = [] then Inl (ValueError ''rejection reason is required'')
      else order_transition_to o' REJECTED ''order.rejected'' event_at (pydict [(''reason'', PyStr reason)]))"

text \<open>The commands an order accepts, as data.\<close>

datatype order_command =
    Authorize datetime
  | Accept datetime
  | ApplyFill decimal datetime
  | Cancel datetime
  | Expire datetime
  | Reject datetime string

fun order_step :: "paper_order \<Rightarrow> order_command \<Rightarrow> paper_order result" where
  "order_step o' (Authorize t) = order_authorize o' t"
| "order_step o' (Accept t) = order_accept o' t"
| "order_step o' (ApplyFill q t) = order_apply_fill o' q t"
| "order_step o' (Cancel t) = order_cancel o' t"
| "order_step o' (Expire t) = order_expire o' t"
| "order_step o' (Reject t r) = order_reject o' t r"

section \<open>The order's life cycle\<close>

lemma as_mapping_ok: "\<exists>m. as_mapping j = Inr m"
  by (cases j) (auto simp: as_mapping_def pydict_def freeze_json_pyval)

lemma order_transition_to_iff [result_simps]:
  "order_transition_to o' status ty tm payload = Inr o'' \<longleftrightarrow>
     is_utc tm \<and> po_status o' \<notin> TERMINAL_ORDER_STATUSES \<and>
     (\<exists>j m. freeze_json payload = Inr j \<and> as_mapping j = Inr m \<and>
        o'' = o'\<lparr>po_status := status, po_version := po_version o' + 1,
                po_events := po_events o' @ [\<lparr>ot_sequence = po_version o' + 1, ot_event_type = ty,
                    ot_event_at = tm, ot_payload = m\<rparr>]\<rparr>)"
  by (auto simp: order_transition_to_def result_simps)

lemmas order_op_defs =
  order_authorize_def order_accept_def order_apply_fill_def order_cancel_def order_expire_def order_reject_def

text \<open>What every accepted command does to the order, whatever the command is.\<close>

definition event_status :: "string \<Rightarrow> paper_order_status" where
  "event_status ty =
     the (map_of [(''order.created'', CREATED), (''order.authorized'', AUTHORIZED),
       (''order.accepted'', ACCEPTED), (''order.partially_filled'', PARTIALLY_FILLED),
       (''order.filled'', FILLED), (''order.canceled'', CANCELED), (''order.expired'', EXPIRED),
       (''order.rejected'', REJECTED)] ty)"

lemma event_status_simps [simp]:
  "event_status ''order.created'' = CREATED" "event_status ''order.authorized'' = AUTHORIZED"
  "event_status ''order.accepted'' = ACCEPTED" "event_status ''order.partially_filled'' = PARTIALLY_FILLED"
  "event_status ''order.filled'' = FILLED" "event_status ''order.canceled'' = CANCELED"
  "event_status ''order.expired'' = EXPIRED" "event_status ''order.rejected'' = REJECTED"
  by (simp_all add: event_status_def)

text \<open>What one accepted command leaves behind.\<close>

definition order_moved :: "paper_order \<Rightarrow> decimal \<Rightarrow> paper_order \<Rightarrow> bool" where
  "order_moved o' f o'' \<longleftrightarrow> po_status o' \<notin> TERMINAL_ORDER_STATUSES \<and>
     (\<exists>e. o'' = o'\<lparr>po_status := event_status (ot_event_type e), po_version := po_version o' + 1,
            po_events := po_events o' @ [e], po_filled_quantity := f\<rparr> \<and>
          ot_sequence e = po_version o' + 1 \<and> is_utc (ot_event_at e))"

lemma order_transition_to_moved:
  assumes "order_transition_to o' (event_status ty) ty tm payload = Inr o''"
  shows "order_moved o' f (o''\<lparr>po_filled_quantity := f\<rparr>)"
proof -
  obtain m where "o'' = o'\<lparr>po_status := event_status ty, po_version := po_version o' + 1,
      po_events := po_events o' @ [\<lparr>ot_sequence = po_version o' + 1, ot_event_type = ty,
        ot_event_at = tm, ot_payload = m\<rparr>]\<rparr>"
    using assms by (auto simp: result_simps)
  moreover have "is_utc tm" "po_status o' \<notin> TERMINAL_ORDER_STATUSES"
    using assms by (simp_all add: result_simps)
  ultimately show ?thesis
    unfolding order_moved_def
    by (intro conjI exI [of _ "\<lparr>ot_sequence = po_version o' + 1, ot_event_type = ty,
        ot_event_at = tm, ot_payload = m\<rparr>"]) simp_all
qed

lemma order_transition_to_filled:
  "order_transition_to o' s ty tm payload = Inr o'' \<Longrightarrow> o''\<lparr>po_filled_quantity := po_filled_quantity o'\<rparr> = o''"
  by (auto simp: result_simps)

lemma order_step_moved:
  assumes "order_step o' c = Inr o''"
  shows "order_moved o' (case c of ApplyFill q t \<Rightarrow> dadd (po_filled_quantity o') q | _ \<Rightarrow> po_filled_quantity o') o''"
proof -
  have simple: "order_moved o' (po_filled_quantity o') o''"
    if "order_transition_to o' s ty tm payload = Inr o''" "s = event_status ty" for s ty tm payload
    using order_transition_to_moved [of o' ty tm payload o'' "po_filled_quantity o'"] that
      order_transition_to_filled [of o' s ty tm payload o''] by simp
  show ?thesis
  proof (cases c)
    case (ApplyFill q t)
    let ?n = "dadd (po_filled_quantity o') q"
    let ?s = "if ?n = po_quantity o' then FILLED else PARTIALLY_FILLED"
    let ?ty = "if ?s = FILLED then ''order.filled'' else ''order.partially_filled''"
    obtain p o1 where o1: "order_transition_to o' ?s ?ty t p = Inr o1" "o'' = o1\<lparr>po_filled_quantity := ?n\<rparr>"
      using assms ApplyFill by (simp add: order_apply_fill_def Let_def result_simps split: if_splits) blast+
    have "?s = event_status ?ty" by simp
    then show ?thesis
      using o1 order_transition_to_moved [of o' ?ty t p o1 ?n] ApplyFill by simp
  qed (use assms in \<open>auto simp: order_op_defs thenE_Inr_iff split: if_splits intro!: simple\<close>)
qed

lemma order_step_result:
  assumes "order_step o' c = Inr o''"
  obtains e f where "o'' = o'\<lparr>po_status := event_status (ot_event_type e), po_version := po_version o' + 1,
      po_events := po_events o' @ [e], po_filled_quantity := f\<rparr>"
    "ot_sequence e = po_version o' + 1" "is_utc (ot_event_at e)" "po_status o' \<notin> TERMINAL_ORDER_STATUSES"
  using order_step_moved [OF assms] that unfolding order_moved_def by blast

lemma order_step_version: "order_step o' c = Inr o'' \<Longrightarrow> po_version o'' = po_version o' + 1"
  by (erule order_step_result) simp

lemma order_step_events:
  "order_step o' c = Inr o'' \<Longrightarrow> \<exists>e. po_events o'' = po_events o' @ [e] \<and> ot_sequence e = po_version o' + 1"
  by (erule order_step_result) simp

interpretation order_log: event_log order_step po_version po_events ot_sequence
  by unfold_locales (fact order_step_version order_step_events)+

text \<open>The life cycle the order promises, on statuses alone.\<close>

inductive lifecycle :: "paper_order_status \<Rightarrow> paper_order_status \<Rightarrow> bool" where
  authorize: "lifecycle CREATED AUTHORIZED"
| accept: "lifecycle AUTHORIZED ACCEPTED"
| partial: "s \<in> {ACCEPTED, PARTIALLY_FILLED} \<Longrightarrow> lifecycle s PARTIALLY_FILLED"
| fill: "s \<in> {ACCEPTED, PARTIALLY_FILLED} \<Longrightarrow> lifecycle s FILLED"
| stop: "s \<notin> TERMINAL_ORDER_STATUSES \<Longrightarrow> s' \<in> {CANCELED, EXPIRED, REJECTED} \<Longrightarrow> lifecycle s s'"

inductive_simps lifecycle_simps: "lifecycle s s'"

lemma order_step_lifecycle: "order_step o' c = Inr o'' \<Longrightarrow> lifecycle (po_status o') (po_status o'')"
  by (cases c) (auto simp: order_op_defs result_simps Let_def lifecycle_simps split: if_splits)

lemma order_create_result:
  assumes "order_create a = Inr o'"
  shows "po_status o' = CREATED" "po_version o' = 1" "po_filled_quantity o' = 0" "po_quantity o' = oa_quantity a"
    "po_symbol o' = oa_symbol a" "po_side o' = oa_side a" "po_command_hash o' = oa_command_hash a"
    "0 < oa_quantity a" "po_order_id o' = oa_order_id a" "po_reduce_only o' = oa_reduce_only a"
    "po_position_effect o' = oa_position_effect a"
    "\<exists>e. po_events o' = [e] \<and> ot_sequence e = 1 \<and> ot_event_type e = ''order.created''"
    "oa_reduce_only a \<Longrightarrow> oa_position_effect a = REDUCE \<and> oa_quantity a \<le> oa_open_quantity a"
  using assms by (auto simp: order_create_def order_create_checks_def result_simps split: if_splits)

text \<open>The events and the time a command may leave behind.\<close>

fun command_events :: "order_command \<Rightarrow> string list" where
  "command_events (Authorize t) = [''order.authorized'']"
| "command_events (Accept t) = [''order.accepted'']"
| "command_events (ApplyFill q t) = [''order.partially_filled'', ''order.filled'']"
| "command_events (Cancel t) = [''order.canceled'']"
| "command_events (Expire t) = [''order.expired'']"
| "command_events (Reject t r) = [''order.rejected'']"

fun command_at :: "order_command \<Rightarrow> datetime" where
  "command_at (Authorize t) = t"
| "command_at (Accept t) = t"
| "command_at (ApplyFill q t) = t"
| "command_at (Cancel t) = t"
| "command_at (Expire t) = t"
| "command_at (Reject t r) = t"

definition records_command :: "order_command \<Rightarrow> order_transition \<Rightarrow> bool" where
  "records_command c e \<longleftrightarrow> ot_event_type e \<in> set (command_events c) \<and> ot_event_at e = command_at c"

text \<open>The statuses an order went through, as its events record them.\<close>

definition status_trace :: "paper_order \<Rightarrow> paper_order_status list" where
  "status_trace o' = map (\<lambda>e. event_status (ot_event_type e)) (po_events o')"

lemma order_step_records:
  "order_step o' c = Inr o'' \<Longrightarrow> \<exists>e. po_events o'' = po_events o' @ [e] \<and> records_command c e"
  by (cases c) (auto simp: order_op_defs result_simps Let_def records_command_def split: if_splits)

lemma order_run_records:
  "foldE order_step o1 cs = Inr o2 \<Longrightarrow> \<exists>es. po_events o2 = po_events o1 @ es \<and> list_all2 records_command cs es"
proof (induction cs arbitrary: o1)
  case (Cons c cs)
  then obtain s where s: "order_step o1 c = Inr s" "foldE order_step s cs = Inr o2" by (auto simp: bindE_Inr_iff)
  obtain e where e: "po_events s = po_events o1 @ [e]" "records_command c e" using order_step_records [OF s(1)] by blast
  obtain es where es: "po_events o2 = po_events s @ es" "list_all2 records_command cs es" using Cons.IH [OF s(2)] by blast
  show ?case using e es by (intro exI [of _ "e # es"]) simp
qed simp

definition order_history_ok :: "paper_order \<Rightarrow> paper_order \<Rightarrow> bool" where
  "order_history_ok o1 o2 \<longleftrightarrow> status_trace o2 \<noteq> [] \<and> hd (status_trace o2) = CREATED \<and>
     adjacent_ok lifecycle (status_trace o2) \<and> po_status o2 = last (status_trace o2) \<and>
     (\<exists>s f v es. o2 = o1\<lparr>po_status := s, po_filled_quantity := f, po_version := v, po_events := es\<rparr>)"

lemma order_history_ok_step:
  assumes "order_history_ok o1 s" and step: "order_step s c = Inr s'"
  shows "order_history_ok o1 s'"
proof -
  obtain e f where s': "s' = s\<lparr>po_status := event_status (ot_event_type e), po_version := po_version s + 1,
      po_events := po_events s @ [e], po_filled_quantity := f\<rparr>"
    using order_step_result [OF step] by metis
  obtain s0 f0 v0 es0 where s: "s = o1\<lparr>po_status := s0, po_filled_quantity := f0, po_version := v0, po_events := es0\<rparr>"
    and l: "status_trace s \<noteq> []" "hd (status_trace s) = CREATED" "adjacent_ok lifecycle (status_trace s)"
      "po_status s = last (status_trace s)"
    using assms(1) unfolding order_history_ok_def by blast
  have "s' = o1\<lparr>po_status := event_status (ot_event_type e), po_filled_quantity := f, po_version := po_version s + 1, po_events := po_events s @ [e]\<rparr>"
    unfolding s' s by simp
  moreover have t: "status_trace s' = status_trace s @ [po_status s']" using s' by (simp add: status_trace_def)
  moreover have "adjacent_ok lifecycle (status_trace s')"
    using l(3,4) order_step_lifecycle [OF step] by (simp add: t adjacent_ok_snoc)
  moreover have "hd (status_trace s') = CREATED" "status_trace s' \<noteq> []" "po_status s' = last (status_trace s')"
    using l(1,2) by (simp_all add: t)
  ultimately show ?thesis unfolding order_history_ok_def by blast
qed

text \<open>
  C9: From creation on, whatever commands an order accepts, the events after the creation record the
  commands one by one, in order and with the time of the command; they are numbered 1, 2, 3, ... up
  to the version; the statuses they record start at CREATED and each is reached from the one before
  by an edge of the life cycle (so an order is authorized only when created, accepted only when
  authorized, filled only when accepted or partly filled, and never leaves a terminal status); the
  status is the one of the last event; and nothing but the status, the filled quantity, the version
  and the events ever changes.
\<close>

theorem order_history:
  assumes "order_create a = Inr o1" and "foldE order_step o1 cs = Inr o2"
  shows "po_version o2 = 1 + int (length cs) \<and> map ot_sequence (po_events o2) = [1 .. po_version o2]
    \<and> list_all2 records_command cs (tl (po_events o2))
    \<and> hd (status_trace o2) = CREATED \<and> adjacent_ok lifecycle (status_trace o2)
    \<and> po_status o2 = last (status_trace o2)
    \<and> (\<exists>s f v es. o2 = o1\<lparr>po_status := s, po_filled_quantity := f, po_version := v, po_events := es\<rparr>)"
proof -
  note c = order_create_result [OF assms(1)]
  obtain e where e: "po_events o1 = [e]" "ot_sequence e = 1" "ot_event_type e = ''order.created''" using c(12) by blast
  have "po_version o2 = 1 + int (length cs)"
    using order_log.run_version [OF assms(2)] c(2) by simp
  moreover have "map ot_sequence (po_events o2) = [1 .. po_version o2]"
  proof (rule order_log.run_numbered [OF assms(2)])
    show "map ot_sequence (po_events o1) = [1 .. po_version o1]" using c(2) e by simp
  qed (simp add: c(2))
  moreover have "list_all2 records_command cs (tl (po_events o2))" using order_run_records [OF assms(2)] e(1) by auto
  moreover have "order_history_ok o1 o2"
  proof (rule foldE_invariant [OF assms(2)])
    have "o1 = o1\<lparr>po_status := po_status o1, po_filled_quantity := po_filled_quantity o1,
        po_version := po_version o1, po_events := po_events o1\<rparr>" by simp
    then have "\<exists>s f v es. o1 = o1\<lparr>po_status := s, po_filled_quantity := f, po_version := v, po_events := es\<rparr>"
      by (intro exI)
    moreover have "status_trace o1 = [CREATED]" using e by (simp add: status_trace_def)
    ultimately show "order_history_ok o1 o1" unfolding order_history_ok_def using c(1) by simp
  qed (rule order_history_ok_step)
  ultimately show ?thesis unfolding order_history_ok_def by blast
qed

text \<open>
  C19: A terminal status is final: no command is accepted by an order that is filled, canceled,
  rejected or expired, and each is refused with the transition error (or the guard before it).
\<close>

theorem order_terminal_absorbing:
  assumes "po_status o' \<in> TERMINAL_ORDER_STATUSES"
  shows "\<exists>e. order_step o' c = Inl e"
  using assms by (cases "order_step o' c") (auto elim: order_step_result)

definition order_grid :: "nat \<Rightarrow> paper_order \<Rightarrow> bool" where
  "order_grid k o' \<longleftrightarrow> k \<le> 28 \<and> on_grid k (po_quantity o') \<and> po_quantity o' \<le> 10 ^ (28 - k)"

definition fills_on_grid :: "nat \<Rightarrow> order_command list \<Rightarrow> bool" where
  "fills_on_grid k cs \<longleftrightarrow> (\<forall>c \<in> set cs. case c of ApplyFill q t \<Rightarrow> on_grid k q | _ \<Rightarrow> True)"

fun filled_by :: "order_command \<Rightarrow> decimal" where
  "filled_by (ApplyFill q t) = q"
| "filled_by _ = 0"

definition order_fill_ok :: "nat \<Rightarrow> paper_order \<Rightarrow> bool" where
  "order_fill_ok k o' \<longleftrightarrow> order_grid k o' \<and> on_grid k (po_filled_quantity o') \<and> 0 \<le> po_filled_quantity o' \<and>
     po_filled_quantity o' \<le> po_quantity o' \<and> (po_status o' = FILLED \<longleftrightarrow> po_filled_quantity o' = po_quantity o') \<and>
     (po_status o' = PARTIALLY_FILLED \<longrightarrow> 0 < po_filled_quantity o')
     \<and> (po_status o' \<in> {CREATED, AUTHORIZED, ACCEPTED} \<longrightarrow> po_filled_quantity o' = 0)"

lemma remaining_exact:
  assumes "order_fill_ok k o'"
  shows "po_remaining_quantity o' = po_quantity o' - po_filled_quantity o'"
  using assms unfolding po_remaining_quantity_def dsub_def order_fill_ok_def order_grid_def
  by (intro dround_on_grid [of k]) (auto intro: on_grid_diff)

lemma order_step_fill:
  assumes "order_step o' (ApplyFill q t) = Inr o''"
  shows "po_status o' \<in> {ACCEPTED, PARTIALLY_FILLED}" "0 < q" "q \<le> po_remaining_quantity o'"
    "po_quantity o'' = po_quantity o'" "po_filled_quantity o'' = dadd (po_filled_quantity o') q"
    "po_status o'' = (if dadd (po_filled_quantity o') q = po_quantity o' then FILLED else PARTIALLY_FILLED)"
  using assms by (auto simp: order_apply_fill_def result_simps Let_def split: if_splits)

lemma order_step_other:
  assumes "order_step o' c = Inr o''" "\<forall>q t. c \<noteq> ApplyFill q t"
  shows "po_quantity o'' = po_quantity o'" "po_filled_quantity o'' = po_filled_quantity o'"
    "po_status o' \<notin> TERMINAL_ORDER_STATUSES"
    "po_status o' \<in> {CREATED, AUTHORIZED} \<and> po_status o'' \<in> {AUTHORIZED, ACCEPTED} \<or>
       po_status o'' \<in> {CANCELED, EXPIRED, REJECTED}"
  using assms by (cases c; auto simp: order_op_defs result_simps split: if_splits)+

lemma order_fill_ok_step:
  assumes ok: "order_fill_ok k o'" and step: "order_step o' c = Inr o''" and c: "fills_on_grid k [c]"
  shows "order_fill_ok k o'' \<and> po_filled_quantity o'' = po_filled_quantity o' + filled_by c"
proof (cases "\<exists>q t. c = ApplyFill q t")
  case True
  then obtain q t where cq: "c = ApplyFill q t" by blast
  note f = order_step_fill [OF step [unfolded cq]]
  have q: "q \<le> po_quantity o' - po_filled_quantity o'" "on_grid k q"
    using f(3) remaining_exact [OF ok] c cq by (auto simp: fills_on_grid_def)
  have "dadd (po_filled_quantity o') q = po_filled_quantity o' + q"
    unfolding dadd_def using ok q f(2)
    by (intro dround_on_grid [of k]) (auto simp: order_fill_ok_def order_grid_def intro: on_grid_add)
  then show ?thesis
    using ok q f cq by (simp add: order_fill_ok_def order_grid_def on_grid_add)
next
  case False
  then have c: "\<forall>q t. c \<noteq> ApplyFill q t" by blast
  then have "filled_by c = 0" by (cases c) simp_all
  with order_step_other [OF step c] ok show ?thesis
    by (auto simp: order_fill_ok_def order_grid_def)
qed

text \<open>
  C6: On the quantity grid the filled quantity is the exact sum of the accepted fills and never
  exceeds the order: it equals the order's quantity exactly when the order is filled, and an
  accepted or partially filled order can always be completed by a fill of its remaining quantity.
\<close>

theorem order_fill_accounting:
  assumes "order_create a = Inr o1" and "foldE order_step o1 cs = Inr o2"
    and "order_grid k o1" and "fills_on_grid k cs"
  shows "po_filled_quantity o2 = sum_list (map filled_by cs) \<and> 0 \<le> po_filled_quantity o2
    \<and> po_filled_quantity o2 \<le> oa_quantity a
    \<and> (po_status o2 = FILLED \<longleftrightarrow> po_filled_quantity o2 = oa_quantity a)
    \<and> (po_status o2 \<in> {ACCEPTED, PARTIALLY_FILLED} \<longrightarrow> is_utc t \<longrightarrow>
        (\<exists>o3. order_step o2 (ApplyFill (po_remaining_quantity o2) t) = Inr o3 \<and> po_status o3 = FILLED))"
proof -
  note c = order_create_result [OF assms(1)]
  have ok1: "order_fill_ok k o1"
    using assms(3) c by (auto simp: order_fill_ok_def)
  have run: "foldE order_step s cs = Inr s' \<Longrightarrow> order_fill_ok k s \<Longrightarrow> fills_on_grid k cs \<Longrightarrow>
      order_fill_ok k s' \<and> po_filled_quantity s' = po_filled_quantity s + sum_list (map filled_by cs)
      \<and> po_quantity s' = po_quantity s" for s s' cs
  proof (induction cs arbitrary: s)
    case (Cons x xs)
    then obtain s1 where s1: "order_step s x = Inr s1" "foldE order_step s1 xs = Inr s'"
      by (auto simp: result_simps)
    have "order_fill_ok k s1 \<and> po_filled_quantity s1 = po_filled_quantity s + filled_by x"
      using order_fill_ok_step [OF Cons.prems(2) s1(1)] Cons.prems(3) by (simp add: fills_on_grid_def)
    moreover have "po_quantity s1 = po_quantity s"
      by (rule order_step_result [OF s1(1)]) simp
    ultimately show ?case
      using Cons.IH [OF s1(2)] Cons.prems(3) by (auto simp: fills_on_grid_def)
  qed simp
  have r: "order_fill_ok k o2" "po_filled_quantity o2 = sum_list (map filled_by cs)" "po_quantity o2 = oa_quantity a"
    using run [OF assms(2) ok1 assms(4)] c(3,4) by auto
  have "\<exists>o3. order_step o2 (ApplyFill (po_remaining_quantity o2) t) = Inr o3 \<and> po_status o3 = FILLED"
    if st: "po_status o2 \<in> {ACCEPTED, PARTIALLY_FILLED}" and t: "is_utc t"
  proof -
    have "po_filled_quantity o2 < po_quantity o2"
      using r(1) st by (auto simp: order_fill_ok_def order_le_less)
    moreover have "dround (po_quantity o2) = po_quantity o2"
      using r(1) by (intro dround_on_grid [of k]) (auto simp: order_fill_ok_def order_grid_def)
    ultimately show ?thesis
      using st t remaining_exact [OF r(1)]
      by (auto simp: order_apply_fill_def result_simps Let_def dadd_def pydict_def as_mapping_def)
  qed
  then show ?thesis using r by (auto simp: order_fill_ok_def)
qed

section \<open>The limit queue over a stream of trades\<close>

fun run_limit_queue :: "limit_queue_state \<Rightarrow> trade_print list \<Rightarrow> limit_queue_state \<times> limit_fill list" where
  "run_limit_queue s [] = (s, [])"
| "run_limit_queue s (t # ts) =
     (let (s', fs) = advance_limit_queue s t; (s'', gs) = run_limit_queue s' ts in (s'', fs @ gs))"

text \<open>A trade through the limit: of the symbol, in the order's window, beyond the limit price.\<close>

definition trades_through :: "limit_queue_state \<Rightarrow> trade_print \<Rightarrow> bool" where
  "trades_through s t \<longleftrightarrow> tr_symbol t = lq_symbol s \<and> lq_eligible_after s < tr_observed_at t \<and>
     tr_observed_at t < lq_expires_at s \<and> limit_qualifies s t"

definition volume_through :: "limit_queue_state \<Rightarrow> trade_print list \<Rightarrow> decimal" where
  "volume_through s ts = sum_list (map tr_quantity (filter (trades_through s) ts))"

definition trade_grid :: "nat \<Rightarrow> trade_print \<Rightarrow> bool" where
  "trade_grid k t \<longleftrightarrow> on_grid k (tr_quantity t) \<and> 0 < tr_quantity t \<and> tr_quantity t \<le> 10 ^ (28 - k)"

definition limit_queue_ok :: "nat \<Rightarrow> limit_queue_state \<Rightarrow> bool" where
  "limit_queue_ok k s \<longleftrightarrow> Suc k \<le> 28 \<and> on_grid (Suc k) (lq_requested_quantity s) \<and>
     lq_requested_quantity s \<le> 10 ^ (28 - Suc k) \<and> on_grid (Suc k) (lq_filled_quantity s) \<and>
     0 \<le> lq_filled_quantity s \<and> lq_filled_quantity s \<le> lq_requested_quantity s \<and>
     on_grid k (lq_queue_ahead s) \<and> 0 \<le> lq_queue_ahead s \<and> lq_queue_ahead s \<le> 10 ^ (28 - k) \<and>
     (0 < lq_filled_quantity s \<longrightarrow> lq_queue_ahead s = 0) \<and>
     (lq_status s = FILLED \<longleftrightarrow> lq_filled_quantity s = lq_requested_quantity s) \<and>
     lq_status s \<in> {ACCEPTED, PARTIALLY_FILLED, FILLED, EXPIRED}"

lemma consume_queue_exact:
  assumes "on_grid k a" "on_grid k q" "0 \<le> a" "0 \<le> q" "a \<le> 10 ^ (28 - k)" "q \<le> 10 ^ (28 - k)" "k \<le> 28"
  shows "consume_queue a q = (a - min a q, q - min a q)"
proof -
  have "dround (a - min a q) = a - min a q"
    using assms by (intro dround_on_grid [of k]) (auto simp: min_def intro!: on_grid_diff)
  moreover have "dround (q - min a q) = q - min a q"
    using assms by (intro dround_on_grid [of k]) (auto simp: min_def intro!: on_grid_diff)
  ultimately show ?thesis
    using assms(3,4) by (cases "a = 0") (auto simp: consume_queue_def Let_def dsub_def)
qed

lemma tenth_on_grid: "on_grid k x \<Longrightarrow> on_grid (Suc k) (x / 10)"
  by (simp add: on_grid_def)

lemma fill_quantity_exact:
  assumes "limit_queue_ok k s" "on_grid k x" "0 \<le> x" "x \<le> 10 ^ (28 - k)"
  shows "lq_remaining_quantity s = lq_requested_quantity s - lq_filled_quantity s" "dmul x (1 / 10) = x / 10"
proof -
  show "lq_remaining_quantity s = lq_requested_quantity s - lq_filled_quantity s"
    unfolding lq_remaining_quantity_def dsub_def using assms(1)
    by (intro dround_on_grid [of "Suc k"]) (auto simp: limit_queue_ok_def intro: on_grid_diff)
  have k: "28 - k = Suc (28 - Suc k)" using assms(1) by (auto simp: limit_queue_ok_def)
  have "dround (x / 10) = x / 10"
    using assms tenth_on_grid [OF assms(2)] k
    by (intro dround_on_grid [of "Suc k"]) (auto simp: limit_queue_ok_def)
  then show "dmul x (1 / 10) = x / 10" by (simp add: dmul_def)
qed

text \<open>What one trade does: at most a tenth of what it trades beyond the queue is filled.\<close>

lemma advance_through:
  assumes ok: "limit_queue_ok k s" and t: "trade_grid k t" and st: "lq_status s \<notin> TERMINAL_ORDER_STATUSES"
    and th: "trades_through s t" and seq: "lq_last_sequence s < tr_sequence t"
  defines "c \<equiv> min (lq_queue_ahead s) (tr_quantity t)"
  defines "q \<equiv> min (lq_requested_quantity s - lq_filled_quantity s) ((tr_quantity t - c) / 10)"
  shows "advance_limit_queue s t =
    (if q \<le> 0 then (s\<lparr>lq_queue_ahead := lq_queue_ahead s - c, lq_last_sequence := tr_sequence t\<rparr>, [])
     else (s\<lparr>lq_filled_quantity := lq_filled_quantity s + q, lq_queue_ahead := lq_queue_ahead s - c,
             lq_status := (if lq_filled_quantity s + q = lq_requested_quantity s then FILLED else PARTIALLY_FILLED),
             lq_last_sequence := tr_sequence t\<rparr>,
           [\<lparr>lf_market_event_id = tr_event_id t, lf_fill_at = tr_observed_at t, lf_quantity = q,
             lf_price = tr_price t, lf_fee = dmul (dmul q (tr_price t)) (lq_maker_fee_rate s)\<rparr>]))"
proof -
  have cq: "consume_queue (lq_queue_ahead s) (tr_quantity t) = (lq_queue_ahead s - c, tr_quantity t - c)"
    unfolding c_def using ok t by (intro consume_queue_exact [of k]) (auto simp: limit_queue_ok_def trade_grid_def)
  have x: "on_grid k (tr_quantity t - c)" "0 \<le> tr_quantity t - c" "tr_quantity t - c \<le> 10 ^ (28 - k)"
    using ok t by (auto simp: c_def limit_queue_ok_def trade_grid_def min_def intro!: on_grid_diff)
  note fq = fill_quantity_exact [OF ok x]
  have qg: "on_grid (Suc k) q"
    using ok tenth_on_grid [OF x(1)] by (auto simp: q_def min_def limit_queue_ok_def intro: on_grid_diff)
  have "dadd (lq_filled_quantity s) q = lq_filled_quantity s + q" if "0 < q"
    unfolding dadd_def using ok that qg
    by (intro dround_on_grid [of "Suc k"]) (auto simp: limit_queue_ok_def q_def intro: on_grid_add)
  moreover have "\<not> lq_expires_at s \<le> tr_observed_at t" "\<not> tr_observed_at t \<le> lq_eligible_after s"
    "\<not> tr_sequence t \<le> lq_last_sequence s"
    using th seq by (auto simp: trades_through_def)
  ultimately show ?thesis
    using st th by (simp add: advance_limit_queue_def trades_through_def cq fq q_def [symmetric] Let_def)
qed


lemma advance_other:
  assumes "\<not> (lq_status s \<notin> TERMINAL_ORDER_STATUSES \<and> trades_through s t \<and> lq_last_sequence s < tr_sequence t)"
    "advance_limit_queue s t = (s', fs)"
  shows "fs = []" "s' = s\<lparr>lq_status := lq_status s', lq_last_sequence := lq_last_sequence s'\<rparr>"
    "lq_status s' = lq_status s \<or> lq_status s' = EXPIRED \<and> lq_status s \<notin> TERMINAL_ORDER_STATUSES"
  using assms by (auto simp: advance_limit_queue_def trades_through_def not_le not_less split: if_splits)

lemma trades_through_cong:
  assumes "s' = s\<lparr>lq_filled_quantity := f, lq_queue_ahead := a, lq_status := st, lq_last_sequence := n\<rparr>"
  shows "trades_through s' = trades_through s"
  using assms by (auto simp: trades_through_def limit_qualifies_def)

text \<open>The bookkeeping of one trade, through the limit or not.\<close>

definition limit_advanced ::
  "limit_queue_state \<Rightarrow> trade_print \<Rightarrow> limit_queue_state \<Rightarrow> limit_fill list \<Rightarrow> bool" where
  "limit_advanced s t s' fs \<longleftrightarrow>
     (\<exists>f a st n. s' = s\<lparr>lq_filled_quantity := f, lq_queue_ahead := a, lq_status := st, lq_last_sequence := n\<rparr>) \<and>
     lq_filled_quantity s' = lq_filled_quantity s + sum_list (map lf_quantity fs) \<and>
     lq_queue_ahead s + 10 * sum_list (map lf_quantity fs) \<le> lq_queue_ahead s' + volume_through s [t] \<and>
     (\<forall>f \<in> set fs. 0 < lf_quantity f \<and> trades_through s t \<and> lf_price f = tr_price t \<and>
        lf_fill_at f = tr_observed_at t)"

lemma limit_advanced_other:
  assumes "limit_queue_ok k s" "trade_grid k t"
    "lq_status s' = lq_status s \<or> lq_status s' = EXPIRED \<and> lq_status s \<notin> TERMINAL_ORDER_STATUSES"
    "s' = s\<lparr>lq_status := lq_status s', lq_last_sequence := lq_last_sequence s'\<rparr>"
  shows "limit_queue_ok k s' \<and> limit_advanced s t s' []"
proof -
  define st n where "st = lq_status s'" and "n = lq_last_sequence s'"
  have s': "s' = s\<lparr>lq_status := st, lq_last_sequence := n\<rparr>"
    using assms(4) by (simp only: st_def n_def)
  have "\<exists>f a st n. s' = s\<lparr>lq_filled_quantity := f, lq_queue_ahead := a, lq_status := st, lq_last_sequence := n\<rparr>"
    by (intro exI [of _ "lq_filled_quantity s"] exI [of _ "lq_queue_ahead s"] exI [of _ st] exI [of _ n]) (simp add: s')
  then show ?thesis
    using assms(1-3) by (auto simp: s' limit_advanced_def limit_queue_ok_def volume_through_def trade_grid_def
        simp del: ex_simps)
qed

lemma limit_advanced_through:
  assumes ok: "limit_queue_ok k s" and t: "trade_grid k t" and st: "lq_status s \<notin> TERMINAL_ORDER_STATUSES"
    and th: "trades_through s t" and seq: "lq_last_sequence s < tr_sequence t"
    and a: "advance_limit_queue s t = (s', fs)"
  shows "limit_queue_ok k s' \<and> limit_advanced s t s' fs"
proof -
  define c where "c = min (lq_queue_ahead s) (tr_quantity t)"
  define q where "q = min (lq_requested_quantity s - lq_filled_quantity s) ((tr_quantity t - c) / 10)"
  note adv = advance_through [OF ok t st th seq, folded c_def, folded q_def]
  have c: "0 \<le> c" "c \<le> lq_queue_ahead s" "c \<le> tr_quantity t" "on_grid k c" "c = tr_quantity t \<or> c = lq_queue_ahead s"
    using ok t by (auto simp: c_def limit_queue_ok_def trade_grid_def min_def)
  have tq: "on_grid k (tr_quantity t - c)" using t c by (auto simp: trade_grid_def intro: on_grid_diff)
  have qg: "on_grid (Suc k) q" and qle: "q \<le> lq_requested_quantity s - lq_filled_quantity s" "10 * q \<le> tr_quantity t - c"
    using ok tenth_on_grid [OF tq] by (auto simp: q_def min_def limit_queue_ok_def intro: on_grid_diff)
  have nf: "lq_filled_quantity s \<noteq> lq_requested_quantity s" using ok st by (auto simp: limit_queue_ok_def)
  have vol: "volume_through s [t] = tr_quantity t" using th by (simp add: volume_through_def)
  show ?thesis
  proof (cases "q \<le> 0")
    case True
    then have r: "s' = s\<lparr>lq_queue_ahead := lq_queue_ahead s - c, lq_last_sequence := tr_sequence t\<rparr>" "fs = []"
      using adv a by simp_all
    have "\<exists>f a st n. s' = s\<lparr>lq_filled_quantity := f, lq_queue_ahead := a, lq_status := st, lq_last_sequence := n\<rparr>"
      by (intro exI [of _ "lq_filled_quantity s"] exI [of _ "lq_queue_ahead s - c"] exI [of _ "lq_status s"]
          exI [of _ "tr_sequence t"]) (simp add: r)
    then have "limit_advanced s t s' fs"
      using c(3) vol by (simp add: r limit_advanced_def del: ex_simps)
    moreover have "limit_queue_ok k s'"
      using ok c(1,2,4) by (auto simp: r limit_queue_ok_def on_grid_diff)
    ultimately show ?thesis by blast
  next
    case False
    then have "c \<noteq> tr_quantity t" using qle(2) by auto
    then have "c = lq_queue_ahead s" using c(5) by simp
    with False have r: "s' = s\<lparr>lq_filled_quantity := lq_filled_quantity s + q, lq_queue_ahead := 0,
          lq_status := (if lq_filled_quantity s + q = lq_requested_quantity s then FILLED else PARTIALLY_FILLED),
          lq_last_sequence := tr_sequence t\<rparr>" and c': "lq_queue_ahead s + 10 * q \<le> tr_quantity t"
      and f: "map lf_quantity fs = [q]" "\<forall>f \<in> set fs. lf_price f = tr_price t \<and> lf_fill_at f = tr_observed_at t \<and> lf_quantity f = q"
      using adv a qle(2) by auto
    have "\<exists>f a st n. s' = s\<lparr>lq_filled_quantity := f, lq_queue_ahead := a, lq_status := st, lq_last_sequence := n\<rparr>"
      unfolding r by blast
    moreover have "limit_queue_ok k s'"
      using ok qg qle(1) False by (simp add: r limit_queue_ok_def on_grid_add)
    ultimately show ?thesis
      using f c' vol False th by (simp add: r limit_advanced_def not_le del: ex_simps)
  qed
qed

lemma advance_step:
  assumes "limit_queue_ok k s" "trade_grid k t" "advance_limit_queue s t = (s', fs)"
  shows "limit_queue_ok k s' \<and> limit_advanced s t s' fs"
proof (cases "lq_status s \<notin> TERMINAL_ORDER_STATUSES \<and> trades_through s t \<and> lq_last_sequence s < tr_sequence t")
  case True
  then show ?thesis using limit_advanced_through assms by blast
next
  case False
  note o = advance_other [OF this assms(3)]
  show ?thesis unfolding o(1) using limit_advanced_other [OF assms(1,2) o(3,2)] .
qed

lemma run_limit_queue_result:
  assumes "limit_queue_ok k s" "\<forall>t \<in> set ts. trade_grid k t" "run_limit_queue s ts = (s', fs)"
  shows "limit_queue_ok k s' \<and>
    (\<exists>f a st n. s' = s\<lparr>lq_filled_quantity := f, lq_queue_ahead := a, lq_status := st, lq_last_sequence := n\<rparr>) \<and>
    lq_filled_quantity s' = lq_filled_quantity s + sum_list (map lf_quantity fs) \<and>
    lq_queue_ahead s + 10 * sum_list (map lf_quantity fs) \<le> lq_queue_ahead s' + volume_through s ts \<and>
    (\<forall>f \<in> set fs. 0 < lf_quantity f \<and>
      (\<exists>t \<in> set ts. trades_through s t \<and> lf_price f = tr_price t \<and> lf_fill_at f = tr_observed_at t))"
  using assms
proof (induction ts arbitrary: s fs)
  case Nil
  then have s: "s' = s" "fs = []" by simp_all
  have "\<exists>f a st n. s = s\<lparr>lq_filled_quantity := f, lq_queue_ahead := a, lq_status := st, lq_last_sequence := n\<rparr>"
    by (intro exI [of _ "lq_filled_quantity s"] exI [of _ "lq_queue_ahead s"] exI [of _ "lq_status s"]
        exI [of _ "lq_last_sequence s"]) simp
  then show ?case using Nil(1) by (simp add: s volume_through_def del: ex_simps)
next
  case (Cons t ts)
  obtain s1 gs hs where a: "advance_limit_queue s t = (s1, gs)" and r: "run_limit_queue s1 ts = (s', hs)"
    and fs: "fs = gs @ hs"
    using Cons.prems(3) by (auto simp: Let_def split: prod.splits)
  have ok1: "limit_queue_ok k s1" and adv: "limit_advanced s t s1 gs"
    using advance_step [OF Cons.prems(1) _ a] Cons.prems(2) by auto
  obtain f a st n where s1: "s1 = s\<lparr>lq_filled_quantity := f, lq_queue_ahead := a, lq_status := st, lq_last_sequence := n\<rparr>"
    using adv unfolding limit_advanced_def by blast
  note th = trades_through_cong [OF s1]
  note IH = Cons.IH [OF ok1 _ r]
  obtain f' a' st' n' where s': "s' = s1\<lparr>lq_filled_quantity := f', lq_queue_ahead := a', lq_status := st', lq_last_sequence := n'\<rparr>"
    using IH Cons.prems(2) by force
  have "s' = s\<lparr>lq_filled_quantity := f', lq_queue_ahead := a', lq_status := st', lq_last_sequence := n'\<rparr>"
    unfolding s' s1 by simp
  then have "\<exists>f a st n. s' = s\<lparr>lq_filled_quantity := f, lq_queue_ahead := a, lq_status := st, lq_last_sequence := n\<rparr>"
    by (intro exI)
  moreover have "volume_through s (t # ts) = volume_through s [t] + volume_through s1 ts"
    unfolding volume_through_def th by simp
  ultimately show ?case
    using IH adv Cons.prems(2) unfolding limit_advanced_def fs th by auto
qed

lemma resting_quantity_cases:
  "resting_quantity p ls = 0 \<or> (\<exists>l \<in> set ls. lv_price l = p \<and> resting_quantity p ls = lv_quantity l)"
  by (auto simp: resting_quantity_def find_Some_iff split: option.splits)

definition book_grid :: "nat \<Rightarrow> book_snapshot \<Rightarrow> bool" where
  "book_grid k b \<longleftrightarrow> (\<forall>l \<in> set (bk_bids b @ bk_asks b). on_grid k (lv_quantity l) \<and> lv_quantity l \<le> 10 ^ (28 - k))"

lemma from_book_ok:
  assumes "limit_queue_from_book i side p q ea ex fee b = Inr s" "book_ok b" "book_grid k b"
    "Suc k \<le> 28" "on_grid (Suc k) q" "q \<le> 10 ^ (28 - Suc k)"
  shows "limit_queue_ok k s"
proof -
  let ?ls = "if side = BUY then bk_bids b else bk_asks b"
  have "on_grid k (resting_quantity p ?ls)" "0 \<le> resting_quantity p ?ls" "resting_quantity p ?ls \<le> 10 ^ (28 - k)"
    using resting_quantity_cases [of p ?ls] assms(3) book_okD(12,13) [OF assms(2)]
    by (force simp: book_grid_def split: if_splits)+
  then show ?thesis
    using assms(1,4-6) by (auto simp: limit_queue_from_book_def result_simps limit_queue_ok_def)
qed

text \<open>
  C20: A resting limit order is filled conservatively, whatever trades follow: its fills add up
  exactly to the filled quantity, never exceed the order, each happens inside the order's window at
  a trade strictly through the limit price, and nothing is filled before the whole displayed queue
  has traded: queue ahead plus ten times the filled quantity is at most the volume that traded
  through the limit.
\<close>

theorem limit_queue_conservative:
  assumes "limit_queue_from_book i side p q ea ex fee b = Inr s" and "book_ok b" and "book_grid k b"
    and "Suc k \<le> 28" and "on_grid (Suc k) q" and "q \<le> 10 ^ (28 - Suc k)"
    and "\<forall>t \<in> set ts. trade_grid k t" and "run_limit_queue s ts = (s', fs)"
  shows "lq_filled_quantity s' = sum_list (map lf_quantity fs) \<and> lq_filled_quantity s' \<le> q
    \<and> (lq_status s' = FILLED \<longleftrightarrow> lq_filled_quantity s' = q)
    \<and> (\<forall>f \<in> set fs. 0 < lf_quantity f \<and> ea < lf_fill_at f \<and> lf_fill_at f < ex \<and>
          (if side = BUY then lf_price f < p else p < lf_price f))
    \<and> (0 < lq_filled_quantity s' \<longrightarrow>
        resting_quantity p (if side = BUY then bk_bids b else bk_asks b) + 10 * lq_filled_quantity s'
          \<le> volume_through s ts)"
proof -
  have s: "lq_filled_quantity s = 0" "lq_requested_quantity s = q" "lq_side s = side" "lq_limit_price s = p"
    "lq_eligible_after s = ea" "lq_expires_at s = ex"
    "lq_queue_ahead s = resting_quantity p (if side = BUY then bk_bids b else bk_asks b)"
    using assms(1) by (auto simp: limit_queue_from_book_def result_simps)
  note r = run_limit_queue_result [OF from_book_ok [OF assms(1-6)] assms(7,8)]
  have req: "lq_requested_quantity s' = q" using r s(2) by force
  have through: "ea < tr_observed_at t \<and> tr_observed_at t < ex \<and> (if side = BUY then tr_price t < p else p < tr_price t)"
    if "trades_through s t" for t
    using that s by (auto simp: trades_through_def limit_qualifies_def)
  have fills: "\<forall>f \<in> set fs. 0 < lf_quantity f \<and> ea < lf_fill_at f \<and> lf_fill_at f < ex \<and>
      (if side = BUY then lf_price f < p else p < lf_price f)"
    using r through by metis
  have "limit_queue_ok k s'" "lq_filled_quantity s' = sum_list (map lf_quantity fs)"
    "lq_queue_ahead s + 10 * lq_filled_quantity s' \<le> lq_queue_ahead s' + volume_through s ts"
    using r s(1) by auto
  then show ?thesis using fills req s(7) by (auto simp: limit_queue_ok_def)
qed

section \<open>Examples\<close>

definition ex_limit_book :: book_snapshot where
  "ex_limit_book = \<lparr>bk_event_id = ''book-1'', bk_symbol = ''BTCUSDT'', bk_venue_event_at = utc 1000000,
     bk_observed_at = utc 1100000, bk_sequence = 7,
     bk_bids = [\<lparr>lv_price = 100, lv_quantity = 2\<rparr>], bk_asks = [\<lparr>lv_price = 101, lv_quantity = 4\<rparr>],
     bk_mark_price = 201/2\<rparr>"

definition ex_trade :: "int \<Rightarrow> decimal \<Rightarrow> trade_print" where
  "ex_trade n q = \<lparr>tr_event_id = ''trade'', tr_symbol = ''BTCUSDT'', tr_venue_event_at = utc 3000000,
     tr_observed_at = utc 3000000, tr_sequence = n, tr_price = 99, tr_quantity = q,
     tr_aggressor_side = ''sell''\<rparr>"

definition ex_limit_state :: limit_queue_state where
  "ex_limit_state = \<lparr>lq_order_id = 1, lq_symbol = ''BTCUSDT'', lq_side = BUY, lq_limit_price = 100,
     lq_requested_quantity = 1, lq_filled_quantity = 0, lq_queue_ahead = 2, lq_eligible_after = utc 2000000,
     lq_expires_at = utc 9000000, lq_maker_fee_rate = 1/5000, lq_status = ACCEPTED, lq_last_sequence = 7\<rparr>"

lemma ex_limit_from_book:
  "limit_queue_from_book 1 BUY 100 1 (utc 2000000) (utc 9000000) (1/5000) ex_limit_book = Inr ex_limit_state"
  by (simp add: limit_queue_from_book_def ex_limit_book_def ex_limit_state_def resting_quantity_def utc_compare)

lemma ex_limit_book_ok: "book_ok ex_limit_book \<and> book_grid 0 ex_limit_book"
  by (simp add: ex_limit_book_def book_ok_def book_snapshot_post_init_def book_level_ok_iff result_simps
      best_bid_def best_ask_def book_grid_def on_grid_def utc_compare)

lemma ex_limit_run:
  "\<exists>s' fs. run_limit_queue ex_limit_state [ex_trade 8 1, ex_trade 9 6, ex_trade 10 20] = (s', fs) \<and>
     map lf_quantity fs = [1/2, 1/2] \<and> lq_status s' = FILLED"
  by (simp add: ex_limit_state_def ex_trade_def advance_limit_queue_def Let_def limit_qualifies_def
      consume_queue_def lq_remaining_quantity_def dec_defs dec_eval utc_compare)

theorem limit_queue_conservative_witness:
  "\<exists>s' fs. run_limit_queue ex_limit_state [ex_trade 8 1, ex_trade 9 6, ex_trade 10 20] = (s', fs) \<and>
     lq_filled_quantity s' = 1 \<and> 2 + 10 * lq_filled_quantity s'
       \<le> volume_through ex_limit_state [ex_trade 8 1, ex_trade 9 6, ex_trade 10 20]"
proof -
  obtain s' fs where r: "run_limit_queue ex_limit_state [ex_trade 8 1, ex_trade 9 6, ex_trade 10 20] = (s', fs)"
      "lq_status s' = FILLED"
    using ex_limit_run by blast
  have "\<forall>t \<in> set [ex_trade 8 1, ex_trade 9 6, ex_trade 10 20]. trade_grid 0 t"
    by (simp add: ex_trade_def trade_grid_def on_grid_def)
  from limit_queue_conservative [OF ex_limit_from_book _ _ _ _ _ this r(1)] ex_limit_book_ok r(2)
  have "lq_filled_quantity s' = 1 \<and> resting_quantity 100 (bk_bids ex_limit_book) + 10 * lq_filled_quantity s'
       \<le> volume_through ex_limit_state [ex_trade 8 1, ex_trade 9 6, ex_trade 10 20]"
    by (auto simp: on_grid_def)
  with r(1) show ?thesis by (simp add: ex_limit_book_def resting_quantity_def)
qed

definition ex_order_args :: order_args where
  "ex_order_args = \<lparr>oa_order_id = 1, oa_experiment_id = 2, oa_proposal_id = 3, oa_client_order_id = ''c-1'',
     oa_command_hash = replicate 64 (CHR ''a''), oa_symbol = ''BTCUSDT'', oa_side = BUY, oa_order_type = MARKET,
     oa_position_effect = OPEN, oa_quantity = 2, oa_limit_price = None, oa_reduce_only = False,
     oa_open_quantity = 0, oa_created_at = utc 1000000, oa_expires_at = utc 9000000\<rparr>"

definition ex_commands :: "order_command list" where
  "ex_commands = [Authorize (utc 1000001), Accept (utc 1000002), ApplyFill 1 (utc 2000000)]"

lemma ex_order_run:
  "\<exists>o1 o2. order_create ex_order_args = Inr o1 \<and> foldE order_step o1 ex_commands = Inr o2 \<and>
     po_status o2 = PARTIALLY_FILLED \<and> order_grid 3 o1 \<and>
     foldE order_step o1 (ex_commands @ [Cancel (utc 3000000)]) = Inr (o2\<lparr>po_status := CANCELED,
       po_version := 5, po_events := po_events o2 @ [\<lparr>ot_sequence = 5, ot_event_type = ''order.canceled'',
         ot_event_at = utc 3000000, ot_payload = JObject [(''value'', JTuple [])]\<rparr>]\<rparr>)"
  by (simp add: ex_order_args_def ex_commands_def order_create_def order_create_checks_def order_payload_def
      py_option_def pydict_def utc_compare order_grid_def on_grid_def order_op_defs order_transition_to_def
      as_mapping_def po_remaining_quantity_def dec_defs dec_eval)

theorem order_history_witness:
  "\<exists>o1 o2. order_create ex_order_args = Inr o1 \<and> foldE order_step o1 ex_commands = Inr o2 \<and> po_version o2 = 4"
proof -
  obtain o1 o2 where o: "order_create ex_order_args = Inr o1" "foldE order_step o1 ex_commands = Inr o2"
    using ex_order_run by blast
  from order_history [OF o] have "po_version o2 = 4" by (simp add: ex_commands_def)
  with o show ?thesis by blast
qed

theorem order_fill_accounting_witness:
  "\<exists>o1 o2 o3. order_create ex_order_args = Inr o1 \<and> foldE order_step o1 ex_commands = Inr o2 \<and>
     po_filled_quantity o2 = 1 \<and>
     order_step o2 (ApplyFill (po_remaining_quantity o2) (utc 3000000)) = Inr o3 \<and> po_status o3 = FILLED"
proof -
  obtain o1 o2 where o: "order_create ex_order_args = Inr o1" "foldE order_step o1 ex_commands = Inr o2"
      "po_status o2 = PARTIALLY_FILLED" "order_grid 3 o1"
    using ex_order_run by blast
  have "fills_on_grid 3 ex_commands" "sum_list (map filled_by ex_commands) = 1"
    by (simp_all add: fills_on_grid_def ex_commands_def on_grid_def)
  with order_fill_accounting [OF o(1,2,4), of "utc 3000000"] o show ?thesis by auto
qed

theorem order_terminal_absorbing_witness:
  "\<exists>o1 o2 e. order_create ex_order_args = Inr o1 \<and>
     foldE order_step o1 (ex_commands @ [Cancel (utc 3000000)]) = Inr o2 \<and>
     po_status o2 \<in> TERMINAL_ORDER_STATUSES \<and> order_step o2 (ApplyFill 1 (utc 4000000)) = Inl e"
proof -
  obtain o1 o2 where o: "order_create ex_order_args = Inr o1"
      "foldE order_step o1 (ex_commands @ [Cancel (utc 3000000)]) = Inr o2" "po_status o2 = CANCELED"
    using ex_order_run by fastforce
  then have "po_status o2 \<in> TERMINAL_ORDER_STATUSES" by simp
  with order_terminal_absorbing [OF this] o show ?thesis by blast
qed

end
