(* ===== verification/Records.thy ===== *)
theory Records
  imports Account Exits Filters Orders
begin

text \<open>
  \<^verbatim>\<open>maais/execution/paper/records.py\<close>: what an execution stores, and the checks that tie the order,
  its fills, the account and the exit plan together.
\<close>

record execution_fill_record =
  ef_id :: uuid
  ef_order_intent_id :: uuid
  ef_market_event_id :: string
  ef_fill_at :: datetime
  ef_quantity :: decimal
  ef_price :: decimal
  ef_liquidity_role :: string
  ef_fee :: decimal
  ef_fee_asset :: string
  ef_spread_cost :: decimal
  ef_depth_slippage :: decimal
  ef_latency_slippage :: decimal
  ef_total_slippage :: decimal
  ef_market_snapshot :: json

definition execution_fill_record_post_init :: "execution_fill_record \<Rightarrow> execution_fill_record result" where
  "execution_fill_record_post_init f =
     thenE (checks
       [raise_if (ef_market_event_id f = [] \<or> ef_liquidity_role f = [] \<or> ef_fee_asset f = [])
          (ValueError ''market event, liquidity role, and fee asset are required''),
        require_utc (ef_fill_at f) ''fill_at'',
        require_positive_decimal (ef_quantity f) ''fill quantity'',
        require_positive_decimal (ef_price f) ''fill price'',
        raise_if (ef_fee f < 0) (ValueError ''fee must be nonnegative''),
        raise_if (ef_total_slippage f \<noteq> dadd (dadd (ef_spread_cost f) (ef_depth_slippage f)) (ef_latency_slippage f))
          (ValueError ''total slippage does not reconcile to its components'')])
     (Inr f)"

definition execution_fill_to_dict :: "execution_fill_record \<Rightarrow> pyval" where
  "execution_fill_to_dict f = pydict
     [(''id'', PyUUID (ef_id f)),
      (''order_intent_id'', PyUUID (ef_order_intent_id f)),
      (''market_event_id'', PyStr (ef_market_event_id f)),
      (''fill_at'', PyDatetime (ef_fill_at f)),
      (''quantity'', PyDecimal (ef_quantity f)),
      (''price'', PyDecimal (ef_price f)),
      (''liquidity_role'', PyStr (ef_liquidity_role f)),
      (''fee'', PyDecimal (ef_fee f)),
      (''fee_asset'', PyStr (ef_fee_asset f)),
      (''spread_cost'', PyDecimal (ef_spread_cost f)),
      (''depth_slippage'', PyDecimal (ef_depth_slippage f)),
      (''latency_slippage'', PyDecimal (ef_latency_slippage f)),
      (''total_slippage'', PyDecimal (ef_total_slippage f)),
      (''market_snapshot'', json_pyval (ef_market_snapshot f))]"

record paper_execution_record =
  er_order :: paper_order
  er_exchange_filters :: exchange_filter_snapshot
  er_fills :: "execution_fill_record list"
  er_account :: "account_state option"
  er_exit_plan :: "exit_plan option"

text \<open>The last block of \<open>validate\<close>, for a record with both an exit plan and an account.\<close>

definition validate_exit_plan :: "paper_order \<Rightarrow> account_state \<Rightarrow> exit_plan \<Rightarrow> unit result" where
  "validate_exit_plan o' a x =
     bindE (account_position a (po_symbol o')) (\<lambda>p.
       checks
         [raise_if (xp_position_id x \<noteq> ps_position_id p) (ValueError ''exit plan position identity differs''),
          raise_if (\<not> is_flat p \<and> xp_quantity x \<noteq> ps_quantity p)
            (ValueError ''exit plan quantity differs from position''),
          raise_if (is_flat p \<and> xp_status x \<noteq> CLOSED)
            (ValueError ''flat position requires a closed exit plan'')])"

definition validate_record :: "paper_execution_record \<Rightarrow> unit result" where
  "validate_record r =
     checks
       [raise_if (\<exists>a. er_account r = Some a \<and> po_experiment_id (er_order r) \<noteq> ac_experiment_id a)
          (ValueError ''order and account experiment differ''),
        raise_if (po_symbol (er_order r) \<noteq> fl_symbol (er_exchange_filters r))
          (ValueError ''order and exchange filter symbol differ''),
        raise_if (list_ex (\<lambda>f. ef_order_intent_id f \<noteq> po_order_id (er_order r)) (er_fills r))
          (ValueError ''fill order identity differs''),
        raise_if (dsum (map ef_quantity (er_fills r)) \<noteq> po_filled_quantity (er_order r))
          (ValueError ''fill projection does not match order filled quantity''),
        raise_if (er_fills r \<noteq> [] \<and> er_account r = None) (ValueError ''filled execution requires account state''),
        raise_if (er_account r = None \<and> er_exit_plan r \<noteq> None) (ValueError ''exit plan requires account state''),
        raise_if (\<exists>a. er_account r = Some a \<and> \<not> report_ok (reconcile a)) (ValueError ''account does not reconcile''),
        (case (er_exit_plan r, er_account r) of
           (Some x, Some a) \<Rightarrow> validate_exit_plan (er_order r) a x
         | (Some x, None) \<Rightarrow> Inl AssertionError
         | (None, _) \<Rightarrow> Inr ())]"

record funding_record =
  fd_id :: uuid
  fd_experiment_id :: uuid
  fd_position_id :: uuid
  fd_market_event_id :: string
  fd_funding_at :: datetime
  fd_observed_at :: datetime
  fd_rate :: decimal
  fd_rate_type :: string
  fd_mark_price :: decimal
  fd_notional :: decimal
  fd_amount :: decimal

definition funding_record_post_init :: "funding_record \<Rightarrow> funding_record result" where
  "funding_record_post_init f =
     thenE (checks
       [raise_if (fd_market_event_id f = []) (ValueError ''market_event_id is required''),
        require_utc (fd_funding_at f) ''funding_at'',
        require_utc (fd_observed_at f) ''observed_at'',
        raise_if (fd_observed_at f < fd_funding_at f)
          (ValueError ''funding cannot be observed before its venue timestamp''),
        raise_if (fd_rate_type f \<notin> {''Regular'', ''Special''})
          (ValueError ''funding rate_type must be Regular or Special''),
        require_positive_decimal (fd_mark_price f) ''funding mark price'',
        require_positive_decimal (fd_notional f) ''funding notional''])
     (Inr f)"

end
