(* ===== verification/Broker.thy ===== *)
theory Broker
  imports Authorization Fills Records
begin

text \<open>
  \<^verbatim>\<open>maais/execution/paper/broker.py\<close>: the local broker, which turns an authorised entry or a
  triggered exit into an order, a fill, the next account and an exit plan.  A broker is its signing
  key and the maximum age of a book; the clock has no state.
\<close>

record paper_broker =
  br_signing_key :: "byte list"
  br_max_book_age :: timedelta

record market_entry_command =
  en_order_id :: uuid
  en_fill_id :: uuid
  en_position_id :: uuid
  en_exit_plan_id :: uuid
  en_experiment_id :: uuid
  en_decision_cycle_id :: uuid
  en_proposal_id :: uuid
  en_gate_chain_hash :: string
  en_client_order_id :: string
  en_symbol :: string
  en_side :: paper_order_side
  en_requested_quantity :: decimal
  en_approved_quantity :: decimal
  en_approved_notional :: decimal
  en_decision_executable_price :: decimal
  en_decision_completed_at :: datetime
  en_execution_latency :: timedelta
  en_created_at :: datetime
  en_expires_at :: datetime
  en_taker_fee_rate :: decimal
  en_expected_loss_fraction :: decimal
  en_expected_gain_fraction :: decimal
  en_capability :: execution_capability
  en_exchange_filters :: exchange_filter_snapshot

definition market_entry_command_post_init :: "market_entry_command \<Rightarrow> market_entry_command result" where
  "market_entry_command_post_init c =
     (if length (en_gate_chain_hash c) \<noteq> 64 then Inl (ValueError ''gate_chain_hash must be a SHA-256 hex digest'')
      else Inr c)"

record paper_broker_result =
  rs_record :: paper_execution_record
  rs_fill :: paper_fill

record market_exit_command =
  xc_order_id :: uuid
  xc_fill_id :: uuid
  xc_experiment_id :: uuid
  xc_proposal_id :: uuid
  xc_client_order_id :: string
  xc_symbol :: string
  xc_decision_executable_price :: decimal
  xc_execution_latency :: timedelta
  xc_created_at :: datetime
  xc_expires_at :: datetime
  xc_taker_fee_rate :: decimal
  xc_intent :: exit_intent
  xc_exchange_filters :: exchange_filter_snapshot

fun exit_reason_value :: "exit_reason \<Rightarrow> string" where
  "exit_reason_value STOP = ''stop''"
| "exit_reason_value TARGET = ''target''"
| "exit_reason_value MAXIMUM_HOLD = ''maximum_hold''"
| "exit_reason_value OPPOSING_SIGNAL = ''opposing_signal''"
| "exit_reason_value EMERGENCY = ''emergency''"

definition halt_event_payload ::
  "market_exit_command \<Rightarrow> exit_plan \<Rightarrow> string \<Rightarrow> string option \<Rightarrow> json result" where
  "halt_event_payload c x reason market_event_id = freeze_json (pydict
     [(''experiment_id'', PyUUID (xc_experiment_id c)),
      (''proposal_id'', PyUUID (xc_proposal_id c)),
      (''position_id'', PyUUID (xi_position_id (xc_intent c))),
      (''order_id'', PyUUID (xc_order_id c)),
      (''exit_plan_id'', PyUUID (xp_plan_id x)),
      (''exit_plan_version'', PyInt (xp_version x)),
      (''reason'', PyStr reason),
      (''market_event_id'', py_option PyStr market_event_id),
      (''triggered_at'', PyDatetime (xi_triggered_at (xc_intent c))),
      (''trigger_price'', py_option PyDecimal (xi_trigger_price (xc_intent c))),
      (''requires_operator_review'', PyBool True)])"

section \<open>What entry and exit share\<close>

definition slices_payload :: "fill_slice list \<Rightarrow> pyval" where
  "slices_payload ss =
     PySequence (map (\<lambda>s. pydict [(''price'', PyDecimal (sl_price s)), (''quantity'', PyDecimal (sl_quantity s))]) ss)"

definition book_items :: "book_snapshot \<Rightarrow> (string \<times> pyval) list" where
  "book_items b =
     [(''book_event_id'', PyStr (bk_event_id b)),
      (''venue_event_at'', PyDatetime (bk_venue_event_at b)),
      (''observed_at'', PyDatetime (bk_observed_at b)),
      (''sequence'', PyInt (bk_sequence b)),
      (''best_bid'', PyDecimal (best_bid b)),
      (''best_ask'', PyDecimal (best_ask b)),
      (''mark_price'', PyDecimal (bk_mark_price b))]"

definition stored_fill :: "uuid \<Rightarrow> uuid \<Rightarrow> paper_fill \<Rightarrow> string \<Rightarrow> json \<Rightarrow> execution_fill_record result" where
  "stored_fill fill_id order_id f currency market_snapshot =
     execution_fill_record_post_init
       \<lparr>ef_id = fill_id, ef_order_intent_id = order_id, ef_market_event_id = pf_market_event_id f,
        ef_fill_at = pf_fill_at f, ef_quantity = pf_quantity f, ef_price = pf_price f,
        ef_liquidity_role = pf_liquidity_role f, ef_fee = pf_fee f, ef_fee_asset = currency,
        ef_spread_cost = pf_spread_cost f, ef_depth_slippage = pf_depth_slippage f,
        ef_latency_slippage = pf_latency_slippage f, ef_total_slippage = pf_total_slippage f,
        ef_market_snapshot = market_snapshot\<rparr>"

definition finish_record ::
  "paper_order \<Rightarrow> exchange_filter_snapshot \<Rightarrow> execution_fill_record \<Rightarrow> account_state \<Rightarrow> exit_plan \<Rightarrow> paper_fill
     \<Rightarrow> paper_broker_result result" where
  "finish_record o' filters stored a x f =
     (let r = \<lparr>er_order = o', er_exchange_filters = filters, er_fills = [stored], er_account = Some a,
               er_exit_plan = Some x\<rparr>
      in thenE (validate_record r) (Inr \<lparr>rs_record = r, rs_fill = f\<rparr>))"

definition fill_request_of ::
  "string \<Rightarrow> paper_order_side \<Rightarrow> decimal \<Rightarrow> datetime \<Rightarrow> decimal \<Rightarrow> decimal \<Rightarrow> market_fill_request result" where
  "fill_request_of symbol side quantity eligible_after price fee_rate =
     market_fill_request_post_init
       \<lparr>fr_symbol = symbol, fr_side = side, fr_quantity = quantity, fr_eligible_after = eligible_after,
        fr_decision_executable_price = price, fr_taker_fee_rate = fee_rate\<rparr>"

definition open_accepted :: "order_args \<Rightarrow> datetime \<Rightarrow> paper_order result" where
  "open_accepted args created_at =
     bindE (order_create args) (\<lambda>o1. bindE (order_authorize o1 created_at) (\<lambda>o2. order_accept o2 created_at))"

section \<open>Market entries\<close>

definition entry_command_payload :: "market_entry_command \<Rightarrow> decimal \<Rightarrow> datetime \<Rightarrow> pyval" where
  "entry_command_payload c quantity eligible_at = pydict
     [(''experiment_id'', PyUUID (en_experiment_id c)),
      (''decision_cycle_id'', PyUUID (en_decision_cycle_id c)),
      (''proposal_id'', PyUUID (en_proposal_id c)),
      (''gate_chain_hash'', PyStr (en_gate_chain_hash c)),
      (''symbol'', PyStr (en_symbol c)),
      (''side'', PyEnum (PyStr (paper_order_side_value (en_side c)))),
      (''quantity'', PyDecimal quantity),
      (''approved_notional'', PyDecimal (en_approved_notional c)),
      (''eligible_after'', PyDatetime eligible_at),
      (''expires_at'', PyDatetime (en_expires_at c)),
      (''filter_snapshot'', pydict
        [(''captured_at'', PyDatetime (fl_captured_at (en_exchange_filters c))),
         (''price_tick'', PyDecimal (fl_price_tick (en_exchange_filters c))),
         (''quantity_step'', PyDecimal (fl_quantity_step (en_exchange_filters c)))])]"

definition claims_match :: "market_entry_command \<Rightarrow> decimal \<Rightarrow> authorization_claims \<Rightarrow> bool" where
  "claims_match c quantity cl \<longleftrightarrow>
     cl_experiment_id cl = en_experiment_id c \<and> cl_decision_cycle_id cl = en_decision_cycle_id c \<and>
     cl_proposal_id cl = en_proposal_id c \<and> cl_gate_chain_hash cl = en_gate_chain_hash c \<and>
     cl_symbol cl = en_symbol c \<and> cl_side cl = en_side c \<and> cl_quantity cl = quantity \<and>
     cl_approved_notional cl = en_approved_notional c"

definition current_quantity :: "account_state \<Rightarrow> string \<Rightarrow> decimal" where
  "current_quantity a symbol =
     (case map_of (ac_positions a) symbol of None \<Rightarrow> 0 | Some p \<Rightarrow> ps_quantity p)"

definition entry_order_args :: "market_entry_command \<Rightarrow> decimal \<Rightarrow> string \<Rightarrow> decimal \<Rightarrow> order_args" where
  "entry_order_args c quantity command_hash open_quantity =
     \<lparr>oa_order_id = en_order_id c, oa_experiment_id = en_experiment_id c, oa_proposal_id = en_proposal_id c,
      oa_client_order_id = en_client_order_id c, oa_command_hash = command_hash, oa_symbol = en_symbol c,
      oa_side = en_side c, oa_order_type = MARKET, oa_position_effect = OPEN, oa_quantity = quantity,
      oa_limit_price = None, oa_reduce_only = False, oa_open_quantity = open_quantity,
      oa_created_at = en_created_at c, oa_expires_at = en_expires_at c\<rparr>"

text \<open>The checks before the order, with the prepared quantity and the time the order becomes eligible.\<close>

definition entry_admitted ::
  "paper_broker \<Rightarrow> market_entry_command \<Rightarrow> account_state \<Rightarrow> (decimal \<times> datetime) result" where
  "entry_admitted b c a =
     thenE (checks
       [raise_if (ac_experiment_id a \<noteq> en_experiment_id c) (ValueError ''account and command experiment differ''),
        raise_if (fl_captured_at (en_exchange_filters c) > en_decision_completed_at c)
          (ValueError ''exchange filter snapshot cannot be captured after the decision'')])
     (bindE (verify (br_signing_key b) (en_capability c) (en_created_at c)) (\<lambda>valid.
      if \<not> valid then Inl (PermissionError ''execution capability is invalid or expired'')
      else bindE (prepare (en_exchange_filters c) (en_side c) MARKET (en_requested_quantity c)
             (en_approved_quantity c) (Some (en_decision_executable_price c)) (en_approved_notional c)) (\<lambda>prepared.
        if \<not> claims_match c (pr_quantity prepared) (cp_claims (en_capability c))
        then Inl (PermissionError ''execution capability does not match prepared order'')
        else bindE (eligibility (en_decision_completed_at c) (en_execution_latency c)) (\<lambda>el.
          Inr (pr_quantity prepared, el_eligible_at el)))))"

definition entry_exit_plan ::
  "market_entry_command \<Rightarrow> position_state \<Rightarrow> exit_plan option \<Rightarrow> datetime \<Rightarrow> exit_plan result" where
  "entry_exit_plan c p active_exit_plan fill_at =
     (case active_exit_plan of
        None \<Rightarrow> exit_plan_create (en_exit_plan_id c) (ps_position_id p) (ps_side p) (ps_quantity p)
                  (ps_average_entry p) (en_expected_loss_fraction c) (en_expected_gain_fraction c) fill_at 60
      | Some x \<Rightarrow>
          if xp_position_id x \<noteq> ps_position_id p then Inl (ValueError ''active exit plan belongs to another position'')
          else exit_resize x (ps_quantity p) (ps_average_entry p) fill_at)"

text \<open>The accepted order with the fill of the first eligible book applied to it.\<close>

definition entry_filled ::
  "paper_broker \<Rightarrow> market_entry_command \<Rightarrow> account_state \<Rightarrow> book_snapshot list \<Rightarrow> (paper_order \<times> paper_fill) result" where
  "entry_filled b c a books =
     bindE (entry_admitted b c a) (\<lambda>(quantity, eligible_at).
     bindE (content_hash (entry_command_payload c quantity eligible_at)) (\<lambda>command_hash.
     bindE (open_accepted (entry_order_args c quantity command_hash (current_quantity a (en_symbol c)))
              (en_created_at c)) (\<lambda>order.
     bindE (fill_request_of (en_symbol c) (en_side c) quantity eligible_at (en_decision_executable_price c)
              (en_taker_fee_rate c)) (\<lambda>request.
     bindE (market_fill (br_max_book_age b) request books) (\<lambda>f.
     if pf_fill_at f \<ge> en_expires_at c
     then Inl (RuntimeError ''first eligible market fill occurred after order expiry'')
     else bindE (order_apply_fill order (pf_quantity f) (pf_fill_at f)) (\<lambda>filled. Inr (filled, f)))))))"

definition entry_account_fill :: "market_entry_command \<Rightarrow> paper_fill \<Rightarrow> account_fill" where
  "entry_account_fill c f =
     \<lparr>af_fill_id = en_fill_id c, af_position_id = en_position_id c, af_symbol = en_symbol c,
      af_side = en_side c, af_position_effect = OPEN, af_quantity = pf_quantity f,
      af_price = pf_price f, af_fee = pf_fee f, af_fill_at = pf_fill_at f\<rparr>"

definition execute_market_entry ::
  "paper_broker \<Rightarrow> market_entry_command \<Rightarrow> account_state \<Rightarrow> book_snapshot list \<Rightarrow> exit_plan option
     \<Rightarrow> paper_broker_result result" where
  "execute_market_entry b c a books active_exit_plan =
     bindE (entry_filled b c a books) (\<lambda>(filled, f).
     bindE (account_apply_fill a (entry_account_fill c f)) (\<lambda>next_account.
     bindE (account_position next_account (en_symbol c)) (\<lambda>position.
     bindE (entry_exit_plan c position active_exit_plan (pf_fill_at f)) (\<lambda>plan.
     bindE (freeze_json (pydict (book_items (pf_book f) @ [(''slices'', slices_payload (pf_slices f))]))) (\<lambda>snapshot.
     bindE (stored_fill (en_fill_id c) (en_order_id c) f (ac_currency a) snapshot) (\<lambda>stored.
     finish_record filled (en_exchange_filters c) stored next_account plan f))))))"

section \<open>Market exits\<close>

definition exit_command_payload :: "position_state \<Rightarrow> exit_plan \<Rightarrow> exit_reason \<Rightarrow> decimal \<Rightarrow> datetime \<Rightarrow> pyval" where
  "exit_command_payload p x reason quantity eligible_at = pydict
     [(''position_id'', PyUUID (ps_position_id p)),
      (''exit_plan_id'', PyUUID (xp_plan_id x)),
      (''exit_plan_version'', PyInt (xp_version x)),
      (''reason'', PyEnum (PyStr (exit_reason_value reason))),
      (''quantity'', PyDecimal quantity),
      (''eligible_after'', PyDatetime eligible_at)]"

definition exit_order_args :: "market_exit_command \<Rightarrow> position_state \<Rightarrow> decimal \<Rightarrow> string \<Rightarrow> order_args" where
  "exit_order_args c p quantity command_hash =
     \<lparr>oa_order_id = xc_order_id c, oa_experiment_id = xc_experiment_id c, oa_proposal_id = xc_proposal_id c,
      oa_client_order_id = xc_client_order_id c, oa_command_hash = command_hash, oa_symbol = xc_symbol c,
      oa_side = xi_side (xc_intent c), oa_order_type = MARKET, oa_position_effect = REDUCE,
      oa_quantity = quantity, oa_limit_price = None, oa_reduce_only = True, oa_open_quantity = ps_quantity p,
      oa_created_at = xc_created_at c, oa_expires_at = xc_expires_at c\<rparr>"

definition intent_matches :: "market_exit_command \<Rightarrow> position_state \<Rightarrow> exit_plan \<Rightarrow> bool" where
  "intent_matches c p x \<longleftrightarrow>
     xi_position_id (xc_intent c) = ps_position_id p \<and> xp_position_id x = ps_position_id p \<and>
     xi_quantity (xc_intent c) = ps_quantity p \<and>
     xi_side (xc_intent c) = (if ps_side p = LONG then SELL else BUY) \<and> xi_reduce_only (xc_intent c)"

definition halt_on_filter :: "prepared_order result \<Rightarrow> prepared_order result" where
  "halt_on_filter r =
     (case r of Inl (FilterRejection reason) \<Rightarrow> Inl (ExitExecutionHalt (''exchange_filter:'' @ reason) None) | _ \<Rightarrow> r)"

definition halt_on_fill :: "paper_fill result \<Rightarrow> paper_fill result" where
  "halt_on_fill r =
     (case r of Inl (FillRejection reason event) \<Rightarrow> Inl (ExitExecutionHalt reason event) | _ \<Rightarrow> r)"

text \<open>The checks before the exit order, with the position, its quantity and the eligible time.\<close>

definition exit_admitted ::
  "market_exit_command \<Rightarrow> account_state \<Rightarrow> exit_plan \<Rightarrow> (position_state \<times> decimal \<times> datetime) result" where
  "exit_admitted c a x =
     thenE (raise_if (ac_experiment_id a \<noteq> xc_experiment_id c) (ValueError ''account and exit command experiment differ''))
     (bindE (account_position a (xc_symbol c)) (\<lambda>p.
      thenE (checks
        [raise_if (is_flat p) (ValueError ''exit command has no open position''),
         raise_if (xp_status x \<noteq> TRIGGERED) (PermissionError ''exit plan is not triggered''),
         raise_if (\<not> intent_matches c p x) (PermissionError ''exit intent does not match the open position and plan''),
         raise_if (fl_captured_at (xc_exchange_filters c) > xi_triggered_at (xc_intent c))
           (ExitExecutionHalt ''future_exchange_filter_snapshot'' None)])
      (bindE (halt_on_filter (prepare (xc_exchange_filters c) (xi_side (xc_intent c)) MARKET
                (xi_quantity (xc_intent c)) (ps_quantity p) (Some (xc_decision_executable_price c))
                (dmul (ps_quantity p) (xc_decision_executable_price c)))) (\<lambda>prepared.
       if pr_quantity prepared \<noteq> ps_quantity p then Inl (ExitExecutionHalt ''exit_quantization_residual'' None)
       else bindE (eligibility (xi_triggered_at (xc_intent c)) (xc_execution_latency c)) (\<lambda>el.
         Inr (p, pr_quantity prepared, el_eligible_at el))))))"

definition exit_filled ::
  "paper_broker \<Rightarrow> market_exit_command \<Rightarrow> account_state \<Rightarrow> exit_plan \<Rightarrow> book_snapshot list
     \<Rightarrow> (position_state \<times> paper_order \<times> paper_fill) result" where
  "exit_filled b c a x books =
     bindE (exit_admitted c a x) (\<lambda>(position, quantity, eligible_at).
     bindE (content_hash (exit_command_payload position x (xi_reason (xc_intent c)) quantity eligible_at)) (\<lambda>command_hash.
     bindE (open_accepted (exit_order_args c position quantity command_hash) (xc_created_at c)) (\<lambda>order.
     bindE (halt_on_fill
              (bindE (fill_request_of (xc_symbol c) (xi_side (xc_intent c)) quantity eligible_at
                        (xc_decision_executable_price c) (xc_taker_fee_rate c)) (\<lambda>request.
               market_fill (br_max_book_age b) request books))) (\<lambda>f.
     if pf_fill_at f \<ge> xc_expires_at c
     then Inl (ExitExecutionHalt ''exit_fill_after_expiry'' (Some (pf_market_event_id f)))
     else bindE (order_apply_fill order (pf_quantity f) (pf_fill_at f)) (\<lambda>filled. Inr (position, filled, f))))))"

definition exit_account_fill :: "market_exit_command \<Rightarrow> position_state \<Rightarrow> paper_fill \<Rightarrow> account_fill" where
  "exit_account_fill c position f =
     \<lparr>af_fill_id = xc_fill_id c, af_position_id = ps_position_id position, af_symbol = xc_symbol c,
      af_side = xi_side (xc_intent c), af_position_effect = REDUCE, af_quantity = pf_quantity f,
      af_price = pf_price f, af_fee = pf_fee f, af_fill_at = pf_fill_at f\<rparr>"

definition exit_snapshot_items :: "market_exit_command \<Rightarrow> paper_fill \<Rightarrow> (string \<times> pyval) list" where
  "exit_snapshot_items c f = book_items (pf_book f) @
     [(''trigger_price'', py_option PyDecimal (xi_trigger_price (xc_intent c))),
      (''exit_reason'', PyEnum (PyStr (exit_reason_value (xi_reason (xc_intent c))))),
      (''slices'', slices_payload (pf_slices f))]"

definition execute_market_exit ::
  "paper_broker \<Rightarrow> market_exit_command \<Rightarrow> account_state \<Rightarrow> exit_plan \<Rightarrow> book_snapshot list
     \<Rightarrow> paper_broker_result result" where
  "execute_market_exit b c a x books =
     bindE (exit_filled b c a x books) (\<lambda>(position, filled, f).
     bindE (account_apply_fill a (exit_account_fill c position f)) (\<lambda>next_account.
     bindE (exit_close x (pf_fill_at f)) (\<lambda>closed_plan.
     bindE (freeze_json (pydict (exit_snapshot_items c f))) (\<lambda>snapshot.
     bindE (stored_fill (xc_fill_id c) (xc_order_id c) f (ac_currency a) snapshot) (\<lambda>stored.
     finish_record filled (xc_exchange_filters c) stored next_account closed_plan f)))))"

end
