(* ===== verification/Position_Values.thy ===== *)
theory Position_Values
  imports Positions
begin

text \<open>
  Opening and closing a position against the exact first-in, first-out reference.
\<close>

section \<open>First in, first out, in exact arithmetic\<close>

text \<open>
  The reference: how much of each lot a close takes, and the profit of a quantity between two
  prices.  On the price and quantity grid of the venue, with values that fit 28 digits, the rounded
  arithmetic of the code agrees with it.
\<close>

fun fifo_take :: "decimal \<Rightarrow> decimal list \<Rightarrow> decimal list" where
  "fifo_take q [] = []"
| "fifo_take q (x # xs) = min x q # fifo_take (q - min x q) xs"

definition exact_pnl :: "direction \<Rightarrow> decimal \<Rightarrow> decimal \<Rightarrow> decimal \<Rightarrow> decimal" where
  "exact_pnl side price entry_price q = (if side = LONG then price - entry_price else entry_price - price) * q"

definition lot_grid :: "nat \<Rightarrow> nat \<Rightarrow> position_lot \<Rightarrow> bool" where
  "lot_grid k l lot \<longleftrightarrow> on_grid k (lot_remaining_quantity lot) \<and> 0 \<le> lot_remaining_quantity lot \<and>
     on_grid l (lot_entry_price lot) \<and> 0 < lot_entry_price lot"

definition lots_mass :: "decimal \<Rightarrow> position_lot list \<Rightarrow> decimal" where
  "lots_mass price lots = sum_list (map (\<lambda>lot. (price + lot_entry_price lot) * lot_remaining_quantity lot) lots)"

lemma length_fifo_take [simp]: "length (fifo_take q xs) = length xs"
  by (induction xs arbitrary: q) simp_all

lemma fifo_take_bounds:
  assumes "0 \<le> q" "\<forall>x \<in> set xs. 0 \<le> x" "i < length xs"
  shows "0 \<le> fifo_take q xs ! i \<and> fifo_take q xs ! i \<le> xs ! i"
  using assms
proof (induction xs arbitrary: q i)
  case (Cons x xs)
  then show ?case by (cases i) (auto simp: min_def)
qed simp

lemma sum_fifo_take:
  assumes "0 \<le> q" "\<forall>x \<in> set xs. 0 \<le> x"
  shows "sum_list (fifo_take q xs) = min q (sum_list xs)"
  using assms
proof (induction xs arbitrary: q)
  case (Cons x xs)
  then have "0 \<le> sum_list xs" by (auto intro: sum_list_nonneg)
  with Cons show ?case by (auto simp: min_def)
qed auto

lemma lot_pnl_exact:
  assumes "on_grid l price" "on_grid l entry" "on_grid k c" "on_grid k rem" "0 < price" "0 < entry" "0 \<le> c" "c \<le> rem"
    "0 < rem" "k + l \<le> 28" "(price + entry) * rem \<le> 10 ^ (28 - (k + l))"
  shows "lot_pnl side price entry c = exact_pnl side price entry c"
    and "\<bar>exact_pnl side price entry c\<bar> \<le> (price + entry) * rem"
    and "on_grid (k + l) (exact_pnl side price entry c)"
proof -
  let ?d = "if side = LONG then price - entry else entry - price"
  have d: "on_grid l ?d" "\<bar>?d\<bar> \<le> price + entry" "l \<le> 28"
    using assms by (auto intro: on_grid_diff)
  have "rem * (price + entry) \<le> 10 ^ (28 - (k + l))" using assms(11) by (simp add: mult.commute)
  from grid_factor_le [OF assms(4,9) this assms(10)] d have "dround ?d = ?d"
    by (intro dround_on_grid) auto
  then have ds: "(if side = LONG then dsub price entry else dsub entry price) = ?d"
    by (auto simp: dsub_def)
  show b: "\<bar>exact_pnl side price entry c\<bar> \<le> (price + entry) * rem"
    unfolding exact_pnl_def abs_mult using d(2) assms(5-9) by (intro mult_mono) auto
  show g: "on_grid (k + l) (exact_pnl side price entry c)"
    unfolding exact_pnl_def using on_grid_mult [OF assms(3) d(1)] by (simp add: mult.commute)
  show "lot_pnl side price entry c = exact_pnl side price entry c"
    using dround_on_grid [OF g assms(10)] b assms(11) unfolding lot_pnl_def ds dmul_def exact_pnl_def by simp
qed

lemma lots_mass_nonneg: "\<forall>lot \<in> set lots. lot_grid k l lot \<Longrightarrow> 0 < price \<Longrightarrow> 0 \<le> lots_mass price lots"
  unfolding lots_mass_def by (intro sum_list_nonneg) (auto simp: lot_grid_def)

lemma close_lots_exact:
  assumes "\<forall>lot \<in> set lots. lot_grid k l lot" "on_grid k q" "0 \<le> q" "q \<le> 10 ^ (28 - k)"
    "on_grid l price" "0 < price" "k + l \<le> 28" "on_grid (k + l) r"
    "\<bar>r\<bar> + lots_mass price lots \<le> 10 ^ (28 - (k + l))"
    "close_lots side price q r lots = (u, r')"
  shows "r' = r + sum_list (map2 (\<lambda>lot c. exact_pnl side price (lot_entry_price lot) c) lots
            (fifo_take q (map lot_remaining_quantity lots)))
    \<and> map lot_remaining_quantity u =
        map2 (-) (map lot_remaining_quantity lots) (fifo_take q (map lot_remaining_quantity lots))
    \<and> map lot_entry_price u = map lot_entry_price lots"
  using assms
proof (induction lots arbitrary: q r u)
  case Nil
  then show ?case by simp
next
  case (Cons lot lots)
  let ?rem = "lot_remaining_quantity lot" and ?e = "lot_entry_price lot"
  have lot: "on_grid k ?rem" "0 \<le> ?rem" "on_grid l ?e" "0 < ?e" and lots: "\<forall>lot \<in> set lots. lot_grid k l lot"
    using Cons.prems(1) by (auto simp: lot_grid_def)
  note nn = lots_mass_nonneg [OF lots Cons.prems(6)]
  have m: "lots_mass price (lot # lots) = (price + ?e) * ?rem + lots_mass price lots"
    by (simp add: lots_mass_def)
  have le: "0 \<le> (price + ?e) * ?rem" using lot Cons.prems(6) by simp
  show ?case
  proof (cases "q \<le> 0 \<or> ?rem \<le> 0")
    case True
    then have z: "min ?rem q = 0" using lot(2) Cons.prems(3) by auto
    obtain u' where u': "close_lots side price q r lots = (u', r')" "u = lot # u'"
      using Cons.prems(10) True by (auto split: prod.splits)
    have "\<bar>r\<bar> + lots_mass price lots \<le> 10 ^ (28 - (k + l))"
      using Cons.prems(9) le unfolding m by linarith
    from Cons.IH [OF lots Cons.prems(2-8) this u'(1)] show ?thesis
      using u'(2) z by (simp add: exact_pnl_def)
  next
    case False
    let ?c = "min ?rem q"
    let ?p = "exact_pnl side price ?e ?c"
    have c: "0 < ?c" "?c \<le> ?rem" "?c \<le> q" "on_grid k ?c" using False lot Cons.prems(2) by (auto simp: min_def)
    have bd: "(price + ?e) * ?rem \<le> 10 ^ (28 - (k + l))"
      using Cons.prems(9) nn unfolding m by linarith
    have c0: "0 \<le> ?c" "0 < ?rem" using c by linarith+
    note p = lot_pnl_exact [OF Cons.prems(5) lot(3) c(4) lot(1) Cons.prems(6) lot(4) c0(1) c(2) c0(2) Cons.prems(7) bd]
    have "price * ?rem \<le> (price + ?e) * ?rem" using lot by (simp add: distrib_right)
    then have "price * ?rem \<le> 10 ^ (28 - (l + k))" using bd by (simp add: add.commute)
    from grid_factor_le [OF Cons.prems(5,6) this] have rem: "?rem \<le> 10 ^ (28 - k)"
      using Cons.prems(7) by simp
    have r1: "\<bar>r + ?p\<bar> + lots_mass price lots \<le> 10 ^ (28 - (k + l))"
      using p(2) [of side] Cons.prems(9) abs_triangle_ineq [of r ?p] unfolding m by linarith
    have gr: "on_grid (k + l) (r + ?p)" using Cons.prems(8) p(3) by (rule on_grid_add)
    have "dround (r + ?p) = r + ?p"
      using r1 nn by (intro dround_on_grid [OF gr Cons.prems(7)]) linarith
    moreover have "dsub q ?c = q - ?c" "dsub ?rem ?c = ?rem - ?c"
      using c lot rem Cons.prems(2,4,7) by (auto intro!: dsub_on_grid [of k])
    ultimately obtain u' where u': "close_lots side price (q - ?c) (r + ?p) lots = (u', r')"
        "u = close_lot lot ?c # u'" "lot_remaining_quantity (close_lot lot ?c) = ?rem - ?c"
        "lot_entry_price (close_lot lot ?c) = ?e"
      using Cons.prems(10) False p(1) [of side]
      by (auto simp: Let_def dadd_def close_lot_def split: prod.splits)
    have "on_grid k (q - ?c)" "0 \<le> q - ?c" "q - ?c \<le> 10 ^ (28 - k)"
      using c Cons.prems(2,4) by (auto intro: on_grid_diff)
    from Cons.IH [OF lots this Cons.prems(5-7) gr r1 u'(1)] show ?thesis
      using u'(2-4) by simp
  qed
qed

definition exact_quantity :: "position_lot list \<Rightarrow> decimal" where
  "exact_quantity lots = sum_list (map lot_remaining_quantity lots)"

definition exact_unrealized :: "direction \<Rightarrow> decimal \<Rightarrow> position_lot list \<Rightarrow> decimal" where
  "exact_unrealized side price lots =
     sum_list (map (\<lambda>lot. exact_pnl side price (lot_entry_price lot) (lot_remaining_quantity lot)) lots)"

text \<open>Lots on the grid whose value at the price fits 28 digits.\<close>

definition lots_fit :: "nat \<Rightarrow> nat \<Rightarrow> decimal \<Rightarrow> position_lot list \<Rightarrow> bool" where
  "lots_fit k l price lots \<longleftrightarrow> k + l \<le> 28 \<and> on_grid l price \<and> 0 < price \<and> (\<forall>lot \<in> set lots. lot_grid k l lot) \<and>
     lots_mass price lots \<le> 10 ^ (28 - (k + l))"

lemma exact_quantity_nonneg: "\<forall>lot \<in> set lots. lot_grid k l lot \<Longrightarrow> 0 \<le> exact_quantity lots"
  unfolding exact_quantity_def by (intro sum_list_nonneg) (auto simp: lot_grid_def)

lemma on_grid_exact_quantity: "\<forall>lot \<in> set lots. lot_grid k l lot \<Longrightarrow> on_grid k (exact_quantity lots)"
  unfolding exact_quantity_def by (intro on_grid_sum_list) (auto simp: lot_grid_def)

lemma price_quantity_le_mass:
  assumes "\<forall>lot \<in> set lots. lot_grid k l lot"
  shows "price * exact_quantity lots \<le> lots_mass price lots"
proof -
  have "price * exact_quantity lots = sum_list (map (\<lambda>lot. price * lot_remaining_quantity lot) lots)"
    by (simp add: exact_quantity_def sum_list_const_mult o_def)
  also have "\<dots> \<le> lots_mass price lots"
    unfolding lots_mass_def using assms by (intro sum_list_mono) (auto simp: lot_grid_def distrib_right)
  finally show ?thesis .
qed

lemma exact_quantity_le:
  assumes "lots_fit k l price lots"
  shows "exact_quantity lots \<le> 10 ^ (28 - k)"
proof -
  have "price * exact_quantity lots \<le> 10 ^ (28 - (l + k))"
    using assms price_quantity_le_mass [of lots k l price] by (auto simp: lots_fit_def add.commute)
  then show ?thesis
    using assms by (intro grid_factor_le [of l price _ k]) (auto simp: lots_fit_def add.commute)
qed

lemma lots_quantity_exact:
  assumes "lots_fit k l price lots"
  shows "lots_quantity lots = exact_quantity lots"
proof -
  have "map abs (map lot_remaining_quantity lots) = map lot_remaining_quantity lots"
    using assms by (auto simp: lots_fit_def lot_grid_def)
  then have "sum_list (map abs (map lot_remaining_quantity lots)) \<le> 10 ^ (28 - k)"
    using exact_quantity_le [OF assms] by (simp only: exact_quantity_def)
  then show ?thesis
    unfolding lots_quantity_def exact_quantity_def using assms
    by (intro dsum_on_grid [of _ k]) (auto simp: lots_fit_def lot_grid_def)
qed

lemma lot_mass_le:
  assumes "\<forall>x \<in> set lots. lot_grid k l x" "lot \<in> set lots" "0 < price"
  shows "(price + lot_entry_price lot) * lot_remaining_quantity lot \<le> lots_mass price lots"
  unfolding lots_mass_def using assms
  by (intro member_le_sum_list) (auto simp: lot_grid_def)

lemma lot_unrealized_exact:
  assumes "lots_fit k l price lots" "lot \<in> set lots"
  shows "lot_pnl side price (lot_entry_price lot) (lot_remaining_quantity lot) =
      exact_pnl side price (lot_entry_price lot) (lot_remaining_quantity lot)"
    and "\<bar>exact_pnl side price (lot_entry_price lot) (lot_remaining_quantity lot)\<bar>
      \<le> (price + lot_entry_price lot) * lot_remaining_quantity lot"
    and "on_grid (k + l) (exact_pnl side price (lot_entry_price lot) (lot_remaining_quantity lot))"
proof -
  have g: "lot_grid k l lot" and f: "k + l \<le> 28" "on_grid l price" "0 < price"
    "(price + lot_entry_price lot) * lot_remaining_quantity lot \<le> 10 ^ (28 - (k + l))"
    using assms lot_mass_le [of lots k l lot price] by (auto simp: lots_fit_def)
  note L = g [unfolded lot_grid_def]
  consider "lot_remaining_quantity lot = 0" | "0 < lot_remaining_quantity lot" using L by force
  then have "lot_pnl side price (lot_entry_price lot) (lot_remaining_quantity lot) =
      exact_pnl side price (lot_entry_price lot) (lot_remaining_quantity lot) \<and>
    \<bar>exact_pnl side price (lot_entry_price lot) (lot_remaining_quantity lot)\<bar>
      \<le> (price + lot_entry_price lot) * lot_remaining_quantity lot \<and>
    on_grid (k + l) (exact_pnl side price (lot_entry_price lot) (lot_remaining_quantity lot))"
  proof cases
    case 1
    then show ?thesis by (simp add: lot_pnl_def exact_pnl_def dmul_def dround_zero)
  next
    case 2
    then show ?thesis using lot_pnl_exact [OF f(2) _ _ _ f(3) _ _ order_refl _ f(1,4)] L by blast
  qed
  then show "lot_pnl side price (lot_entry_price lot) (lot_remaining_quantity lot) =
      exact_pnl side price (lot_entry_price lot) (lot_remaining_quantity lot)"
    and "\<bar>exact_pnl side price (lot_entry_price lot) (lot_remaining_quantity lot)\<bar>
      \<le> (price + lot_entry_price lot) * lot_remaining_quantity lot"
    and "on_grid (k + l) (exact_pnl side price (lot_entry_price lot) (lot_remaining_quantity lot))" by blast+
qed

lemma exact_unrealized_bound:
  assumes "lots_fit k l price lots"
  shows "\<bar>exact_unrealized side price lots\<bar> \<le> lots_mass price lots"
    and "on_grid (k + l) (exact_unrealized side price lots)"
    and "sum_list (map abs (map (\<lambda>lot. exact_pnl side price (lot_entry_price lot) (lot_remaining_quantity lot)) lots))
      \<le> lots_mass price lots"
proof -
  show s: "sum_list (map abs (map (\<lambda>lot. exact_pnl side price (lot_entry_price lot) (lot_remaining_quantity lot)) lots))
      \<le> lots_mass price lots"
    unfolding lots_mass_def map_map o_def using lot_unrealized_exact(2) [OF assms] by (intro sum_list_mono)
  show "\<bar>exact_unrealized side price lots\<bar> \<le> lots_mass price lots"
    using sum_list_abs [of "map (\<lambda>lot. exact_pnl side price (lot_entry_price lot) (lot_remaining_quantity lot)) lots"] s
    unfolding exact_unrealized_def by linarith
  show "on_grid (k + l) (exact_unrealized side price lots)"
    unfolding exact_unrealized_def using lot_unrealized_exact(3) [OF assms] by (intro on_grid_sum_list) auto
qed

lemma exact_unrealized_flat:
  assumes "\<forall>lot \<in> set lots. lot_grid k l lot" "exact_quantity lots = 0"
  shows "exact_unrealized side price lots = 0"
proof -
  have "lot_remaining_quantity lot = 0" if "lot \<in> set lots" for lot
  proof (rule antisym)
    show "lot_remaining_quantity lot \<le> 0"
      unfolding assms(2) [symmetric] exact_quantity_def using assms(1) that
      by (intro member_le_sum_list) (auto simp: lot_grid_def)
  qed (use assms(1) that in \<open>auto simp: lot_grid_def\<close>)
  then have "map (\<lambda>lot. exact_pnl side price (lot_entry_price lot) (lot_remaining_quantity lot)) lots = map (\<lambda>_. 0) lots"
    by (simp add: exact_pnl_def)
  then show ?thesis unfolding exact_unrealized_def by (simp only:) (simp add: sum_list_triv)
qed

lemma ps_unrealized_exact:
  assumes "lots_fit k l (ps_mark_price p) (ps_lots p)"
  shows "ps_unrealized_pnl p = exact_unrealized (ps_side p) (ps_mark_price p) (ps_lots p)"
proof (cases "is_flat p")
  case True
  then have "exact_quantity (ps_lots p) = 0"
    using lots_quantity_exact [OF assms] by (simp add: is_flat_def ps_quantity_def)
  then show ?thesis
    using exact_unrealized_flat True assms by (metis lots_fit_def ps_unrealized_pnl_def)
next
  case False
  have "map (\<lambda>lot. lot_pnl (ps_side p) (ps_mark_price p) (lot_entry_price lot) (lot_remaining_quantity lot)) (ps_lots p) =
      map (\<lambda>lot. exact_pnl (ps_side p) (ps_mark_price p) (lot_entry_price lot) (lot_remaining_quantity lot)) (ps_lots p)"
    using lot_unrealized_exact(1) [OF assms] by simp
  then have "ps_unrealized_pnl p = dsum (map (\<lambda>lot. exact_pnl (ps_side p) (ps_mark_price p) (lot_entry_price lot)
      (lot_remaining_quantity lot)) (ps_lots p))"
    using False by (simp only: ps_unrealized_pnl_def if_False)
  also have "\<dots> = exact_unrealized (ps_side p) (ps_mark_price p) (ps_lots p)"
    unfolding exact_unrealized_def
  proof (rule dsum_on_grid [of _ "k + l"])
    show "sum_list (map abs (map (\<lambda>lot. exact_pnl (ps_side p) (ps_mark_price p) (lot_entry_price lot)
        (lot_remaining_quantity lot)) (ps_lots p))) \<le> 10 ^ (28 - (k + l))"
      by (rule order_trans [OF exact_unrealized_bound(3) [OF assms]]) (use assms in \<open>simp add: lots_fit_def\<close>)
  qed (use lot_unrealized_exact(3) [OF assms] assms in \<open>auto simp: lots_fit_def\<close>)
  finally show ?thesis .
qed

lemma sum_list_mono_nth:
  "length xs = length ys \<Longrightarrow> (\<And>i. i < length xs \<Longrightarrow> xs ! i \<le> ys ! i) \<Longrightarrow> sum_list xs \<le> sum_list (ys :: rat list)"
  by (rule sum_list_mono2) auto

lemma exact_unrealized_map2:
  "exact_unrealized side price lots =
     sum_list (map2 (exact_pnl side price) (map lot_entry_price lots) (map lot_remaining_quantity lots))"
  by (simp add: exact_unrealized_def zip_map_map zip_same_conv_map o_def)

lemma sum_pnl_diff:
  assumes "length es = length rs" "length rs = length cs"
  shows "sum_list (map2 (exact_pnl side price) es (map2 (-) rs cs)) =
    sum_list (map2 (exact_pnl side price) es rs) - sum_list (map2 (exact_pnl side price) es cs)"
  using assms
  by (induction es rs cs rule: list_induct3) (simp_all add: exact_pnl_def right_diff_distrib)

lemma sum_list_map2_diff: "length xs = length ys \<Longrightarrow> sum_list (map2 (-) xs ys) = sum_list xs - sum_list (ys :: rat list)"
  by (induction xs ys rule: list_induct2) simp_all

lemma lots_mass_map2:
  "lots_mass price lots =
     sum_list (map2 (\<lambda>e r. (price + e) * r) (map lot_entry_price lots) (map lot_remaining_quantity lots))"
  by (simp add: lots_mass_def zip_map_map zip_same_conv_map o_def)

lemma fifo_take_on_grid:
  assumes "\<forall>x \<in> set xs. on_grid k x" "on_grid k q"
  shows "\<forall>c \<in> set (fifo_take q xs). on_grid k c"
  using assms
proof (induction xs arbitrary: q)
  case (Cons x xs)
  have "on_grid k (min x q)" "on_grid k (q - min x q)"
    using Cons.prems by (auto simp: min_def intro: on_grid_diff)
  with Cons show ?case by simp
qed simp

lemma reduced_lots:
  assumes fit: "lots_fit k l price lots" and q: "on_grid k q" "0 \<le> q"
    and rem: "map lot_remaining_quantity u =
      map2 (-) (map lot_remaining_quantity lots) (fifo_take q (map lot_remaining_quantity lots))"
    and ent: "map lot_entry_price u = map lot_entry_price lots"
  shows "\<forall>lot \<in> set u. lot_grid k l lot" "lots_mass price u \<le> lots_mass price lots" "lots_fit k l price u"
proof -
  let ?xs = "map lot_remaining_quantity lots" and ?cs = "fifo_take q (map lot_remaining_quantity lots)"
  have len: "length u = length lots" using ent by (metis length_map)
  have L: "\<forall>lot \<in> set lots. lot_grid k l lot" "0 < price" using fit by (auto simp: lots_fit_def)
  have cs: "0 \<le> ?cs ! i \<and> ?cs ! i \<le> ?xs ! i" if "i < length lots" for i
    using L(1) that q(2) by (intro fifo_take_bounds) (auto simp: lot_grid_def)
  have gcs: "on_grid k (?cs ! i)" if "i < length lots" for i
    using fifo_take_on_grid [of ?xs k q] L(1) q(1) that by (auto simp: lot_grid_def)
  have nth: "lot_remaining_quantity (u ! i) = ?xs ! i - ?cs ! i" "lot_entry_price (u ! i) = lot_entry_price (lots ! i)"
    if "i < length lots" for i
    using arg_cong [OF rem, of "\<lambda>ys. ys ! i"] arg_cong [OF ent, of "\<lambda>ys. ys ! i"] that len by auto
  show gu: "\<forall>lot \<in> set u. lot_grid k l lot"
  proof
    fix x assume "x \<in> set u"
    then obtain i where i: "i < length lots" "x = u ! i" using len by (auto simp: in_set_conv_nth)
    then have "lot_grid k l (lots ! i)" using L(1) by simp
    then show "lot_grid k l x"
      using nth [OF i(1)] cs [OF i(1)] gcs [OF i(1)] i by (auto simp: lot_grid_def intro: on_grid_diff)
  qed
  show m: "lots_mass price u \<le> lots_mass price lots"
    unfolding lots_mass_def
  proof (rule sum_list_mono_nth)
    fix i assume i: "i < length (map (\<lambda>lot. (price + lot_entry_price lot) * lot_remaining_quantity lot) u)"
    have "(price + lot_entry_price (lots ! i)) * (?xs ! i - ?cs ! i) \<le> (price + lot_entry_price (lots ! i)) * ?xs ! i"
    proof (intro mult_left_mono)
      have "lot_grid k l (lots ! i)" using i len L(1) by simp
      then show "0 \<le> price + lot_entry_price (lots ! i)" using L(2) by (simp add: lot_grid_def)
    qed (use i len cs [of i] in simp)
    then show "map (\<lambda>lot. (price + lot_entry_price lot) * lot_remaining_quantity lot) u ! i
        \<le> map (\<lambda>lot. (price + lot_entry_price lot) * lot_remaining_quantity lot) lots ! i"
      using i len nth [of i] by simp
  qed (simp add: len)
  show "lots_fit k l price u" using fit gu m by (auto simp: lots_fit_def)
qed

lemma close_fill_result:
  assumes fit: "lots_fit k l price (ps_lots p)" and q: "on_grid k q" "0 < q" "q \<le> ps_quantity p"
    and r: "on_grid (k + l) (ps_realized_pnl p)"
      "\<bar>ps_realized_pnl p\<bar> + lots_mass price (ps_lots p) \<le> 10 ^ (28 - (k + l))"
    and ok: "0 \<le> fee" "is_utc t"
  obtains p' where "close_fill p q price fee t = Inr p'"
    "map lot_remaining_quantity (ps_lots p') = map2 (-) (map lot_remaining_quantity (ps_lots p))
        (fifo_take q (map lot_remaining_quantity (ps_lots p)))"
    "ps_mark_price p' = price" "ps_fees p' = dadd (ps_fees p) fee" "ps_funding p' = ps_funding p"
    "ps_realized_pnl p' = ps_realized_pnl p + exact_unrealized (ps_side p) price (ps_lots p)
        - exact_unrealized (ps_side p) price (ps_lots p')"
    "ps_side p' = (if q = ps_quantity p then NEUTRAL else ps_side p)"
    "lots_fit k l price (ps_lots p')" "lots_mass price (ps_lots p') \<le> lots_mass price (ps_lots p)"
    "exact_quantity (ps_lots p') = exact_quantity (ps_lots p) - q"
    "\<bar>ps_realized_pnl p' - ps_realized_pnl p\<bar> \<le> lots_mass price (ps_lots p)" "on_grid (k + l) (ps_realized_pnl p')"
proof -
  let ?xs = "map lot_remaining_quantity (ps_lots p)" and ?es = "map lot_entry_price (ps_lots p)"
  let ?cs = "fifo_take q ?xs"
  have L: "\<forall>lot \<in> set (ps_lots p). lot_grid k l lot" "0 < price" "on_grid l price" "k + l \<le> 28"
    using fit by (auto simp: lots_fit_def)
  have eq: "ps_quantity p = exact_quantity (ps_lots p)"
    using lots_quantity_exact [OF fit] by (simp add: ps_quantity_def)
  have qle: "q \<le> 10 ^ (28 - k)" "0 \<le> q" using q eq exact_quantity_le [OF fit] by auto
  obtain u r' where c: "close_lots (ps_side p) price q 0 (ps_lots p) = (u, r')" by fastforce
  have m: "\<bar>0 :: rat\<bar> + lots_mass price (ps_lots p) \<le> 10 ^ (28 - (k + l))" using fit by (simp add: lots_fit_def)
  note x = close_lots_exact [OF L(1) q(1) qle(2,1) L(3,2,4) on_grid_0 m c]
  have rem: "map lot_remaining_quantity u = map2 (-) ?xs ?cs" and ent: "map lot_entry_price u = ?es"
    using x by blast+
  note red = reduced_lots [OF fit q(1) qle(2) rem ent]
  have r': "r' = exact_unrealized (ps_side p) price (ps_lots p) - exact_unrealized (ps_side p) price u"
    using x unfolding exact_unrealized_map2 rem ent
    by (subst sum_pnl_diff) (auto simp: zip_map1 split_def o_def)
  have sum_cs: "sum_list ?cs = q"
    using sum_fifo_take [of q ?xs] L(1) q eq qle(2) by (auto simp: lot_grid_def exact_quantity_def)
  have qu: "exact_quantity u = exact_quantity (ps_lots p) - q"
    unfolding exact_quantity_def rem using sum_cs by (subst sum_list_map2_diff) auto
  have r'g: "on_grid (k + l) (ps_realized_pnl p + r')"
    unfolding r' using r(1) exact_unrealized_bound(2) [OF fit] exact_unrealized_bound(2) [OF red(3)]
    by (intro on_grid_add on_grid_diff)
  have cb: "0 \<le> ?cs ! i \<and> ?cs ! i \<le> ?xs ! i" if "i < length ?xs" for i
    using L(1) that qle(2) by (intro fifo_take_bounds) (auto simp: lot_grid_def)
  have "\<bar>r'\<bar> \<le> sum_list (map abs (map2 (exact_pnl (ps_side p) price) ?es ?cs))"
    using x sum_list_abs [of "map2 (exact_pnl (ps_side p) price) ?es ?cs"] by (simp add: zip_map1 split_def o_def)
  also have "\<dots> \<le> lots_mass price (ps_lots p)"
    unfolding lots_mass_def
  proof (rule sum_list_mono_nth)
    fix i assume i: "i < length (map abs (map2 (exact_pnl (ps_side p) price) ?es ?cs))"
    then have g: "lot_grid k l (ps_lots p ! i)" using L(1) by simp
    show "map abs (map2 (exact_pnl (ps_side p) price) ?es ?cs) ! i
        \<le> map (\<lambda>lot. (price + lot_entry_price lot) * lot_remaining_quantity lot) (ps_lots p) ! i"
      using i cb [of i] g L(2) by (auto simp: exact_pnl_def abs_mult lot_grid_def intro!: mult_mono)
  qed simp
  finally have r'b: "\<bar>r'\<bar> \<le> lots_mass price (ps_lots p)" .
  have "dsub (ps_quantity p) q = ps_quantity p - q"
    using q qle exact_quantity_le [OF fit] on_grid_exact_quantity [OF L(1)] eq L(4)
    by (intro dsub_on_grid [of k]) auto
  moreover have "dround (ps_realized_pnl p + r') = ps_realized_pnl p + r'"
    using r(2) r'b by (intro dround_on_grid [OF r'g L(4)]) linarith
  moreover have "\<not> is_flat p" using q by (auto simp: is_flat_def)
  ultimately have "close_fill p q price fee t = Inr (p\<lparr>ps_side := if q = ps_quantity p then NEUTRAL else ps_side p,
      ps_mark_price := price,
      ps_average_entry := if q = ps_quantity p then 0 else ddiv (lots_cost u) (ps_quantity p - q),
      ps_realized_pnl := ps_realized_pnl p + r', ps_fees := dadd (ps_fees p) fee, ps_lots := u,
      ps_closed_at := if q = ps_quantity p then Some t else None, ps_version := ps_version p + 1\<rparr>)"
    using q ok L(2) c by (auto simp: close_fill_def dadd_def)
  then show thesis
    by (rule that) (use rem red qu r' r'b r'g in simp_all)
qed

lemma lots_mass_snoc:
  "lots_mass price (lots @ [lot]) = lots_mass price lots + (price + lot_entry_price lot) * lot_remaining_quantity lot"
  by (simp add: lots_mass_def)

lemma open_fill_result:
  assumes fit: "lots_fit k l price (ps_lots p)" and q: "on_grid k q" "0 < q"
    and side: "side = LONG \<or> side = SHORT" "is_flat p \<or> ps_side p = side"
    and m: "lots_mass price (ps_lots p) + 2 * price * q \<le> 10 ^ (28 - (k + l))"
    and ok: "0 \<le> fee" "is_utc t"
  obtains p' where "open_fill p fid side q price fee t = Inr p'"
    "ps_mark_price p' = price" "ps_fees p' = dadd (ps_fees p) fee" "ps_funding p' = ps_funding p"
    "ps_realized_pnl p' = ps_realized_pnl p" "ps_side p' = side"
    "exact_unrealized side price (ps_lots p') = exact_unrealized (ps_side p) price (ps_lots p)"
    "lots_fit k l price (ps_lots p')" "lots_mass price (ps_lots p') = lots_mass price (ps_lots p) + 2 * price * q"
    "exact_quantity (ps_lots p') = exact_quantity (ps_lots p) + q"
    "map lot_remaining_quantity (ps_lots p') = map lot_remaining_quantity (ps_lots p) @ [q]"
proof -
  define lot where "lot = \<lparr>lot_lot_id = fid, lot_opening_fill_id = fid, lot_opened_at = t, lot_entry_price = price,
    lot_original_quantity = q, lot_remaining_quantity = q, lot_opening_fee = fee, lot_remaining_opening_fee = fee,
    lot_funding = 0\<rparr>"
  let ?ls = "ps_lots p @ [lot]"
  have L: "\<forall>lot \<in> set (ps_lots p). lot_grid k l lot" "0 < price" "on_grid l price" "k + l \<le> 28"
    using fit by (auto simp: lots_fit_def)
  have mass: "lots_mass price ?ls = lots_mass price (ps_lots p) + 2 * price * q"
    unfolding lots_mass_snoc by (simp add: lot_def)
  have g: "lot_grid k l lot" using L q by (auto simp: lot_grid_def lot_def)
  then have fit': "lots_fit k l price ?ls"
    using L m mass by (auto simp: lots_fit_def)
  have qu: "exact_quantity ?ls = exact_quantity (ps_lots p) + q"
    by (simp add: exact_quantity_def lot_def)
  have eq: "ps_quantity p = exact_quantity (ps_lots p)"
    using lots_quantity_exact [OF fit] by (simp add: ps_quantity_def)
  have nn: "0 \<le> exact_quantity (ps_lots p)" using exact_quantity_nonneg [OF L(1)] .
  have "dround (ps_quantity p + q) = ps_quantity p + q"
    unfolding eq using on_grid_exact_quantity [OF L(1)] q L(4) exact_quantity_le [OF fit'] nn unfolding qu
    by (intro dround_on_grid [of k]) (auto intro: on_grid_add)
  moreover have "ps_quantity p + q \<noteq> 0" using nn q(2) eq by linarith
  moreover have un: "exact_unrealized side price ?ls = exact_unrealized (ps_side p) price (ps_lots p)"
  proof (cases "is_flat p")
    case True
    then have "exact_quantity (ps_lots p) = 0" using eq by (simp add: is_flat_def)
    then show ?thesis
      using exact_unrealized_flat [OF L(1)] by (simp add: exact_unrealized_def exact_pnl_def lot_def)
  next
    case False
    then show ?thesis using side(2) by (simp add: exact_unrealized_def exact_pnl_def lot_def)
  qed
  ultimately have "\<exists>avg. open_fill p fid side q price fee t = Inr (p\<lparr>ps_side := side, ps_mark_price := price,
      ps_average_entry := avg, ps_fees := dadd (ps_fees p) fee, ps_lots := ?ls,
      ps_opened_at := if \<not> is_flat p then ps_opened_at p else Some t, ps_closed_at := None,
      ps_version := ps_version p + 1\<rparr>)"
    using q side ok L(2) by (auto simp: open_fill_def lot_def dadd_def Let_def)
  then obtain avg where "open_fill p fid side q price fee t = Inr (p\<lparr>ps_side := side, ps_mark_price := price,
      ps_average_entry := avg, ps_fees := dadd (ps_fees p) fee, ps_lots := ?ls,
      ps_opened_at := if \<not> is_flat p then ps_opened_at p else Some t, ps_closed_at := None,
      ps_version := ps_version p + 1\<rparr>)" by blast
  then show thesis
    by (rule that) (use un fit' mass qu in \<open>simp_all add: lot_def\<close>)
qed

lemma unrealized_at:
  assumes "lots_fit k l price (ps_lots p)" "ps_mark_price p = price"
  shows "ps_unrealized_pnl p = exact_unrealized (ps_side p) price (ps_lots p)"
  using ps_unrealized_exact [of k l p] assms by simp

lemma position_mark_result:
  "0 < price \<Longrightarrow> position_mark p price = Inr (p\<lparr>ps_mark_price := price, ps_version := ps_version p + 1\<rparr>)"
  by (simp add: position_mark_def)

text \<open>
  C4: Closing part of a position on the grid takes the lots first in, first out, removes exactly
  the closed quantity, leaves the position neutral exactly when everything is closed, and conserves
  value: realised plus unrealised profit after the close equals what it was with the position marked
  at the closing price.
\<close>

theorem close_fill_fifo:
  assumes "lots_fit k l price (ps_lots p)" and "on_grid k q" and "0 < q" and "q \<le> ps_quantity p"
    and "on_grid (k + l) (ps_realized_pnl p)"
    and "\<bar>ps_realized_pnl p\<bar> + lots_mass price (ps_lots p) \<le> 10 ^ (28 - (k + l))"
    and "0 \<le> fee" and "is_utc t"
  shows "\<exists>p' pm. close_fill p q price fee t = Inr p' \<and> position_mark p price = Inr pm
    \<and> map lot_remaining_quantity (ps_lots p') = map2 (-) (map lot_remaining_quantity (ps_lots p))
        (fifo_take q (map lot_remaining_quantity (ps_lots p)))
    \<and> ps_quantity p' = ps_quantity p - q
    \<and> ps_side p' = (if q = ps_quantity p then NEUTRAL else ps_side p)
    \<and> ps_realized_pnl p' + ps_unrealized_pnl p' = ps_realized_pnl p + ps_unrealized_pnl pm"
proof -
  obtain p' where c: "close_fill p q price fee t = Inr p'"
    "map lot_remaining_quantity (ps_lots p') = map2 (-) (map lot_remaining_quantity (ps_lots p))
        (fifo_take q (map lot_remaining_quantity (ps_lots p)))"
    "ps_mark_price p' = price"
    "ps_realized_pnl p' = ps_realized_pnl p + exact_unrealized (ps_side p) price (ps_lots p)
        - exact_unrealized (ps_side p) price (ps_lots p')"
    "ps_side p' = (if q = ps_quantity p then NEUTRAL else ps_side p)"
    "lots_fit k l price (ps_lots p')" "exact_quantity (ps_lots p') = exact_quantity (ps_lots p) - q"
    by (rule close_fill_result [OF assms]) blast
  have price: "0 < price" using assms(1) by (simp add: lots_fit_def)
  define pm where "pm = p\<lparr>ps_mark_price := price, ps_version := ps_version p + 1\<rparr>"
  have "ps_unrealized_pnl pm = exact_unrealized (ps_side p) price (ps_lots p)"
    using unrealized_at [of k l price pm] assms(1) by (simp add: pm_def)
  moreover have q: "ps_quantity p' = ps_quantity p - q"
    using lots_quantity_exact [OF c(6)] lots_quantity_exact [OF assms(1)] c(7) by (simp add: ps_quantity_def)
  moreover have "ps_unrealized_pnl p' = exact_unrealized (ps_side p) price (ps_lots p')"
  proof (cases "q = ps_quantity p")
    case True
    then have "exact_quantity (ps_lots p') = 0"
      using lots_quantity_exact [OF assms(1)] c(7) by (simp add: ps_quantity_def)
    then have "exact_unrealized s price (ps_lots p') = 0" for s
      using c(6) exact_unrealized_flat by (metis lots_fit_def)
    then show ?thesis using unrealized_at [OF c(6,3)] by simp
  next
    case False
    then show ?thesis using unrealized_at [OF c(6,3)] c(5) by simp
  qed
  ultimately have "ps_realized_pnl p' + ps_unrealized_pnl p' = ps_realized_pnl p + ps_unrealized_pnl pm"
    using c(4) by simp
  with q c show ?thesis
    using position_mark_result [OF price, of p] unfolding pm_def by blast
qed

text \<open>An example: a long position of two lots, of which two units are closed.\<close>

definition ex_lot :: "uuid \<Rightarrow> decimal \<Rightarrow> decimal \<Rightarrow> position_lot" where
  "ex_lot i price q = \<lparr>lot_lot_id = i, lot_opening_fill_id = i, lot_opened_at = utc 1000000, lot_entry_price = price,
     lot_original_quantity = q, lot_remaining_quantity = q, lot_opening_fee = 0, lot_remaining_opening_fee = 0,
     lot_funding = 0\<rparr>"

definition ex_position :: position_state where
  "ex_position = \<lparr>ps_position_id = 1, ps_experiment_id = 2, ps_symbol = ''BTCUSDT'', ps_side = LONG,
     ps_mark_price = 110, ps_average_entry = 320/3, ps_realized_pnl = 0, ps_fees = 0, ps_funding = 0,
     ps_lots = [ex_lot 10 100 1, ex_lot 11 110 2], ps_opened_at = Some (utc 1000000), ps_closed_at = None,
     ps_version = 2\<rparr>"

lemma ex_position_fit: "lots_fit 3 2 120 (ps_lots ex_position)" "ps_quantity ex_position = 3"
  by (simp_all add: ex_position_def ex_lot_def lots_fit_def lot_grid_def lots_mass_def on_grid_def
      ps_quantity_def lots_quantity_def dec_defs dec_eval dsum_def)

theorem close_fill_fifo_witness:
  "\<exists>p'. close_fill ex_position 2 120 (1/10) (utc 2000000) = Inr p' \<and>
     map lot_remaining_quantity (ps_lots p') = [0, 1] \<and> ps_quantity p' = 1 \<and> ps_side p' = LONG"
proof -
  have "on_grid 3 (2 :: rat)" "on_grid (3 + 2) (ps_realized_pnl ex_position)"
    "\<bar>ps_realized_pnl ex_position\<bar> + lots_mass 120 (ps_lots ex_position) \<le> 10 ^ (28 - (3 + 2))"
    by (simp_all add: on_grid_def ex_position_def ex_lot_def lots_mass_def)
  from close_fill_fifo [OF ex_position_fit(1) this(1) _ _ this(2,3), of "1/10" "utc 2000000"] show ?thesis
    by (auto simp: ex_position_fit(2)) (auto simp: ex_position_def ex_lot_def)
qed

end
