(* ===== verification/Account_Books.thy ===== *)
theory Account_Books
  imports Account Position_Values
begin

text \<open>
  The books of the paper account: on the grid of the venue the account's rounded arithmetic is exact,
  so a fill keeps the cash equation, never fails the reconciliation, and costs exactly its fee.
\<close>

section \<open>Exact books\<close>

text \<open>
  An account whose prices, quantities and money amounts lie on a grid and whose cash satisfies the
  cash equation; \<open>account_mass\<close> bounds every amount that occurs in a reconciliation.
\<close>

definition position_mass :: "position_state \<Rightarrow> decimal" where
  "position_mass p = \<bar>ps_realized_pnl p\<bar> + \<bar>ps_fees p\<bar> + \<bar>ps_funding p\<bar> + lots_mass (ps_mark_price p) (ps_lots p)"

definition account_mass :: "account_state \<Rightarrow> decimal" where
  "account_mass a = \<bar>ac_initial_capital a\<bar> + \<bar>ac_cash_balance a\<bar> + sum_list (map position_mass (position_values a))"

definition position_books :: "nat \<Rightarrow> nat \<Rightarrow> nat \<Rightarrow> position_state \<Rightarrow> bool" where
  "position_books k l m p \<longleftrightarrow> lots_fit k l (ps_mark_price p) (ps_lots p) \<and> on_grid (k + l) (ps_realized_pnl p) \<and>
     on_grid m (ps_fees p) \<and> on_grid m (ps_funding p)"

definition exact_cash :: "account_state \<Rightarrow> decimal" where
  "exact_cash a = ac_initial_capital a + sum_list (map ps_realized_pnl (position_values a))
     - sum_list (map ps_fees (position_values a)) + sum_list (map ps_funding (position_values a))"

definition account_books :: "nat \<Rightarrow> nat \<Rightarrow> nat \<Rightarrow> account_state \<Rightarrow> bool" where
  "account_books k l m a \<longleftrightarrow> k + l + 2 \<le> m \<and> m \<le> 28 \<and> ac_leverage a \<in> {1, 2, 4, 5} \<and>
     distinct (map fst (ac_positions a)) \<and> (\<forall>p \<in> set (position_values a). position_books k l m p) \<and>
     on_grid m (ac_initial_capital a) \<and> on_grid m (ac_cash_balance a) \<and> ac_cash_balance a = exact_cash a"

lemma position_mass_nonneg:
  assumes "position_books k l m p"
  shows "0 \<le> position_mass p"
  using assms lots_mass_nonneg [of "ps_lots p" k l "ps_mark_price p"]
  by (auto simp: position_books_def position_mass_def lots_fit_def)

lemma dsum_positions:
  assumes books: "\<forall>p \<in> set ps. on_grid m (g p) \<and> \<bar>g p\<bar> \<le> position_mass p" "m \<le> 28"
    and mass: "sum_list (map position_mass ps) \<le> 10 ^ (28 - m)"
  shows "dsum (map g ps) = sum_list (map g ps)" "\<bar>sum_list (map g ps)\<bar> \<le> sum_list (map position_mass ps)"
    "on_grid m (sum_list (map g ps))"
proof -
  have s: "sum_list (map abs (map g ps)) \<le> sum_list (map position_mass ps)"
    unfolding map_map o_def using books(1) by (intro sum_list_mono) auto
  show "dsum (map g ps) = sum_list (map g ps)"
    using books s mass by (intro dsum_on_grid [of _ m]) auto
  show "\<bar>sum_list (map g ps)\<bar> \<le> sum_list (map position_mass ps)"
    using sum_list_abs [of "map g ps"] s by linarith
  show "on_grid m (sum_list (map g ps))"
    using books(1) by (intro on_grid_sum_list) auto
qed

lemma mass_component:
  assumes "position_books k l m p"
  shows "\<bar>ps_realized_pnl p\<bar> \<le> position_mass p" "\<bar>ps_fees p\<bar> \<le> position_mass p" "\<bar>ps_funding p\<bar> \<le> position_mass p"
    "lots_mass (ps_mark_price p) (ps_lots p) \<le> position_mass p"
  using lots_mass_nonneg [of "ps_lots p" k l "ps_mark_price p"] assms
  by (auto simp: position_mass_def position_books_def lots_fit_def)

lemma notional_exact:
  assumes "position_books k l m p"
  shows "ps_gross_notional p = exact_quantity (ps_lots p) * ps_mark_price p"
    and "on_grid (k + l) (exact_quantity (ps_lots p) * ps_mark_price p)"
    and "0 \<le> exact_quantity (ps_lots p) * ps_mark_price p"
    and "exact_quantity (ps_lots p) * ps_mark_price p \<le> position_mass p"
    and "dmul (ps_quantity p) (ps_mark_price p) = exact_quantity (ps_lots p) * ps_mark_price p"
proof -
  have fit: "lots_fit k l (ps_mark_price p) (ps_lots p)" using assms by (simp add: position_books_def)
  then have L: "\<forall>lot \<in> set (ps_lots p). lot_grid k l lot" "0 < ps_mark_price p" "on_grid l (ps_mark_price p)"
    "k + l \<le> 28" by (auto simp: lots_fit_def)
  show g: "on_grid (k + l) (exact_quantity (ps_lots p) * ps_mark_price p)"
    using on_grid_exact_quantity [OF L(1)] L(3) by (rule on_grid_mult)
  show nn: "0 \<le> exact_quantity (ps_lots p) * ps_mark_price p"
    using exact_quantity_nonneg [OF L(1)] L(2) by simp
  have le: "exact_quantity (ps_lots p) * ps_mark_price p \<le> lots_mass (ps_mark_price p) (ps_lots p)"
    using price_quantity_le_mass [OF L(1), of "ps_mark_price p"] by (simp add: mult.commute)
  then show "exact_quantity (ps_lots p) * ps_mark_price p \<le> position_mass p"
    using mass_component(4) [OF assms] by linarith
  show d: "dmul (ps_quantity p) (ps_mark_price p) = exact_quantity (ps_lots p) * ps_mark_price p"
    unfolding dmul_def ps_quantity_def lots_quantity_exact [OF fit]
    using le nn fit by (intro dround_on_grid [OF g L(4)]) (auto simp: lots_fit_def)
  then show "ps_gross_notional p = exact_quantity (ps_lots p) * ps_mark_price p"
    by (simp add: ps_gross_notional_def)
qed

lemma leverage_exact:
  assumes "on_grid j x" "j + 2 \<le> m" "m \<le> 28" "0 \<le> x" "x \<le> 10 ^ (28 - m)" "n \<in> {1, 2, 4, 5 :: int}"
  shows "ddiv x (of_int n) = x / of_int n" "on_grid m (x / of_int n)"
proof -
  have "on_grid (j + 2) (x / of_int n)"
  proof -
    have "x / of_int n * 10 ^ (j + 2) = x * 10 ^ j * of_int (100 div n)"
      using assms(6) by auto
    moreover have "x * 10 ^ j \<in> \<int>" using assms(1) by (simp add: on_grid_def)
    ultimately show ?thesis by (simp add: on_grid_def)
  qed
  then show g: "on_grid m (x / of_int n)" using assms(2) by (rule on_grid_mono)
  have "x / of_int n \<le> x" using assms(4,6) by (auto simp: divide_le_eq mult_le_cancel_left1)
  then show "ddiv x (of_int n) = x / of_int n"
    unfolding ddiv_def using assms(3-6) by (intro dround_on_grid [OF g]) auto
qed

definition exact_position_unrealized :: "position_state \<Rightarrow> decimal" where
  "exact_position_unrealized p = exact_unrealized (ps_side p) (ps_mark_price p) (ps_lots p)"

lemma unrealized_books:
  assumes "position_books k l m p" "k + l \<le> m"
  shows "ps_unrealized_pnl p = exact_position_unrealized p" "on_grid m (exact_position_unrealized p)"
    "\<bar>exact_position_unrealized p\<bar> \<le> position_mass p"
proof -
  have fit: "lots_fit k l (ps_mark_price p) (ps_lots p)" using assms by (simp add: position_books_def)
  show "ps_unrealized_pnl p = exact_position_unrealized p"
    using ps_unrealized_exact [OF fit] by (simp add: exact_position_unrealized_def)
  show "on_grid m (exact_position_unrealized p)"
    unfolding exact_position_unrealized_def using exact_unrealized_bound(2) [OF fit] assms(2) by (rule on_grid_mono)
  show "\<bar>exact_position_unrealized p\<bar> \<le> position_mass p"
    unfolding exact_position_unrealized_def
    using exact_unrealized_bound(1) [OF fit, of "ps_side p"] mass_component(4) [OF assms(1)] by linarith
qed

lemma account_booksD:
  assumes "account_books k l m a"
  shows "k + l + 2 \<le> m" "m \<le> 28" "k + l \<le> m" "ac_leverage a \<in> {1, 2, 4, 5}" "on_grid m (ac_initial_capital a)"
    "on_grid m (ac_cash_balance a)" "ac_cash_balance a = exact_cash a" "distinct (map fst (ac_positions a))"
    "\<forall>p \<in> set (position_values a). position_books k l m p"
  using assms by (auto simp: account_books_def)

text \<open>Every amount of a position the account sums up.\<close>

lemma book_amounts:
  assumes "position_books k l m p" "k + l \<le> m"
  shows "on_grid m (ps_realized_pnl p) \<and> \<bar>ps_realized_pnl p\<bar> \<le> position_mass p"
    "on_grid m (ps_fees p) \<and> \<bar>ps_fees p\<bar> \<le> position_mass p"
    "on_grid m (ps_funding p) \<and> \<bar>ps_funding p\<bar> \<le> position_mass p"
    "on_grid m (exact_position_unrealized p) \<and> \<bar>exact_position_unrealized p\<bar> \<le> position_mass p"
    "on_grid m (exact_quantity (ps_lots p) * ps_mark_price p) \<and>
       \<bar>exact_quantity (ps_lots p) * ps_mark_price p\<bar> \<le> position_mass p"
  using assms mass_component [OF assms(1)] unrealized_books [OF assms] notional_exact(2-4) [OF assms(1)]
  by (auto simp: position_books_def intro: on_grid_mono)

lemma account_sum_exact:
  assumes "account_books k l m a" "account_mass a \<le> 10 ^ (28 - m)"
    "\<And>p. position_books k l m p \<Longrightarrow> on_grid m (g p) \<and> \<bar>g p\<bar> \<le> position_mass p"
  shows "dsum (map g (position_values a)) = sum_list (map g (position_values a))"
    "\<bar>sum_list (map g (position_values a))\<bar> \<le> sum_list (map position_mass (position_values a))"
    "on_grid m (sum_list (map g (position_values a)))"
  using dsum_positions [of "position_values a" m g] account_booksD(2,9) [OF assms(1)] assms(2,3)
  by (auto simp: account_mass_def simp del: map_map)

lemma account_sums:
  assumes books: "account_books k l m a" and mass: "account_mass a \<le> 10 ^ (28 - m)"
  shows "ac_realized_pnl a = sum_list (map ps_realized_pnl (position_values a))"
    "ac_fees a = sum_list (map ps_fees (position_values a))"
    "ac_funding a = sum_list (map ps_funding (position_values a))"
    "ac_unrealized_pnl a = sum_list (map exact_position_unrealized (position_values a))"
    "ac_gross_notional a = sum_list (map (\<lambda>p. exact_quantity (ps_lots p) * ps_mark_price p) (position_values a))"
    "ac_equity a = ac_cash_balance a + sum_list (map exact_position_unrealized (position_values a))"
proof -
  let ?ps = "position_values a"
  note B = account_booksD [OF books]
  note sums = account_sum_exact [OF books mass]
  show "ac_realized_pnl a = sum_list (map ps_realized_pnl ?ps)" "ac_fees a = sum_list (map ps_fees ?ps)"
    "ac_funding a = sum_list (map ps_funding ?ps)"
    unfolding ac_realized_pnl_def ac_fees_def ac_funding_def
    by (rule sums(1), erule book_amounts [OF _ B(3)])+
  have "map ps_unrealized_pnl ?ps = map exact_position_unrealized ?ps"
    using B(9) unrealized_books(1) [OF _ B(3)] by (auto simp del: map_map intro!: map_cong)
  then show x: "ac_unrealized_pnl a = sum_list (map exact_position_unrealized ?ps)"
    unfolding ac_unrealized_pnl_def using sums(1) [OF book_amounts(4) [OF _ B(3)]] by (simp only:)
  have "map ps_gross_notional ?ps = map (\<lambda>p. exact_quantity (ps_lots p) * ps_mark_price p) ?ps"
    using B(9) notional_exact(1) by (auto simp del: map_map intro!: map_cong)
  then show "ac_gross_notional a = sum_list (map (\<lambda>p. exact_quantity (ps_lots p) * ps_mark_price p) ?ps)"
    unfolding ac_gross_notional_def using sums(1) [OF book_amounts(5) [OF _ B(3)]] by (simp only:)
  have "\<bar>ac_cash_balance a\<bar> + sum_list (map position_mass ?ps) \<le> 10 ^ (28 - m)"
    using mass by (auto simp: account_mass_def)
  then show "ac_equity a = ac_cash_balance a + sum_list (map exact_position_unrealized ?ps)"
    unfolding ac_equity_def x dadd_def
    using sums(2,3) [of exact_position_unrealized] book_amounts(4) [OF _ B(3)] B(2,6)
    by (intro dround_on_grid [of m]) (auto intro: on_grid_add simp del: map_map)
qed

lemma cash_amounts_bound:
  assumes "\<forall>p \<in> set ps. position_books k l m p"
  shows "\<bar>sum_list (map ps_realized_pnl ps)\<bar> + \<bar>sum_list (map ps_fees ps)\<bar> + \<bar>sum_list (map ps_funding ps)\<bar>
    \<le> sum_list (map position_mass ps)"
proof -
  have "\<bar>sum_list (map g ps)\<bar> \<le> sum_list (map (\<lambda>p. \<bar>g p\<bar>) ps)" for g :: "position_state \<Rightarrow> rat"
    using sum_list_abs [of "map g ps"] by (simp add: o_def)
  then have "\<bar>sum_list (map ps_realized_pnl ps)\<bar> + \<bar>sum_list (map ps_fees ps)\<bar> + \<bar>sum_list (map ps_funding ps)\<bar>
      \<le> sum_list (map (\<lambda>p. \<bar>ps_realized_pnl p\<bar>) ps) + sum_list (map (\<lambda>p. \<bar>ps_fees p\<bar>) ps)
        + sum_list (map (\<lambda>p. \<bar>ps_funding p\<bar>) ps)"
    by (intro add_mono)
  also have "\<dots> = sum_list (map (\<lambda>p. \<bar>ps_realized_pnl p\<bar> + \<bar>ps_fees p\<bar> + \<bar>ps_funding p\<bar>) ps)"
    by (simp add: sum_list_addf)
  also have "\<dots> \<le> sum_list (map position_mass ps)"
    using assms lots_mass_nonneg
    by (intro sum_list_mono) (fastforce simp: position_mass_def position_books_def lots_fit_def)
  finally show ?thesis .
qed

lemma expected_margin_exact:
  assumes books: "account_books k l m a" and mass: "account_mass a \<le> 10 ^ (28 - m)"
  shows "dsum (map (\<lambda>p. ddiv (dmul (ps_quantity p) (ps_mark_price p)) (of_int (ac_leverage a))) (position_values a))
    = ac_used_margin a"
proof -
  let ?ps = "position_values a" and ?n = "\<lambda>p. exact_quantity (ps_lots p) * ps_mark_price p"
  let ?L = "of_int (ac_leverage a) :: rat"
  note B = account_booksD [OF books]
  have M: "position_mass p \<le> 10 ^ (28 - m)" if "p \<in> set ?ps" for p
  proof -
    have "position_mass p \<le> sum_list (map position_mass ?ps)"
      using that B(9) position_mass_nonneg by (intro member_le_sum_list) auto
    then show ?thesis using mass by (auto simp: account_mass_def)
  qed
  have lev: "ddiv (?n p) ?L = ?n p / ?L" "on_grid m (?n p / ?L)" if "p \<in> set ?ps" for p
    using leverage_exact [OF notional_exact(2) B(1,2) notional_exact(3) _ B(4)] B(9) that
      order_trans [OF notional_exact(4) M] by blast+
  have eq: "map (\<lambda>p. ddiv (dmul (ps_quantity p) (ps_mark_price p)) ?L) ?ps = map (\<lambda>p. ?n p / ?L) ?ps"
  proof (rule map_cong [OF refl])
    fix p assume p: "p \<in> set ?ps"
    show "ddiv (dmul (ps_quantity p) (ps_mark_price p)) ?L = ?n p / ?L"
      using lev(1) [OF p] notional_exact(5) [of k l m p] B(9) p by metis
  qed
  have L: "1 \<le> ?L" using B(4) by auto
  have g: "on_grid m (?n p / ?L) \<and> \<bar>?n p / ?L\<bar> \<le> position_mass p" if p: "p \<in> set ?ps" for p
  proof -
    have bp: "position_books k l m p" using B(9) p by blast
    have "?n p * 1 \<le> ?n p * ?L" using notional_exact(3) [OF bp] L by (rule mult_left_mono [rotated])
    then have "\<bar>?n p / ?L\<bar> \<le> ?n p"
      using notional_exact(3) [OF bp] L by (simp add: divide_le_eq)
    then show ?thesis using lev(2) [OF p] notional_exact(4) [OF bp] by linarith
  qed
  have "dsum (map (\<lambda>p. ?n p / ?L) ?ps) = sum_list (map (\<lambda>p. ?n p / ?L) ?ps)"
    using dsum_positions(1) [of ?ps m] g B(2) mass by (auto simp: account_mass_def simp del: map_map)
  also have "\<dots> = sum_list (map ?n ?ps) / ?L"
    using sum_list_mult_const [of ?n "1 / ?L" ?ps] by simp
  also have "\<dots> = ac_used_margin a"
  proof -
    have "0 \<le> sum_list (map ?n ?ps)"
      using notional_exact(3) B(9) by (intro sum_list_nonneg) auto
    moreover have "on_grid (k + l) (sum_list (map ?n ?ps))"
      using notional_exact(2) B(9) by (intro on_grid_sum_list) auto
    moreover have "sum_list (map ?n ?ps) \<le> 10 ^ (28 - m)"
      using account_sum_exact(2) [OF books mass book_amounts(5) [OF _ B(3)]] mass
      by (auto simp: account_mass_def simp del: map_map)
    ultimately show ?thesis
      using leverage_exact(1) [OF _ B(1,2) _ _ B(4)] account_sums(5) [OF books mass] by (simp add: ac_used_margin_def)
  qed
  finally show ?thesis unfolding eq .
qed

lemma reconcile_exact:
  assumes books: "account_books k l m a" and mass: "account_mass a \<le> 10 ^ (28 - m)"
  shows "report_ok (reconcile a)"
proof -
  let ?ps = "position_values a"
  let ?r = "sum_list (map ps_realized_pnl ?ps)" and ?f = "sum_list (map ps_fees ?ps)"
    and ?u = "sum_list (map ps_funding ?ps)"
  note B = account_booksD [OF books] and S = account_sums [OF books mass]
  note g = account_sum_exact(3) [OF books mass]
  have gr: "on_grid m ?r" "on_grid m ?f" "on_grid m ?u"
    by (rule g, erule book_amounts [OF _ B(3)])+
  have b: "\<bar>ac_initial_capital a\<bar> + \<bar>?r\<bar> + \<bar>?f\<bar> + \<bar>?u\<bar> \<le> 10 ^ (28 - m)"
    using cash_amounts_bound [OF B(9)] mass unfolding account_mass_def by linarith
  have "dround (ac_initial_capital a + ?r) = ac_initial_capital a + ?r"
    using gr B(2,5) b by (intro dround_on_grid [of m]) (auto intro: on_grid_add)
  moreover have "dround (ac_initial_capital a + ?r - ?f) = ac_initial_capital a + ?r - ?f"
    using gr B(2,5) b by (intro dround_on_grid [of m]) (auto intro: on_grid_add on_grid_diff)
  moreover have "dround (ac_initial_capital a + ?r - ?f + ?u) = ac_initial_capital a + ?r - ?f + ?u"
    using gr B(2,5) b by (intro dround_on_grid [of m]) (auto intro: on_grid_add on_grid_diff)
  ultimately have "dadd (dsub (dadd (ac_initial_capital a) (ac_realized_pnl a)) (ac_fees a)) (ac_funding a) = ac_cash_balance a"
    unfolding S B(7) exact_cash_def by (simp add: dadd_def dsub_def)
  then show ?thesis
    using expected_margin_exact [OF books mass]
    by (simp add: report_ok_def reconcile_def Let_def ac_equity_def dsub_def dround_zero)
qed

section \<open>A fill keeps the books\<close>

definition current_amount :: "(position_state \<Rightarrow> decimal) \<Rightarrow> account_state \<Rightarrow> string \<Rightarrow> decimal" where
  "current_amount g a s = (case map_of (ac_positions a) s of None \<Rightarrow> 0 | Some p \<Rightarrow> g p)"

lemma sum_update:
  assumes "distinct (map fst ps)"
  shows "sum_list (map g (map snd (AList.update s p' ps))) =
    sum_list (map g (map snd ps)) - (case map_of ps s of None \<Rightarrow> 0 | Some p \<Rightarrow> g p) + (g p' :: rat)"
  using assms by (induction ps) (auto split: option.splits)

lemma set_update_values: "p \<in> set (map snd (AList.update s p' ps)) \<Longrightarrow> p = p' \<or> p \<in> set (map snd ps)"
  by (induction ps) (auto split: if_splits)

abbreviation put_position :: "account_state \<Rightarrow> string \<Rightarrow> position_state \<Rightarrow> decimal \<Rightarrow> datetime \<Rightarrow> account_state" where
  "put_position a s p' cash t \<equiv> a\<lparr>ac_cash_balance := cash, ac_positions := AList.update s p' (ac_positions a),
     ac_version := ac_version a + 1, ac_updated_at := Some t\<rparr>"

lemma put_position_books:
  assumes books: "account_books k l m a" and p': "position_books k l m p'" and g: "on_grid m cash"
    and cash: "cash = ac_cash_balance a + (ps_realized_pnl p' - current_amount ps_realized_pnl a s)
      - (ps_fees p' - current_amount ps_fees a s) + (ps_funding p' - current_amount ps_funding a s)"
  shows "account_books k l m (put_position a s p' cash t)"
    and "account_mass (put_position a s p' cash t) \<le> account_mass a - current_amount position_mass a s
      + position_mass p' + \<bar>cash - ac_cash_balance a\<bar>"
    and "sum_list (map exact_position_unrealized (position_values (put_position a s p' cash t))) =
      sum_list (map exact_position_unrealized (position_values a))
        - current_amount exact_position_unrealized a s + exact_position_unrealized p'"
proof -
  note B = account_booksD [OF books]
  have upd: "sum_list (map g (map snd (AList.update s p' (ac_positions a)))) =
      sum_list (map g (position_values a)) - current_amount g a s + g p'" for g
    unfolding current_amount_def by (rule sum_update [OF B(8)])
  have "\<forall>p \<in> set (map snd (AList.update s p' (ac_positions a))). position_books k l m p"
  proof
    fix p assume "p \<in> set (map snd (AList.update s p' (ac_positions a)))"
    from set_update_values [OF this] show "position_books k l m p" using B(9) p' by metis
  qed
  moreover have "exact_cash (put_position a s p' cash t) = ac_initial_capital a
      + sum_list (map ps_realized_pnl (map snd (AList.update s p' (ac_positions a))))
      - sum_list (map ps_fees (map snd (AList.update s p' (ac_positions a))))
      + sum_list (map ps_funding (map snd (AList.update s p' (ac_positions a))))"
    unfolding exact_cash_def by simp
  then have "exact_cash (put_position a s p' cash t) = cash"
    unfolding upd cash B(7) exact_cash_def by linarith
  ultimately show "account_books k l m (put_position a s p' cash t)"
    using B g distinct_update [OF B(8)] unfolding account_books_def by simp
  have "account_mass (put_position a s p' cash t) = \<bar>ac_initial_capital a\<bar> + \<bar>cash\<bar>
      + sum_list (map position_mass (map snd (AList.update s p' (ac_positions a))))"
    unfolding account_mass_def by simp
  then show "account_mass (put_position a s p' cash t) \<le> account_mass a - current_amount position_mass a s
      + position_mass p' + \<bar>cash - ac_cash_balance a\<bar>"
    unfolding upd account_mass_def by linarith
  show "sum_list (map exact_position_unrealized (position_values (put_position a s p' cash t))) =
      sum_list (map exact_position_unrealized (position_values a))
        - current_amount exact_position_unrealized a s + exact_position_unrealized p'"
    unfolding upd [symmetric] by simp
qed

lemma with_peak_books [simp]:
  "account_books k l m (with_peak a) = account_books k l m a" "account_mass (with_peak a) = account_mass a"
  "reconcile (with_peak a) = reconcile a" "ac_equity (with_peak a) = ac_equity a"
  "ac_free_margin (with_peak a) = ac_free_margin a"
  by (simp_all add: with_peak_def account_books_def account_mass_def exact_cash_def reconcile_def ac_equity_def
      ac_realized_pnl_def ac_fees_def ac_funding_def ac_unrealized_pnl_def ac_used_margin_def ac_gross_notional_def
      ac_free_margin_def Let_def)

text \<open>The fill on the grid, small enough that every amount it produces keeps 28 digits.\<close>

definition fill_fits :: "nat \<Rightarrow> nat \<Rightarrow> nat \<Rightarrow> account_state \<Rightarrow> account_fill \<Rightarrow> bool" where
  "fill_fits k l m a f \<longleftrightarrow> on_grid k (af_quantity f) \<and> on_grid l (af_price f) \<and> on_grid m (af_fee f) \<and>
     account_mass a + 3 * current_amount (\<lambda>p. lots_mass (af_price f) (ps_lots p)) a (af_symbol f)
       + 2 * \<bar>af_fee f\<bar> + 2 * \<bar>af_price f * af_quantity f\<bar> \<le> 10 ^ (28 - m)"

lemma pow_grid_mono: "k + l + 2 \<le> m \<Longrightarrow> m \<le> 28 \<Longrightarrow> (10 :: rat) ^ (28 - m) \<le> 10 ^ (28 - (k + l))"
  by (rule power_increasing) auto

lemma current_Some: "map_of (ac_positions a) s = Some p \<Longrightarrow> current_amount g a s = g p"
  by (simp add: current_amount_def)

lemma current_None: "map_of (ac_positions a) s = None \<Longrightarrow> current_amount g a s = 0"
  by (simp add: current_amount_def)

lemma current_mass_le:
  assumes "account_books k l m a"
  shows "current_amount position_mass a s + \<bar>ac_initial_capital a\<bar> + \<bar>ac_cash_balance a\<bar> \<le> account_mass a"
proof (cases "map_of (ac_positions a) s")
  case None
  have "0 \<le> sum_list (map position_mass (position_values a))"
    using account_booksD(9) [OF assms] position_mass_nonneg by (intro sum_list_nonneg) auto
  then show ?thesis by (simp add: current_None [OF None] account_mass_def)
next
  case (Some p)
  then have "p \<in> set (position_values a)" by (force dest: map_of_SomeD)
  then have "position_mass p \<le> sum_list (map position_mass (position_values a))"
    using account_booksD(9) [OF assms] position_mass_nonneg by (intro member_le_sum_list) auto
  then show ?thesis by (simp add: current_Some [OF Some] account_mass_def)
qed

lemma position_of_books:
  assumes "account_books k l m a" "map_of (ac_positions a) s = Some p"
  shows "position_books k l m p"
proof -
  have "p \<in> set (position_values a)" using map_of_SomeD [OF assms(2)] by force
  then show ?thesis using account_booksD(9) [OF assms(1)] by blast
qed

text \<open>
  What the step below needs of the position and the cash a fill leaves: the position is in the
  books at the fill's price, the cash follows the cash equation, and the amounts stay bounded.
\<close>

definition fill_outcome ::
  "nat \<Rightarrow> nat \<Rightarrow> nat \<Rightarrow> account_state \<Rightarrow> account_fill \<Rightarrow> position_state \<Rightarrow> decimal \<Rightarrow> bool" where
  "fill_outcome k l m a f p' cash \<longleftrightarrow> position_books k l m p' \<and> on_grid m cash \<and>
     cash = ac_cash_balance a + (ps_realized_pnl p' - current_amount ps_realized_pnl a (af_symbol f)) - af_fee f \<and>
     ps_fees p' = current_amount ps_fees a (af_symbol f) + af_fee f \<and>
     ps_funding p' = current_amount ps_funding a (af_symbol f) \<and>
     position_mass p' + \<bar>cash - ac_cash_balance a\<bar> \<le> current_amount position_mass a (af_symbol f)
       + 3 * current_amount (\<lambda>p. lots_mass (af_price f) (ps_lots p)) a (af_symbol f)
       + 2 * af_fee f + 2 * af_price f * af_quantity f \<and>
     ps_realized_pnl p' + exact_position_unrealized p' = current_amount (\<lambda>p. ps_realized_pnl p
       + exact_unrealized (ps_side p) (af_price f) (ps_lots p)) a (af_symbol f)"

lemma fee_exact:
  assumes "on_grid m x" "on_grid m fee" "m \<le> 28" "\<bar>x\<bar> + \<bar>fee\<bar> \<le> 10 ^ (28 - m)"
  shows "dadd x fee = x + fee" "dsub x fee = x - fee"
  using assms unfolding dadd_def dsub_def
  by (auto intro!: dround_on_grid [of m] intro: on_grid_add on_grid_diff)

lemma cash_mass_le:
  "position_books k l m p \<Longrightarrow> \<bar>ps_realized_pnl p\<bar> + \<bar>ps_fees p\<bar> + \<bar>ps_funding p\<bar> \<le> position_mass p"
  using lots_mass_nonneg [of "ps_lots p" k l "ps_mark_price p"]
  by (auto simp: position_mass_def position_books_def lots_fit_def)

text \<open>The bounds of a fill, on plain numbers.\<close>

lemma fill_bounds:
  fixes M L fee P q B R F U cm I C :: rat
  assumes "M + 3 * L + 2 * fee + 2 * P * q \<le> B" "cm + I + C \<le> M" "R + F + U \<le> cm"
    "0 \<le> L" "0 \<le> fee" "0 < P * q" "0 \<le> R" "0 \<le> F" "0 \<le> U" "0 \<le> I" "0 \<le> C"
  shows "R + L \<le> B" "L + 2 * P * q \<le> B" "L \<le> B" "F + fee \<le> B" "C + fee \<le> B" "C + L + fee \<le> B" "C + L \<le> B"
  using assms by linarith+

lemma mass_bound:
  fixes r r' f f' fee x d L L' u cm P q :: rat
  assumes "r' \<le> r + d" "f' \<le> f + fee" "x \<le> d + fee" "d \<le> L" "L' \<le> L" "r + f + u \<le> cm" "0 < P * q"
  shows "r' + f' + u + L' + x \<le> cm + 3 * L + 2 * fee + 2 * P * q"
  using assms by linarith

lemma open_outcome:
  assumes books: "account_books k l m a" and fits: "fill_fits k l m a f"
    and pos: "0 < af_quantity f" "0 < af_price f" "0 \<le> af_fee f"
    and r: "fill_opening a f = Inr (p', cash)"
  shows "fill_outcome k l m a f p' cash"
proof -
  let ?s = "af_symbol f" and ?q = "af_quantity f" and ?P = "af_price f" and ?fee = "af_fee f"
  let ?side = "if af_side f = BUY then LONG else SHORT"
  note B = account_booksD [OF books]
  obtain c where c: "case map_of (ac_positions a) ?s of None \<Rightarrow> position_empty (af_position_id f) (ac_experiment_id a) ?s = Inr c
        | Some p \<Rightarrow> c = p"
      and o: "open_fill c (af_fill_id f) ?side ?q ?P ?fee (af_fill_at f) = Inr p'"
      and cash: "cash = dsub (ac_cash_balance a) ?fee"
    using r by (auto simp: fill_opening_def result_simps split: option.splits)
  have cur: "current_amount ps_realized_pnl a ?s = ps_realized_pnl c" (is ?A)
      "current_amount ps_fees a ?s = ps_fees c" (is ?B)
      "current_amount ps_funding a ?s = ps_funding c" (is ?C)
      "current_amount (\<lambda>p. lots_mass ?P (ps_lots p)) a ?s = lots_mass ?P (ps_lots c)" (is ?D)
      "current_amount (\<lambda>p. ps_realized_pnl p + exact_unrealized (ps_side p) ?P (ps_lots p)) a ?s =
        ps_realized_pnl c + exact_unrealized (ps_side c) ?P (ps_lots c)" (is ?E)
      "\<bar>ps_realized_pnl c\<bar> + \<bar>ps_fees c\<bar> + \<bar>ps_funding c\<bar> \<le> current_amount position_mass a ?s" (is ?F)
      "\<forall>lot \<in> set (ps_lots c). lot_grid k l lot" (is ?G)
      "on_grid (k + l) (ps_realized_pnl c)" (is ?H) "on_grid m (ps_fees c)" (is ?I) "on_grid m (ps_funding c)" (is ?J)
  proof -
    consider "map_of (ac_positions a) ?s = None" "ps_realized_pnl c = 0" "ps_fees c = 0" "ps_funding c = 0" "ps_lots c = []"
      | "map_of (ac_positions a) ?s = Some c" "position_books k l m c"
      using c position_of_books [OF books] by (auto simp: position_empty_def split: option.splits if_splits)
    then have "?A \<and> ?B \<and> ?C \<and> ?D \<and> ?E \<and> ?F \<and> ?G \<and> ?H \<and> ?I \<and> ?J"
      using cash_mass_le [of k l m c]
      by cases (auto simp: current_amount_def lots_mass_def exact_unrealized_def position_books_def lots_fit_def)
    then show ?A ?B ?C ?D ?E ?F ?G ?H ?I ?J by blast+
  qed
  have LM: "0 \<le> lots_mass ?P (ps_lots c)" using lots_mass_nonneg [OF cur(7) pos(2)] .
  have Pq: "0 < ?P * ?q" using pos by simp
  have tot: "account_mass a + 3 * lots_mass ?P (ps_lots c) + 2 * ?fee + 2 * ?P * ?q \<le> 10 ^ (28 - m)"
    and g: "on_grid k ?q" "on_grid l ?P" "on_grid m ?fee"
    using fits pos by (auto simp: fill_fits_def cur)
  note cm = current_mass_le [OF books, of ?s]
  note bd = fill_bounds [OF tot cm cur(6) LM pos(3) Pq abs_ge_zero abs_ge_zero abs_ge_zero abs_ge_zero abs_ge_zero]
  note bound = order_trans [OF bd(2) pow_grid_mono [OF B(1,2)]]
  have fit: "lots_fit k l ?P (ps_lots c)"
    using g(2) pos(2) cur(7) B(1,2) order_trans [OF bd(3) pow_grid_mono [OF B(1,2)]] by (simp add: lots_fit_def)
  have side: "?side = LONG \<or> ?side = SHORT" "is_flat c \<or> ps_side c = ?side" "is_utc (af_fill_at f)"
    using o by (auto simp: open_fill_def result_simps)
  obtain p2 where p2: "open_fill c (af_fill_id f) ?side ?q ?P ?fee (af_fill_at f) = Inr p2"
    "ps_mark_price p2 = ?P" "ps_fees p2 = dadd (ps_fees c) ?fee" "ps_funding p2 = ps_funding c"
    "ps_realized_pnl p2 = ps_realized_pnl c" "ps_side p2 = ?side"
    "exact_unrealized ?side ?P (ps_lots p2) = exact_unrealized (ps_side c) ?P (ps_lots c)"
    "lots_fit k l ?P (ps_lots p2)" "lots_mass ?P (ps_lots p2) = lots_mass ?P (ps_lots c) + 2 * ?P * ?q"
    by (rule open_fill_result [OF fit g(1) pos(1) side(1,2) bound pos(3) side(3)]) blast
  have p: "p2 = p'" using p2(1) o by simp
  have fee: "dadd (ps_fees c) ?fee = ps_fees c + ?fee" "cash = ac_cash_balance a - ?fee"
    using fee_exact(1) [OF cur(9) g(3) B(2)] fee_exact(2) [OF B(6) g(3) B(2)] cash bd(4,5) pos(3) by simp_all
  have "position_books k l m p'"
    using p2 fee(1) cur(8-10) g(3) by (simp add: position_books_def p on_grid_add)
  moreover have "position_mass p' \<le> current_amount position_mass a ?s + ?fee + lots_mass ?P (ps_lots c) + 2 * ?P * ?q"
    using p2 fee(1) cur(6) pos(3) unfolding p position_mass_def by simp
  ultimately show ?thesis
    using p2 fee cur g(3) B(6) LM pos(3)
    by (simp add: p fill_outcome_def on_grid_diff exact_position_unrealized_def)
qed

lemma close_outcome:
  assumes books: "account_books k l m a" and fits: "fill_fits k l m a f"
    and pos: "0 < af_quantity f" "0 < af_price f" "0 \<le> af_fee f"
    and r: "fill_reducing a f = Inr (p', cash)"
  shows "fill_outcome k l m a f p' cash"
proof -
  let ?s = "af_symbol f" and ?q = "af_quantity f" and ?P = "af_price f" and ?fee = "af_fee f"
  note B = account_booksD [OF books]
  obtain c where c: "map_of (ac_positions a) ?s = Some c"
      and o: "close_fill c ?q ?P ?fee (af_fill_at f) = Inr p'"
      and cash: "cash = dsub (dadd (ac_cash_balance a) (dsub (ps_realized_pnl p') (ps_realized_pnl c))) ?fee"
    using r by (auto simp: fill_reducing_def result_simps Let_def split: option.splits if_splits)
  note cur = current_Some [OF c]
  have pb: "position_books k l m c" using position_of_books [OF books c] .
  then have grid: "\<forall>lot \<in> set (ps_lots c). lot_grid k l lot" "on_grid (k + l) (ps_realized_pnl c)"
    "on_grid m (ps_fees c)" "on_grid m (ps_funding c)"
    by (auto simp: position_books_def lots_fit_def)
  have LM: "0 \<le> lots_mass ?P (ps_lots c)" using lots_mass_nonneg [OF grid(1) pos(2)] .
  have Pq: "0 < ?P * ?q" using pos by simp
  have tot: "account_mass a + 3 * lots_mass ?P (ps_lots c) + 2 * ?fee + 2 * ?P * ?q \<le> 10 ^ (28 - m)"
    and g: "on_grid k ?q" "on_grid l ?P" "on_grid m ?fee"
    using fits pos by (auto simp: fill_fits_def cur)
  note cm = current_mass_le [OF books, of ?s, unfolded cur] and cash_le = cash_mass_le [OF pb]
  note bd = fill_bounds [OF tot cm cash_le LM pos(3) Pq abs_ge_zero abs_ge_zero abs_ge_zero abs_ge_zero abs_ge_zero]
  note bound = order_trans [OF bd(1) pow_grid_mono [OF B(1,2)]]
  have fit: "lots_fit k l ?P (ps_lots c)"
    using g(2) pos(2) grid(1) B(1,2) order_trans [OF bd(3) pow_grid_mono [OF B(1,2)]] by (simp add: lots_fit_def)
  have ok: "?q \<le> ps_quantity c" "is_utc (af_fill_at f)"
    using o by (auto simp: close_fill_def result_simps)
  obtain p2 where p2: "close_fill c ?q ?P ?fee (af_fill_at f) = Inr p2"
    "ps_mark_price p2 = ?P" "ps_fees p2 = dadd (ps_fees c) ?fee" "ps_funding p2 = ps_funding c"
    "ps_realized_pnl p2 = ps_realized_pnl c + exact_unrealized (ps_side c) ?P (ps_lots c)
        - exact_unrealized (ps_side c) ?P (ps_lots p2)"
    "ps_side p2 = (if ?q = ps_quantity c then NEUTRAL else ps_side c)"
    "lots_fit k l ?P (ps_lots p2)" "lots_mass ?P (ps_lots p2) \<le> lots_mass ?P (ps_lots c)"
    "exact_quantity (ps_lots p2) = exact_quantity (ps_lots c) - ?q"
    "\<bar>ps_realized_pnl p2 - ps_realized_pnl c\<bar> \<le> lots_mass ?P (ps_lots c)" "on_grid (k + l) (ps_realized_pnl p2)"
    by (rule close_fill_result [OF fit g(1) pos(1) ok(1) grid(2) bound pos(3) ok(2)]) blast
  have p: "p2 = p'" using p2(1) o by simp
  let ?d = "ps_realized_pnl p' - ps_realized_pnl c"
  have gd: "on_grid m ?d" "\<bar>?d\<bar> \<le> lots_mass ?P (ps_lots c)"
    using p2(10,11) grid(2) B(3) unfolding p by (auto intro: on_grid_mono on_grid_diff)
  have "dsub (ps_realized_pnl p') (ps_realized_pnl c) = ?d"
    unfolding dsub_def by (rule dround_on_grid [OF gd(1) B(2) order_trans [OF gd(2) bd(3)]])
  moreover have "dadd (ac_cash_balance a) ?d = ac_cash_balance a + ?d"
    using gd(2) bd(7) by (intro fee_exact(1) [OF B(6) gd(1) B(2)]) simp
  moreover have "dsub (ac_cash_balance a + ?d) ?fee = ac_cash_balance a + ?d - ?fee"
    using gd(2) bd(6) pos(3) abs_triangle_ineq [of "ac_cash_balance a" ?d]
    by (intro fee_exact(2) [OF on_grid_add [OF B(6) gd(1)] g(3) B(2)]) simp
  ultimately have cash': "cash = ac_cash_balance a + ?d - ?fee" using cash by simp
  have fee: "dadd (ps_fees c) ?fee = ps_fees c + ?fee"
    using bd(4) pos(3) by (intro fee_exact(1) [OF grid(3) g(3) B(2)]) simp
  have "position_books k l m p'"
    using p2 fee grid g(3) by (simp add: position_books_def p on_grid_add)
  moreover have "position_mass p' + \<bar>cash - ac_cash_balance a\<bar> \<le> position_mass c
       + 3 * lots_mass ?P (ps_lots c) + 2 * ?fee + 2 * ?P * ?q"
  proof -
    have tri: "\<bar>ps_realized_pnl p'\<bar> \<le> \<bar>ps_realized_pnl c\<bar> + \<bar>?d\<bar>" "\<bar>ps_fees c + ?fee\<bar> \<le> \<bar>ps_fees c\<bar> + ?fee"
      "\<bar>?d - ?fee\<bar> \<le> \<bar>?d\<bar> + ?fee" using pos(3) by linarith+
    have pm: "position_mass p' = \<bar>ps_realized_pnl p'\<bar> + \<bar>ps_fees c + ?fee\<bar> + \<bar>ps_funding c\<bar> + lots_mass ?P (ps_lots p')"
      using p2(2-4) fee by (simp add: p position_mass_def)
    have cd: "cash - ac_cash_balance a = ?d - ?fee" using cash' by simp
    show ?thesis
      unfolding pm cd by (rule mass_bound [OF tri gd(2) p2(8) [unfolded p] cash_le Pq])
  qed
  moreover have "ps_realized_pnl p' + exact_position_unrealized p' =
      ps_realized_pnl c + exact_unrealized (ps_side c) ?P (ps_lots c)"
  proof (cases "?q = ps_quantity c")
    case True
    then have "exact_quantity (ps_lots p') = 0"
      using p2(9) lots_quantity_exact [OF fit] by (simp add: p ps_quantity_def)
    moreover have "\<forall>lot \<in> set (ps_lots p'). lot_grid k l lot" using p2(7) by (simp add: p lots_fit_def)
    ultimately have "exact_unrealized s ?P (ps_lots p') = 0" for s using exact_unrealized_flat by blast
    then show ?thesis using p2(2,5) by (simp add: p exact_position_unrealized_def)
  next
    case False
    then show ?thesis using p2(2,5,6) by (simp add: p exact_position_unrealized_def)
  qed
  ultimately show ?thesis
    using p2(3,4) fee cur cash' g(3) B(6) gd(1)
    by (simp add: p fill_outcome_def on_grid_diff on_grid_add)
qed

lemma outcome_books:
  assumes books: "account_books k l m a" and fits: "fill_fits k l m a f"
    and pos: "0 < af_quantity f" "0 < af_price f" "0 \<le> af_fee f"
    and out: "fill_outcome k l m a f p' cash"
  shows "account_books k l m (put_position a (af_symbol f) p' cash t)"
    and "account_mass (put_position a (af_symbol f) p' cash t) \<le> 10 ^ (28 - m)"
    and "report_ok (reconcile (put_position a (af_symbol f) p' cash t))"
proof -
  let ?cand = "put_position a (af_symbol f) p' cash t"
  note O = out [unfolded fill_outcome_def]
  have cash: "cash = ac_cash_balance a + (ps_realized_pnl p' - current_amount ps_realized_pnl a (af_symbol f))
      - (ps_fees p' - current_amount ps_fees a (af_symbol f)) + (ps_funding p' - current_amount ps_funding a (af_symbol f))"
    using O by simp
  have pb: "position_books k l m p'" "on_grid m cash" using O by blast+
  note P = put_position_books [OF books pb cash, of t]
  show b: "account_books k l m ?cand" by (rule P(1))
  have "account_mass ?cand \<le> account_mass a - current_amount position_mass a (af_symbol f)
      + (position_mass p' + \<bar>cash - ac_cash_balance a\<bar>)"
    using P(2) by (simp only: add.assoc)
  moreover have "account_mass a + 3 * current_amount (\<lambda>p. lots_mass (af_price f) (ps_lots p)) a (af_symbol f)
       + 2 * af_fee f + 2 * af_price f * af_quantity f \<le> 10 ^ (28 - m)"
    using fits pos by (simp add: fill_fits_def)
  ultimately show "account_mass ?cand \<le> 10 ^ (28 - m)" using O by linarith
  with b show "report_ok (reconcile ?cand)" by (rule reconcile_exact)
qed

lemma open_fill_not_arithmetic: "open_fill p i s q P fee t \<noteq> Inl (ArithmeticError msg)"
  by (auto simp: open_fill_def result_simps Let_def ddivE_def require_nonnegative_def split: if_splits)

lemma close_fill_not_arithmetic: "close_fill p q P fee t \<noteq> Inl (ArithmeticError msg)"
  by (auto simp: close_fill_def result_simps Let_def require_nonnegative_def split: if_splits prod.splits)

lemma fill_not_arithmetic:
  "(if af_position_effect f = OPEN then fill_opening a f else fill_reducing a f) \<noteq> Inl (ArithmeticError msg)"
  using open_fill_not_arithmetic close_fill_not_arithmetic
  by (auto simp: fill_opening_def fill_reducing_def result_simps position_empty_def Let_def split: option.splits if_splits)

text \<open>The guards of the fill, and the account it leaves.\<close>

lemma account_apply_fill_cases:
  assumes "account_apply_fill a f = r"
  obtains (refused) e where "r = Inl e" "\<forall>msg. e \<noteq> ArithmeticError msg"
    | (settled) p' cash where "0 < af_quantity f" "0 < af_price f" "0 \<le> af_fee f" "is_utc (af_fill_at f)"
      "(if af_position_effect f = OPEN then fill_opening a f else fill_reducing a f) = Inr (p', cash)"
      "r = (let candidate = with_peak (put_position a (af_symbol f) p' cash (af_fill_at f)) in
         if af_position_effect f = OPEN \<and> ac_free_margin candidate < 0
         then Inl (InsufficientMargin ''paper account has insufficient free margin'')
         else if \<not> report_ok (reconcile candidate)
         then Inl (ArithmeticError ''account reconciliation failed after fill'') else Inr candidate)"
proof -
  let ?g = "checks [require_positive_decimal (af_quantity f) ''quantity'', require_positive_decimal (af_price f) ''price'',
      raise_if (af_fee f < 0) (ValueError ''fee must be a nonnegative finite Decimal''), require_utc (af_fill_at f) ''fill_at'']"
  let ?fill = "if af_position_effect f = OPEN then fill_opening a f else fill_reducing a f"
  show thesis
  proof (cases ?g)
    case (Inl e)
    then have "r = Inl e" using assms unfolding account_apply_fill_def by simp
    moreover have "\<forall>msg. e \<noteq> ArithmeticError msg" using Inl by (auto simp: result_simps)
    ultimately show ?thesis by (rule refused)
  next
    case (Inr u)
    show ?thesis
    proof (cases ?fill)
      case (Inl e)
      then have "r = Inl e" using assms Inr unfolding account_apply_fill_def by simp
      moreover have "\<forall>msg. e \<noteq> ArithmeticError msg" using fill_not_arithmetic [of f a] Inl by auto
      ultimately show ?thesis by (rule refused)
    next
      case (Inr pc)
      moreover obtain p' cash where "pc = (p', cash)" by fastforce
      ultimately show ?thesis
        using assms \<open>?g = Inr u\<close>
        by (intro settled) (auto simp: account_apply_fill_def result_simps)
    qed
  qed
qed

text \<open>
  C3: Reconciliation never fails on the grid.  For an account in the books (leverage 1, 2, 4 or
  5, amounts on a grid of m decimals that keeps two digits for the division by the leverage) and
  a fill on the grid that keeps every amount within 28 digits, the arithmetic check of the code is
  never the reason for a refusal, and after an accepted fill the account is again in the books, with
  its cash equal to capital plus realised profit minus fees plus funding.
\<close>

theorem account_fill_reconciles:
  assumes books: "account_books k l m a" and fits: "fill_fits k l m a f"
  shows "(\<forall>msg. account_apply_fill a f \<noteq> Inl (ArithmeticError msg)) \<and>
    (\<forall>a'. account_apply_fill a f = Inr a' \<longrightarrow>
       account_books k l m a' \<and> report_ok (reconcile a') \<and> ac_cash_balance a' = exact_cash a')"
proof (cases rule: account_apply_fill_cases [OF refl, of a f, case_names refused settled])
  case (refused e)
  then show ?thesis by auto
next
  case (settled p' cash)
  have "fill_outcome k l m a f p' cash"
    using open_outcome [OF books fits settled(1-3)] close_outcome [OF books fits settled(1-3)] settled(5)
    by (auto split: if_splits)
  note O = outcome_books [OF books fits settled(1-3) this, of "af_fill_at f"]
  then have c: "account_books k l m (with_peak (put_position a (af_symbol f) p' cash (af_fill_at f)))"
    "report_ok (reconcile (with_peak (put_position a (af_symbol f) p' cash (af_fill_at f))))" by simp_all
  show ?thesis
    using settled(6) c account_booksD(7) [OF c(1)]
    by (auto simp: Let_def simp del: with_peak_books split: if_splits)
qed

lemma mark_books:
  assumes books: "account_books k l m a" and c: "map_of (ac_positions a) s = Some c"
    and P: "on_grid l P" "0 < P" and b: "account_mass a + lots_mass P (ps_lots c) \<le> 10 ^ (28 - m)"
  defines "pm \<equiv> c\<lparr>ps_mark_price := P, ps_version := ps_version c + 1\<rparr>"
  shows "account_books k l m (put_position a s pm (ac_cash_balance a) t)"
    and "account_mass (put_position a s pm (ac_cash_balance a) t) \<le> 10 ^ (28 - m)"
    and "sum_list (map exact_position_unrealized (position_values (put_position a s pm (ac_cash_balance a) t))) =
      sum_list (map exact_position_unrealized (position_values a)) - exact_position_unrealized c
        + exact_unrealized (ps_side c) P (ps_lots c)"
proof -
  note B = account_booksD [OF books] and cur = current_Some [OF c]
  have pb: "position_books k l m c" using position_of_books [OF books c] .
  have nn: "0 \<le> lots_mass (ps_mark_price c) (ps_lots c)"
    using pb lots_mass_nonneg by (auto simp: position_books_def lots_fit_def)
  have am: "0 \<le> account_mass a"
    using current_mass_le [OF books, of s] cash_mass_le [OF pb] unfolding cur by linarith
  have "lots_mass P (ps_lots c) \<le> 10 ^ (28 - (k + l))"
    using b am pow_grid_mono [OF B(1,2)] by linarith
  then have pm: "position_books k l m pm"
    using pb P by (auto simp: pm_def position_books_def lots_fit_def)
  have cash: "ac_cash_balance a = ac_cash_balance a + (ps_realized_pnl pm - current_amount ps_realized_pnl a s)
      - (ps_fees pm - current_amount ps_fees a s) + (ps_funding pm - current_amount ps_funding a s)"
    by (simp add: cur pm_def)
  note R = put_position_books [OF books pm B(6) cash, of t]
  show "account_books k l m (put_position a s pm (ac_cash_balance a) t)" by (rule R(1))
  show "account_mass (put_position a s pm (ac_cash_balance a) t) \<le> 10 ^ (28 - m)"
    using R(2) nn b by (simp add: cur pm_def position_mass_def)
  show "sum_list (map exact_position_unrealized (position_values (put_position a s pm (ac_cash_balance a) t))) =
      sum_list (map exact_position_unrealized (position_values a)) - exact_position_unrealized c
        + exact_unrealized (ps_side c) P (ps_lots c)"
    using R(3) unfolding cur by (simp add: pm_def exact_position_unrealized_def)
qed

text \<open>The equity of the account with the symbol's position, if it has one, marked at the price.\<close>

definition equity_marked :: "account_state \<Rightarrow> string \<Rightarrow> decimal \<Rightarrow> datetime \<Rightarrow> decimal result" where
  "equity_marked a s price t =
     (if map_of (ac_positions a) s = None then Inr (ac_equity a)
      else bindE (account_mark a s price t) (\<lambda>a'. Inr (ac_equity a')))"

lemma equity_marked_exact:
  assumes books: "account_books k l m a" and fits: "fill_fits k l m a f"
    and pos: "0 < af_quantity f" "0 < af_price f" "0 \<le> af_fee f" "is_utc (af_fill_at f)"
  shows "equity_marked a (af_symbol f) (af_price f) (af_fill_at f) = Inr (ac_cash_balance a
      + sum_list (map exact_position_unrealized (position_values a))
      - current_amount exact_position_unrealized a (af_symbol f)
      + current_amount (\<lambda>p. exact_unrealized (ps_side p) (af_price f) (ps_lots p)) a (af_symbol f))"
proof -
  let ?s = "af_symbol f" and ?P = "af_price f"
  have tot: "account_mass a + 3 * current_amount (\<lambda>p. lots_mass ?P (ps_lots p)) a ?s \<le> 10 ^ (28 - m)"
    and g: "on_grid l ?P"
    using fits mult_pos_pos [OF pos(2,1)] pos(3) by (auto simp: fill_fits_def)
  show ?thesis
  proof (cases "map_of (ac_positions a) ?s")
    case None
    then show ?thesis
      using account_sums(6) [OF books] tot by (simp add: equity_marked_def current_None del: map_map)
  next
    case (Some c)
    note cur = current_Some [OF Some]
    have "0 \<le> lots_mass ?P (ps_lots c)"
      using lots_mass_nonneg [OF _ pos(2)] position_of_books [OF books Some]
      by (auto simp: position_books_def lots_fit_def)
    then have b: "account_mass a + lots_mass ?P (ps_lots c) \<le> 10 ^ (28 - m)" using tot unfolding cur by linarith
    note M = mark_books [OF books Some g pos(2) b]
    have "account_mark a ?s ?P (af_fill_at f) = Inr (with_peak (put_position a ?s
        (c\<lparr>ps_mark_price := ?P, ps_version := ps_version c + 1\<rparr>) (ac_cash_balance a) (af_fill_at f)))"
      using pos Some by (simp add: account_mark_def account_position_def position_mark_def)
    then show ?thesis
      using account_sums(6) [OF M(1,2)] M(3) Some by (simp add: equity_marked_def cur del: map_map)
  qed
qed

text \<open>
  C15: A fill costs exactly its fee, as long as nothing is rounded.  For an account whose books are
  exact on a decimal grid, with leverage 1, 2, 4 or 5, and a fill on the grid that fits into 28
  digits with them, the equity after the accepted fill, opening or reducing, is the equity of the
  account marked at the fill's price, less the fee.
\<close>

theorem account_fill_equity:
  assumes books: "account_books k l m a" and fits: "fill_fits k l m a f" and r: "account_apply_fill a f = Inr a'"
  shows "equity_marked a (af_symbol f) (af_price f) (af_fill_at f) = Inr (ac_equity a' + af_fee f)"
  using r
proof (cases rule: account_apply_fill_cases [OF refl, of a f, case_names refused settled])
  case (settled p' cash)
  have out: "fill_outcome k l m a f p' cash"
    using open_outcome [OF books fits settled(1-3)] close_outcome [OF books fits settled(1-3)] settled(5)
    by (auto split: if_splits)
  note O = outcome_books [OF books fits settled(1-3) this, of "af_fill_at f"]
  note F = out [unfolded fill_outcome_def]
  let ?cand = "put_position a (af_symbol f) p' cash (af_fill_at f)"
  have "a' = with_peak ?cand" using r settled(6) by (auto simp: Let_def split: if_splits)
  then have "ac_equity a' = cash + sum_list (map exact_position_unrealized (position_values ?cand))"
    using account_sums(6) [OF O(1,2)] by (simp del: map_map)
  moreover have "sum_list (map exact_position_unrealized (position_values ?cand)) =
      sum_list (map exact_position_unrealized (position_values a))
        - current_amount exact_position_unrealized a (af_symbol f) + exact_position_unrealized p'"
    by (rule put_position_books(3) [OF books]) (use F in auto)
  moreover have "current_amount (\<lambda>p. ps_realized_pnl p + exact_unrealized (ps_side p) (af_price f) (ps_lots p)) a (af_symbol f)
      = current_amount ps_realized_pnl a (af_symbol f)
        + current_amount (\<lambda>p. exact_unrealized (ps_side p) (af_price f) (ps_lots p)) a (af_symbol f)"
    by (simp add: current_amount_def split: option.splits)
  ultimately show ?thesis
    using equity_marked_exact [OF books fits settled(1-4)] F by simp
qed simp

section \<open>Examples\<close>

definition ex_account :: "int \<Rightarrow> account_state" where
  "ex_account leverage = \<lparr>ac_experiment_id = 1, ac_initial_capital = 1000, ac_currency = ''USDT'', ac_leverage = leverage,
     ac_cash_balance = 1000, ac_peak_equity = 1000, ac_positions = [], ac_version = 0, ac_updated_at = None\<rparr>"

definition ex_account_fill :: "string \<Rightarrow> account_fill" where
  "ex_account_fill symbol = \<lparr>af_fill_id = 5, af_position_id = 6, af_symbol = symbol, af_side = BUY,
     af_position_effect = OPEN, af_quantity = 1, af_price = 100, af_fee = 1/20, af_fill_at = utc 2000000\<rparr>"

lemma ex_account_create: "1 \<le> leverage \<Longrightarrow> leverage \<le> 5 \<Longrightarrow> account_create 1 1000 ''USDT'' leverage = Inr (ex_account leverage)"
  by (simp add: account_create_def ex_account_def)

lemma ex_account_books: "account_books 3 2 8 (ex_account 2)" "fill_fits 3 2 8 (ex_account 2) (ex_account_fill ''BTCUSDT'')"
  by (simp_all add: ex_account_def ex_account_fill_def account_books_def exact_cash_def on_grid_def fill_fits_def
      account_mass_def current_amount_def)

lemmas account_eval = ex_account_def ex_account_fill_def account_apply_fill_def fill_opening_def position_empty_def
  open_fill_def is_flat_def ps_quantity_def lots_quantity_def lots_cost_def with_peak_def ac_free_margin_def
  ac_equity_def ac_unrealized_pnl_def ps_unrealized_pnl_def lot_pnl_def ac_used_margin_def ac_gross_notional_def
  ps_gross_notional_def report_ok_def reconcile_def ac_realized_pnl_def ac_fees_def ac_funding_def
  dsum_def dec_defs dec_eval

lemma ex_account_fill_ok: "\<exists>a'. account_apply_fill (ex_account 2) (ex_account_fill ''BTCUSDT'') = Inr a'"
  by (simp add: account_eval Let_def)

theorem account_fill_reconciles_witness:
  "account_books 3 2 8 (ex_account 2) \<and>
     (\<exists>a'. account_apply_fill (ex_account 2) (ex_account_fill ''BTCUSDT'') = Inr a' \<and> ac_cash_balance a' = exact_cash a')"
  using account_fill_reconciles [OF ex_account_books] ex_account_fill_ok ex_account_books by blast

theorem account_fill_equity_witness:
  "\<exists>a'. account_apply_fill (ex_account 2) (ex_account_fill ''BTCUSDT'') = Inr a' \<and> ac_equity a' = 1000 - 1/20"
proof -
  obtain a' where a': "account_apply_fill (ex_account 2) (ex_account_fill ''BTCUSDT'') = Inr a'"
    using ex_account_fill_ok by blast
  have "equity_marked (ex_account 2) ''BTCUSDT'' 100 (utc 2000000) = Inr 1000"
    by (simp add: equity_marked_def account_eval)
  with account_fill_equity [OF ex_account_books a'] have "ac_equity a' = 1000 - 1/20"
    by (simp add: ex_account_fill_def)
  with a' show ?thesis by blast
qed

lemma ex_second_fill_ok: "\<exists>b1 b2. account_apply_fill (ex_account 2) (ex_account_fill ''BTCUSDT'') = Inr b1 \<and>
    account_apply_fill b1 (ex_account_fill ''ETHUSDT'') = Inr b2"
  by (simp add: account_eval Let_def)

text \<open>
  C21: The exact comparison of the margin residual with zero can refuse a correct fill.  There are
  two opening fills of notional 100 in different symbols such that a fresh account of capital 1000
  with leverage 2 accepts both, while one with leverage 3 accepts the first and, although more than
  900 of margin are free, refuses the second as an arithmetic failure: the two margins of 100/3,
  each rounded to 28 digits, add up to one unit in the last place less than the rounded 200/3.
\<close>

theorem reconcile_refuses_leverage_3:
  "\<exists>f1 f2 b0 b1 b2 a0 a1. af_position_effect f1 = OPEN \<and> af_position_effect f2 = OPEN \<and> af_symbol f1 \<noteq> af_symbol f2 \<and>
     af_quantity f1 * af_price f1 = 100 \<and> af_quantity f2 * af_price f2 = 100 \<and>
     account_create 1 1000 ''USDT'' 2 = Inr b0 \<and> account_apply_fill b0 f1 = Inr b1 \<and> account_apply_fill b1 f2 = Inr b2 \<and>
     account_create 1 1000 ''USDT'' 3 = Inr a0 \<and> account_apply_fill a0 f1 = Inr a1 \<and> 900 < ac_free_margin a1 \<and>
     account_apply_fill a1 f2 = Inl (ArithmeticError ''account reconciliation failed after fill'')"
proof -
  have d: "dround (100 / 3) = 3333333333333333333333333333 / 100000000000000000000000000"
    "dround (200 / 3) = 6666666666666666666666666667 / 100000000000000000000000000"
    "dround (3333333333333333333333333333 / 100000000000000000000000000) =
       3333333333333333333333333333 / 100000000000000000000000000"
    "dround (3333333333333333333333333333 / 50000000000000000000000000) =
       3333333333333333333333333333 / 50000000000000000000000000"
    "dround (96661666666666666666666666667 / 100000000000000000000000000) =
       9666166666666666666666666667 / 10000000000000000000000000"
    using dround_literal [of "3333333333333333333333333333 / 50000000000000000000000000" 6666666666666666666666666666 "-26"]
      dround_literal [of "3333333333333333333333333333 / 100000000000000000000000000" 3333333333333333333333333333 "-26"]
      dround_literal [of "96661666666666666666666666667 / 100000000000000000000000000" 9666166666666666666666666667 "-25"]
      dround_literal [of "100/3" 3333333333333333333333333333 "-26"]
      dround_literal [of "200/3" 6666666666666666666666666667 "-26"] by simp_all
  have "\<exists>a1. account_apply_fill (ex_account 3) (ex_account_fill ''BTCUSDT'') = Inr a1 \<and> 900 < ac_free_margin a1 \<and>
      account_apply_fill a1 (ex_account_fill ''ETHUSDT'') =
        Inl (ArithmeticError ''account reconciliation failed after fill'')"
    by (simp add: account_eval Let_def d)
  moreover have "af_position_effect (ex_account_fill s) = OPEN" "af_symbol (ex_account_fill s) = s"
    "af_quantity (ex_account_fill s) * af_price (ex_account_fill s) = 100" for s by (simp_all add: ex_account_fill_def)
  ultimately show ?thesis
    using ex_second_fill_ok ex_account_create [of 2] ex_account_create [of 3]
    by (intro exI [of _ "ex_account_fill ''BTCUSDT''"] exI [of _ "ex_account_fill ''ETHUSDT''"]) auto
qed

end
