(* ===== verification/Broker_Safety.thy ===== *)
theory Broker_Safety
  imports Broker Account_Books
begin

text \<open>
  What the broker guarantees: an executed entry is the authorised one and leaves a protected
  position, an executed exit flattens its position, and a refusal of the venue or the market during
  an exit becomes a halt.
\<close>

section \<open>Orders of the broker\<close>

lemma open_accepted_result:
  assumes "open_accepted args t = Inr o'"
  shows "po_status o' = ACCEPTED" "po_filled_quantity o' = 0" "po_quantity o' = oa_quantity args"
    "po_order_id o' = oa_order_id args" "po_symbol o' = oa_symbol args" "po_experiment_id o' = oa_experiment_id args"
    "po_command_hash o' = oa_command_hash args" "po_side o' = oa_side args" "po_reduce_only o' = oa_reduce_only args"
    "po_version o' = 3" "0 < oa_quantity args" "is_utc t"
  using assms
  by (auto simp: open_accepted_def order_create_def order_create_checks_def order_authorize_def order_accept_def result_simps
      split: if_splits)

lemma order_apply_whole:
  assumes "order_apply_fill o' q t = Inr o''" "po_filled_quantity o' = 0" "po_quantity o' = q" "dround q = q"
  shows "po_status o'' = FILLED" "po_filled_quantity o'' = q" "po_order_id o'' = po_order_id o'"
    "po_symbol o'' = po_symbol o'" "po_experiment_id o'' = po_experiment_id o'" "po_version o'' = po_version o' + 1"
    "po_command_hash o'' = po_command_hash o'" "po_side o'' = po_side o'" "po_reduce_only o'' = po_reduce_only o'"
  using assms by (auto simp: order_apply_fill_def dadd_def Let_def result_simps split: if_splits)

lemma multiple_rounded: "multiple v i r = Inr q \<Longrightarrow> dround q = q"
  by (auto simp: multiple_def result_simps dmul_def)

lemma prepared_rounded: "prepare f side ot rq aq price an = Inr p \<Longrightarrow> dround (pr_quantity p) = pr_quantity p"
  by (drule prepare_result(11)) (auto simp: quantize_quantity_def result_simps intro: multiple_rounded)

lemma fill_request_of_iff [result_simps]:
  "fill_request_of symbol side q t price rate = Inr r \<Longrightarrow>
     r = \<lparr>fr_symbol = symbol, fr_side = side, fr_quantity = q, fr_eligible_after = t,
        fr_decision_executable_price = price, fr_taker_fee_rate = rate\<rparr>"
  by (auto simp: fill_request_of_def market_fill_request_post_init_def result_simps)

lemma market_fill_facts:
  assumes "market_fill age r books = Inr f"
  shows "pf_book f \<in> set books" "fr_eligible_after r < pf_fill_at f" "pf_quantity f = fr_quantity r"
proof -
  obtain bs where e: "eligible_books r books = pf_book f # bs" and f: "fill_from_book r (pf_book f) (pf_slices f) = Inr f"
    by (rule market_fill_cases [OF assms])
  show "pf_book f \<in> set books" "fr_eligible_after r < pf_fill_at f" "pf_quantity f = fr_quantity r"
    using eligible_books_Cons(1,3) [OF e] fill_from_book_result(6,7) [OF f] by simp_all
qed

lemma stored_fill_result:
  assumes "stored_fill i oid f currency snap = Inr s"
  shows "ef_id s = i" "ef_order_intent_id s = oid" "ef_quantity s = pf_quantity f" "ef_price s = pf_price f"
    "ef_fee s = pf_fee f" "ef_fill_at s = pf_fill_at f" "ef_market_event_id s = pf_market_event_id f"
  using assms by (auto simp: stored_fill_def execution_fill_record_post_init_def result_simps)

lemma finish_record_result:
  assumes "finish_record o' fl s a x f = Inr r"
  shows "rs_fill r = f" "er_order (rs_record r) = o'" "er_fills (rs_record r) = [s]" "er_account (rs_record r) = Some a"
    "er_exit_plan (rs_record r) = Some x" "validate_record (rs_record r) = Inr ()"
  using assms by (auto simp: finish_record_def Let_def result_simps)

lemma validate_record_account:
  assumes "validate_record r = Inr ()" "er_account r = Some a" "er_exit_plan r = Some x"
  obtains p where "account_position a (po_symbol (er_order r)) = Inr p" "xp_position_id x = ps_position_id p"
    "\<not> is_flat p \<Longrightarrow> xp_quantity x = ps_quantity p" "is_flat p \<Longrightarrow> xp_status x = CLOSED" "report_ok (reconcile a)"
  using assms by (auto simp: validate_record_def validate_exit_plan_def result_simps)

text \<open>What the guards of an entry establish.\<close>

lemma entry_admitted_result:
  assumes "entry_admitted b c a = Inr (q, t)"
  obtains p where "ac_experiment_id a = en_experiment_id c"
    "verify (br_signing_key b) (en_capability c) (en_created_at c) = Inr True"
    "prepare (en_exchange_filters c) (en_side c) MARKET (en_requested_quantity c) (en_approved_quantity c)
       (Some (en_decision_executable_price c)) (en_approved_notional c) = Inr p" "q = pr_quantity p"
    "claims_match c q (cp_claims (en_capability c))"
    "t = dt_add (en_decision_completed_at c) (en_execution_latency c)"
  using assms
  by (auto simp: entry_admitted_def result_simps eligibility_def split: if_splits)

lemma entry_filled_result:
  assumes "entry_filled b c a books = Inr (o2, f)"
  obtains q where "entry_admitted b c a = Inr (q, dt_add (en_decision_completed_at c) (en_execution_latency c))"
    "market_fill (br_max_book_age b) \<lparr>fr_symbol = en_symbol c, fr_side = en_side c, fr_quantity = q,
       fr_eligible_after = dt_add (en_decision_completed_at c) (en_execution_latency c),
       fr_decision_executable_price = en_decision_executable_price c,
       fr_taker_fee_rate = en_taker_fee_rate c\<rparr> books = Inr f"
    "pf_fill_at f < en_expires_at c" "pf_quantity f = q"
    "po_status o2 = FILLED" "po_filled_quantity o2 = q" "po_symbol o2 = en_symbol c" "po_order_id o2 = en_order_id c"
proof -
  obtain q t h o1 req where 1: "entry_admitted b c a = Inr (q, t)"
    "open_accepted (entry_order_args c q h (current_quantity a (en_symbol c))) (en_created_at c) = Inr o1"
    "fill_request_of (en_symbol c) (en_side c) q t (en_decision_executable_price c) (en_taker_fee_rate c) = Inr req"
    "market_fill (br_max_book_age b) req books = Inr f" "pf_fill_at f < en_expires_at c"
    "order_apply_fill o1 (pf_quantity f) (pf_fill_at f) = Inr o2"
    using assms by (auto simp: entry_filled_def result_simps not_le split: if_splits prod.splits)
  obtain p where p: "prepare (en_exchange_filters c) (en_side c) MARKET (en_requested_quantity c) (en_approved_quantity c)
       (Some (en_decision_executable_price c)) (en_approved_notional c) = Inr p" "q = pr_quantity p"
    "t = dt_add (en_decision_completed_at c) (en_execution_latency c)"
    by (rule entry_admitted_result [OF 1(1)])
  note req = fill_request_of_iff [OF 1(3)]
  have q: "pf_quantity f = q" using market_fill_facts(3) [OF 1(4)] req by simp
  note o1 = open_accepted_result [OF 1(2)]
  have "dround q = q" using prepared_rounded [OF p(1)] p(2) by simp
  note o2 = order_apply_whole [OF 1(6) o1(2) _ this [folded q]]
  show thesis using 1 q p(3) req o1 o2 by (intro that) (simp_all add: entry_order_args_def)
qed

lemma entry_exit_plan_result:
  assumes "entry_exit_plan c p plan t = Inr x"
  shows "xp_status x = ACTIVE" "0 < ps_quantity p" "xp_quantity x = ps_quantity p" "xp_position_id x = ps_position_id p"
proof -
  have "xp_status x = ACTIVE \<and> 0 < ps_quantity p \<and> xp_quantity x = ps_quantity p \<and> xp_position_id x = ps_position_id p"
  proof (cases plan)
    case None
    then show ?thesis using assms
      by (auto simp: entry_exit_plan_def exit_plan_create_def result_simps Let_def split: prod.splits)
  next
    case (Some y)
    then show ?thesis using assms
      by (auto simp: entry_exit_plan_def exit_resize_def result_simps Let_def split: prod.splits if_splits)
  qed
  then show "xp_status x = ACTIVE" "0 < ps_quantity p" "xp_quantity x = ps_quantity p" "xp_position_id x = ps_position_id p"
    by simp_all
qed

text \<open>
  C1: An entry executes exactly what was authorised, and leaves a protected position.  If the
  broker returns a result, the capability carries the keyed hash of its claims and the order was
  created in its window; the claims name the command's experiment, proposal, gate chain, symbol and
  side; the order is filled for exactly the authorised quantity, by a book of the list observed after
  the decision plus the execution latency and before the expiry, with a notional at the decision price
  within the authorised one; the stored account reconciles, holds an open position, and an active
  exit plan for exactly that position and quantity is stored with it.
\<close>

theorem entry_sound:
  assumes "execute_market_entry b c a books plan = Inr r"
  defines "cl \<equiv> cp_claims (en_capability c)" and "f \<equiv> rs_fill r" and "rec \<equiv> rs_record r"
  shows "claims_signature (br_signing_key b) cl = Inr (cp_signature (en_capability c))
    \<and> cl_issued_at cl \<le> en_created_at c \<and> en_created_at c \<le> cl_expires_at cl
    \<and> cl_experiment_id cl = ac_experiment_id a \<and> cl_proposal_id cl = en_proposal_id c
    \<and> cl_gate_chain_hash cl = en_gate_chain_hash c \<and> cl_symbol cl = en_symbol c \<and> cl_side cl = en_side c
    \<and> pf_quantity f = cl_quantity cl \<and> dmul (pf_quantity f) (en_decision_executable_price c) \<le> cl_approved_notional cl
    \<and> po_status (er_order rec) = FILLED \<and> po_filled_quantity (er_order rec) = cl_quantity cl
    \<and> pf_book f \<in> set books \<and> dt_add (en_decision_completed_at c) (en_execution_latency c) < pf_fill_at f
    \<and> pf_fill_at f < en_expires_at c
    \<and> (\<exists>a' x p. er_account rec = Some a' \<and> er_exit_plan rec = Some x \<and> report_ok (reconcile a')
         \<and> account_position a' (en_symbol c) = Inr p \<and> 0 < ps_quantity p \<and> xp_status x = ACTIVE
         \<and> xp_position_id x = ps_position_id p \<and> xp_quantity x = ps_quantity p)"
proof -
  obtain o2 g a' p x snap s where 1: "entry_filled b c a books = Inr (o2, g)"
    "account_apply_fill a (entry_account_fill c g) = Inr a'" "account_position a' (en_symbol c) = Inr p"
    "entry_exit_plan c p plan (pf_fill_at g) = Inr x"
    "finish_record o2 (en_exchange_filters c) s a' x g = Inr r"
    using assms(1) by (auto simp: execute_market_entry_def result_simps split: prod.splits)
  note fin = finish_record_result [OF 1(5)]
  have g: "g = f" using fin(1) by (simp add: f_def)
  obtain q where q: "entry_admitted b c a = Inr (q, dt_add (en_decision_completed_at c) (en_execution_latency c))"
    "market_fill (br_max_book_age b) \<lparr>fr_symbol = en_symbol c, fr_side = en_side c, fr_quantity = q,
       fr_eligible_after = dt_add (en_decision_completed_at c) (en_execution_latency c),
       fr_decision_executable_price = en_decision_executable_price c,
       fr_taker_fee_rate = en_taker_fee_rate c\<rparr> books = Inr f"
    "pf_fill_at f < en_expires_at c" "pf_quantity f = q"
    "po_status o2 = FILLED" "po_filled_quantity o2 = q"
    by (rule entry_filled_result [OF 1(1)]) (simp add: g)
  obtain prep where prep: "ac_experiment_id a = en_experiment_id c"
    "verify (br_signing_key b) (en_capability c) (en_created_at c) = Inr True"
    "prepare (en_exchange_filters c) (en_side c) MARKET (en_requested_quantity c) (en_approved_quantity c)
       (Some (en_decision_executable_price c)) (en_approved_notional c) = Inr prep" "q = pr_quantity prep"
    "claims_match c q cl"
    unfolding cl_def by (rule entry_admitted_result [OF q(1)])
  have "dmul q (en_decision_executable_price c) \<le> en_approved_notional c"
    using prepare_result(14,16) [OF prep(3)] prep(4) by (auto simp: prepare_price_def result_simps)
  moreover note market_fill_facts [OF q(2)]
  moreover have "report_ok (reconcile a')"
    using fin(4-6) by (auto simp: validate_record_def result_simps)
  ultimately show ?thesis
    using prep(1,2,5) q(3-6) fin 1(3) entry_exit_plan_result [OF 1(4)]
    unfolding verify_Inr_iff claims_match_def rec_def cl_def [symmetric]
    by (intro conjI exI [of _ a'] exI [of _ x] exI [of _ p]) simp_all
qed

section \<open>Exits\<close>

text \<open>Lots whose quantities lie on a grid; prices and fees play no role in how much is closed.\<close>

definition quantities_fit :: "nat \<Rightarrow> position_lot list \<Rightarrow> bool" where
  "quantities_fit k lots \<longleftrightarrow> k \<le> 28 \<and>
     (\<forall>lot \<in> set lots. on_grid k (lot_remaining_quantity lot) \<and> 0 \<le> lot_remaining_quantity lot) \<and>
     sum_list (map lot_remaining_quantity lots) \<le> 10 ^ (28 - k)"

lemma quantities_fit_sum_nonneg: "quantities_fit k lots \<Longrightarrow> 0 \<le> sum_list (map lot_remaining_quantity lots)"
  unfolding quantities_fit_def by (intro sum_list_nonneg) auto

lemma quantities_fit_Cons:
  assumes "quantities_fit k (lot # lots)"
  shows "quantities_fit k lots" "on_grid k (lot_remaining_quantity lot)" "0 \<le> lot_remaining_quantity lot" "k \<le> 28"
proof -
  have "0 \<le> lot_remaining_quantity lot" using assms by (simp add: quantities_fit_def)
  then show "quantities_fit k lots" "on_grid k (lot_remaining_quantity lot)" "0 \<le> lot_remaining_quantity lot" "k \<le> 28"
    using assms by (auto simp: quantities_fit_def)
qed

lemma lots_quantity_fit:
  assumes "quantities_fit k lots"
  shows "lots_quantity lots = sum_list (map lot_remaining_quantity lots)"
proof -
  have "map abs (map lot_remaining_quantity lots) = map lot_remaining_quantity lots"
    using assms by (auto simp: quantities_fit_def)
  then show ?thesis
    unfolding lots_quantity_def using assms
    by (intro dsum_on_grid [of _ k]) (auto simp: quantities_fit_def simp del: map_map)
qed

lemma close_all_lots:
  assumes "quantities_fit k lots" "close_lots side price (sum_list (map lot_remaining_quantity lots)) r lots = (u, r')"
  shows "\<forall>lot \<in> set u. lot_remaining_quantity lot = 0"
  using assms
proof (induction lots arbitrary: r r' u)
  case Nil
  then show ?case by simp
next
  case (Cons lot lots)
  let ?S = "sum_list (map lot_remaining_quantity lots)" and ?x = "lot_remaining_quantity lot"
  note fit = quantities_fit_Cons [OF Cons.prems(1)]
  have S: "0 \<le> ?S" "?x + ?S \<le> 10 ^ (28 - k)" using quantities_fit_sum_nonneg [OF fit(1)] Cons.prems(1)
    by (simp_all add: quantities_fit_def)
  show ?case
  proof (cases "?x = 0")
    case True
    then show ?thesis using Cons.prems Cons.IH [OF fit(1)] by (auto split: prod.splits)
  next
    case False
    then have pos: "0 < ?x" "min ?x (?x + ?S) = ?x" using fit(3) S(1) by simp_all
    have g: "on_grid k ?S" using fit(1) by (intro on_grid_sum_list) (auto simp: quantities_fit_def)
    have d: "dsub (?x + ?S) ?x = ?S" "dsub ?x ?x = 0"
      using dsub_on_grid [of k "?x + ?S" ?x] dsub_on_grid [of k ?x ?x] fit g S by (auto intro: on_grid_add)
    obtain u' r'' where u': "close_lots side price ?S (dadd r (lot_pnl side price (lot_entry_price lot) ?x)) lots = (u', r'')"
      by fastforce
    have "u = close_lot lot ?x # u'" using Cons.prems(2) pos S(1) d(1) u' by (simp add: Let_def)
    then show ?thesis using Cons.IH [OF fit(1) u'] d(2) by (auto simp: close_lot_def)
  qed
qed

lemma dsum_zeros: "\<forall>x \<in> set xs. x = 0 \<Longrightarrow> dsum xs = 0"
proof -
  have "\<forall>x \<in> set xs. x = 0 \<Longrightarrow> foldl dadd 0 xs = 0" by (induction xs) (auto simp: dadd_def)
  then show "\<forall>x \<in> set xs. x = 0 \<Longrightarrow> dsum xs = 0" by (simp add: dsum_def)
qed

lemma close_whole_position:
  assumes "quantities_fit k (ps_lots p)" "close_fill p (ps_quantity p) price fee t = Inr p'"
  shows "is_flat p'" "ps_side p' = NEUTRAL" "ps_closed_at p' = Some t" "ps_position_id p' = ps_position_id p"
proof -
  obtain u r where u: "close_lots (ps_side p) price (ps_quantity p) 0 (ps_lots p) = (u, r)" by fastforce
  have z: "dsub (ps_quantity p) (ps_quantity p) = 0" by (simp add: dsub_def)
  have p': "ps_lots p' = u" "ps_side p' = NEUTRAL" "ps_closed_at p' = Some t" "ps_position_id p' = ps_position_id p"
    using assms(2) by (auto simp: close_fill_def u z result_simps)
  have "\<forall>lot \<in> set u. lot_remaining_quantity lot = 0"
    by (rule close_all_lots [OF assms(1)]) (use u lots_quantity_fit [OF assms(1)] in \<open>simp add: ps_quantity_def\<close>)
  then have "is_flat p'" using p'(1) dsum_zeros by (simp add: is_flat_def ps_quantity_def lots_quantity_def)
  with p' show "is_flat p'" "ps_side p' = NEUTRAL" "ps_closed_at p' = Some t" "ps_position_id p' = ps_position_id p"
    by simp_all
qed

lemma exit_admitted_result:
  assumes "exit_admitted c a x = Inr (p, q, t)"
  shows "account_position a (xc_symbol c) = Inr p" "\<not> is_flat p" "xp_status x = TRIGGERED" "intent_matches c p x"
    "q = ps_quantity p" "t = dt_add (xi_triggered_at (xc_intent c)) (xc_execution_latency c)" "dround q = q"
proof -
  obtain pr where "account_position a (xc_symbol c) = Inr p" "\<not> is_flat p" "xp_status x = TRIGGERED" "intent_matches c p x"
    "halt_on_filter (prepare (xc_exchange_filters c) (xi_side (xc_intent c)) MARKET (xi_quantity (xc_intent c)) (ps_quantity p)
       (Some (xc_decision_executable_price c)) (dmul (ps_quantity p) (xc_decision_executable_price c))) = Inr pr"
    "q = pr_quantity pr" "pr_quantity pr = ps_quantity p" "t = dt_add (xi_triggered_at (xc_intent c)) (xc_execution_latency c)"
    using assms by (auto simp: exit_admitted_def result_simps eligibility_def split: if_splits)
  moreover from this(5) have "dround (pr_quantity pr) = pr_quantity pr"
    by (auto simp: halt_on_filter_def split: sum.splits py_error.splits intro: prepared_rounded)
  ultimately show "account_position a (xc_symbol c) = Inr p" "\<not> is_flat p" "xp_status x = TRIGGERED" "intent_matches c p x"
    "q = ps_quantity p" "t = dt_add (xi_triggered_at (xc_intent c)) (xc_execution_latency c)" "dround q = q"
    by simp_all
qed

lemma halt_on_fill_iff [result_simps]: "halt_on_fill r = Inr f \<longleftrightarrow> r = Inr f"
  by (auto simp: halt_on_fill_def split: sum.splits py_error.splits)

lemma exit_filled_result:
  assumes "exit_filled b c a x books = Inr (p, o2, f)"
  shows "exit_admitted c a x = Inr (p, ps_quantity p, dt_add (xi_triggered_at (xc_intent c)) (xc_execution_latency c))"
    "pf_book f \<in> set books" "dt_add (xi_triggered_at (xc_intent c)) (xc_execution_latency c) < pf_fill_at f"
    "pf_fill_at f < xc_expires_at c" "pf_quantity f = ps_quantity p" "po_status o2 = FILLED" "po_reduce_only o2"
    "po_filled_quantity o2 = ps_quantity p" "po_symbol o2 = xc_symbol c"
proof -
  obtain q t h o1 req where 1: "exit_admitted c a x = Inr (p, q, t)"
    "open_accepted (exit_order_args c p q h) (xc_created_at c) = Inr o1"
    "fill_request_of (xc_symbol c) (xi_side (xc_intent c)) q t (xc_decision_executable_price c) (xc_taker_fee_rate c) = Inr req"
    "market_fill (br_max_book_age b) req books = Inr f" "pf_fill_at f < xc_expires_at c"
    "order_apply_fill o1 (pf_quantity f) (pf_fill_at f) = Inr o2"
    using assms by (auto simp: exit_filled_def result_simps not_le split: if_splits prod.splits)
  note ad = exit_admitted_result [OF 1(1)] and o1 = open_accepted_result [OF 1(2)]
    and m = market_fill_facts [OF 1(4)] and req = fill_request_of_iff [OF 1(3)]
  have q: "pf_quantity f = q" using m(3) req by simp
  note o2 = order_apply_whole [OF 1(6) o1(2) _ ad(7) [folded q]]
  show "exit_admitted c a x = Inr (p, ps_quantity p, dt_add (xi_triggered_at (xc_intent c)) (xc_execution_latency c))"
    "pf_book f \<in> set books" "dt_add (xi_triggered_at (xc_intent c)) (xc_execution_latency c) < pf_fill_at f"
    "pf_fill_at f < xc_expires_at c" "pf_quantity f = ps_quantity p" "po_status o2 = FILLED" "po_reduce_only o2"
    "po_filled_quantity o2 = ps_quantity p" "po_symbol o2 = xc_symbol c"
    using 1 ad o1 o2 m req q by (simp_all add: exit_order_args_def)
qed

lemma reducing_fill_position:
  assumes "account_apply_fill a f = Inr a'" "af_position_effect f = REDUCE"
  obtains p p' where "account_position a (af_symbol f) = Inr p"
    "close_fill p (af_quantity f) (af_price f) (af_fee f) (af_fill_at f) = Inr p'"
    "account_position a' (af_symbol f) = Inr p'" "report_ok (reconcile a')"
    "\<forall>s. s \<noteq> af_symbol f \<longrightarrow> map_of (ac_positions a') s = map_of (ac_positions a) s"
  using assms that
  by (auto simp: account_apply_fill_def fill_reducing_def account_position_def with_peak_def Let_def result_simps
      update_conv' split: if_splits option.splits)

text \<open>
  C7: A protective exit that executes leaves nothing behind.  If the broker returns a result for
  a position whose lots are on a quantity grid, the reduce-only order is filled for the whole open
  quantity by a book observed after the trigger plus the latency and before the expiry, the position
  is flat, neutral and closed at the fill, its exit plan is closed, the account reconciles, and the
  other positions are untouched.
\<close>

theorem exit_flattens:
  assumes "execute_market_exit b c a x books = Inr r" and "account_position a (xc_symbol c) = Inr p"
    and "quantities_fit k (ps_lots p)"
  shows "\<exists>a' p' x'. er_account (rs_record r) = Some a' \<and> er_exit_plan (rs_record r) = Some x'
    \<and> account_position a' (xc_symbol c) = Inr p' \<and> is_flat p' \<and> ps_side p' = NEUTRAL
    \<and> ps_closed_at p' = Some (pf_fill_at (rs_fill r)) \<and> xp_status x' = CLOSED \<and> report_ok (reconcile a')
    \<and> (\<forall>s. s \<noteq> xc_symbol c \<longrightarrow> map_of (ac_positions a') s = map_of (ac_positions a) s)
    \<and> po_status (er_order (rs_record r)) = FILLED \<and> po_reduce_only (er_order (rs_record r))
    \<and> po_filled_quantity (er_order (rs_record r)) = ps_quantity p
    \<and> pf_book (rs_fill r) \<in> set books \<and> pf_fill_at (rs_fill r) < xc_expires_at c
    \<and> dt_add (xi_triggered_at (xc_intent c)) (xc_execution_latency c) < pf_fill_at (rs_fill r)"
proof -
  obtain pos o2 f a' x' s where 1: "exit_filled b c a x books = Inr (pos, o2, f)"
    "account_apply_fill a (exit_account_fill c pos f) = Inr a'" "exit_close x (pf_fill_at f) = Inr x'"
    "finish_record o2 (xc_exchange_filters c) s a' x' f = Inr r"
    using assms(1) by (auto simp: execute_market_exit_def result_simps split: prod.splits)
  note fill = exit_filled_result [OF 1(1)] and fin = finish_record_result [OF 1(4)]
  have pos: "pos = p" using exit_admitted_result(1) [OF fill(1)] assms(2) by simp
  have "af_position_effect (exit_account_fill c pos f) = REDUCE" by (simp add: exit_account_fill_def)
  then obtain p0 p' where p0: "account_position a (xc_symbol c) = Inr p0"
    "close_fill p0 (pf_quantity f) (pf_price f) (pf_fee f) (pf_fill_at f) = Inr p'"
    "account_position a' (xc_symbol c) = Inr p'" "report_ok (reconcile a')"
    "\<forall>s. s \<noteq> xc_symbol c \<longrightarrow> map_of (ac_positions a') s = map_of (ac_positions a) s"
    using reducing_fill_position [OF 1(2)] by (auto simp: exit_account_fill_def)
  have "close_fill p (ps_quantity p) (pf_price f) (pf_fee f) (pf_fill_at f) = Inr p'"
    using p0(1,2) assms(2) fill(5) pos by simp
  note flat = close_whole_position [OF assms(3) this]
  have "xp_status x' = CLOSED" using 1(3) by (auto simp: exit_close_def result_simps)
  then show ?thesis using fin p0(3-5) flat fill pos by (intro exI conjI) simp_all
qed

section \<open>What an exit may raise\<close>

fun no_rejection :: "py_error \<Rightarrow> bool" where
  "no_rejection (FilterRejection r) = False"
| "no_rejection (FillRejection r ev) = False"
| "no_rejection e = True"

lemma guards_no_rejection [simp]:
  "only_raises no_rejection (require_utc t f)" "only_raises no_rejection (require_positive_decimal x f)"
  "only_raises no_rejection (require_positive x f)" "only_raises no_rejection (require_nonnegative x f)"
  "only_raises no_rejection (require_fraction x f)" "only_raises no_rejection (require_active y)"
  "only_raises no_rejection (ddivE x z)" "only_raises no_rejection (utc_iso t)"
  by (simp_all add: require_utc_def require_positive_decimal_def require_positive_def require_nonnegative_def
      require_fraction_def require_active_def ddivE_def utc_iso_def)

lemma freeze_no_rejection [simp]:
  "only_raises no_rejection (freeze_json v)" "only_raises no_rejection (freeze_list vs)" "only_raises no_rejection (freeze_items kvs)"
  by (induction v and vs and kvs rule: freeze_json_freeze_list_freeze_items.induct)
    (auto intro!: raises_intros split: pyval.splits)

lemma hash_no_rejection [simp]: "only_raises no_rejection (content_hash v)"
  by (auto simp: content_hash_def canonical_json_bytes_def intro!: raises_intros)

lemma transition_no_rejection [simp]: "only_raises no_rejection (order_transition_to o' st ty t v)"
  using as_mapping_ok
  by (auto simp: order_transition_to_def intro!: raises_intros) (metis only_raises_simps(1))

lemma order_no_rejection [simp]:
  "only_raises no_rejection (order_create args)" "only_raises no_rejection (order_authorize o' t)"
  "only_raises no_rejection (order_accept o' t)" "only_raises no_rejection (order_apply_fill o' q t)"
  by (auto simp: order_create_def order_create_checks_def order_authorize_def order_accept_def order_apply_fill_def Let_def
      intro!: raises_intros split: option.splits)

lemma position_no_rejection [simp]:
  "only_raises no_rejection (open_fill p i d q price fee t)" "only_raises no_rejection (close_fill p q price fee t)"
  "only_raises no_rejection (account_position a s)"
  by (auto simp: open_fill_def close_fill_def account_position_def Let_def intro!: raises_intros split: prod.splits option.splits)

lemma account_no_rejection [simp]: "only_raises no_rejection (account_apply_fill a f)"
  by (auto simp: account_apply_fill_def fill_opening_def fill_reducing_def position_empty_def Let_def
      intro!: raises_intros split: prod.splits option.splits)

lemma plan_no_rejection [simp]: "only_raises no_rejection (exit_plan_post_init x)" "only_raises no_rejection (exit_close x t)"
  by (auto simp: exit_plan_post_init_def exit_close_def intro!: raises_intros split: option.splits)

lemma record_no_rejection [simp]:
  "only_raises no_rejection (stored_fill i oid f cur snap)" "only_raises no_rejection (finish_record o' fl s a x f)"
  by (auto simp: stored_fill_def execution_fill_record_post_init_def finish_record_def validate_record_def
      validate_exit_plan_def Let_def intro!: raises_intros split: option.splits)

lemma only_raises_mono: "only_raises P r \<Longrightarrow> (\<And>e. P e \<Longrightarrow> Q e) \<Longrightarrow> only_raises Q r"
  by (auto simp: only_raises_def)

fun no_fill_rejection :: "py_error \<Rightarrow> bool" where
  "no_fill_rejection (FillRejection r ev) = False"
| "no_fill_rejection e = True"

fun no_filter_rejection :: "py_error \<Rightarrow> bool" where
  "no_filter_rejection (FilterRejection r) = False"
| "no_filter_rejection e = True"

lemma no_rejection_weaken:
  assumes "only_raises no_rejection r"
  shows "only_raises no_fill_rejection r" "only_raises no_filter_rejection r"
proof -
  have "no_rejection e \<Longrightarrow> no_fill_rejection e" "no_rejection e \<Longrightarrow> no_filter_rejection e" for e by (cases e; simp)+
  with assms show "only_raises no_fill_rejection r" "only_raises no_filter_rejection r"
    by (auto intro: only_raises_mono)
qed

lemmas guards_weak [simp] =
  guards_no_rejection [THEN no_rejection_weaken(1)] guards_no_rejection [THEN no_rejection_weaken(2)]

lemma prepare_no_fill_rejection: "only_raises no_fill_rejection (prepare fl side ot rq aq price an)"
  by (auto simp: prepare_def prepare_price_def quantize_quantity_def quantize_price_def multiple_def Let_def
      intro!: raises_intros split: prod.splits option.splits)

lemma walk_no_rejection: "only_raises no_rejection (walk_levels ls q)"
  by (induction ls q rule: walk_levels.induct)
    (auto simp: fill_slice_post_init_def Let_def intro!: raises_intros split: prod.splits)

lemma fill_no_filter_rejection:
  "only_raises no_filter_rejection (bindE (fill_request_of s sd q t p rt) (\<lambda>r. market_fill age r books))"
  by (auto simp: fill_request_of_def market_fill_request_post_init_def market_fill_def walk_def fill_from_book_def
      paper_fill_post_init_def Let_def
      intro!: raises_intros walk_no_rejection [THEN no_rejection_weaken(2)] split: prod.splits list.splits)

lemma halt_no_rejection [simp]:
  "only_raises no_rejection (halt_on_filter (prepare fl side ot rq aq price an))"
  "only_raises no_rejection (halt_on_fill (bindE (fill_request_of s sd q t p rt) (\<lambda>r. market_fill age r books)))"
proof -
  have "only_raises no_fill_rejection r \<Longrightarrow> only_raises no_rejection (halt_on_filter r)" for r
    by (auto simp: halt_on_filter_def only_raises_def split: sum.splits py_error.splits)
  moreover have "only_raises no_filter_rejection r \<Longrightarrow> only_raises no_rejection (halt_on_fill r)" for r
    by (auto simp: halt_on_fill_def only_raises_def split: sum.splits py_error.splits)
  ultimately show "only_raises no_rejection (halt_on_filter (prepare fl side ot rq aq price an))"
    "only_raises no_rejection (halt_on_fill (bindE (fill_request_of s sd q t p rt) (\<lambda>r. market_fill age r books)))"
    using prepare_no_fill_rejection fill_no_filter_rejection by blast+
qed

lemma exit_admitted_no_rejection [simp]: "only_raises no_rejection (exit_admitted c a x)"
  by (auto simp: exit_admitted_def eligibility_def Let_def intro!: raises_intros)

lemma exit_no_rejection: "only_raises no_rejection (execute_market_exit b c a x books)"
  unfolding execute_market_exit_def exit_filled_def open_accepted_def
  by (auto intro!: raises_intros split: prod.splits)

text \<open>
  C18: A refusal of the venue or of the market never passes for an ordinary error of an exit.  No
  exchange-filter and no fill rejection escapes; when the position's quantity is refused by the
  exchange filters, and when the fill engine refuses the accepted order (no eligible book, a stale
  one, too little depth), the broker halts with that reason and the book it refers to, for review.
\<close>

theorem exit_refusals_halt:
  "(\<forall>reason. execute_market_exit b c a x books \<noteq> Inl (FilterRejection reason))
    \<and> (\<forall>reason ev. execute_market_exit b c a x books \<noteq> Inl (FillRejection reason ev))
    \<and> (\<forall>p q t h o1 req reason ev. exit_admitted c a x = Inr (p, q, t)
         \<and> content_hash (exit_command_payload p x (xi_reason (xc_intent c)) q t) = Inr h
         \<and> open_accepted (exit_order_args c p q h) (xc_created_at c) = Inr o1
         \<and> fill_request_of (xc_symbol c) (xi_side (xc_intent c)) q t (xc_decision_executable_price c)
             (xc_taker_fee_rate c) = Inr req
         \<and> market_fill (br_max_book_age b) req books = Inl (FillRejection reason ev)
         \<longrightarrow> execute_market_exit b c a x books = Inl (ExitExecutionHalt reason ev))
    \<and> (\<forall>p reason. account_position a (xc_symbol c) = Inr p \<and> ac_experiment_id a = xc_experiment_id c
         \<and> \<not> is_flat p \<and> xp_status x = TRIGGERED \<and> intent_matches c p x
         \<and> fl_captured_at (xc_exchange_filters c) \<le> xi_triggered_at (xc_intent c)
         \<and> prepare (xc_exchange_filters c) (xi_side (xc_intent c)) MARKET (xi_quantity (xc_intent c)) (ps_quantity p)
             (Some (xc_decision_executable_price c)) (dmul (ps_quantity p) (xc_decision_executable_price c))
           = Inl (FilterRejection reason)
         \<longrightarrow> execute_market_exit b c a x books = Inl (ExitExecutionHalt (''exchange_filter:'' @ reason) None))"
proof -
  have "only_raises no_rejection (execute_market_exit b c a x books)" by (rule exit_no_rejection)
  then have "execute_market_exit b c a x books \<noteq> Inl (FilterRejection reason)"
    "execute_market_exit b c a x books \<noteq> Inl (FillRejection reason ev)" for reason ev
    by (auto simp: only_raises_def)
  moreover have "execute_market_exit b c a x books = Inl (ExitExecutionHalt reason ev)"
    if "exit_admitted c a x = Inr (p, q, t)" "content_hash (exit_command_payload p x (xi_reason (xc_intent c)) q t) = Inr h"
      "open_accepted (exit_order_args c p q h) (xc_created_at c) = Inr o1"
      "fill_request_of (xc_symbol c) (xi_side (xc_intent c)) q t (xc_decision_executable_price c) (xc_taker_fee_rate c) = Inr req"
      "market_fill (br_max_book_age b) req books = Inl (FillRejection reason ev)" for p q t h o1 req reason ev
    using that by (simp add: execute_market_exit_def exit_filled_def halt_on_fill_def)
  moreover have "exit_admitted c a x = Inl (ExitExecutionHalt (''exchange_filter:'' @ reason) None)"
    if "account_position a (xc_symbol c) = Inr p" "ac_experiment_id a = xc_experiment_id c" "\<not> is_flat p"
      "xp_status x = TRIGGERED" "intent_matches c p x"
      "\<not> xi_triggered_at (xc_intent c) < fl_captured_at (xc_exchange_filters c)"
      "prepare (xc_exchange_filters c) (xi_side (xc_intent c)) MARKET (xi_quantity (xc_intent c)) (ps_quantity p)
         (Some (xc_decision_executable_price c)) (dmul (ps_quantity p) (xc_decision_executable_price c))
         = Inl (FilterRejection reason)" for p reason
    using that by (simp add: exit_admitted_def halt_on_filter_def)
  ultimately show ?thesis
    by (auto simp: execute_market_exit_def exit_filled_def not_less)
qed

section \<open>Examples\<close>

definition ex_broker :: paper_broker where
  "ex_broker = \<lparr>br_signing_key = replicate 32 7, br_max_book_age = 500000\<rparr>"

definition ex_entry :: "execution_capability \<Rightarrow> market_entry_command" where
  "ex_entry cap = \<lparr>en_order_id = 11, en_fill_id = 12, en_position_id = 13, en_exit_plan_id = 14, en_experiment_id = 1,
     en_decision_cycle_id = 2, en_proposal_id = 3, en_gate_chain_hash = replicate 64 CHR ''a'',
     en_client_order_id = ''entry-1'', en_symbol = ''BTCUSDT'', en_side = BUY, en_requested_quantity = 2,
     en_approved_quantity = 2, en_approved_notional = 500, en_decision_executable_price = 100,
     en_decision_completed_at = utc 900000, en_execution_latency = 100000, en_created_at = utc 1000000,
     en_expires_at = utc 60000000, en_taker_fee_rate = 1/2000, en_expected_loss_fraction = 1/50,
     en_expected_gain_fraction = 1/20, en_capability = cap, en_exchange_filters = ex_filter\<rparr>"

lemma ex_market_prepare:
  "\<exists>p. prepare ex_filter sd MARKET 2 2 (Some 100) notional = Inr p \<and> pr_quantity p = 2" if "200 \<le> notional"
  using that
  by (simp add: ex_filter_def prepare_def quantize_quantity_def multiple_def prepare_price_def ddivE_def dec_defs dec_eval)

lemma ex_entry_admitted:
  assumes "cp_claims cap = ex_claims" "verify (replicate 32 7) cap (utc 1000000) = Inr True"
  shows "entry_admitted ex_broker (ex_entry cap) (ex_account 2) = Inr (2, utc 1000000)"
  using assms ex_market_prepare [of 500 BUY]
  by (auto simp: entry_admitted_def ex_broker_def ex_entry_def ex_account_def claims_match_def ex_claims_def eligibility_def
      dt_add_def ex_filter_def)

lemma ex_entry_order:
  assumes "length h = 64"
  shows "\<exists>o1 o2. open_accepted (entry_order_args (ex_entry cap) 2 h 0) (utc 1000000) = Inr o1 \<and>
    order_apply_fill o1 2 (utc 2100000) = Inr o2 \<and> po_symbol o2 = ''BTCUSDT'' \<and> po_order_id o2 = 11 \<and>
    po_experiment_id o2 = 1 \<and> po_filled_quantity o2 = 2"
  using assms
  by (simp add: open_accepted_def order_create_def order_create_checks_def order_payload_def entry_order_args_def ex_entry_def
      order_authorize_def order_accept_def order_apply_fill_def order_transition_to_def as_mapping_def pydict_def py_option_def
      json_pyval.simps po_remaining_quantity_def dec_defs dec_eval Let_def)


lemma ex_entry_filled:
  assumes "cp_claims cap = ex_claims" "verify (replicate 32 7) cap (utc 1000000) = Inr True"
  shows "\<exists>o2. entry_filled ex_broker (ex_entry cap) (ex_account 2) [ex_book] = Inr (o2, ex_fill) \<and>
    po_symbol o2 = ''BTCUSDT'' \<and> po_order_id o2 = 11 \<and> po_experiment_id o2 = 1 \<and> po_filled_quantity o2 = 2"
proof -
  have "\<exists>j. freeze_json (entry_command_payload (ex_entry cap) 2 (utc 1000000)) = Inr j"
    by (simp add: entry_command_payload_def pydict_def ex_entry_def ex_filter_def utc_iso_def)
  then obtain h where h: "content_hash (entry_command_payload (ex_entry cap) 2 (utc 1000000)) = Inr h" "length h = 64"
    using content_hash_shape by blast
  obtain o1 o2 where o: "open_accepted (entry_order_args (ex_entry cap) 2 h 0) (utc 1000000) = Inr o1"
    "order_apply_fill o1 2 (utc 2100000) = Inr o2" "po_symbol o2 = ''BTCUSDT''" "po_order_id o2 = 11"
    "po_experiment_id o2 = 1" "po_filled_quantity o2 = 2"
    using ex_entry_order [OF h(2)] by blast
  have r: "fill_request_of ''BTCUSDT'' BUY 2 (utc 1000000) 100 (en_taker_fee_rate (ex_entry cap)) = Inr ex_request"
    using ex_request_ok by (simp add: fill_request_of_def ex_request_def ex_entry_def)
  have "current_quantity (ex_account 2) ''BTCUSDT'' = 0" by (simp add: current_quantity_def ex_account_def)
  moreover have e: "en_symbol (ex_entry cap) = ''BTCUSDT''" "en_created_at (ex_entry cap) = utc 1000000" "en_side (ex_entry cap) = BUY"
    "en_decision_executable_price (ex_entry cap) = 100"
    "en_expires_at (ex_entry cap) = utc 60000000" by (simp_all add: ex_entry_def)
  moreover have f: "pf_fill_at ex_fill = utc 2100000" "pf_quantity ex_fill = 2" by (simp_all add: ex_fill_def)
  moreover have "br_max_book_age ex_broker = 500000" by (simp add: ex_broker_def)
  ultimately show ?thesis
    using ex_entry_admitted [OF assms] h o r ex_market_fill unfolding entry_filled_def
    by (simp add: utc_compare)
qed

lemma ex_entry_settled:
  "\<exists>a' p. account_apply_fill (ex_account 2) (entry_account_fill (ex_entry cap) ex_fill) = Inr a' \<and>
     account_position a' ''BTCUSDT'' = Inr p \<and> ps_side p = LONG \<and> ps_quantity p = 2 \<and> 0 < ps_average_entry p \<and>
     ac_experiment_id a' = 1 \<and> report_ok (reconcile a')"
  by (simp add: account_eval entry_account_fill_def ex_entry_def ex_fill_def account_position_def Let_def)

lemma ex_entry_run:
  assumes "cp_claims cap = ex_claims" "verify (replicate 32 7) cap (utc 1000000) = Inr True"
  shows "\<exists>r. execute_market_entry ex_broker (ex_entry cap) (ex_account 2) [ex_book] None = Inr r"
proof -
  obtain o2 where o: "entry_filled ex_broker (ex_entry cap) (ex_account 2) [ex_book] = Inr (o2, ex_fill)"
    "po_symbol o2 = ''BTCUSDT''" "po_order_id o2 = 11" "po_experiment_id o2 = 1" "po_filled_quantity o2 = 2"
    using ex_entry_filled [OF assms] by blast
  obtain a' p where a': "account_apply_fill (ex_account 2) (entry_account_fill (ex_entry cap) ex_fill) = Inr a'"
     "account_position a' ''BTCUSDT'' = Inr p" "ps_side p = LONG" "ps_quantity p = 2" "0 < ps_average_entry p"
     "ac_experiment_id a' = 1" "report_ok (reconcile a')"
    using ex_entry_settled by blast
  obtain x where x: "entry_exit_plan (ex_entry cap) p None (utc 2100000) = Inr x" "xp_position_id x = ps_position_id p"
      "xp_quantity x = 2"
    using a'(3-5)
    by (simp add: entry_exit_plan_def exit_plan_create_def ex_entry_def exit_levels_def exit_plan_post_init_def require_fraction_def)
  obtain snap where snap: "freeze_json (pydict (book_items ex_book @ [(''slices'', slices_payload (pf_slices ex_fill))])) = Inr snap"
    by (simp add: book_items_def slices_payload_def pydict_def ex_book_def ex_fill_def utc_iso_def)
  obtain s where s: "stored_fill 12 11 ex_fill ''USDT'' snap = Inr s" "ef_order_intent_id s = 11" "ef_quantity s = 2"
    by (simp add: stored_fill_def execution_fill_record_post_init_def ex_fill_def dec_defs dec_eval)
  have "\<exists>r. finish_record o2 ex_filter s a' x ex_fill = Inr r"
    using o a' x s by (simp add: finish_record_def validate_record_def validate_exit_plan_def ex_filter_def is_flat_def
        dsum_def dec_defs dec_eval)
  moreover have "en_symbol (ex_entry cap) = ''BTCUSDT''" "en_fill_id (ex_entry cap) = 12" "en_order_id (ex_entry cap) = 11"
    "en_exchange_filters (ex_entry cap) = ex_filter" "pf_fill_at ex_fill = utc 2100000" "pf_book ex_fill = ex_book"
    "ac_currency (ex_account 2) = ''USDT''"
    by (simp_all add: ex_entry_def ex_fill_def ex_account_def)
  ultimately show ?thesis using o(1) a'(1,2) x(1) snap s(1) by (simp add: execute_market_entry_def)
qed

theorem entry_sound_witness:
  "\<exists>cap r. execute_market_entry ex_broker (ex_entry cap) (ex_account 2) [ex_book] None = Inr r \<and>
     po_status (er_order (rs_record r)) = FILLED \<and> pf_quantity (rs_fill r) = 2"
proof -
  obtain payload where "claims_signature (replicate 32 7) ex_claims = Inr (hexdigest (hmac_sha256 (replicate 32 7) payload))"
    using claims_signature_ok claims_okD(1,2) [OF ex_claims_ok] by metis
  then have "verify (replicate 32 7) \<lparr>cp_claims = ex_claims, cp_signature = hexdigest (hmac_sha256 (replicate 32 7) payload)\<rparr>
      (utc 1000000) = Inr True"
    unfolding verify_Inr_iff by (simp add: ex_claims_def utc_compare)
  then obtain cap where cap: "cp_claims cap = ex_claims" "verify (replicate 32 7) cap (utc 1000000) = Inr True"
    by (metis execution_capability.select_convs(1))
  obtain r where r: "execute_market_entry ex_broker (ex_entry cap) (ex_account 2) [ex_book] None = Inr r"
    using ex_entry_run [OF cap] by blast
  with entry_sound [OF r] cap(1) have "po_status (er_order (rs_record r)) = FILLED" "pf_quantity (rs_fill r) = 2"
    by (simp_all add: ex_entry_def ex_claims_def)
  with r show ?thesis by blast
qed

definition ex_open_position :: position_state where
  "ex_open_position = \<lparr>ps_position_id = 13, ps_experiment_id = 1, ps_symbol = ''BTCUSDT'', ps_side = LONG, ps_mark_price = 100,
     ps_average_entry = 100, ps_realized_pnl = 0, ps_fees = 0, ps_funding = 0,
     ps_lots = [\<lparr>lot_lot_id = 12, lot_opening_fill_id = 12, lot_opened_at = utc 100000, lot_entry_price = 100,
       lot_original_quantity = 2, lot_remaining_quantity = 2, lot_opening_fee = 0, lot_remaining_opening_fee = 0,
       lot_funding = 0\<rparr>],
     ps_opened_at = Some (utc 100000), ps_closed_at = None, ps_version = 1\<rparr>"

definition ex_open_account :: account_state where
  "ex_open_account = (ex_account 2)\<lparr>ac_positions := [(''BTCUSDT'', ex_open_position)]\<rparr>"

definition ex_triggered_plan :: exit_plan where
  "ex_triggered_plan = \<lparr>xp_plan_id = 14, xp_position_id = 13, xp_side = LONG, xp_quantity = 2, xp_average_entry = 100,
     xp_expected_loss_fraction = 1/50, xp_expected_gain_fraction = 1/20, xp_stop_price = 98, xp_target_price = 105,
     xp_maximum_bars = 60, xp_bars_elapsed = 0, xp_opposite_signal_streak = 0, xp_status = TRIGGERED,
     xp_created_at = utc 100000, xp_changed_at = utc 900000, xp_version = 2, xp_trigger_reason = Some STOP,
     xp_triggered_at = Some (utc 900000), xp_trigger_price = Some 98, xp_trigger_executable_price = Some 98\<rparr>"

definition ex_exit :: market_exit_command where
  "ex_exit = \<lparr>xc_order_id = 21, xc_fill_id = 22, xc_experiment_id = 1, xc_proposal_id = 3, xc_client_order_id = ''exit-1'',
     xc_symbol = ''BTCUSDT'', xc_decision_executable_price = 100, xc_execution_latency = 100000,
     xc_created_at = utc 1000000, xc_expires_at = utc 60000000, xc_taker_fee_rate = 1/2000,
     xc_intent = \<lparr>xi_position_id = 13, xi_side = SELL, xi_order_type = MARKET, xi_quantity = 2, xi_reduce_only = True,
       xi_reason = STOP, xi_triggered_at = utc 900000, xi_trigger_price = Some 98\<rparr>,
     xc_exchange_filters = ex_filter\<rparr>"

lemma ex_exit_sel [simp]: "xc_symbol ex_exit = ''BTCUSDT''" "xc_created_at ex_exit = utc 1000000"
  "xi_side (xc_intent ex_exit) = SELL" "xc_expires_at ex_exit = utc 60000000" "xc_decision_executable_price ex_exit = 100"
  "xc_fill_id ex_exit = 22" "xc_order_id ex_exit = 21" "xc_exchange_filters ex_exit = ex_filter"
  by (simp_all add: ex_exit_def)

lemma ex_open_position_quantity [simp]: "ps_quantity ex_open_position = 2" "\<not> is_flat ex_open_position"
  by (simp_all add: ex_open_position_def is_flat_def ps_quantity_def lots_quantity_def dsum_def dec_defs dec_eval)

lemma ex_open_position_of: "account_position ex_open_account ''BTCUSDT'' = Inr ex_open_position"
  by (simp add: ex_open_account_def account_position_def)

lemma ex_exit_admitted: "exit_admitted ex_exit ex_open_account ex_triggered_plan = Inr (ex_open_position, 2, utc 1000000)"
proof -
  obtain p where p: "prepare ex_filter SELL MARKET 2 2 (Some 100) (dmul 2 100) = Inr p" "pr_quantity p = 2"
    using ex_market_prepare [of "dmul 2 100" SELL] by (auto simp: dec_defs dec_eval)
  have i: "xi_quantity (xc_intent ex_exit) = 2" "xi_triggered_at (xc_intent ex_exit) = utc 900000"
    "xc_execution_latency ex_exit = 100000" "ac_experiment_id ex_open_account = xc_experiment_id ex_exit"
    "xp_status ex_triggered_plan = TRIGGERED" "fl_captured_at ex_filter = utc 500000"
    "intent_matches ex_exit ex_open_position ex_triggered_plan"
    by (simp_all add: ex_exit_def ex_open_account_def ex_account_def ex_triggered_plan_def ex_filter_def intent_matches_def)
      (simp add: ex_open_position_def)
  show ?thesis
    unfolding exit_admitted_def using p i ex_open_position_of
    by (simp add: halt_on_filter_def eligibility_def dt_add_def utc_compare)
qed

lemma ex_exit_order:
  assumes "length h = 64"
  shows "\<exists>o1 o2. open_accepted (exit_order_args ex_exit ex_open_position 2 h) (utc 1000000) = Inr o1 \<and>
    order_apply_fill o1 2 (utc 2100000) = Inr o2 \<and> po_symbol o2 = ''BTCUSDT'' \<and> po_order_id o2 = 21 \<and>
    po_experiment_id o2 = 1 \<and> po_filled_quantity o2 = 2"
  using assms
  by (simp add: open_accepted_def order_create_def order_create_checks_def order_payload_def exit_order_args_def ex_exit_def
      order_authorize_def order_accept_def order_apply_fill_def order_transition_to_def as_mapping_def pydict_def py_option_def
      json_pyval.simps po_remaining_quantity_def dec_defs dec_eval Let_def)

definition ex_exit_request :: market_fill_request where
  "ex_exit_request = \<lparr>fr_symbol = ''BTCUSDT'', fr_side = SELL, fr_quantity = 2, fr_eligible_after = utc 1000000,
     fr_decision_executable_price = 100, fr_taker_fee_rate = 1/2000\<rparr>"

lemma ex_exit_request_ok: "fill_request_of ''BTCUSDT'' SELL 2 (utc 1000000) 100 (xc_taker_fee_rate ex_exit) = Inr ex_exit_request"
  by (simp add: fill_request_of_def ex_exit_request_def market_fill_request_post_init_def result_simps ex_exit_def)

definition ex_exit_fill :: paper_fill where
  "ex_exit_fill = \<lparr>pf_market_event_id = ''book-1'', pf_symbol = ''BTCUSDT'', pf_side = SELL,
     pf_fill_at = utc 2100000, pf_quantity = 2, pf_price = 100, pf_notional = 200,
     pf_slices = [\<lparr>sl_price = 100, sl_quantity = 2\<rparr>],
     pf_liquidity_role = ''taker'', pf_fee = 1/10, pf_spread_cost = 1/2, pf_depth_slippage = 0,
     pf_latency_slippage = 0, pf_total_slippage = 1/2, pf_book = ex_book\<rparr>"

lemma ex_exit_market_fill: "market_fill 500000 ex_exit_request [ex_book] = Inr ex_exit_fill"
proof -
  have "eligible_books ex_exit_request [ex_book] = [ex_book]"
    by (simp add: ex_exit_request_def ex_book_def eligible_books_def utc_compare)
  moreover have "walk (bk_bids ex_book) 2 eid = Inr (pf_slices ex_exit_fill)" for eid
    by (simp add: ex_book_def ex_exit_fill_def walk_def fill_slice_post_init_def dec_defs dec_eval)
  moreover have "fill_from_book ex_exit_request ex_book (pf_slices ex_exit_fill) = Inr ex_exit_fill"
    by (simp add: ex_book_def ex_exit_request_def ex_exit_fill_def fill_from_book_def result_simps dec_defs dec_eval
        slices_quantity_def slices_notional_def dsum_def Let_def spread_cost_of_def depth_slippage_of_def
        latency_slippage_of_def midpoint_def best_ask_def best_bid_def)
  ultimately show ?thesis
    by (simp add: market_fill_def) (simp add: ex_book_def ex_exit_request_def side_levels_def dt_diff_def)
qed

lemma ex_exit_steps:
  "\<exists>h o1 o2. content_hash (exit_command_payload ex_open_position ex_triggered_plan (xi_reason (xc_intent ex_exit)) 2 (utc 1000000))
      = Inr h \<and> open_accepted (exit_order_args ex_exit ex_open_position 2 h) (utc 1000000) = Inr o1 \<and>
    order_apply_fill o1 2 (utc 2100000) = Inr o2 \<and> po_symbol o2 = ''BTCUSDT'' \<and> po_order_id o2 = 21 \<and>
    po_experiment_id o2 = 1 \<and> po_filled_quantity o2 = 2"
proof -
  have "\<exists>j. freeze_json (exit_command_payload ex_open_position ex_triggered_plan (xi_reason (xc_intent ex_exit)) 2 (utc 1000000)) = Inr j"
    by (simp add: exit_command_payload_def pydict_def utc_iso_def)
  then show ?thesis using content_hash_shape ex_exit_order by blast
qed

theorem exit_refusals_halt_witness:
  "execute_market_exit ex_broker ex_exit ex_open_account ex_triggered_plan [] =
     Inl (ExitExecutionHalt ''no_eligible_book'' None)"
proof -
  have "market_fill (br_max_book_age ex_broker) ex_exit_request [] = Inl (FillRejection ''no_eligible_book'' None)"
    by (simp add: market_fill_def eligible_books_def)
  then show ?thesis
    using exit_refusals_halt [of ex_broker ex_exit ex_open_account ex_triggered_plan "[]"]
      ex_exit_admitted ex_exit_steps ex_exit_request_ok unfolding ex_exit_sel by blast
qed

lemma ex_exit_filled:
  "\<exists>o2. exit_filled ex_broker ex_exit ex_open_account ex_triggered_plan [ex_book] = Inr (ex_open_position, o2, ex_exit_fill) \<and>
    po_symbol o2 = ''BTCUSDT'' \<and> po_order_id o2 = 21 \<and> po_experiment_id o2 = 1 \<and> po_filled_quantity o2 = 2"
proof -
  have "br_max_book_age ex_broker = 500000" "pf_fill_at ex_exit_fill = utc 2100000" "pf_quantity ex_exit_fill = 2"
    by (simp_all add: ex_broker_def ex_exit_fill_def)
  then show ?thesis
    using ex_exit_admitted ex_exit_steps ex_exit_request_ok ex_exit_market_fill unfolding exit_filled_def
    by (auto simp: utc_compare halt_on_fill_def)
qed

lemma ex_exit_settled:
  "\<exists>a' p. account_apply_fill ex_open_account (exit_account_fill ex_exit ex_open_position ex_exit_fill) = Inr a' \<and>
     account_position a' ''BTCUSDT'' = Inr p \<and> ps_position_id p = 13 \<and> is_flat p \<and> ac_experiment_id a' = 1 \<and>
     report_ok (reconcile a')"
  by (simp add: account_eval fill_reducing_def close_fill_def close_lot_def exit_account_fill_def ex_exit_def ex_exit_fill_def
      ex_open_account_def ex_open_position_def account_position_def Let_def)

lemma ex_exit_run: "\<exists>r. execute_market_exit ex_broker ex_exit ex_open_account ex_triggered_plan [ex_book] = Inr r"
proof -
  obtain o2 where o: "exit_filled ex_broker ex_exit ex_open_account ex_triggered_plan [ex_book] = Inr (ex_open_position, o2, ex_exit_fill)"
    "po_symbol o2 = ''BTCUSDT''" "po_order_id o2 = 21" "po_experiment_id o2 = 1" "po_filled_quantity o2 = 2"
    using ex_exit_filled by blast
  obtain a' p where a': "account_apply_fill ex_open_account (exit_account_fill ex_exit ex_open_position ex_exit_fill) = Inr a'"
     "account_position a' ''BTCUSDT'' = Inr p" "ps_position_id p = 13" "is_flat p" "ac_experiment_id a' = 1"
     "report_ok (reconcile a')"
    using ex_exit_settled by blast
  obtain x where x: "exit_close ex_triggered_plan (utc 2100000) = Inr x" "xp_position_id x = 13" "xp_status x = CLOSED"
    by (simp add: exit_close_def ex_triggered_plan_def exit_plan_post_init_def utc_compare)
  obtain snap where snap: "freeze_json (pydict (exit_snapshot_items ex_exit ex_exit_fill)) = Inr snap"
    by (simp add: exit_snapshot_items_def book_items_def slices_payload_def pydict_def ex_book_def ex_exit_fill_def utc_iso_def
        ex_exit_def py_option_def)
  obtain s where s: "stored_fill 22 21 ex_exit_fill ''USDT'' snap = Inr s" "ef_order_intent_id s = 21" "ef_quantity s = 2"
    by (simp add: stored_fill_def execution_fill_record_post_init_def ex_exit_fill_def dec_defs dec_eval)
  have "\<exists>r. finish_record o2 ex_filter s a' x ex_exit_fill = Inr r"
    using o a' x s by (simp add: finish_record_def validate_record_def validate_exit_plan_def ex_filter_def
        dsum_def dec_defs dec_eval)
  moreover have "pf_fill_at ex_exit_fill = utc 2100000" "ac_currency ex_open_account = ''USDT''"
    by (simp_all add: ex_exit_fill_def ex_open_account_def ex_account_def)
  ultimately show ?thesis using o(1) a'(1,2) x(1) snap s(1) by (simp add: execute_market_exit_def)
qed

theorem exit_flattens_witness:
  "\<exists>r a' p'. execute_market_exit ex_broker ex_exit ex_open_account ex_triggered_plan [ex_book] = Inr r \<and>
     er_account (rs_record r) = Some a' \<and> account_position a' ''BTCUSDT'' = Inr p' \<and> is_flat p'"
proof -
  obtain r where r: "execute_market_exit ex_broker ex_exit ex_open_account ex_triggered_plan [ex_book] = Inr r"
    using ex_exit_run by blast
  have "quantities_fit 3 (ps_lots ex_open_position)"
    by (simp add: quantities_fit_def ex_open_position_def on_grid_def)
  with exit_flattens [OF r] r ex_open_position_of show ?thesis unfolding ex_exit_sel by blast
qed

end
