(* ===== verification/Sensitivity.thy ===== *)
theory Sensitivity
  imports Fills Json
begin

text \<open>
  \<^verbatim>\<open>maais/execution/paper/sensitivity.py\<close>: the outcome of a fill under three execution assumptions.
\<close>

datatype sensitivity_scenario = OPTIMISTIC | CONSERVATIVE | STRESS

fun sensitivity_scenario_value :: "sensitivity_scenario \<Rightarrow> string" where
  "sensitivity_scenario_value OPTIMISTIC = ''optimistic''"
| "sensitivity_scenario_value CONSERVATIVE = ''conservative''"
| "sensitivity_scenario_value STRESS = ''stress''"

record sensitivity_outcome =
  so_scenario :: sensitivity_scenario
  so_calculated_at :: datetime
  so_effective_fill_price :: decimal
  so_fee :: decimal
  so_execution_cost :: decimal
  so_marked_pnl :: decimal

definition sensitivity_outcome_post_init :: "sensitivity_outcome \<Rightarrow> sensitivity_outcome result" where
  "sensitivity_outcome_post_init s =
     thenE (checks
       [require_utc (so_calculated_at s) ''calculated_at'',
        require_positive_decimal (so_effective_fill_price s) ''effective_fill_price'',
        raise_if (so_fee s < 0 \<or> so_execution_cost s < 0)
          (ValueError ''fee and execution_cost must be nonnegative'')])
     (Inr s)"

definition sensitivity_to_dict :: "sensitivity_outcome \<Rightarrow> pyval" where
  "sensitivity_to_dict s = pydict
     [(''scenario'', PyEnum (PyStr (sensitivity_scenario_value (so_scenario s)))),
      (''calculated_at'', PyDatetime (so_calculated_at s)),
      (''effective_fill_price'', PyDecimal (so_effective_fill_price s)),
      (''fee'', PyDecimal (so_fee s)),
      (''execution_cost'', PyDecimal (so_execution_cost s)),
      (''marked_pnl'', PyDecimal (so_marked_pnl s))]"

text \<open>
  \<open>min\<close> and \<open>max\<close> of the slice prices; Python raises on an empty sequence, and no constructed fill
  has an empty list of slices.
\<close>

definition best_slice_price :: "paper_order_side \<Rightarrow> fill_slice list \<Rightarrow> decimal result" where
  "best_slice_price side ss =
     (case map sl_price ss of
        [] \<Rightarrow> Inl (ValueError ''iterable argument is empty'')
      | p # ps \<Rightarrow> Inr (if side = BUY then foldl min p ps else foldl max p ps))"

definition sensitivity_at ::
  "paper_fill \<Rightarrow> decimal \<Rightarrow> datetime \<Rightarrow> decimal \<Rightarrow> decimal \<Rightarrow> sensitivity_scenario \<Rightarrow> decimal
     \<Rightarrow> sensitivity_outcome result" where
  "sensitivity_at f marked_price calculated_at best_price fee_rate scenario price =
     (let fee = dmul (dmul price (pf_quantity f)) fee_rate;
          slippage = dmul (dabs (dsub price best_price)) (pf_quantity f);
          gross = dmul (dsub marked_price price) (pf_quantity f);
          gross' = (if pf_side f = SELL then dneg gross else gross)
      in sensitivity_outcome_post_init
           \<lparr>so_scenario = scenario, so_calculated_at = calculated_at, so_effective_fill_price = price,
            so_fee = fee, so_execution_cost = dadd fee slippage, so_marked_pnl = dsub gross' fee\<rparr>)"

definition calculate_sensitivities ::
  "paper_fill \<Rightarrow> decimal \<Rightarrow> datetime \<Rightarrow> decimal \<Rightarrow> sensitivity_outcome list result" where
  "calculate_sensitivities f marked_price calculated_at stress_multiplier =
     thenE (checks
       [require_positive_decimal marked_price ''marked_price'',
        require_utc calculated_at ''calculated_at'',
        raise_if (stress_multiplier < 1) (ValueError ''stress_multiplier must be a finite Decimal at least 1'')])
     (bindE (best_slice_price (pf_side f) (pf_slices f)) (\<lambda>best_price.
      bindE (ddivE (dabs (pf_total_slippage f)) (pf_quantity f)) (\<lambda>per_unit.
      let additional_stress = dmul per_unit (dsub stress_multiplier 1);
          stress_price = (if pf_side f = BUY then dadd (pf_price f) additional_stress
                          else dsub (pf_price f) additional_stress)
      in thenE (require_positive_decimal stress_price ''stress effective fill price'')
         (bindE (if pf_notional f > 0 then ddivE (pf_fee f) (pf_notional f) else Inr 0) (\<lambda>fee_rate.
          let outcome = sensitivity_at f marked_price calculated_at best_price fee_rate
          in bindE (outcome OPTIMISTIC best_price) (\<lambda>o1.
             bindE (outcome CONSERVATIVE (pf_price f)) (\<lambda>o2.
             bindE (outcome STRESS stress_price) (\<lambda>o3. Inr [o1, o2, o3]))))))))"

section \<open>The order of the scenarios\<close>

text \<open>
  What an outcome is made of besides the fee: the distance to the best slice, and the profit at the
  mark before fees.
\<close>

definition scenario_slippage :: "paper_fill \<Rightarrow> decimal \<Rightarrow> sensitivity_outcome \<Rightarrow> decimal" where
  "scenario_slippage f best s = dmul (dabs (dsub (so_effective_fill_price s) best)) (pf_quantity f)"

definition scenario_gross :: "paper_fill \<Rightarrow> decimal \<Rightarrow> sensitivity_outcome \<Rightarrow> decimal" where
  "scenario_gross f m s =
     (let gross = dmul (dsub m (so_effective_fill_price s)) (pf_quantity f)
      in if pf_side f = SELL then dneg gross else gross)"

lemma sensitivity_at_result:
  assumes "sensitivity_at f m t best rate sc price = Inr s"
  shows "so_scenario s = sc" "so_effective_fill_price s = price" "0 < price" "so_fee s = dmul (dmul price (pf_quantity f)) rate"
    "so_execution_cost s = dadd (so_fee s) (scenario_slippage f best s)"
    "so_marked_pnl s = dsub (scenario_gross f m s) (so_fee s)"
  using assms
  by (auto simp: sensitivity_at_def sensitivity_outcome_post_init_def result_simps Let_def scenario_slippage_def
      scenario_gross_def)

text \<open>Prices from better to worse for a side.\<close>

definition no_better :: "paper_order_side \<Rightarrow> decimal \<Rightarrow> decimal \<Rightarrow> bool" where
  "no_better side p p' \<longleftrightarrow> (if side = BUY then p \<le> p' else p' \<le> p)"

lemma outcome_mono:
  assumes "sensitivity_at f m t best rate sc p = Inr s" "sensitivity_at f m t best rate sc' p' = Inr s'"
    and b: "no_better (pf_side f) best p" and p: "no_better (pf_side f) p p'" and q: "0 < pf_quantity f" "0 \<le> rate"
  shows "scenario_slippage f best s \<le> scenario_slippage f best s'" "scenario_gross f m s' \<le> scenario_gross f m s"
    "if pf_side f = BUY then so_fee s \<le> so_fee s' else so_fee s' \<le> so_fee s"
proof -
  note r = sensitivity_at_result [OF assms(1)] and r' = sensitivity_at_result [OF assms(2)]
  have "dabs (dsub p best) \<le> dabs (dsub p' best)"
  proof (cases "pf_side f = BUY")
    case True
    then have "0 \<le> dsub p best" "dsub p best \<le> dsub p' best"
      unfolding dsub_def using b p by (auto simp: no_better_def intro: dround_mono)
    then show ?thesis unfolding dabs_def by (auto intro: dround_mono)
  next
    case False
    then have "dsub p best \<le> 0" "dsub p' best \<le> dsub p best"
      unfolding dsub_def using b p by (auto simp: no_better_def intro: dround_mono)
    then show ?thesis unfolding dabs_def by (auto intro: dround_mono)
  qed
  then show "scenario_slippage f best s \<le> scenario_slippage f best s'"
    unfolding scenario_slippage_def r(2) r'(2) dmul_def using q(1) by (intro dround_mono mult_right_mono) auto
  have g: "dmul (dsub m y) (pf_quantity f) \<le> dmul (dsub m x) (pf_quantity f)" if "x \<le> y" for x y
    unfolding dmul_def dsub_def using that q(1) by (intro dround_mono mult_right_mono) auto
  show "scenario_gross f m s' \<le> scenario_gross f m s"
    using p g by (cases "pf_side f") (auto simp: scenario_gross_def Let_def r(2) r'(2) no_better_def dneg_def intro!: dround_mono)
  have fee: "dmul (dmul x (pf_quantity f)) rate \<le> dmul (dmul y (pf_quantity f)) rate" if "x \<le> y" for x y
    unfolding dmul_def using that q by (intro dround_mono mult_right_mono) auto
  show "if pf_side f = BUY then so_fee s \<le> so_fee s' else so_fee s' \<le> so_fee s"
    using p fee by (simp add: r(4) r'(4) no_better_def)
qed

lemma calculate_sensitivities_result:
  assumes "calculate_sensitivities f m t k = Inr os" "paper_fill_post_init f = Inr f"
  obtains best rate extra o1 o2 o3 where "best_slice_price (pf_side f) (pf_slices f) = Inr best" "rate = ddiv (pf_fee f) (pf_notional f)" "0 \<le> rate" "0 \<le> extra"
    "os = [o1, o2, o3]" "sensitivity_at f m t best rate OPTIMISTIC best = Inr o1"
    "sensitivity_at f m t best rate CONSERVATIVE (pf_price f) = Inr o2"
    "sensitivity_at f m t best rate STRESS
       (if pf_side f = BUY then dadd (pf_price f) extra else dsub (pf_price f) extra) = Inr o3"
proof -
  have q: "0 < pf_quantity f" "0 \<le> pf_fee f" "0 < pf_notional f" using assms(2) by (simp_all add: result_simps)
  let ?extra = "dmul (ddiv (dabs (pf_total_slippage f)) (pf_quantity f)) (dsub k 1)"
  have k: "1 \<le> k" using assms(1) by (auto simp: calculate_sensitivities_def result_simps)
  have e: "0 \<le> ?extra" using q k by (simp add: dmul_def ddiv_def dabs_def dsub_def)
  have "0 \<le> ddiv (pf_fee f) (pf_notional f)" using q by (simp add: ddiv_def)
  with assms(1) q e show thesis
    by (auto simp: calculate_sensitivities_def result_simps Let_def intro: that)
qed

text \<open>
  The best slice of a fill is no worse than its average price, when the slices lie on a grid on
  which neither their products nor the sums round.
\<close>

definition slices_grid :: "nat \<Rightarrow> nat \<Rightarrow> fill_slice list \<Rightarrow> bool" where
  "slices_grid k l ss \<longleftrightarrow> k + l \<le> 28 \<and>
     (\<forall>s \<in> set ss. fill_slice_post_init s = Inr s \<and> on_grid k (sl_quantity s) \<and> on_grid l (sl_price s) \<and>
        sl_price s \<le> 10 ^ (28 - l)) \<and>
     sum_list (map sl_quantity ss) \<le> 10 ^ (28 - k) \<and>
     sum_list (map (\<lambda>s. sl_quantity s * sl_price s) ss) \<le> 10 ^ (28 - (k + l))"

lemma slices_gridD:
  assumes "slices_grid k l ss" "s \<in> set ss"
  shows "0 < sl_quantity s" "0 < sl_price s" "on_grid k (sl_quantity s)" "on_grid l (sl_price s)" "dround (sl_price s) = sl_price s"
proof -
  show r: "0 < sl_quantity s" "0 < sl_price s" "on_grid k (sl_quantity s)" "on_grid l (sl_price s)"
    using assms by (auto simp: slices_grid_def fill_slice_post_init_def result_simps)
  have "sl_price s \<le> 10 ^ (28 - l)" "l \<le> 28" using assms by (auto simp: slices_grid_def)
  then show "dround (sl_price s) = sl_price s" using r by (intro dround_on_grid [of l]) auto
qed

lemma member_le_sum_list: "(\<And>y. y \<in> set ys \<Longrightarrow> 0 \<le> y) \<Longrightarrow> x \<in> set ys \<Longrightarrow> x \<le> (sum_list ys :: rat)"
proof (induction ys)
  case (Cons y ys)
  have "0 \<le> sum_list ys" using Cons.prems(1) by (intro sum_list_nonneg) auto
  then show ?case using Cons.IH Cons.prems by (cases "x = y") fastforce+
qed simp

lemma dsum_nonneg_on_grid:
  assumes "\<forall>x \<in> set xs. 0 \<le> x \<and> on_grid k x" "k \<le> 28" "sum_list xs \<le> 10 ^ (28 - k)"
  shows "dsum xs = sum_list xs"
proof -
  have "map abs xs = xs" using assms(1) by (simp add: map_idI)
  then show ?thesis using assms by (intro dsum_on_grid [of _ k]) simp_all
qed

lemma slices_exact:
  assumes g: "slices_grid k l ss"
  shows "slices_quantity ss = sum_list (map sl_quantity ss)"
    "slices_notional ss = sum_list (map (\<lambda>s. sl_quantity s * sl_price s) ss)"
proof -
  have kl: "k + l \<le> 28" "sum_list (map sl_quantity ss) \<le> 10 ^ (28 - k)"
    "sum_list (map (\<lambda>s. sl_quantity s * sl_price s) ss) \<le> 10 ^ (28 - (k + l))"
    using g by (simp_all add: slices_grid_def)
  note d = slices_gridD [OF g]
  show "slices_quantity ss = sum_list (map sl_quantity ss)"
    unfolding slices_quantity_def using d(1,3) kl by (intro dsum_nonneg_on_grid [of _ k]) (auto simp: less_imp_le)
  let ?n = "\<lambda>s. sl_quantity s * sl_price s"
  have n: "0 \<le> ?n s \<and> on_grid (k + l) (?n s)" if "s \<in> set ss" for s
    using d(1,2) [OF that] on_grid_mult [OF d(3,4)] that by (simp add: less_imp_le)
  have "?n s \<le> 10 ^ (28 - (k + l))" if "s \<in> set ss" for s
    using member_le_sum_list [of "map ?n ss" "?n s"] n that kl(3) by fastforce
  then have e: "dmul (sl_quantity s) (sl_price s) = ?n s" if "s \<in> set ss" for s
    unfolding dmul_def using n that kl(1) by (intro dround_on_grid [of "k + l"]) auto
  have "slices_notional ss = dsum (map ?n ss)" unfolding slices_notional_def using e by (simp cong: map_cong)
  also have "dsum (map ?n ss) = sum_list (map ?n ss)"
    using n kl by (intro dsum_nonneg_on_grid [of _ "k + l"]) auto
  finally show "slices_notional ss = sum_list (map ?n ss)" .
qed

lemma foldl_min_in: "foldl min p ps \<in> set (p # ps) \<and> (\<forall>x \<in> set (p # ps). foldl min p ps \<le> (x :: rat))"
proof (induction ps arbitrary: p)
  case (Cons a ps)
  from Cons.IH [of "min p a"] show ?case by (auto simp: min_def split: if_splits)
qed simp

lemma foldl_max_in: "foldl max p ps \<in> set (p # ps) \<and> (\<forall>x \<in> set (p # ps). (x :: rat) \<le> foldl max p ps)"
proof (induction ps arbitrary: p)
  case (Cons a ps)
  from Cons.IH [of "max p a"] show ?case by (auto simp: max_def split: if_splits)
qed simp

lemma best_slice_price_result:
  assumes "best_slice_price side ss = Inr best"
  shows "best \<in> sl_price ` set ss" "s \<in> set ss \<Longrightarrow> no_better side best (sl_price s)"
proof -
  obtain p ps where p: "map sl_price ss = p # ps" and b: "best = (if side = BUY then foldl min p ps else foldl max p ps)"
    using assms by (auto simp: best_slice_price_def split: list.splits)
  have e: "sl_price ` set ss = set (p # ps)" using p by (metis list.set_map)
  show "best \<in> sl_price ` set ss" unfolding e b using foldl_min_in [of p ps] foldl_max_in [of p ps] by simp
  assume "s \<in> set ss"
  then have "sl_price s \<in> set (p # ps)" using e by blast
  then show "no_better side best (sl_price s)" unfolding no_better_def b using foldl_min_in [of p ps] foldl_max_in [of p ps] by auto
qed

lemma best_no_better:
  assumes g: "slices_grid k l (pf_slices f)" and f: "paper_fill_post_init f = Inr f"
    and b: "best_slice_price (pf_side f) (pf_slices f) = Inr best"
  shows "no_better (pf_side f) best (pf_price f)"
proof -
  let ?ss = "pf_slices f"
  note d = slices_gridD [OF g] and bs = best_slice_price_result [OF b]
  have fx: "dround best = best" using bs(1) d(5) by auto
  have q: "0 < pf_quantity f" "pf_price f = dround (pf_notional f / pf_quantity f)"
    using f by (simp_all add: result_simps ddiv_def)
  have n: "pf_quantity f = sum_list (map sl_quantity ?ss)" "pf_notional f = sum_list (map (\<lambda>s. sl_quantity s * sl_price s) ?ss)"
    using f slices_exact [OF g] by (simp_all add: result_simps)
  have bq: "sum_list (map (\<lambda>s. sl_quantity s * best) ?ss) = pf_quantity f * best"
    by (simp add: n(1) sum_list_mult_const)
  show ?thesis
  proof (cases "pf_side f = BUY")
    case True
    have "sum_list (map (\<lambda>s. sl_quantity s * best) ?ss) \<le> pf_notional f"
      unfolding n(2) using bs(2) d(1) True by (intro sum_list_mono mult_left_mono) (auto simp: no_better_def less_imp_le)
    then have "best \<le> pf_notional f / pf_quantity f" using q(1) bq by (simp add: pos_le_divide_eq mult.commute)
    then show ?thesis using True fx q(2) by (simp add: no_better_def ctx.rnd_ge_fixed)
  next
    case False
    have "pf_notional f \<le> sum_list (map (\<lambda>s. sl_quantity s * best) ?ss)"
      unfolding n(2) using bs(2) d(1) False by (intro sum_list_mono mult_left_mono) (auto simp: no_better_def less_imp_le)
    then have "pf_notional f / pf_quantity f \<le> best" using q(1) bq by (simp add: pos_divide_le_eq mult.commute)
    then show ?thesis using False fx q(2) by (simp add: no_better_def ctx.rnd_le_fixed)
  qed
qed

text \<open>Cost and profit of an outcome as the exact arithmetic gives them.\<close>

definition unrounded :: "paper_fill \<Rightarrow> decimal \<Rightarrow> decimal \<Rightarrow> sensitivity_outcome \<Rightarrow> bool" where
  "unrounded f m best s \<longleftrightarrow>
     (let p = so_effective_fill_price s; q = pf_quantity f; fee = p * q * (pf_fee f / pf_notional f)
      in so_execution_cost s = fee + \<bar>p - best\<bar> * q \<and>
         so_marked_pnl s = (if pf_side f = SELL then (p - m) * q else (m - p) * q) - fee)"

lemma unrounded_sell_mono:
  assumes "unrounded f m best s" "unrounded f m best s'" "pf_side f = SELL" "0 < pf_quantity f" "0 < pf_notional f"
    "pf_fee f \<le> pf_notional f" "so_effective_fill_price s' \<le> so_effective_fill_price s" "so_effective_fill_price s \<le> best"
  shows "so_execution_cost s \<le> so_execution_cost s'" "so_marked_pnl s' \<le> so_marked_pnl s"
proof -
  define p p' q r where "p = so_effective_fill_price s" "p' = so_effective_fill_price s'" "q = pf_quantity f"
    "r = pf_fee f / pf_notional f"
  note d = p_p'_q_r_def
  have "r \<le> 1" unfolding d using assms by simp
  then have "0 \<le> (p - p') * q * (1 - r)" using assms unfolding d by (intro mult_nonneg_nonneg) auto
  then have le: "p * q * r + (best - p) * q \<le> p' * q * r + (best - p') * q" "(p' - m) * q - p' * q * r \<le> (p - m) * q - p * q * r"
    by (simp_all add: algebra_simps)
  have "so_execution_cost s = p * q * r + (best - p) * q" "so_execution_cost s' = p' * q * r + (best - p') * q"
    "so_marked_pnl s = (p - m) * q - p * q * r" "so_marked_pnl s' = (p' - m) * q - p' * q * r"
    using assms unfolding d by (simp_all add: unrounded_def Let_def)
  then show "so_execution_cost s \<le> so_execution_cost s'" "so_marked_pnl s' \<le> so_marked_pnl s" using le by simp_all
qed

lemma buy_totals_mono:
  assumes "so_execution_cost s = dadd (so_fee s) (scenario_slippage f best s)"
    "so_marked_pnl s = dsub (scenario_gross f m s) (so_fee s)"
    "so_execution_cost s' = dadd (so_fee s') (scenario_slippage f best s')"
    "so_marked_pnl s' = dsub (scenario_gross f m s') (so_fee s')"
    and "so_fee s \<le> so_fee s'" "scenario_slippage f best s \<le> scenario_slippage f best s'"
      "scenario_gross f m s' \<le> scenario_gross f m s"
  shows "so_execution_cost s \<le> so_execution_cost s' \<and> so_marked_pnl s' \<le> so_marked_pnl s"
  unfolding assms(1-4) dadd_def dsub_def using assms(5-7) by (intro conjI dround_mono) auto

text \<open>
  C26: The three scenarios are ordered.  For a constructed fill whose slices lie on a grid on which
  their products and sums are exact, the outcomes are the optimistic one at the best slice price,
  the conservative one at the average price of the fill and the stressed one, and their effective
  prices go from better to worse for the side.  The execution cost is the fee plus the slippage from
  the best slice and the marked profit is the gross profit less the fee; along the scenarios the
  slippage never decreases and the gross profit never increases, and the fee follows the price, up
  for a buy and down for a sell.  So for a buy the execution cost never decreases and the marked
  profit never increases; for a sell, where the fee moves the other way, the same holds when the fee
  is at most the notional and neither figure was rounded.
\<close>

theorem sensitivities_ordered:
  assumes "calculate_sensitivities f m t k = Inr os" and "paper_fill_post_init f = Inr f"
    and "slices_grid i j (pf_slices f)"
  shows "map so_scenario os = [OPTIMISTIC, CONSERVATIVE, STRESS]
    \<and> (\<exists>best. best_slice_price (pf_side f) (pf_slices f) = Inr best
        \<and> so_effective_fill_price (os ! 0) = best \<and> so_effective_fill_price (os ! 1) = pf_price f
        \<and> sorted_wrt (no_better (pf_side f)) (map so_effective_fill_price os)
        \<and> (\<forall>s \<in> set os. so_execution_cost s = dadd (so_fee s) (scenario_slippage f best s)
             \<and> so_marked_pnl s = dsub (scenario_gross f m s) (so_fee s))
        \<and> sorted (map (scenario_slippage f best) os) \<and> sorted (rev (map (scenario_gross f m) os))
        \<and> (if pf_side f = BUY then sorted (map so_fee os) else sorted (rev (map so_fee os)))
        \<and> (pf_side f = BUY \<or> pf_fee f \<le> pf_notional f \<and> (\<forall>s \<in> set os. unrounded f m best s) \<longrightarrow>
             sorted (map so_execution_cost os) \<and> sorted (rev (map so_marked_pnl os))))"
proof -
  obtain best rate extra o1 o2 o3 where b: "best_slice_price (pf_side f) (pf_slices f) = Inr best" and rt: "0 \<le> rate" "0 \<le> extra"
    and os: "os = [o1, o2, o3]" and r: "sensitivity_at f m t best rate OPTIMISTIC best = Inr o1"
    "sensitivity_at f m t best rate CONSERVATIVE (pf_price f) = Inr o2"
    "sensitivity_at f m t best rate STRESS
       (if pf_side f = BUY then dadd (pf_price f) extra else dsub (pf_price f) extra) = Inr o3"
    by (rule calculate_sensitivities_result [OF assms(1,2)])
  let ?stress = "if pf_side f = BUY then dadd (pf_price f) extra else dsub (pf_price f) extra"
  have q: "0 < pf_quantity f" "0 < pf_notional f" "dround (pf_price f) = pf_price f"
    using assms(2) by (simp_all add: result_simps ddiv_def)
  have bp: "no_better (pf_side f) best (pf_price f)" by (rule best_no_better [OF assms(3,2) b])
  have ps: "no_better (pf_side f) (pf_price f) ?stress"
    unfolding no_better_def dadd_def dsub_def using q(3) rt(2) by (auto intro: ctx.rnd_add_ge ctx.rnd_sub_le)
  have bb: "no_better (pf_side f) best best" by (simp add: no_better_def)
  have bs: "no_better (pf_side f) best ?stress" using bp ps by (auto simp: no_better_def)
  note x = sensitivity_at_result [OF r(1)] sensitivity_at_result [OF r(2)] sensitivity_at_result [OF r(3)]
  note m = outcome_mono [OF r(1,2) bb bp q(1) rt(1)] outcome_mono [OF r(2,3) bp ps q(1) rt(1)]
  have prices: "sorted_wrt (no_better (pf_side f)) (map so_effective_fill_price os)"
    using bp ps bs by (simp add: os x(2,8,14))
  have tot: "sorted (map so_execution_cost os) \<and> sorted (rev (map so_marked_pnl os))"
    if "pf_side f = BUY \<or> pf_fee f \<le> pf_notional f \<and> (\<forall>s \<in> set os. unrounded f m best s)"
  proof (cases "pf_side f = BUY")
    case True
    from buy_totals_mono [OF x(5,6,11,12)] buy_totals_mono [OF x(11,12,17,18)] m True show ?thesis by (auto simp: os)
  next
    case False
    then have S: "pf_side f = SELL" by (cases "pf_side f") auto
    have u: "unrounded f m best o1" "unrounded f m best o2" "unrounded f m best o3" "pf_fee f \<le> pf_notional f"
      using that False by (auto simp: os)
    have p: "so_effective_fill_price o2 \<le> so_effective_fill_price o1" "so_effective_fill_price o1 \<le> best"
      "so_effective_fill_price o3 \<le> so_effective_fill_price o2" "so_effective_fill_price o2 \<le> best"
      using bp ps False unfolding x(2,8,14) by (simp_all add: no_better_def)
    note 1 = unrounded_sell_mono [OF u(1,2) S q(1,2) u(4) p(1,2)] and 2 = unrounded_sell_mono [OF u(2,3) S q(1,2) u(4) p(3,4)]
    show ?thesis using 1 2 by (simp add: os)
  qed
  have "(\<forall>s \<in> set os. so_execution_cost s = dadd (so_fee s) (scenario_slippage f best s)
      \<and> so_marked_pnl s = dsub (scenario_gross f m s) (so_fee s))" using x by (simp add: os)
  moreover have "sorted (map (scenario_slippage f best) os) \<and> sorted (rev (map (scenario_gross f m) os))
      \<and> (if pf_side f = BUY then sorted (map so_fee os) else sorted (rev (map so_fee os)))"
    using m by (auto simp: os split: if_splits)
  moreover have "map so_scenario os = [OPTIMISTIC, CONSERVATIVE, STRESS]" "so_effective_fill_price (os ! 0) = best"
    "so_effective_fill_price (os ! 1) = pf_price f" using x by (simp_all add: os)
  ultimately show ?thesis using prices tot b by (intro conjI exI [of _ best] impI) simp_all
qed

text \<open>A sell of two units over two bid levels, in figures that are never rounded.\<close>

definition ex_sell_fill :: "paper_fill" where
  "ex_sell_fill = ex_fill\<lparr>pf_side := SELL, pf_price := 399/4, pf_notional := 399/2,
     pf_slices := [\<lparr>sl_price = 100, sl_quantity = 1\<rparr>, \<lparr>sl_price = 199/2, sl_quantity = 1\<rparr>], pf_fee := 399/4000\<rparr>"

definition ex_outcomes :: "sensitivity_outcome list" where
  "ex_outcomes = map (\<lambda>(sc, p, fee, cost, pnl). \<lparr>so_scenario = sc, so_calculated_at = utc 3000000,
       so_effective_fill_price = p, so_fee = fee, so_execution_cost = cost, so_marked_pnl = pnl\<rparr>)
     [(OPTIMISTIC, 100, 1/10, 1/10, -41/10), (CONSERVATIVE, 399/4, 399/4000, 2399/4000, -18399/4000),
      (STRESS, 395/4, 395/4000, 10395/4000, -26395/4000)]"

lemma ex_outcomes_ok: "calculate_sensitivities ex_sell_fill 102 (utc 3000000) 2 = Inr ex_outcomes"
  by (simp add: ex_outcomes_def calculate_sensitivities_def ex_fill_def ex_sell_fill_def best_slice_price_def
      sensitivity_at_def sensitivity_outcome_post_init_def ddivE_def dec_defs dec_eval Let_def)

theorem sensitivities_ordered_witness:
  "calculate_sensitivities ex_sell_fill 102 (utc 3000000) 2 = Inr ex_outcomes \<and>
     sorted (map so_execution_cost ex_outcomes) \<and> sorted (rev (map so_marked_pnl ex_outcomes))"
proof -
  have f: "paper_fill_post_init ex_sell_fill = Inr ex_sell_fill"
    by (simp add: ex_sell_fill_def ex_fill_def paper_fill_post_init_def slices_quantity_def slices_notional_def
        dsum_def dec_defs dec_eval ex_book_def)
  have g: "slices_grid 0 1 (pf_slices ex_sell_fill)"
    by (simp add: slices_grid_def ex_sell_fill_def fill_slice_post_init_def on_grid_def)
  have b: "best_slice_price (pf_side ex_sell_fill) (pf_slices ex_sell_fill) = Inr 100"
    by (simp add: ex_sell_fill_def best_slice_price_def)
  have "pf_fee ex_sell_fill \<le> pf_notional ex_sell_fill \<and> (\<forall>s \<in> set ex_outcomes. unrounded ex_sell_fill 102 100 s)"
    by (simp add: ex_sell_fill_def ex_fill_def ex_outcomes_def unrounded_def)
  with sensitivities_ordered [OF ex_outcomes_ok f g] b ex_outcomes_ok show ?thesis by auto
qed

end
