(* ===== verification/Risk.thy ===== *)
theory Risk
  imports "HOL-Library.AList" Json Market
begin

text \<open>
  \<^verbatim>\<open>maais/risk/official.py\<close>: the policy, the request, the eight ordered gates of the official risk
  engine, the sizing of the trade and the decision it returns.

  \<open>str\<close> of a \<^verbatim>\<open>Decimal\<close> shows its exponent, which a rational does not keep, so a drawdown snapshot
  carries the two texts its \<^verbatim>\<open>to_dict\<close> prints beside the values.  Symbols are ASCII, as the venues
  publish them.
\<close>

section \<open>Policy and request\<close>

datatype risk_check =
  KELLY | PRICE_AND_STOP | DRAWDOWN | CORRELATION | TRADE_RISK_AT_STOP | PORTFOLIO_LOSS_AT_STOP | GROSS_NOTIONAL | MARGIN

fun risk_check_value :: "risk_check \<Rightarrow> string" where
  "risk_check_value KELLY = ''kelly''"
| "risk_check_value PRICE_AND_STOP = ''price_and_stop''"
| "risk_check_value DRAWDOWN = ''drawdown''"
| "risk_check_value CORRELATION = ''correlation''"
| "risk_check_value TRADE_RISK_AT_STOP = ''trade_risk_at_stop''"
| "risk_check_value PORTFOLIO_LOSS_AT_STOP = ''portfolio_loss_at_stop''"
| "risk_check_value GROSS_NOTIONAL = ''gross_notional''"
| "risk_check_value MARGIN = ''margin''"

definition all_risk_checks :: "risk_check list" where
  "all_risk_checks =
     [KELLY, PRICE_AND_STOP, DRAWDOWN, CORRELATION, TRADE_RISK_AT_STOP, PORTFOLIO_LOSS_AT_STOP, GROSS_NOTIONAL, MARGIN]"

record official_risk_policy =
  rp_maximum_kelly_fraction :: decimal
  rp_maximum_trade_loss_fraction :: decimal
  rp_maximum_portfolio_loss_fraction :: decimal
  rp_maximum_gross_notional_fraction :: decimal
  rp_maximum_margin_fraction :: decimal
  rp_minimum_aligned_correlation_returns :: int
  rp_correlation_reduce_20_threshold :: decimal
  rp_correlation_reduce_40_threshold :: decimal
  rp_correlation_block_threshold :: decimal
  rp_drawdown_reduce_25_threshold :: decimal
  rp_drawdown_reduce_50_threshold :: decimal
  rp_drawdown_halt_threshold :: decimal

definition risk_policy_post_init :: "official_risk_policy \<Rightarrow> official_risk_policy result" where
  "risk_policy_post_init p =
     thenE (checks
       [require_positive_decimal (rp_maximum_kelly_fraction p) ''maximum_kelly_fraction'',
        require_positive_decimal (rp_maximum_trade_loss_fraction p) ''maximum_trade_loss_fraction'',
        require_positive_decimal (rp_maximum_portfolio_loss_fraction p) ''maximum_portfolio_loss_fraction'',
        require_positive_decimal (rp_maximum_gross_notional_fraction p) ''maximum_gross_notional_fraction'',
        require_positive_decimal (rp_maximum_margin_fraction p) ''maximum_margin_fraction'',
        require_positive_decimal (rp_correlation_reduce_20_threshold p) ''correlation_reduce_20_threshold'',
        require_positive_decimal (rp_correlation_reduce_40_threshold p) ''correlation_reduce_40_threshold'',
        require_positive_decimal (rp_correlation_block_threshold p) ''correlation_block_threshold'',
        require_positive_decimal (rp_drawdown_reduce_25_threshold p) ''drawdown_reduce_25_threshold'',
        require_positive_decimal (rp_drawdown_reduce_50_threshold p) ''drawdown_reduce_50_threshold'',
        require_positive_decimal (rp_drawdown_halt_threshold p) ''drawdown_halt_threshold'',
        raise_if (rp_minimum_aligned_correlation_returns p < 2)
          (ValueError ''correlation warmup must require at least two returns''),
        raise_if (\<not> (rp_correlation_reduce_20_threshold p < rp_correlation_reduce_40_threshold p
            \<and> rp_correlation_reduce_40_threshold p < rp_correlation_block_threshold p
            \<and> rp_correlation_block_threshold p \<le> 1))
          (ValueError ''correlation thresholds must be ordered within [0, 1]''),
        raise_if (\<not> (rp_drawdown_reduce_25_threshold p < rp_drawdown_reduce_50_threshold p
            \<and> rp_drawdown_reduce_50_threshold p < rp_drawdown_halt_threshold p
            \<and> rp_drawdown_halt_threshold p < 1))
          (ValueError ''drawdown thresholds must be ordered within [0, 1]'')])
     (Inr p)"

definition conservative_policy :: official_risk_policy where
  "conservative_policy =
     \<lparr>rp_maximum_kelly_fraction = 25/100, rp_maximum_trade_loss_fraction = 2/100,
      rp_maximum_portfolio_loss_fraction = 6/100, rp_maximum_gross_notional_fraction = 1,
      rp_maximum_margin_fraction = 1, rp_minimum_aligned_correlation_returns = 60,
      rp_correlation_reduce_20_threshold = 30/100, rp_correlation_reduce_40_threshold = 60/100,
      rp_correlation_block_threshold = 70/100, rp_drawdown_reduce_25_threshold = 5/100,
      rp_drawdown_reduce_50_threshold = 10/100, rp_drawdown_halt_threshold = 20/100\<rparr>"

record drawdown_snapshot =
  dd_peak_equity :: decimal
  dd_current_equity :: decimal
  dd_peak_text :: string
  dd_current_text :: string

definition drawdown_snapshot_post_init :: "drawdown_snapshot \<Rightarrow> drawdown_snapshot result" where
  "drawdown_snapshot_post_init d =
     (if dd_peak_equity d \<le> 0 \<or> dd_current_equity d < 0 \<or> dd_current_equity d > dd_peak_equity d
      then Inl (ValueError ''drawdown equity inputs are invalid'') else Inr d)"

definition drawdown_fraction :: "drawdown_snapshot \<Rightarrow> decimal result" where
  "drawdown_fraction d = ddivE (dsub (dd_peak_equity d) (dd_current_equity d)) (dd_peak_equity d)"

definition drawdown_to_dict :: "drawdown_snapshot \<Rightarrow> pyval" where
  "drawdown_to_dict d =
     pydict [(''peak_equity'', PyStr (dd_peak_text d)), (''current_equity'', PyStr (dd_current_text d))]"

definition require_symbol :: "string \<Rightarrow> string \<Rightarrow> unit result" where
  "require_symbol s message = raise_if (s = [] \<or> s \<noteq> upper s) (ValueError message)"

record open_risk_position =
  op_symbol :: string
  op_notional :: decimal
  op_loss_at_stop :: decimal
  op_margin :: decimal

definition open_risk_position_post_init :: "open_risk_position \<Rightarrow> open_risk_position result" where
  "open_risk_position_post_init o' =
     thenE (checks
       [require_symbol (op_symbol o') ''open risk position symbol must be uppercase'',
        raise_if (op_notional o' < 0) (ValueError ''open position notional must be nonnegative and finite''),
        raise_if (op_loss_at_stop o' < 0) (ValueError ''open position loss_at_stop must be nonnegative and finite''),
        raise_if (op_margin o' < 0) (ValueError ''open position margin must be nonnegative and finite'')])
     (Inr o')"

record correlation_observation =
  co_other_symbol :: string
  co_aligned_return_count :: int
  co_correlation :: "decimal option"

definition correlation_observation_post_init :: "correlation_observation \<Rightarrow> correlation_observation result" where
  "correlation_observation_post_init c =
     thenE (checks
       [require_symbol (co_other_symbol c) ''correlation symbol must be uppercase'',
        raise_if (co_aligned_return_count c < 0) (ValueError ''aligned return count cannot be negative''),
        raise_if (\<exists>x. co_correlation c = Some x \<and> (x < -1 \<or> x > 1))
          (ValueError ''correlation must be finite and within [-1, 1]'')])
     (Inr c)"

record official_risk_request =
  rr_symbol :: string
  rr_direction :: direction
  rr_capital :: decimal
  rr_executable_price :: decimal
  rr_stop_price :: decimal
  rr_p_win :: decimal
  rr_expected_gain_fraction :: decimal
  rr_expected_loss_fraction :: decimal
  rr_entry_fee_fraction :: decimal
  rr_leverage :: int
  rr_drawdown :: drawdown_snapshot
  rr_open_positions :: "open_risk_position list"
  rr_correlations :: "correlation_observation list"
  rr_evaluated_at :: datetime

definition risk_request_post_init :: "official_risk_request \<Rightarrow> official_risk_request result" where
  "risk_request_post_init r =
     thenE (checks
       [require_symbol (rr_symbol r) ''risk request symbol must be uppercase'',
        raise_if (rr_direction r = NEUTRAL) (ValueError ''risk request direction must be long or short''),
        require_positive_decimal (rr_capital r) ''capital'',
        require_positive_decimal (rr_executable_price r) ''executable_price'',
        require_positive_decimal (rr_stop_price r) ''stop_price'',
        require_positive_decimal (rr_expected_gain_fraction r) ''expected_gain_fraction'',
        require_positive_decimal (rr_expected_loss_fraction r) ''expected_loss_fraction'',
        raise_if (rr_p_win r < 0 \<or> rr_p_win r > 1) (ValueError ''p_win must be a finite Decimal in [0, 1]''),
        raise_if (rr_entry_fee_fraction r < 0 \<or> rr_entry_fee_fraction r > 1/100)
          (ValueError ''entry_fee_fraction must be a finite Decimal in [0, 0.01]''),
        raise_if (rr_leverage r \<le> 0) (ValueError ''leverage must be positive''),
        require_utc (rr_evaluated_at r) ''risk evaluation time'',
        raise_if (\<not> distinct (map op_symbol (rr_open_positions r)))
          (ValueError ''open risk positions must be unique by symbol''),
        raise_if (\<not> distinct (map co_other_symbol (rr_correlations r)))
          (ValueError ''correlation observations must be unique by symbol''),
        raise_if (\<not> set (map co_other_symbol (rr_correlations r))
            \<subseteq> set (map op_symbol (rr_open_positions r)) - {rr_symbol r})
          (ValueError ''correlation observations must belong to open portfolio symbols'')])
     (Inr (r\<lparr>rr_open_positions := sort_key op_symbol (rr_open_positions r),
             rr_correlations := sort_key co_other_symbol (rr_correlations r)\<rparr>))"

section \<open>Gates and decisions\<close>

record risk_gate_result =
  rg_check :: risk_check
  rg_status :: quality_status
  rg_reason_code :: string
  rg_details :: json

definition risk_gate_result_post_init :: "risk_gate_result \<Rightarrow> risk_gate_result result" where
  "risk_gate_result_post_init g =
     thenE (raise_if (rg_reason_code g = []) (ValueError ''risk gate reason code is required''))
     (bindE (freeze_json (json_pyval (rg_details g))) (\<lambda>normalized.
      bindE (require_mapping ''risk gate details must be an object'' normalized) (\<lambda>details.
        Inr (g\<lparr>rg_details := details\<rparr>))))"

definition risk_gate_to_dict :: "risk_gate_result \<Rightarrow> pyval" where
  "risk_gate_to_dict g = pydict
     [(''check'', PyEnum (PyStr (risk_check_value (rg_check g)))),
      (''status'', PyEnum (PyStr (quality_status_value (rg_status g)))),
      (''reason_code'', PyStr (rg_reason_code g)),
      (''details'', json_pyval (rg_details g))]"

definition risk_gate :: "risk_check \<Rightarrow> quality_status \<Rightarrow> string \<Rightarrow> (string \<times> pyval) list \<Rightarrow> risk_gate_result result" where
  "risk_gate check status reason_code details =
     bindE (freeze_json (pydict details)) (\<lambda>normalized.
     bindE (require_mapping ''risk gate details must be an object'' normalized) (\<lambda>d.
       risk_gate_result_post_init
         \<lparr>rg_check = check, rg_status = status, rg_reason_code = reason_code, rg_details = d\<rparr>))"

record official_risk_decision =
  rd_approved :: bool
  rd_quantity :: decimal
  rd_notional :: decimal
  rd_risk_at_stop :: decimal
  rd_margin :: decimal
  rd_half_kelly_fraction :: decimal
  rd_drawdown_multiplier :: decimal
  rd_correlation_multiplier :: decimal
  rd_input_snapshot :: json
  rd_gates :: "risk_gate_result list"
  rd_rejection_reason :: "string option"
  rd_content_hash :: string

definition gate_passed :: "risk_gate_result \<Rightarrow> bool" where
  "gate_passed g \<longleftrightarrow> rg_status g = PASSED"

definition require_decision_nonneg :: "decimal \<Rightarrow> string \<Rightarrow> unit result" where
  "require_decision_nonneg x name =
     raise_if (x < 0) (ValueError (''risk decision '' @ name @ '' must be nonnegative and finite''))"

definition risk_decision_post_init :: "official_risk_decision \<Rightarrow> official_risk_decision result" where
  "risk_decision_post_init d =
     thenE (checks
       [raise_if (map rg_check (rd_gates d) \<noteq> all_risk_checks)
          (ValueError ''official risk decision must contain every ordered risk gate''),
        require_decision_nonneg (rd_quantity d) ''quantity'',
        require_decision_nonneg (rd_notional d) ''notional'',
        require_decision_nonneg (rd_risk_at_stop d) ''risk_at_stop'',
        require_decision_nonneg (rd_margin d) ''margin'',
        require_decision_nonneg (rd_half_kelly_fraction d) ''half_kelly_fraction'',
        require_decision_nonneg (rd_drawdown_multiplier d) ''drawdown_multiplier'',
        require_decision_nonneg (rd_correlation_multiplier d) ''correlation_multiplier'',
        raise_if (rd_approved d \<noteq> list_all gate_passed (rd_gates d))
          (ValueError ''risk approval must match its complete gate chain''),
        raise_if (rd_approved d = (rd_rejection_reason d \<noteq> None))
          (ValueError ''risk rejection reason does not match approval''),
        raise_if (length (rd_content_hash d) \<noteq> 64) (ValueError ''risk decision content hash must be SHA-256'')])
     (bindE (freeze_json (json_pyval (rd_input_snapshot d))) (\<lambda>normalized.
      bindE (require_mapping ''risk decision input snapshot must be an object'' normalized) (\<lambda>snapshot.
        Inr (d\<lparr>rd_input_snapshot := snapshot\<rparr>))))"

definition first_rejection :: "risk_gate_result list \<Rightarrow> string option" where
  "first_rejection gates = map_option rg_reason_code (find (\<lambda>g. \<not> gate_passed g) gates)"

text \<open>The sizes a decision reports.\<close>

record risk_sizes =
  rz_quantity :: decimal
  rz_notional :: decimal
  rz_risk_at_stop :: decimal
  rz_margin :: decimal
  rz_half_kelly :: decimal
  rz_drawdown_multiplier :: decimal
  rz_correlation_multiplier :: decimal

definition decision_payload :: "json \<Rightarrow> risk_sizes \<Rightarrow> risk_gate_result list \<Rightarrow> pyval" where
  "decision_payload input_snapshot s gates = pydict
     [(''approved'', PyBool (list_all gate_passed gates)),
      (''quantity'', PyDecimal (rz_quantity s)),
      (''notional'', PyDecimal (rz_notional s)),
      (''risk_at_stop'', PyDecimal (rz_risk_at_stop s)),
      (''margin'', PyDecimal (rz_margin s)),
      (''half_kelly_fraction'', PyDecimal (rz_half_kelly s)),
      (''drawdown_multiplier'', PyDecimal (rz_drawdown_multiplier s)),
      (''correlation_multiplier'', PyDecimal (rz_correlation_multiplier s)),
      (''input_snapshot'', json_pyval input_snapshot),
      (''gates'', PySequence (map risk_gate_to_dict gates)),
      (''rejection_reason'', py_option PyStr (first_rejection gates))]"

definition risk_decision :: "json \<Rightarrow> risk_sizes \<Rightarrow> risk_gate_result list \<Rightarrow> official_risk_decision result" where
  "risk_decision input_snapshot s gates =
     bindE (content_hash (decision_payload input_snapshot s gates)) (\<lambda>h.
       risk_decision_post_init
         \<lparr>rd_approved = list_all gate_passed gates, rd_quantity = rz_quantity s, rd_notional = rz_notional s,
          rd_risk_at_stop = rz_risk_at_stop s, rd_margin = rz_margin s, rd_half_kelly_fraction = rz_half_kelly s,
          rd_drawdown_multiplier = rz_drawdown_multiplier s,
          rd_correlation_multiplier = rz_correlation_multiplier s, rd_input_snapshot = input_snapshot,
          rd_gates = gates, rd_rejection_reason = first_rejection gates, rd_content_hash = h\<rparr>)"

definition early_rejection ::
  "json \<Rightarrow> decimal \<Rightarrow> risk_gate_result list \<Rightarrow> decimal \<Rightarrow> official_risk_decision result" where
  "early_rejection input_snapshot half_kelly completed drawdown_multiplier =
     bindE (mapE (\<lambda>check. risk_gate check NOT_APPLICABLE ''prior_risk_gate_failed''
                    [(''blocking_check'', PyEnum (PyStr (risk_check_value (rg_check (last completed)))))])
             (drop (length completed) all_risk_checks)) (\<lambda>skipped.
       risk_decision input_snapshot
         \<lparr>rz_quantity = 0, rz_notional = 0, rz_risk_at_stop = 0, rz_margin = 0, rz_half_kelly = half_kelly,
          rz_drawdown_multiplier = drawdown_multiplier, rz_correlation_multiplier = 0\<rparr> (completed @ skipped))"

section \<open>The engine\<close>

definition position_payload :: "open_risk_position \<Rightarrow> pyval" where
  "position_payload o' = pydict
     [(''symbol'', PyStr (op_symbol o')), (''notional'', PyDecimal (op_notional o')),
      (''loss_at_stop'', PyDecimal (op_loss_at_stop o')), (''margin'', PyDecimal (op_margin o'))]"

definition correlation_payload :: "correlation_observation \<Rightarrow> pyval" where
  "correlation_payload c = pydict
     [(''other_symbol'', PyStr (co_other_symbol c)), (''aligned_return_count'', PyInt (co_aligned_return_count c)),
      (''correlation'', py_option PyDecimal (co_correlation c))]"

definition request_payload :: "official_risk_request \<Rightarrow> pyval" where
  "request_payload r = pydict
     [(''symbol'', PyStr (rr_symbol r)),
      (''direction'', PyEnum (PyStr (direction_value (rr_direction r)))),
      (''capital'', PyDecimal (rr_capital r)),
      (''executable_price'', PyDecimal (rr_executable_price r)),
      (''stop_price'', PyDecimal (rr_stop_price r)),
      (''p_win'', PyDecimal (rr_p_win r)),
      (''expected_gain_fraction'', PyDecimal (rr_expected_gain_fraction r)),
      (''expected_loss_fraction'', PyDecimal (rr_expected_loss_fraction r)),
      (''entry_fee_fraction'', PyDecimal (rr_entry_fee_fraction r)),
      (''leverage'', PyInt (rr_leverage r)),
      (''drawdown'', drawdown_to_dict (rr_drawdown r)),
      (''open_positions'', PySequence (map position_payload (rr_open_positions r))),
      (''correlations'', PySequence (map correlation_payload (rr_correlations r))),
      (''evaluated_at'', PyDatetime (rr_evaluated_at r))]"

definition policy_payload :: "official_risk_policy \<Rightarrow> pyval" where
  "policy_payload p = pydict
     [(''maximum_kelly_fraction'', PyDecimal (rp_maximum_kelly_fraction p)),
      (''maximum_trade_loss_fraction'', PyDecimal (rp_maximum_trade_loss_fraction p)),
      (''maximum_portfolio_loss_fraction'', PyDecimal (rp_maximum_portfolio_loss_fraction p)),
      (''maximum_gross_notional_fraction'', PyDecimal (rp_maximum_gross_notional_fraction p)),
      (''maximum_margin_fraction'', PyDecimal (rp_maximum_margin_fraction p)),
      (''minimum_aligned_correlation_returns'', PyInt (rp_minimum_aligned_correlation_returns p)),
      (''correlation_reduce_20_threshold'', PyDecimal (rp_correlation_reduce_20_threshold p)),
      (''correlation_reduce_40_threshold'', PyDecimal (rp_correlation_reduce_40_threshold p)),
      (''correlation_block_threshold'', PyDecimal (rp_correlation_block_threshold p)),
      (''drawdown_reduce_25_threshold'', PyDecimal (rp_drawdown_reduce_25_threshold p)),
      (''drawdown_reduce_50_threshold'', PyDecimal (rp_drawdown_reduce_50_threshold p)),
      (''drawdown_halt_threshold'', PyDecimal (rp_drawdown_halt_threshold p))]"

definition risk_input_snapshot :: "official_risk_policy \<Rightarrow> official_risk_request \<Rightarrow> json result" where
  "risk_input_snapshot p r =
     bindE (freeze_json (pydict [(''request'', request_payload r), (''policy'', policy_payload p)]))
       (require_mapping ''risk input snapshot must be an object'')"

definition observations :: "official_risk_request \<Rightarrow> string \<Rightarrow> correlation_observation option" where
  "observations r = map_of (rev (map (\<lambda>c. (co_other_symbol c, c)) (rr_correlations r)))"

definition other_symbols :: "official_risk_request \<Rightarrow> string list" where
  "other_symbols r = filter (\<lambda>s. s \<noteq> rr_symbol r) (map op_symbol (rr_open_positions r))"

text \<open>The last loop of \<open>_correlation_gate\<close>, over the symbols still to look at.\<close>

fun correlation_scan ::
  "official_risk_policy \<Rightarrow> official_risk_request \<Rightarrow> string list \<Rightarrow> decimal \<Rightarrow> (string \<times> decimal) list
     \<Rightarrow> (decimal \<times> risk_gate_result) result" where
  "correlation_scan p r [] multiplier values' =
     bindE (risk_gate CORRELATION PASSED ''correlation_warm_and_within_limit''
       [(''correlations'', decimals values'), (''multiplier'', PyDecimal multiplier),
        (''aligned_returns'', pydict (map (\<lambda>s. (s,
            case observations r s of Some c \<Rightarrow> PyInt (co_aligned_return_count c) | None \<Rightarrow> PyNone)) (other_symbols r)))])
     (\<lambda>g. Inr (multiplier, g))"
| "correlation_scan p r (s # ss) multiplier values' =
     (case observations r s of
        None \<Rightarrow> Inl (LookupError s)
      | Some c \<Rightarrow>
         (case co_correlation c of
            None \<Rightarrow> Inl (RuntimeError ''warm correlation unexpectedly has no value'')
          | Some raw \<Rightarrow>
              let v = dabs raw; values'' = AList.update s v values'
              in if v \<ge> rp_correlation_block_threshold p
                 then bindE (risk_gate CORRELATION FAILED ''correlation_cluster_blocked''
                        [(''correlations'', decimals values''), (''blocking_symbol'', PyStr s)]) (\<lambda>g. Inr (0, g))
                 else if v \<ge> rp_correlation_reduce_40_threshold p
                 then correlation_scan p r ss (min multiplier (6/10)) values''
                 else if v \<ge> rp_correlation_reduce_20_threshold p
                 then correlation_scan p r ss (min multiplier (8/10)) values''
                 else correlation_scan p r ss multiplier values''))"

definition correlation_gate ::
  "official_risk_policy \<Rightarrow> official_risk_request \<Rightarrow> (decimal \<times> risk_gate_result) result" where
  "correlation_gate p r =
     (let others = other_symbols r;
          missing = sort (remdups (filter (\<lambda>s. observations r s = None) others));
          cold = sort (filter (\<lambda>s. \<exists>c. observations r s = Some c
                    \<and> co_aligned_return_count c < rp_minimum_aligned_correlation_returns p) others);
          unavailable = sort (filter (\<lambda>s. \<exists>c. observations r s = Some c \<and> co_correlation c = None) others)
      in if others = []
         then bindE (risk_gate CORRELATION PASSED ''single_symbol_or_empty_portfolio'' [(''multiplier'', PyDecimal 1)])
                (\<lambda>g. Inr (1, g))
         else if missing \<noteq> []
         then bindE (risk_gate CORRELATION NOT_APPLICABLE ''correlation_observation_missing''
                [(''symbols'', strings missing)]) (\<lambda>g. Inr (0, g))
         else if cold \<noteq> []
         then bindE (risk_gate CORRELATION NOT_APPLICABLE ''correlation_history_cold''
                [(''symbols'', strings cold),
                 (''minimum_returns'', PyInt (rp_minimum_aligned_correlation_returns p))]) (\<lambda>g. Inr (0, g))
         else if unavailable \<noteq> []
         then bindE (risk_gate CORRELATION NOT_APPLICABLE ''correlation_unavailable''
                [(''symbols'', strings unavailable)]) (\<lambda>g. Inr (0, g))
         else correlation_scan p r others 1 [])"

definition stop_is_valid :: "official_risk_request \<Rightarrow> bool" where
  "stop_is_valid r \<longleftrightarrow>
     rr_direction r = LONG \<and> rr_stop_price r < rr_executable_price r \<or>
     rr_direction r = SHORT \<and> rr_stop_price r > rr_executable_price r"

definition drawdown_multiplier_of :: "official_risk_policy \<Rightarrow> decimal \<Rightarrow> decimal" where
  "drawdown_multiplier_of p drawdown =
     (if drawdown \<ge> rp_drawdown_reduce_50_threshold p then 5/10
      else if drawdown \<ge> rp_drawdown_reduce_25_threshold p then 75/100 else 1)"

text \<open>The amounts computed from request, policy and multipliers once the first four gates passed.\<close>

record risk_budget =
  bu_risk_fraction :: decimal
  bu_risk_budget :: decimal
  bu_existing_loss :: decimal
  bu_loss_limit :: decimal
  bu_existing_notional :: decimal
  bu_notional_limit :: decimal
  bu_existing_margin :: decimal
  bu_margin_limit :: decimal
  bu_quantity_caps :: "(string \<times> decimal) list"

definition risk_budget_of ::
  "official_risk_policy \<Rightarrow> official_risk_request \<Rightarrow> decimal \<Rightarrow> decimal \<Rightarrow> decimal \<Rightarrow> decimal \<Rightarrow> risk_budget result" where
  "risk_budget_of p r half_kelly drawdown_multiplier correlation_multiplier stop_distance =
     (let risk_fraction = min half_kelly (rp_maximum_trade_loss_fraction p);
          risk_budget = dmul (dmul (dmul (rr_capital r) risk_fraction) drawdown_multiplier) correlation_multiplier;
          existing_loss = dsum (map op_loss_at_stop (rr_open_positions r));
          loss_limit = dmul (rr_capital r) (rp_maximum_portfolio_loss_fraction p);
          remaining_loss_capacity = max (dsub loss_limit existing_loss) 0;
          existing_notional = dsum (map op_notional (rr_open_positions r));
          notional_limit = dmul (rr_capital r) (rp_maximum_gross_notional_fraction p);
          remaining_notional_capacity = max (dsub notional_limit existing_notional) 0;
          existing_margin = dsum (map op_margin (rr_open_positions r));
          margin_limit = dmul (rr_capital r) (rp_maximum_margin_fraction p);
          remaining_margin_capacity = max (dsub margin_limit existing_margin) 0
      in bindE (ddivE 1 (of_int (rr_leverage r))) (\<lambda>per_leverage.
         let margin_cost_per_quantity = dmul (rr_executable_price r) (dadd per_leverage (rr_entry_fee_fraction r))
         in bindE (ddivE risk_budget stop_distance) (\<lambda>trade_loss.
            bindE (ddivE remaining_loss_capacity stop_distance) (\<lambda>portfolio_loss.
            bindE (ddivE remaining_notional_capacity (rr_executable_price r)) (\<lambda>gross_notional.
            bindE (ddivE remaining_margin_capacity margin_cost_per_quantity) (\<lambda>margin_and_entry_fee.
              Inr \<lparr>bu_risk_fraction = risk_fraction, bu_risk_budget = risk_budget, bu_existing_loss = existing_loss,
                   bu_loss_limit = loss_limit, bu_existing_notional = existing_notional,
                   bu_notional_limit = notional_limit, bu_existing_margin = existing_margin,
                   bu_margin_limit = margin_limit,
                   bu_quantity_caps = [(''trade_loss'', trade_loss), (''portfolio_loss'', portfolio_loss),
                     (''gross_notional'', gross_notional), (''margin_and_entry_fee'', margin_and_entry_fee)]\<rparr>))))))"

definition capped_quantity :: "(string \<times> decimal) list \<Rightarrow> decimal" where
  "capped_quantity caps = foldl min (snd (hd caps)) (map snd (tl caps))"

definition limiting_constraints :: "(string \<times> decimal) list \<Rightarrow> decimal \<Rightarrow> string list" where
  "limiting_constraints caps quantity = sort (map fst (filter (\<lambda>(k, x). x = quantity) caps))"

definition pass_if :: "bool \<Rightarrow> quality_status" where
  "pass_if b = (if b then PASSED else FAILED)"

text \<open>The four gates that look at the sized trade.\<close>

definition sizing_gates ::
  "official_risk_request \<Rightarrow> risk_budget \<Rightarrow> decimal \<Rightarrow> decimal \<Rightarrow> decimal \<Rightarrow> decimal \<Rightarrow> risk_gate_result list result" where
  "sizing_gates r b quantity notional risk_at_stop margin =
     (let total_loss = dadd (bu_existing_loss b) risk_at_stop;
          total_notional = dadd (bu_existing_notional b) notional;
          entry_fee = dmul notional (rr_entry_fee_fraction r);
          total_margin = dadd (bu_existing_margin b) margin;
          total_required_capital = dadd total_margin entry_fee
      in bindE (risk_gate TRADE_RISK_AT_STOP (pass_if (quantity > 0 \<and> risk_at_stop \<le> bu_risk_budget b))
           (if quantity > 0 then ''trade_risk_sized_within_all_caps'' else ''no_risk_capacity'')
           [(''risk_fraction'', PyDecimal (bu_risk_fraction b)), (''risk_budget'', PyDecimal (bu_risk_budget b)),
            (''quantity'', PyDecimal quantity), (''risk_at_stop'', PyDecimal risk_at_stop),
            (''quantity_caps'', decimals (bu_quantity_caps b)),
            (''limiting_constraints'', strings (limiting_constraints (bu_quantity_caps b) quantity))]) (\<lambda>g1.
         bindE (risk_gate PORTFOLIO_LOSS_AT_STOP (pass_if (total_loss \<le> bu_loss_limit b))
           (if total_loss \<le> bu_loss_limit b then ''portfolio_loss_at_stop_within_limit''
            else ''portfolio_loss_at_stop_exceeded'')
           [(''existing_loss_at_stop'', PyDecimal (bu_existing_loss b)), (''proposed_loss_at_stop'', PyDecimal risk_at_stop),
            (''total_loss_at_stop'', PyDecimal total_loss), (''limit'', PyDecimal (bu_loss_limit b))]) (\<lambda>g2.
         bindE (risk_gate GROSS_NOTIONAL (pass_if (total_notional \<le> bu_notional_limit b))
           (if total_notional \<le> bu_notional_limit b then ''gross_notional_within_limit'' else ''gross_notional_exceeded'')
           [(''existing_notional'', PyDecimal (bu_existing_notional b)), (''proposed_notional'', PyDecimal notional),
            (''total_notional'', PyDecimal total_notional), (''limit'', PyDecimal (bu_notional_limit b))]) (\<lambda>g3.
         bindE (risk_gate MARGIN (pass_if (total_required_capital \<le> bu_margin_limit b))
           (if total_required_capital \<le> bu_margin_limit b then ''margin_and_entry_fee_within_limit''
            else ''margin_and_entry_fee_exceeded'')
           [(''existing_margin'', PyDecimal (bu_existing_margin b)), (''proposed_margin'', PyDecimal margin),
            (''entry_fee_fraction'', PyDecimal (rr_entry_fee_fraction r)), (''entry_fee'', PyDecimal entry_fee),
            (''total_margin'', PyDecimal total_margin), (''total_required_capital'', PyDecimal total_required_capital),
            (''limit'', PyDecimal (bu_margin_limit b))]) (\<lambda>g4.
         Inr [g1, g2, g3, g4])))))"

definition sized_decision ::
  "official_risk_policy \<Rightarrow> official_risk_request \<Rightarrow> json \<Rightarrow> decimal \<Rightarrow> decimal \<Rightarrow> decimal \<Rightarrow> decimal
     \<Rightarrow> risk_gate_result list \<Rightarrow> official_risk_decision result" where
  "sized_decision p r input_snapshot half_kelly drawdown_multiplier correlation_multiplier stop_distance gates =
     bindE (risk_budget_of p r half_kelly drawdown_multiplier correlation_multiplier stop_distance) (\<lambda>b.
     let quantity = capped_quantity (bu_quantity_caps b);
         notional = dmul quantity (rr_executable_price r);
         risk_at_stop = dmul quantity stop_distance
     in bindE (ddivE notional (of_int (rr_leverage r))) (\<lambda>margin.
        bindE (sizing_gates r b quantity notional risk_at_stop margin) (\<lambda>sized.
          risk_decision input_snapshot
            \<lparr>rz_quantity = quantity, rz_notional = notional, rz_risk_at_stop = risk_at_stop, rz_margin = margin,
             rz_half_kelly = half_kelly, rz_drawdown_multiplier = drawdown_multiplier,
             rz_correlation_multiplier = correlation_multiplier\<rparr> (gates @ sized))))"

text \<open>The third and fourth gate, and what follows them.\<close>

definition evaluate_protected ::
  "official_risk_policy \<Rightarrow> official_risk_request \<Rightarrow> json \<Rightarrow> decimal \<Rightarrow> risk_gate_result list
     \<Rightarrow> official_risk_decision result" where
  "evaluate_protected p r input_snapshot half_kelly gates =
     (let stop_distance = dabs (dsub (rr_executable_price r) (rr_stop_price r))
      in bindE (risk_gate PRICE_AND_STOP PASSED ''executable_price_and_stop_valid''
           [(''executable_price'', PyDecimal (rr_executable_price r)), (''stop_price'', PyDecimal (rr_stop_price r)),
            (''stop_distance'', PyDecimal stop_distance)]) (\<lambda>g2.
         bindE (drawdown_fraction (rr_drawdown r)) (\<lambda>drawdown.
         if drawdown \<ge> rp_drawdown_halt_threshold p
         then bindE (risk_gate DRAWDOWN FAILED ''drawdown_halt''
                [(''drawdown_fraction'', PyDecimal drawdown),
                 (''peak_equity'', PyDecimal (dd_peak_equity (rr_drawdown r))),
                 (''current_equity'', PyDecimal (dd_current_equity (rr_drawdown r)))]) (\<lambda>g3.
              early_rejection input_snapshot half_kelly (gates @ [g2, g3]) 0)
         else let drawdown_multiplier = drawdown_multiplier_of p drawdown
              in bindE (risk_gate DRAWDOWN PASSED ''drawdown_within_limit''
                   [(''drawdown_fraction'', PyDecimal drawdown), (''multiplier'', PyDecimal drawdown_multiplier),
                    (''peak_equity'', PyDecimal (dd_peak_equity (rr_drawdown r))),
                    (''current_equity'', PyDecimal (dd_current_equity (rr_drawdown r)))]) (\<lambda>g3.
                 bindE (correlation_gate p r) (\<lambda>(correlation_multiplier, g4).
                 if rg_status g4 \<noteq> PASSED
                 then early_rejection input_snapshot half_kelly (gates @ [g2, g3, g4]) drawdown_multiplier
                 else sized_decision p r input_snapshot half_kelly drawdown_multiplier correlation_multiplier
                        stop_distance (gates @ [g2, g3, g4]))))))"

definition risk_evaluate :: "official_risk_policy \<Rightarrow> official_risk_request \<Rightarrow> official_risk_decision result" where
  "risk_evaluate p r =
     bindE (risk_input_snapshot p r) (\<lambda>input_snapshot.
     bindE (ddivE (rr_expected_gain_fraction r) (rr_expected_loss_fraction r)) (\<lambda>gain_loss_ratio.
     bindE (ddivE (dsub (dmul (rr_p_win r) gain_loss_ratio) (dsub 1 (rr_p_win r))) gain_loss_ratio) (\<lambda>full_kelly.
     let half_kelly = min (ddiv full_kelly 2) (rp_maximum_kelly_fraction p)
     in if half_kelly \<le> 0
        then bindE (risk_gate KELLY FAILED ''kelly_nonpositive''
               [(''p_win'', PyDecimal (rr_p_win r)), (''gain_loss_ratio'', PyDecimal gain_loss_ratio),
                (''full_kelly'', PyDecimal full_kelly)]) (\<lambda>g1.
             early_rejection input_snapshot (max half_kelly 0) [g1] 0)
        else bindE (risk_gate KELLY PASSED ''kelly_positive''
               [(''p_win'', PyDecimal (rr_p_win r)), (''gain_loss_ratio'', PyDecimal gain_loss_ratio),
                (''half_kelly'', PyDecimal half_kelly)]) (\<lambda>g1.
             if \<not> stop_is_valid r
             then bindE (risk_gate PRICE_AND_STOP FAILED ''stop_not_protective''
                    [(''direction'', PyEnum (PyStr (direction_value (rr_direction r)))),
                     (''executable_price'', PyDecimal (rr_executable_price r)),
                     (''stop_price'', PyDecimal (rr_stop_price r))]) (\<lambda>g2.
                  early_rejection input_snapshot half_kelly [g1, g2] 0)
             else evaluate_protected p r input_snapshot half_kelly [g1]))))"

end
