(* ===== verification/Gates.thy ===== *)
theory Gates
  imports Json Market
begin

text \<open>
  The interface of the gate chains: the risk engine, the monitoring admission and the market
  integrity checks each build a tuple of gate results through a \<^verbatim>\<open>_gate\<close> function and decide on
  whether every gate passed.
\<close>

text \<open>\<open>produces check status m c P\<close>: the call \<open>m\<close> returns a gate of check \<open>c\<close> that passes exactly when \<open>P\<close>.\<close>

definition produces :: "('g \<Rightarrow> 'c) \<Rightarrow> ('g \<Rightarrow> quality_status) \<Rightarrow> 'g result \<Rightarrow> 'c \<Rightarrow> bool \<Rightarrow> bool" where
  "produces check status m c P \<longleftrightarrow> (\<exists>g. m = Inr g \<and> check g = c \<and> (status g = PASSED \<longleftrightarrow> P))"

locale gate_chain =
  fixes make :: "'c \<Rightarrow> quality_status \<Rightarrow> string \<Rightarrow> (string \<times> pyval) list \<Rightarrow> 'g result"
    and check :: "'g \<Rightarrow> 'c"
    and status :: "'g \<Rightarrow> quality_status"
    and as_dict :: "'g \<Rightarrow> pyval"
  assumes make_returns: "reason \<noteq> [] \<Longrightarrow> list_all (\<lambda>(k, v). freezes v) details \<Longrightarrow> \<exists>g. make c s reason details = Inr g"
    and make_result: "make c s reason details = Inr g \<Longrightarrow> check g = c \<and> status g = s"
    and dict_freezes: "freezes (as_dict g)"
begin

lemma produces_make_iff:
  assumes "reason \<noteq> []" and "list_all (\<lambda>(k, v). freezes v) details"
  shows "produces check status (make c s reason details) c P \<longleftrightarrow> P = (s = PASSED)"
proof -
  obtain g where g: "make c s reason details = Inr g" using make_returns [OF assms] by blast
  from make_result [OF this] show ?thesis by (auto simp: produces_def g)
qed

lemma chain_returns:
  assumes "list_all2 (\<lambda>m (c, P). produces check status m c P) ms cps"
  shows "\<exists>gs. mapE (\<lambda>m. m) ms = Inr gs \<and> map check gs = map fst cps \<and> list_all2 (\<lambda>g (c, P). status g = PASSED \<longleftrightarrow> P) gs cps"
  using assms
proof (induction ms cps rule: list_all2_induct)
  case (Cons m ms cp cps)
  then obtain gs where "mapE (\<lambda>m. m) ms = Inr gs" "map check gs = map fst cps"
    "list_all2 (\<lambda>g (c, P). status g = PASSED \<longleftrightarrow> P) gs cps" by blast
  moreover obtain g where "m = Inr g" "check g = fst cp" "status g = PASSED \<longleftrightarrow> snd cp"
    using Cons.hyps(1) by (auto simp: produces_def split_def)
  ultimately show ?case by (simp add: split_def)
qed simp

lemma chain_passes:
  "list_all2 (\<lambda>g (c, P). status g = PASSED \<longleftrightarrow> P) gs cps \<Longrightarrow> list_all (\<lambda>g. status g = PASSED) gs \<longleftrightarrow> list_all snd cps"
  by (induction rule: list_all2_induct) auto

lemma chain_blocking:
  "list_all2 (\<lambda>g (c, P). status g = PASSED \<longleftrightarrow> P) gs cps \<Longrightarrow> map check gs = map fst cps \<Longrightarrow>
    map check (filter (\<lambda>g. status g \<noteq> PASSED) gs) = map fst (filter (\<lambda>(c, P). \<not> P) cps)"
  by (induction rule: list_all2_induct) (auto simp: split_def)

lemma dicts_freeze: "list_all freezes (map as_dict gs)"
  using dict_freezes by (simp add: list_all_iff)

end

end
