(* ===== verification/Risk_Limits.thy ===== *)
theory Risk_Limits
  imports Risk Gates
begin

text \<open>
  What the official risk engine guarantees: every evaluation of constructed inputs returns a
  decision, an approved trade respects every limit of the policy, and the correlation gate computes
  the portfolio's worst case.
\<close>

section \<open>What the gates carry\<close>

lemma risk_gate_result:
  assumes "risk_gate check status reason details = Inr g"
  shows "rg_check g = check" "rg_status g = status" "rg_reason_code g = reason"
  using assms by (auto simp: risk_gate_def risk_gate_result_post_init_def result_simps)

lemma risk_gate_ok:
  assumes "reason \<noteq> []" "\<forall>kv \<in> set details. \<exists>j. freeze_json (snd kv) = Inr j"
  obtains g where "risk_gate check status reason details = Inr g"
  using assms freeze_pydict_ok [OF assms(2)] that
  by (auto simp: risk_gate_def risk_gate_result_post_init_def require_mapping_def freeze_json_pyval simp del: json_pyval.simps)

interpretation rsk: gate_chain risk_gate rg_check rg_status risk_gate_to_dict
proof
  fix reason c s g and details :: "(string \<times> pyval) list"
  show "\<exists>g. risk_gate c s reason details = Inr g" if "reason \<noteq> []" "list_all (\<lambda>(k, v). freezes v) details"
    using risk_gate_ok [OF that(1), of details c s] that(2) by (fastforce simp: list_all_iff freezes_def)
  show "rg_check g = c \<and> rg_status g = s" if "risk_gate c s reason details = Inr g"
    using risk_gate_result [OF that] by simp
  show "freezes (risk_gate_to_dict g)" by (simp add: risk_gate_to_dict_def)
qed

lemma risk_decision_result:
  assumes "risk_decision snap s gates = Inr d"
  shows "rd_approved d = list_all gate_passed gates" "rd_quantity d = rz_quantity s" "rd_notional d = rz_notional s"
    "rd_risk_at_stop d = rz_risk_at_stop s" "rd_margin d = rz_margin s" "rd_gates d = gates"
    "rd_rejection_reason d = first_rejection gates" "map rg_check gates = all_risk_checks"
    "rd_drawdown_multiplier d = rz_drawdown_multiplier s" "rd_correlation_multiplier d = rz_correlation_multiplier s"
    "rd_half_kelly_fraction d = rz_half_kelly s" "length (rd_content_hash d) = 64"
  using assms by (auto simp: risk_decision_def risk_decision_post_init_def result_simps)

lemma first_rejection_None: "first_rejection gates = None \<longleftrightarrow> list_all gate_passed gates"
  by (auto simp: first_rejection_def list_all_iff find_None_iff)

lemma risk_decision_ok:
  assumes "map rg_check gates = all_risk_checks" "0 \<le> rz_quantity s" "0 \<le> rz_notional s" "0 \<le> rz_risk_at_stop s"
    "0 \<le> rz_margin s" "0 \<le> rz_half_kelly s" "0 \<le> rz_drawdown_multiplier s" "0 \<le> rz_correlation_multiplier s"
    "snap = JObject ms"
  shows "\<exists>d. risk_decision snap s gates = Inr d"
proof -
  have "\<exists>js. freeze_list (map risk_gate_to_dict gates) = Inr js"
    using rsk.dict_freezes by (intro freeze_list_ok) (auto simp: freezes_def)
  then have "\<exists>j. freeze_json (decision_payload snap s gates) = Inr j"
    by (auto simp: decision_payload_def pydict_def freeze_json_pyval py_option_def split: option.splits)
  then obtain h where "content_hash (decision_payload snap s gates) = Inr h" "length h = 64"
    by (auto simp: content_hash_def canonical_json_bytes_def)
  then show ?thesis
    using assms
    by (auto simp: risk_decision_def risk_decision_post_init_def require_decision_nonneg_def first_rejection_None
        freeze_json_pyval require_mapping_def simp del: json_pyval.simps)
qed

section \<open>Early rejections\<close>

lemma mapE_checks:
  assumes "mapE (\<lambda>check. risk_gate check NOT_APPLICABLE reason details) cs = Inr gs"
  shows "map rg_check gs = cs" "\<forall>g \<in> set gs. rg_status g = NOT_APPLICABLE \<and> rg_reason_code g = reason"
proof -
  have "map rg_check gs = cs \<and> (\<forall>g \<in> set gs. rg_status g = NOT_APPLICABLE \<and> rg_reason_code g = reason)"
    using assms by (induction cs arbitrary: gs) (auto simp: result_simps dest: risk_gate_result)
  then show "map rg_check gs = cs" "\<forall>g \<in> set gs. rg_status g = NOT_APPLICABLE \<and> rg_reason_code g = reason"
    by simp_all
qed

lemma early_rejection_result:
  assumes "early_rejection snap half done m = Inr d" "done \<noteq> []" "\<not> gate_passed (last done)"
    "list_all gate_passed (butlast done)"
  obtains rest where "rd_gates d = done @ rest" "\<not> rd_approved d" "rd_quantity d = 0" "rd_notional d = 0" "rd_risk_at_stop d = 0"
    "rd_margin d = 0" "rd_rejection_reason d = Some (rg_reason_code (last done))"
    "\<forall>g \<in> set rest. rg_status g = NOT_APPLICABLE \<and> rg_reason_code g = ''prior_risk_gate_failed''"
proof -
  obtain gs where gs: "mapE (\<lambda>check. risk_gate check NOT_APPLICABLE ''prior_risk_gate_failed''
        [(''blocking_check'', PyEnum (PyStr (risk_check_value (rg_check (last done)))))]) (drop (length done) all_risk_checks) = Inr gs"
    and d: "risk_decision snap \<lparr>rz_quantity = 0, rz_notional = 0, rz_risk_at_stop = 0, rz_margin = 0, rz_half_kelly = half,
          rz_drawdown_multiplier = m, rz_correlation_multiplier = 0\<rparr> (done @ gs) = Inr d"
    using assms(1) by (auto simp: early_rejection_def result_simps)
  have split: "done = butlast done @ [last done]" using assms(2) by simp
  have "find (\<lambda>g. \<not> gate_passed g) (done @ gs) = Some (last done)"
    using assms(3,4) find_first [of gate_passed "butlast done" "last done" gs] by (subst split) simp
  moreover have "\<not> list_all gate_passed done" using assms(2,3) by (auto simp: list_all_iff)
  ultimately show thesis
    using risk_decision_result [OF d] mapE_checks(2) [OF gs] that by (simp add: first_rejection_def)
qed

lemma early_rejection_ok:
  assumes "map rg_check done = take (length done) all_risk_checks" "0 \<le> half" "0 \<le> m" "snap = JObject ms"
  shows "\<exists>d. early_rejection snap half done m = Inr d"
proof -
  let ?f = "\<lambda>check. risk_gate check NOT_APPLICABLE ''prior_risk_gate_failed''
        [(''blocking_check'', PyEnum (PyStr (risk_check_value (rg_check (last done)))))]"
  have "\<exists>g. ?f c = Inr g" for c by (rule risk_gate_ok [of "''prior_risk_gate_failed''"]) auto
  then obtain gs where gs: "mapE ?f (drop (length done) all_risk_checks) = Inr gs" using mapE_ok [of _ ?f] by blast
  have "map rg_check (done @ gs) = all_risk_checks" using assms(1) mapE_checks(1) [OF gs] by simp
  then show ?thesis using gs assms risk_decision_ok [of "done @ gs"] by (simp add: early_rejection_def)
qed

section \<open>The correlation gate\<close>

text \<open>The reference for one correlated symbol, and for the whole portfolio.\<close>

definition symbol_multiplier :: "official_risk_policy \<Rightarrow> decimal \<Rightarrow> decimal" where
  "symbol_multiplier p x =
     (if rp_correlation_reduce_40_threshold p \<le> x then 6/10
      else if rp_correlation_reduce_20_threshold p \<le> x then 8/10 else 1)"

definition warm_value :: "official_risk_policy \<Rightarrow> official_risk_request \<Rightarrow> string \<Rightarrow> decimal \<Rightarrow> bool" where
  "warm_value p r s x \<longleftrightarrow> (\<exists>c raw. observations r s = Some c \<and> co_correlation c = Some raw \<and> x = dabs raw \<and>
     rp_minimum_aligned_correlation_returns p \<le> co_aligned_return_count c)"

definition portfolio_multiplier :: "official_risk_policy \<Rightarrow> official_risk_request \<Rightarrow> string list \<Rightarrow> decimal" where
  "portfolio_multiplier p r ss = Min (insert 1 {symbol_multiplier p x |x s. s \<in> set ss \<and> warm_value p r s x})"

lemma warm_value_unique: "warm_value p r s x \<Longrightarrow> warm_value p r s y \<Longrightarrow> x = y"
  by (auto simp: warm_value_def)

lemma multiplier_set_finite: "finite {symbol_multiplier p x |x s. s \<in> set ss \<and> warm_value p r s x}"
  by (rule finite_subset [of _ "{6/10, 8/10, 1}"]) (auto simp: symbol_multiplier_def)

lemma portfolio_multiplier_Cons:
  assumes "warm_value p r s x"
  shows "portfolio_multiplier p r (s # ss) = min (symbol_multiplier p x) (portfolio_multiplier p r ss)"
proof -
  let ?A = "\<lambda>ss. {symbol_multiplier p x |x s. s \<in> set ss \<and> warm_value p r s x}"
  have u: "warm_value p r s y \<longleftrightarrow> y = x" for y using warm_value_unique assms by blast
  have "?A (s # ss) = insert (symbol_multiplier p x) (?A ss)"
    by (rule set_eqI) (simp add: u ex_disj_distrib conj_disj_distribR conj_disj_distribL)
  then have "insert 1 (?A (s # ss)) = insert (symbol_multiplier p x) (insert 1 (?A ss))" by (simp only: insert_commute)
  moreover have "Min (insert (symbol_multiplier p x) (insert 1 (?A ss))) = min (symbol_multiplier p x) (Min (insert 1 (?A ss)))"
    using multiplier_set_finite [of p ss r] by (intro Min_insert) simp_all
  ultimately show ?thesis unfolding portfolio_multiplier_def by (simp only:)
qed

lemma portfolio_multiplier_Nil [simp]: "portfolio_multiplier p r [] = 1"
  by (simp add: portfolio_multiplier_def)

lemma portfolio_multiplier_bounds: "6/10 \<le> portfolio_multiplier p r ss" "portfolio_multiplier p r ss \<le> 1"
proof -
  have fin: "finite (insert 1 {symbol_multiplier p x |x s. s \<in> set ss \<and> warm_value p r s x})"
    using multiplier_set_finite by simp
  have "6/10 \<le> symbol_multiplier p x" for x by (simp add: symbol_multiplier_def)
  then show "6/10 \<le> portfolio_multiplier p r ss"
    unfolding portfolio_multiplier_def using fin by (intro Min.boundedI) auto
  show "portfolio_multiplier p r ss \<le> 1"
    unfolding portfolio_multiplier_def using fin by (intro Min.coboundedI) auto
qed

lemma correlation_scan_exact:
  assumes "\<forall>s \<in> set ss. \<exists>x. warm_value p r s x" "m \<le> 1"
  shows "\<exists>m' g. correlation_scan p r ss m vs = Inr (m', g) \<and> rg_check g = CORRELATION \<and>
    (if \<forall>s \<in> set ss. \<forall>x. warm_value p r s x \<longrightarrow> x < rp_correlation_block_threshold p
     then rg_status g = PASSED \<and> m' = min m (portfolio_multiplier p r ss)
     else rg_status g = FAILED \<and> m' = 0)"
  using assms
proof (induction ss arbitrary: m vs)
  case Nil
  let ?k = "\<lambda>s. case observations r s of Some c \<Rightarrow> PyInt (co_aligned_return_count c) | None \<Rightarrow> PyNone"
  have "\<exists>j. freeze_json (?k s) = Inr j" for s by (cases "observations r s") auto
  then obtain ms where ms: "freeze_json (pydict (map (\<lambda>s. (s, ?k s)) (other_symbols r))) = Inr (JObject ms)"
    using freeze_pydict_ok [of "map (\<lambda>s. (s, ?k s)) (other_symbols r)"] by auto
  obtain g where "risk_gate CORRELATION PASSED ''correlation_warm_and_within_limit''
      [(''correlations'', decimals vs), (''multiplier'', PyDecimal m),
       (''aligned_returns'', pydict (map (\<lambda>s. (s, ?k s)) (other_symbols r)))] = Inr g"
    by (rule risk_gate_ok [where check = CORRELATION and status = PASSED]) (use ms in auto)
  then show ?case using Nil(2) risk_gate_result by fastforce
next
  case (Cons s ss)
  then obtain x where x: "warm_value p r s x" by auto
  then obtain c raw where c: "observations r s = Some c" "co_correlation c = Some raw" "dabs raw = x"
    by (auto simp: warm_value_def)
  have only: "warm_value p r s y \<longleftrightarrow> y = x" for y using warm_value_unique x by blast
  let ?vs = "AList.update s x vs"
  show ?case
  proof (cases "x < rp_correlation_block_threshold p")
    case False
    obtain g where g: "risk_gate CORRELATION FAILED ''correlation_cluster_blocked''
        [(''correlations'', decimals ?vs), (''blocking_symbol'', PyStr s)] = Inr g"
      by (rule risk_gate_ok [where check = CORRELATION and status = FAILED]) auto
    with False c risk_gate_result [OF g] only show ?thesis by (auto simp: Let_def)
  next
    case True
    let ?m = "min m (symbol_multiplier p x)"
    have step: "correlation_scan p r (s # ss) m vs = correlation_scan p r ss ?m ?vs"
      using True c Cons.prems(2) by (auto simp: Let_def symbol_multiplier_def min_def)
    have "\<forall>s \<in> set ss. \<exists>x. warm_value p r s x" "?m \<le> 1" using Cons.prems by auto
    from Cons.IH [OF this, of ?vs] obtain m' g where g: "correlation_scan p r ss ?m ?vs = Inr (m', g)" "rg_check g = CORRELATION"
      "if \<forall>s \<in> set ss. \<forall>x. warm_value p r s x \<longrightarrow> x < rp_correlation_block_threshold p
       then rg_status g = PASSED \<and> m' = min ?m (portfolio_multiplier p r ss) else rg_status g = FAILED \<and> m' = 0"
      by blast
    have "(\<forall>s \<in> set (s # ss). \<forall>x. warm_value p r s x \<longrightarrow> x < rp_correlation_block_threshold p) \<longleftrightarrow>
        (\<forall>s \<in> set ss. \<forall>x. warm_value p r s x \<longrightarrow> x < rp_correlation_block_threshold p)"
      using True only by simp
    then show ?thesis
      unfolding step portfolio_multiplier_Cons [OF x] min.assoc [symmetric] using g
      by (intro exI [of _ m'] exI [of _ g]) (simp only: if_True simp_thms)
  qed
qed

definition correlation_clear :: "official_risk_policy \<Rightarrow> official_risk_request \<Rightarrow> bool" where
  "correlation_clear p r \<longleftrightarrow>
     (\<forall>s \<in> set (other_symbols r). \<exists>x. warm_value p r s x \<and> x < rp_correlation_block_threshold p)"

lemma not_correlation_clear: "s \<in> set (other_symbols r) \<Longrightarrow> \<forall>x. \<not> warm_value p r s x \<Longrightarrow> \<not> correlation_clear p r"
  by (auto simp: correlation_clear_def)

lemma correlation_gate_result:
  "\<exists>m g. correlation_gate p r = Inr (m, g) \<and> rg_check g = CORRELATION \<and>
    (if correlation_clear p r then rg_status g = PASSED \<and> m = portfolio_multiplier p r (other_symbols r)
     else rg_status g \<noteq> PASSED \<and> m = 0)"
proof -
  let ?o = "other_symbols r"
  let ?cold = "\<lambda>s. \<exists>c. observations r s = Some c \<and> co_aligned_return_count c < rp_minimum_aligned_correlation_returns p"
  let ?unavailable = "\<lambda>s. \<exists>c. observations r s = Some c \<and> co_correlation c = None"
  have skip: "\<exists>m g. bindE (risk_gate CORRELATION st reason det) (\<lambda>g. Inr (0, g)) = Inr (m, g) \<and> rg_check g = CORRELATION \<and>
      rg_status g = st \<and> m = 0" if "reason \<noteq> []" "\<forall>kv \<in> set det. \<exists>j. freeze_json (snd kv) = Inr j" for st reason det
    using risk_gate_ok [OF that, of CORRELATION st] risk_gate_result by (metis bindE.simps(2))
  consider "?o = []" | s where "s \<in> set ?o" "observations r s = None"
    | s where "s \<in> set ?o" "\<forall>s \<in> set ?o. observations r s \<noteq> None" "?cold s"
    | s where "s \<in> set ?o" "\<forall>s \<in> set ?o. observations r s \<noteq> None \<and> \<not> ?cold s" "?unavailable s"
    | "?o \<noteq> []" "\<forall>s \<in> set ?o. \<exists>x. warm_value p r s x"
  proof -
    have "\<exists>x. warm_value p r s x" if "observations r s \<noteq> None" "\<not> ?cold s" "\<not> ?unavailable s" for s
      using that by (auto simp: warm_value_def)
    then have "?o = [] \<or> (\<exists>s \<in> set ?o. observations r s = None) \<or>
        (\<forall>s \<in> set ?o. observations r s \<noteq> None) \<and> (\<exists>s \<in> set ?o. ?cold s) \<or>
        (\<forall>s \<in> set ?o. observations r s \<noteq> None \<and> \<not> ?cold s) \<and> (\<exists>s \<in> set ?o. ?unavailable s) \<or>
        ?o \<noteq> [] \<and> (\<forall>s \<in> set ?o. \<exists>x. warm_value p r s x)"
      by meson
    then show thesis using that(1) that(2) that(3) that(4) that(5) by (elim disjE conjE bexE) (assumption | blast)+
  qed
  then show ?thesis
  proof cases
    case 1
    obtain g where g: "risk_gate CORRELATION PASSED ''single_symbol_or_empty_portfolio'' [(''multiplier'', PyDecimal 1)] = Inr g"
      by (rule risk_gate_ok [where check = CORRELATION and status = PASSED]) auto
    with 1 risk_gate_result [OF g] show ?thesis by (simp add: correlation_gate_def correlation_clear_def)
  next
    case (2 s)
    then have "filter (\<lambda>s. observations r s = None) ?o \<noteq> []" "?o \<noteq> []" "\<not> correlation_clear p r"
      using not_correlation_clear [of s r p] by (auto simp: filter_empty_conv warm_value_def)
    then show ?thesis
      using skip [of "''correlation_observation_missing''" "[(''symbols'', strings (sort (remdups (filter (\<lambda>s. observations r s = None) ?o))))]" NOT_APPLICABLE]
      by (auto simp: correlation_gate_def Let_def)
  next
    case (3 s)
    then have "filter ?cold ?o \<noteq> []" "?o \<noteq> []" "filter (\<lambda>s. observations r s = None) ?o = []" "\<not> correlation_clear p r"
      using not_correlation_clear [of s r p] by (auto simp: filter_empty_conv warm_value_def)
    then show ?thesis
      using skip [of "''correlation_history_cold''" "[(''symbols'', strings (sort (filter ?cold ?o))),
          (''minimum_returns'', PyInt (rp_minimum_aligned_correlation_returns p))]" NOT_APPLICABLE]
      by (auto simp: correlation_gate_def Let_def)
  next
    case (4 s)
    then have "filter ?unavailable ?o \<noteq> []" "?o \<noteq> []" "filter (\<lambda>s. observations r s = None) ?o = []" "filter ?cold ?o = []"
      "\<not> correlation_clear p r"
      using not_correlation_clear [of s r p] by (auto simp: filter_empty_conv warm_value_def)
    then show ?thesis
      using skip [of "''correlation_unavailable''" "[(''symbols'', strings (sort (filter ?unavailable ?o)))]" NOT_APPLICABLE]
      by (auto simp: correlation_gate_def Let_def)
  next
    case 5
    then have f: "filter ?unavailable ?o = []" "filter (\<lambda>s. observations r s = None) ?o = []" "filter ?cold ?o = []"
      by (auto simp: filter_empty_conv warm_value_def dest!: bspec)
    have gate: "correlation_gate p r = correlation_scan p r ?o 1 []" using 5(1) f by (simp add: correlation_gate_def Let_def)
    have clear: "correlation_clear p r \<longleftrightarrow>
        (\<forall>s \<in> set ?o. \<forall>x. warm_value p r s x \<longrightarrow> x < rp_correlation_block_threshold p)"
      using 5(2) warm_value_unique unfolding correlation_clear_def by blast
    have m: "min 1 (portfolio_multiplier p r ?o) = portfolio_multiplier p r ?o"
      using portfolio_multiplier_bounds(2) by (simp add: min_def antisym)
    have "\<exists>m' g. correlation_gate p r = Inr (m', g) \<and> rg_check g = CORRELATION \<and>
        (if correlation_clear p r then rg_status g = PASSED \<and> m' = portfolio_multiplier p r ?o
         else rg_status g = FAILED \<and> m' = 0)"
      using correlation_scan_exact [OF 5(2), of 1 "[]"] unfolding gate clear m by simp
    then show ?thesis by (cases "correlation_clear p r") auto
  qed
qed

section \<open>Sizing\<close>

lemma risk_gate_fields:
  "risk_gate check status reason details = Inr g \<Longrightarrow> rg_check g = check \<and> rg_status g = status \<and> rg_reason_code g = reason"
  using risk_gate_result by metis

lemma risk_gate_bind:
  assumes "reason \<noteq> []" "\<forall>kv \<in> set details. \<exists>j. freeze_json (snd kv) = Inr j"
    "\<And>g. risk_gate check status reason details = Inr g \<Longrightarrow> \<exists>y. k g = Inr y"
  shows "\<exists>y. bindE (risk_gate check status reason details) k = Inr y"
  using risk_gate_ok [OF assms(1,2), of check status] assms(3) by (metis bindE.simps(2))

definition risk_policy_ok :: "official_risk_policy \<Rightarrow> bool" where
  "risk_policy_ok p \<longleftrightarrow> risk_policy_post_init p = Inr p"

definition risk_request_ok :: "official_risk_request \<Rightarrow> bool" where
  "risk_request_ok r \<longleftrightarrow> (\<exists>r0. risk_request_post_init r0 = Inr r) \<and> drawdown_snapshot_post_init (rr_drawdown r) = Inr (rr_drawdown r)"

lemma risk_policy_okD:
  assumes "risk_policy_ok p"
  shows "0 < rp_maximum_kelly_fraction p" "0 < rp_maximum_trade_loss_fraction p" "0 < rp_maximum_portfolio_loss_fraction p"
    "0 < rp_maximum_gross_notional_fraction p" "0 < rp_maximum_margin_fraction p"
  using assms by (auto simp: risk_policy_ok_def risk_policy_post_init_def result_simps)

lemma risk_request_okD:
  assumes "risk_request_ok r"
  shows "0 < rr_capital r" "0 < rr_executable_price r" "0 < rr_stop_price r" "0 < rr_expected_gain_fraction r"
    "0 < rr_expected_loss_fraction r" "0 \<le> rr_entry_fee_fraction r" "0 < rr_leverage r" "is_utc (rr_evaluated_at r)"
    "rr_direction r \<noteq> NEUTRAL" "0 < dd_peak_equity (rr_drawdown r)"
  using assms by (auto simp: risk_request_ok_def risk_request_post_init_def drawdown_snapshot_post_init_def result_simps
      split: if_splits)

lemma capped_quantity_le: "x \<in> set caps \<Longrightarrow> capped_quantity caps \<le> snd x"
proof -
  have *: "foldl min a xs \<le> a \<and> (\<forall>y \<in> set xs. foldl min a xs \<le> y)" for a :: decimal and xs
  proof (induction xs arbitrary: a)
    case (Cons x xs)
    from Cons [of "min a x"] show ?case by auto
  qed simp
  show "x \<in> set caps \<Longrightarrow> capped_quantity caps \<le> snd x"
    using * [of "snd (hd caps)" "map snd (tl caps)"] by (cases caps) (auto simp: capped_quantity_def)
qed

lemma capped_quantity_in: "caps \<noteq> [] \<Longrightarrow> capped_quantity caps \<in> snd ` set caps"
proof -
  have *: "foldl min a xs \<in> insert a (set xs)" for a :: decimal and xs
    by (induction xs arbitrary: a) (fastforce simp: min_def)+
  show "caps \<noteq> [] \<Longrightarrow> capped_quantity caps \<in> snd ` set caps"
    using * [of "snd (hd caps)" "map snd (tl caps)"] by (cases caps) (auto simp: capped_quantity_def)
qed

lemma risk_budget_result:
  assumes "risk_budget_of p r half dm cm sd = Inr b"
  shows "bu_risk_budget b = dmul (dmul (dmul (rr_capital r) (min half (rp_maximum_trade_loss_fraction p))) dm) cm"
    "bu_existing_loss b = dsum (map op_loss_at_stop (rr_open_positions r))"
    "bu_loss_limit b = dmul (rr_capital r) (rp_maximum_portfolio_loss_fraction p)"
    "bu_existing_notional b = dsum (map op_notional (rr_open_positions r))"
    "bu_notional_limit b = dmul (rr_capital r) (rp_maximum_gross_notional_fraction p)"
    "bu_existing_margin b = dsum (map op_margin (rr_open_positions r))"
    "bu_margin_limit b = dmul (rr_capital r) (rp_maximum_margin_fraction p)"
    "bu_quantity_caps b =
       [(''trade_loss'', ddiv (bu_risk_budget b) sd),
        (''portfolio_loss'', ddiv (max (dsub (bu_loss_limit b) (bu_existing_loss b)) 0) sd),
        (''gross_notional'', ddiv (max (dsub (bu_notional_limit b) (bu_existing_notional b)) 0) (rr_executable_price r)),
        (''margin_and_entry_fee'', ddiv (max (dsub (bu_margin_limit b) (bu_existing_margin b)) 0)
           (dmul (rr_executable_price r) (dadd (ddiv 1 (of_int (rr_leverage r))) (rr_entry_fee_fraction r))))]"
  using assms by (auto simp: risk_budget_of_def Let_def result_simps)

lemma risk_budget_ok:
  assumes "risk_policy_ok p" "risk_request_ok r" "0 < half" "0 \<le> dm" "0 \<le> cm" "0 < sd"
  obtains b where "risk_budget_of p r half dm cm sd = Inr b" "0 \<le> capped_quantity (bu_quantity_caps b)"
proof -
  note P = risk_policy_okD [OF assms(1)] and R = risk_request_okD [OF assms(2)]
  have "0 < ddiv 1 (of_int (rr_leverage r))" using R(7) by (simp add: ddiv_def)
  then have cost: "0 < dmul (rr_executable_price r) (dadd (ddiv 1 (of_int (rr_leverage r))) (rr_entry_fee_fraction r))"
    using R(2,6) by (simp add: dmul_def dadd_def)
  then obtain b where b: "risk_budget_of p r half dm cm sd = Inr b"
    using R(2,7) assms(6) by (simp add: risk_budget_of_def Let_def)
  have "0 \<le> bu_risk_budget b"
    unfolding risk_budget_result(1) [OF b] using R(1) P(2) assms(3-5) by (simp add: dmul_def)
  then have "\<forall>c \<in> set (bu_quantity_caps b). 0 \<le> snd c"
    unfolding risk_budget_result(8) [OF b] using R(2) assms(6) cost by (simp add: ddiv_def)
  moreover have "bu_quantity_caps b \<noteq> []" unfolding risk_budget_result(8) [OF b] by simp
  ultimately have "0 \<le> capped_quantity (bu_quantity_caps b)"
    using capped_quantity_in by fastforce
  with b show thesis by (rule that)
qed

lemma pass_if_passed [simp]: "pass_if b = PASSED \<longleftrightarrow> b"
  by (simp add: pass_if_def)

lemma sizing_gates_result:
  assumes "sizing_gates r b q n k m = Inr gs"
  shows "map rg_check gs = [TRADE_RISK_AT_STOP, PORTFOLIO_LOSS_AT_STOP, GROSS_NOTIONAL, MARGIN]"
    "list_all gate_passed gs \<longleftrightarrow> 0 < q \<and> k \<le> bu_risk_budget b \<and> dadd (bu_existing_loss b) k \<le> bu_loss_limit b \<and>
       dadd (bu_existing_notional b) n \<le> bu_notional_limit b \<and>
       dadd (dadd (bu_existing_margin b) m) (dmul n (rr_entry_fee_fraction r)) \<le> bu_margin_limit b"
  using assms by (auto simp: sizing_gates_def Let_def result_simps gate_passed_def dest!: risk_gate_fields)

lemma sizing_gates_ok: "\<exists>gs. sizing_gates r b q n k m = Inr gs"
  unfolding sizing_gates_def Let_def by (intro risk_gate_bind) auto

section \<open>The two outcomes of an evaluation\<close>

text \<open>A decision that stopped at one of the first four gates, and one that sized the trade.\<close>

definition rejected_early :: "official_risk_decision \<Rightarrow> bool" where
  "rejected_early d \<longleftrightarrow> (\<exists>done rest. rd_gates d = done @ rest \<and> done \<noteq> [] \<and> length done \<le> 4 \<and>
     list_all gate_passed (butlast done) \<and> \<not> gate_passed (last done) \<and>
     (\<forall>g \<in> set rest. rg_status g = NOT_APPLICABLE \<and> rg_reason_code g = ''prior_risk_gate_failed'') \<and>
     rd_rejection_reason d = Some (rg_reason_code (last done)) \<and> \<not> rd_approved d \<and>
     rd_quantity d = 0 \<and> rd_notional d = 0 \<and> rd_risk_at_stop d = 0 \<and> rd_margin d = 0)"

definition stop_distance_of :: "official_risk_request \<Rightarrow> decimal" where
  "stop_distance_of r = dabs (dsub (rr_executable_price r) (rr_stop_price r))"

definition decision_of_sizes :: "official_risk_request \<Rightarrow> risk_budget \<Rightarrow> official_risk_decision \<Rightarrow> bool" where
  "decision_of_sizes r b d \<longleftrightarrow> (\<exists>done gs. rd_gates d = done @ gs \<and> length done = 4 \<and> list_all gate_passed done \<and>
     rd_quantity d = capped_quantity (bu_quantity_caps b) \<and> rd_notional d = dmul (rd_quantity d) (rr_executable_price r) \<and>
     rd_risk_at_stop d = dmul (rd_quantity d) (stop_distance_of r) \<and> rd_margin d = ddiv (rd_notional d) (of_int (rr_leverage r)) \<and>
     sizing_gates r b (rd_quantity d) (rd_notional d) (rd_risk_at_stop d) (rd_margin d) = Inr gs)"

text \<open>When the first four gates pass.\<close>

definition half_kelly_of :: "official_risk_policy \<Rightarrow> official_risk_request \<Rightarrow> decimal" where
  "half_kelly_of p r =
     (let ratio = ddiv (rr_expected_gain_fraction r) (rr_expected_loss_fraction r);
          full = ddiv (dsub (dmul (rr_p_win r) ratio) (dsub 1 (rr_p_win r))) ratio
      in min (ddiv full 2) (rp_maximum_kelly_fraction p))"

definition drawdown_of :: "official_risk_request \<Rightarrow> decimal" where
  "drawdown_of r =
     ddiv (dsub (dd_peak_equity (rr_drawdown r)) (dd_current_equity (rr_drawdown r))) (dd_peak_equity (rr_drawdown r))"

definition first_gates_clear :: "official_risk_policy \<Rightarrow> official_risk_request \<Rightarrow> bool" where
  "first_gates_clear p r \<longleftrightarrow> 0 < half_kelly_of p r \<and> stop_is_valid r \<and>
     drawdown_of r < rp_drawdown_halt_threshold p \<and> correlation_clear p r"

definition sized :: "official_risk_policy \<Rightarrow> official_risk_request \<Rightarrow> official_risk_decision \<Rightarrow> bool" where
  "sized p r d \<longleftrightarrow> rd_half_kelly_fraction d = half_kelly_of p r \<and>
     (\<exists>b. risk_budget_of p r (half_kelly_of p r) (drawdown_multiplier_of p (drawdown_of r))
          (portfolio_multiplier p r (other_symbols r)) (stop_distance_of r) = Inr b \<and> decision_of_sizes r b d)"

lemma early_rejection_early:
  assumes "map rg_check done = take (length done) all_risk_checks" "0 \<le> half" "0 \<le> m" "snap = JObject ms"
    "done \<noteq> []" "length done \<le> 4" "list_all gate_passed (butlast done)" "\<not> gate_passed (last done)"
  shows "\<exists>d. early_rejection snap half done m = Inr d \<and> rejected_early d"
proof -
  obtain d where d: "early_rejection snap half done m = Inr d" using early_rejection_ok [OF assms(1-4)] by blast
  obtain rest where "rd_gates d = done @ rest" "\<not> rd_approved d" "rd_quantity d = 0" "rd_notional d = 0" "rd_risk_at_stop d = 0"
    "rd_margin d = 0" "rd_rejection_reason d = Some (rg_reason_code (last done))"
    "\<forall>g \<in> set rest. rg_status g = NOT_APPLICABLE \<and> rg_reason_code g = ''prior_risk_gate_failed''"
    by (rule early_rejection_result [OF d assms(5,8,7)])
  then have "rejected_early d"
    unfolding rejected_early_def using assms(5-8) by (intro exI [of _ "done"] exI [of _ rest] conjI)
  with d show ?thesis by blast
qed

lemma stop_distance_pos: "stop_is_valid r \<Longrightarrow> 0 < stop_distance_of r"
  by (auto simp: stop_is_valid_def stop_distance_of_def dabs_def dsub_def)

lemma sized_decision_ok:
  assumes ok: "risk_policy_ok p" "risk_request_ok r" "snap = JObject ms" and s: "stop_is_valid r" "0 < half" "0 \<le> dm" "0 \<le> cm"
    and g: "map rg_check gates = take 4 all_risk_checks" "list_all gate_passed gates"
  shows "\<exists>d b. sized_decision p r snap half dm cm (stop_distance_of r) gates = Inr d \<and> rd_half_kelly_fraction d = half \<and>
    risk_budget_of p r half dm cm (stop_distance_of r) = Inr b \<and> decision_of_sizes r b d"
proof -
  note R = risk_request_okD [OF ok(2)]
  obtain b where b: "risk_budget_of p r half dm cm (stop_distance_of r) = Inr b" "0 \<le> capped_quantity (bu_quantity_caps b)"
    by (rule risk_budget_ok [OF ok(1,2) s(2-4) stop_distance_pos [OF s(1)]])
  let ?q = "capped_quantity (bu_quantity_caps b)"
  let ?n = "dmul ?q (rr_executable_price r)" and ?k = "dmul ?q (stop_distance_of r)"
  let ?m = "ddiv ?n (of_int (rr_leverage r))"
  obtain gs where gs: "sizing_gates r b ?q ?n ?k ?m = Inr gs" using sizing_gates_ok by blast
  have nn: "0 \<le> ?n" "0 \<le> ?k" "0 \<le> ?m"
    using b(2) R(2,7) stop_distance_pos [OF s(1)] by (simp_all add: dmul_def ddiv_def)
  have "map rg_check (gates @ gs) = all_risk_checks"
    using g(1) sizing_gates_result(1) [OF gs] by (simp add: all_risk_checks_def)
  then obtain d where d: "risk_decision snap \<lparr>rz_quantity = ?q, rz_notional = ?n, rz_risk_at_stop = ?k, rz_margin = ?m,
      rz_half_kelly = half, rz_drawdown_multiplier = dm, rz_correlation_multiplier = cm\<rparr> (gates @ gs) = Inr d"
    using risk_decision_ok [of "gates @ gs" "\<lparr>rz_quantity = ?q, rz_notional = ?n, rz_risk_at_stop = ?k, rz_margin = ?m,
      rz_half_kelly = half, rz_drawdown_multiplier = dm, rz_correlation_multiplier = cm\<rparr>" snap ms] nn b(2) s ok(3) by auto
  note D = risk_decision_result [OF d]
  have "length gates = 4" using arg_cong [OF g(1), of length] by (simp add: all_risk_checks_def)
  then have "decision_of_sizes r b d"
    unfolding decision_of_sizes_def using D gs g(2) by (intro exI [of _ gates] exI [of _ gs]) simp
  moreover have "sized_decision p r snap half dm cm (stop_distance_of r) gates = Inr d"
    using b(1) gs d R(7) by (simp add: sized_decision_def Let_def)
  ultimately show ?thesis using D b(1) by auto
qed

lemma drawdown_multiplier_bounds: "0 < drawdown_multiplier_of p x" "drawdown_multiplier_of p x \<le> 1"
  by (auto simp: drawdown_multiplier_of_def)

lemma evaluate_protected_ok:
  assumes ok: "risk_policy_ok p" "risk_request_ok r" "snap = JObject ms" and s: "stop_is_valid r" "0 < half"
    and half: "half = half_kelly_of p r" and g: "rg_check g1 = KELLY" "gate_passed g1"
  shows "\<exists>d. evaluate_protected p r snap half [g1] = Inr d \<and>
    (if drawdown_of r < rp_drawdown_halt_threshold p \<and> correlation_clear p r then sized p r d else rejected_early d)"
proof -
  note R = risk_request_okD [OF ok(2)]
  let ?dd = "drawdown_of r"
  have dd: "drawdown_fraction (rr_drawdown r) = Inr ?dd" using R(10) by (simp add: drawdown_fraction_def drawdown_of_def)
  obtain g2 where g2: "risk_gate PRICE_AND_STOP PASSED ''executable_price_and_stop_valid''
      [(''executable_price'', PyDecimal (rr_executable_price r)), (''stop_price'', PyDecimal (rr_stop_price r)),
       (''stop_distance'', PyDecimal (stop_distance_of r))] = Inr g2"
    by (rule risk_gate_ok [where check = PRICE_AND_STOP and status = PASSED]) auto
  let ?eq = "[(''peak_equity'', PyDecimal (dd_peak_equity (rr_drawdown r))),
      (''current_equity'', PyDecimal (dd_current_equity (rr_drawdown r)))]"
  obtain g3 where g3: "risk_gate DRAWDOWN FAILED ''drawdown_halt'' ((''drawdown_fraction'', PyDecimal ?dd) # ?eq) = Inr g3"
    by (rule risk_gate_ok [where check = DRAWDOWN and status = FAILED]) auto
  let ?dm = "drawdown_multiplier_of p ?dd"
  obtain g3' where g3': "risk_gate DRAWDOWN PASSED ''drawdown_within_limit''
      ((''drawdown_fraction'', PyDecimal ?dd) # (''multiplier'', PyDecimal ?dm) # ?eq) = Inr g3'"
    by (rule risk_gate_ok [where check = DRAWDOWN and status = PASSED]) auto
  obtain cm g4 where g4: "correlation_gate p r = Inr (cm, g4)" "rg_check g4 = CORRELATION"
    "if correlation_clear p r then rg_status g4 = PASSED \<and> cm = portfolio_multiplier p r (other_symbols r)
     else rg_status g4 \<noteq> PASSED \<and> cm = 0"
    using correlation_gate_result by blast
  note f = risk_gate_fields [OF g2] risk_gate_fields [OF g3] risk_gate_fields [OF g3']
  note unfold = evaluate_protected_def Let_def stop_distance_of_def [symmetric] g2 dd
  consider (halt) "?dd \<ge> rp_drawdown_halt_threshold p" | (blocked) "?dd < rp_drawdown_halt_threshold p" "\<not> correlation_clear p r"
    | (clear) "?dd < rp_drawdown_halt_threshold p" "correlation_clear p r" by fastforce
  then show ?thesis
  proof cases
    case halt
    have "\<exists>d. early_rejection snap half [g1, g2, g3] 0 = Inr d \<and> rejected_early d"
      by (rule early_rejection_early) (use f g ok(3) s(2) in \<open>auto simp: all_risk_checks_def gate_passed_def\<close>)
    then show ?thesis using halt g3 by (auto simp: unfold)
  next
    case blocked
    have "\<exists>d. early_rejection snap half [g1, g2, g3', g4] ?dm = Inr d \<and> rejected_early d"
      using drawdown_multiplier_bounds(1) [of p ?dd] blocked(2)
      by (intro early_rejection_early) (use f g ok(3) s(2) g4 in \<open>auto simp: all_risk_checks_def gate_passed_def\<close>)
    then show ?thesis using blocked g3' g4 by (auto simp: unfold)
  next
    case clear
    then have cm: "rg_status g4 = PASSED" "cm = portfolio_multiplier p r (other_symbols r)" using g4 by simp_all
    have "0 \<le> cm" using portfolio_multiplier_bounds(1) [of p r "other_symbols r"] cm by simp
    then obtain d b where d: "sized_decision p r snap half ?dm cm (stop_distance_of r) [g1, g2, g3', g4] = Inr d"
      "rd_half_kelly_fraction d = half" "risk_budget_of p r half ?dm cm (stop_distance_of r) = Inr b" "decision_of_sizes r b d"
      using sized_decision_ok [OF ok s, of ?dm cm "[g1, g2, g3', g4]"] drawdown_multiplier_bounds(1) [of p ?dd] f g g4 cm
      by (auto simp: all_risk_checks_def gate_passed_def)
    then have "sized p r d" using half cm(2) by (auto simp: sized_def)
    then show ?thesis using d(1) clear g3' g4 cm(1) by (simp add: unfold)
  qed
qed


lemma risk_input_snapshot_ok: "is_utc (rr_evaluated_at r) \<Longrightarrow> \<exists>ms. risk_input_snapshot p r = Inr (JObject ms)"
proof -
  assume u: "is_utc (rr_evaluated_at r)"
  have "\<exists>j. freeze_json (position_payload o') = Inr j" for o'
    by (simp add: position_payload_def pydict_def)
  then obtain js where js: "freeze_list (map position_payload (rr_open_positions r)) = Inr js"
    using freeze_list_ok [of "map position_payload (rr_open_positions r)"] by auto
  have "\<exists>j. freeze_json (correlation_payload c) = Inr j" for c
    by (cases "co_correlation c") (simp_all add: correlation_payload_def pydict_def py_option_def)
  then obtain ks where ks: "freeze_list (map correlation_payload (rr_correlations r)) = Inr ks"
    using freeze_list_ok [of "map correlation_payload (rr_correlations r)"] by auto
  show ?thesis
    using u js ks
    by (simp add: risk_input_snapshot_def request_payload_def policy_payload_def drawdown_to_dict_def pydict_def utc_iso_def
        require_mapping_def)
qed

lemma risk_evaluate_decision:
  assumes "risk_evaluate p r = Inr d"
  shows "\<exists>snap s gates. risk_decision snap s gates = Inr d"
proof -
  have early: "early_rejection snap h g m = Inr d \<Longrightarrow> \<exists>snap s gates. risk_decision snap s gates = Inr d" for snap h g m
    by (auto simp: early_rejection_def result_simps)
  have "sized_decision p r snap h dm cm sd g = Inr d \<Longrightarrow> \<exists>snap s gates. risk_decision snap s gates = Inr d" for snap h dm cm sd g
    by (auto simp: sized_decision_def Let_def result_simps)
  with early have "evaluate_protected p r snap h g = Inr d \<Longrightarrow> \<exists>snap s gates. risk_decision snap s gates = Inr d" for snap h g
    by (auto simp: evaluate_protected_def Let_def result_simps split: if_splits)
  with early assms show ?thesis
    by (auto simp: risk_evaluate_def Let_def result_simps split: if_splits)
qed

lemma risk_evaluate_outcome:
  assumes ok: "risk_policy_ok p" "risk_request_ok r"
  shows "\<exists>d. risk_evaluate p r = Inr d \<and> (if first_gates_clear p r then sized p r d else rejected_early d)"
proof -
  note P = risk_policy_okD [OF ok(1)] and R = risk_request_okD [OF ok(2)]
  let ?ratio = "ddiv (rr_expected_gain_fraction r) (rr_expected_loss_fraction r)"
  let ?full = "ddiv (dsub (dmul (rr_p_win r) ?ratio) (dsub 1 (rr_p_win r))) ?ratio"
  let ?half = "half_kelly_of p r"
  have nz: "rr_expected_loss_fraction r \<noteq> 0" "?ratio \<noteq> 0" using R(4,5) by (simp_all add: ddiv_def)
  obtain ms where snap: "risk_input_snapshot p r = Inr (JObject ms)" using risk_input_snapshot_ok [OF R(8)] by blast
  have half: "min (ddiv ?full 2) (rp_maximum_kelly_fraction p) = ?half" by (simp add: half_kelly_of_def Let_def)
  obtain g1 where g1: "risk_gate KELLY FAILED ''kelly_nonpositive'' [(''p_win'', PyDecimal (rr_p_win r)),
      (''gain_loss_ratio'', PyDecimal ?ratio), (''full_kelly'', PyDecimal ?full)] = Inr g1"
    by (rule risk_gate_ok [where check = KELLY and status = FAILED]) auto
  obtain g1' where g1': "risk_gate KELLY PASSED ''kelly_positive'' [(''p_win'', PyDecimal (rr_p_win r)),
      (''gain_loss_ratio'', PyDecimal ?ratio), (''half_kelly'', PyDecimal ?half)] = Inr g1'"
    by (rule risk_gate_ok [where check = KELLY and status = PASSED]) auto
  obtain g2 where g2: "risk_gate PRICE_AND_STOP FAILED ''stop_not_protective''
      [(''direction'', PyEnum (PyStr (direction_value (rr_direction r)))),
       (''executable_price'', PyDecimal (rr_executable_price r)), (''stop_price'', PyDecimal (rr_stop_price r))] = Inr g2"
    by (rule risk_gate_ok [where check = PRICE_AND_STOP and status = FAILED]) auto
  note f = risk_gate_fields [OF g1] risk_gate_fields [OF g1'] risk_gate_fields [OF g2]
  note unfold = risk_evaluate_def snap nz Let_def half
  consider (kelly) "?half \<le> 0" | (stop) "0 < ?half" "\<not> stop_is_valid r" | (rest) "0 < ?half" "stop_is_valid r" by fastforce
  then show ?thesis
  proof cases
    case kelly
    have "\<exists>d. early_rejection (JObject ms) (max ?half 0) [g1] 0 = Inr d \<and> rejected_early d"
      by (rule early_rejection_early) (use f in \<open>auto simp: all_risk_checks_def gate_passed_def\<close>)
    then show ?thesis using kelly g1 by (auto simp: unfold first_gates_clear_def)
  next
    case stop
    have "\<exists>d. early_rejection (JObject ms) ?half [g1', g2] 0 = Inr d \<and> rejected_early d"
      by (rule early_rejection_early) (use f stop in \<open>auto simp: all_risk_checks_def gate_passed_def\<close>)
    then show ?thesis using stop g1' g2 by (auto simp: unfold first_gates_clear_def)
  next
    case rest
    have p: "gate_passed g1'" "rg_check g1' = KELLY" using f by (simp_all add: gate_passed_def)
    show ?thesis
      using evaluate_protected_ok [OF ok refl rest(2,1) refl p(2,1), of ms] rest g1' by (auto simp: unfold first_gates_clear_def)
  qed
qed

text \<open>
  C16: A risk evaluation always returns a decision.  For a constructed policy and request nothing
  is raised; the decision lists the eight gates in order, is approved exactly when all of them
  passed, and has a rejection reason exactly when it is not approved.  When the half-Kelly fraction
  is not positive, the stop is not protective, the drawdown reaches the halt threshold or the
  correlations are missing, cold or too high, the decision sizes nothing and the gates after the
  failed one are not applicable; otherwise the trade is sized from the budget.
\<close>

theorem risk_evaluation:
  assumes "risk_policy_ok p" and "risk_request_ok r"
  shows "\<exists>d. risk_evaluate p r = Inr d \<and> map rg_check (rd_gates d) = all_risk_checks
    \<and> (rd_approved d \<longleftrightarrow> list_all gate_passed (rd_gates d)) \<and> (rd_rejection_reason d = None \<longleftrightarrow> rd_approved d)
    \<and> (if first_gates_clear p r then sized p r d else rejected_early d)"
proof -
  obtain d where d: "risk_evaluate p r = Inr d" "if first_gates_clear p r then sized p r d else rejected_early d"
    using risk_evaluate_outcome [OF assms] by blast
  then obtain snap s gates where g: "risk_decision snap s gates = Inr d" using risk_evaluate_decision by blast
  show ?thesis
    using d risk_decision_result [OF g] first_rejection_None by (intro exI [of _ d]) auto
qed

text \<open>
  C2: An approved trade respects every limit of the policy.  Its stop protects it, the drawdown is
  below the halt threshold, every other open symbol has a warm correlation below the block threshold;
  the loss at the stop is at most the trade limit and the half-Kelly share of the capital, and
  together with the open positions loss, notional and margin plus entry fee stay within the limits.
\<close>

theorem risk_approval_within_limits:
  assumes "risk_policy_ok p" and "risk_request_ok r" and "risk_evaluate p r = Inr d" and "rd_approved d"
  shows "first_gates_clear p r \<and> 0 < rd_quantity d
    \<and> rd_notional d = dmul (rd_quantity d) (rr_executable_price r)
    \<and> rd_risk_at_stop d = dmul (rd_quantity d) (stop_distance_of r)
    \<and> rd_risk_at_stop d \<le> dmul (rr_capital r) (rp_maximum_trade_loss_fraction p)
    \<and> rd_risk_at_stop d \<le> dmul (rr_capital r) (half_kelly_of p r)
    \<and> dadd (dsum (map op_loss_at_stop (rr_open_positions r))) (rd_risk_at_stop d)
        \<le> dmul (rr_capital r) (rp_maximum_portfolio_loss_fraction p)
    \<and> dadd (dsum (map op_notional (rr_open_positions r))) (rd_notional d)
        \<le> dmul (rr_capital r) (rp_maximum_gross_notional_fraction p)
    \<and> dadd (dadd (dsum (map op_margin (rr_open_positions r))) (rd_margin d)) (dmul (rd_notional d) (rr_entry_fee_fraction r))
        \<le> dmul (rr_capital r) (rp_maximum_margin_fraction p)"
proof -
  note P = risk_policy_okD [OF assms(1)] and R = risk_request_okD [OF assms(2)]
  have out: "if first_gates_clear p r then sized p r d else rejected_early d"
    using risk_evaluate_outcome [OF assms(1,2)] assms(3) by auto
  moreover have "\<not> rejected_early d" using assms(4) by (auto simp: rejected_early_def)
  ultimately have c: "first_gates_clear p r" "sized p r d" by (auto split: if_splits)
  let ?dm = "drawdown_multiplier_of p (drawdown_of r)" and ?cm = "portfolio_multiplier p r (other_symbols r)"
  obtain b where b: "risk_budget_of p r (half_kelly_of p r) ?dm ?cm (stop_distance_of r) = Inr b" "decision_of_sizes r b d"
    using c(2) by (auto simp: sized_def)
  obtain snap s gates where g: "risk_decision snap s gates = Inr d" using risk_evaluate_decision [OF assms(3)] by blast
  obtain done' gs where gs: "rd_gates d = done' @ gs" "rd_notional d = dmul (rd_quantity d) (rr_executable_price r)"
    "rd_risk_at_stop d = dmul (rd_quantity d) (stop_distance_of r)"
    "sizing_gates r b (rd_quantity d) (rd_notional d) (rd_risk_at_stop d) (rd_margin d) = Inr gs"
    using b(2) by (auto simp: decision_of_sizes_def)
  have "list_all gate_passed gs" using assms(4) risk_decision_result(1,6) [OF g] gs(1) by auto
  note G = this [unfolded sizing_gates_result(2) [OF gs(4)]]
  note B = risk_budget_result [OF b(1)]
  let ?f = "min (half_kelly_of p r) (rp_maximum_trade_loss_fraction p)"
  have pos: "0 < ?f" using c(1) P(2) by (simp add: first_gates_clear_def)
  have shrink: "dmul x m \<le> x" if "0 \<le> x" "m \<le> 1" "dround x = x" for x m
    using that mult_left_le [of m x] unfolding dmul_def by (intro ctx.rnd_le_fixed)
  let ?x = "dmul (rr_capital r) ?f"
  have x: "0 \<le> ?x" "dround ?x = ?x" using R(1) pos by (simp_all add: dmul_def)
  have y: "0 \<le> dmul ?x ?dm" "dround (dmul ?x ?dm) = dmul ?x ?dm"
    using x(1) drawdown_multiplier_bounds(1) [of p "drawdown_of r"] by (simp_all add: dmul_def)
  have "bu_risk_budget b \<le> ?x"
    unfolding B(1) using shrink [OF y(1) portfolio_multiplier_bounds(2) y(2)] shrink [OF x(1) drawdown_multiplier_bounds(2) x(2)]
    by (rule order_trans)
  moreover have "?x \<le> dmul (rr_capital r) (rp_maximum_trade_loss_fraction p)" "?x \<le> dmul (rr_capital r) (half_kelly_of p r)"
    unfolding dmul_def using R(1) by (intro dround_mono mult_left_mono; simp)+
  ultimately show ?thesis using c(1) G gs(2,3) B by auto
qed

lemma risk_evaluate_sized:
  assumes "risk_policy_ok p" "risk_request_ok r" "first_gates_clear p r"
  obtains d b done' gs where "risk_evaluate p r = Inr d"
    "risk_budget_of p r (half_kelly_of p r) (drawdown_multiplier_of p (drawdown_of r))
       (portfolio_multiplier p r (other_symbols r)) (stop_distance_of r) = Inr b"
    "rd_quantity d = capped_quantity (bu_quantity_caps b)" "rd_notional d = dmul (rd_quantity d) (rr_executable_price r)"
    "rd_risk_at_stop d = dmul (rd_quantity d) (stop_distance_of r)"
    "rd_margin d = ddiv (rd_notional d) (of_int (rr_leverage r))" "list_all gate_passed done'"
    "sizing_gates r b (rd_quantity d) (rd_notional d) (rd_risk_at_stop d) (rd_margin d) = Inr gs"
    "rd_approved d \<longleftrightarrow> list_all gate_passed gs" "rd_rejection_reason d = first_rejection (done' @ gs)"
proof -
  obtain d where d: "risk_evaluate p r = Inr d" "sized p r d" using risk_evaluate_outcome [OF assms(1,2)] assms(3) by auto
  obtain snap s gates where g: "risk_decision snap s gates = Inr d" using risk_evaluate_decision [OF d(1)] by blast
  show thesis
    using d risk_decision_result [OF g] that by (auto simp: sized_def decision_of_sizes_def)
qed

text \<open>
  C27: The correlation gate computes the portfolio's worst case.  It always returns; it passes
  exactly when every other open symbol has an observation with enough aligned returns and an absolute
  correlation below the block threshold, and then its multiplier is the smallest one any of these
  symbols demands (0.6 from the upper, 0.8 from the lower reduction threshold on, 1 otherwise).
\<close>

theorem correlation_gate_exact:
  "\<exists>m g. correlation_gate p r = Inr (m, g) \<and> rg_check g = CORRELATION \<and>
    (if correlation_clear p r then rg_status g = PASSED \<and> m = portfolio_multiplier p r (other_symbols r)
     else rg_status g \<noteq> PASSED \<and> m = 0)"
  by (rule correlation_gate_result)

section \<open>Examples\<close>

definition ex_risk_request :: "decimal \<Rightarrow> official_risk_request" where
  "ex_risk_request stop = \<lparr>rr_symbol = ''BTCUSDT'', rr_direction = LONG, rr_capital = 10000, rr_executable_price = 1400,
     rr_stop_price = stop, rr_p_win = 9/10, rr_expected_gain_fraction = 1/10, rr_expected_loss_fraction = 1/20,
     rr_entry_fee_fraction = 0, rr_leverage = 5,
     rr_drawdown = \<lparr>dd_peak_equity = 10000, dd_current_equity = 10000, dd_peak_text = ''10000'', dd_current_text = ''10000''\<rparr>,
     rr_open_positions = [], rr_correlations = [], rr_evaluated_at = utc 1000000\<rparr>"

lemma conservative_policy_ok: "risk_policy_ok conservative_policy"
  by (simp add: risk_policy_ok_def risk_policy_post_init_def conservative_policy_def)

lemma ex_risk_request_ok: "0 < stop \<Longrightarrow> risk_request_ok (ex_risk_request stop)"
  unfolding risk_request_ok_def
  by (intro conjI exI [of _ "ex_risk_request stop"])
    (simp_all add: risk_request_post_init_def ex_risk_request_def drawdown_snapshot_post_init_def require_symbol_def upper_def
      upper_char_def less_eq_char_def)

lemma ex_risk_values:
  "half_kelly_of conservative_policy (ex_risk_request stop) = 1/4" "drawdown_of (ex_risk_request stop) = 0"
  "other_symbols (ex_risk_request stop) = []" "drawdown_multiplier_of conservative_policy 0 = 1"
  by (simp_all add: half_kelly_of_def drawdown_of_def conservative_policy_def ex_risk_request_def dec_defs dec_eval Let_def
      other_symbols_def drawdown_multiplier_of_def)

lemma ex_risk_clear: "0 < stop \<Longrightarrow> stop < 1400 \<Longrightarrow> first_gates_clear conservative_policy (ex_risk_request stop)"
  by (simp add: first_gates_clear_def ex_risk_values correlation_clear_def)
    (simp add: stop_is_valid_def ex_risk_request_def conservative_policy_def)

lemma ex_risk_budget:
  assumes "risk_budget_of conservative_policy (ex_risk_request stop) (1/4) 1 1 sd = Inr b"
  shows "bu_risk_budget b = 200" "bu_existing_loss b = 0" "bu_loss_limit b = 600" "bu_existing_notional b = 0"
    "bu_notional_limit b = 10000" "bu_existing_margin b = 0" "bu_margin_limit b = 10000"
    "map snd (bu_quantity_caps b) = [ddiv 200 sd, ddiv 600 sd, dround (50/7), dround (250/7)]"
proof -
  note B = risk_budget_result [OF assms]
  have e: "rr_capital (ex_risk_request stop) = 10000" "rr_open_positions (ex_risk_request stop) = []"
    "rr_executable_price (ex_risk_request stop) = 1400" "rr_leverage (ex_risk_request stop) = 5"
    "rr_entry_fee_fraction (ex_risk_request stop) = 0" "rp_maximum_trade_loss_fraction conservative_policy = 1/50"
    "rp_maximum_portfolio_loss_fraction conservative_policy = 3/50" "rp_maximum_gross_notional_fraction conservative_policy = 1"
    "rp_maximum_margin_fraction conservative_policy = 1"
    by (simp_all add: ex_risk_request_def conservative_policy_def)
  show f: "bu_risk_budget b = 200" "bu_existing_loss b = 0" "bu_loss_limit b = 600" "bu_existing_notional b = 0"
    "bu_notional_limit b = 10000" "bu_existing_margin b = 0" "bu_margin_limit b = 10000"
    unfolding B e by (simp_all add: dec_defs dec_eval dsum_def min_def)
  show "map snd (bu_quantity_caps b) = [ddiv 200 sd, ddiv 600 sd, dround (50/7), dround (250/7)]"
    unfolding B(8) f e by (simp add: dec_defs dec_eval)
qed

lemma capped_quantity_eq:
  assumes "map snd caps = q # qs" "\<forall>x \<in> set qs. q \<le> x"
  shows "capped_quantity caps = q"
proof -
  have "foldl min q qs = q" using assms(2) by (induction qs) (auto simp: min_def)
  with assms(1) show ?thesis by (cases caps) (auto simp: capped_quantity_def)
qed

lemma ex_risk_approved: "\<exists>d. risk_evaluate conservative_policy (ex_risk_request 1300) = Inr d \<and> rd_approved d \<and> rd_quantity d = 2"
proof -
  let ?r = "ex_risk_request 1300"
  have sd: "stop_distance_of ?r = 100" by (simp add: stop_distance_of_def ex_risk_request_def dec_defs dec_eval)
  obtain d b gs where d: "risk_evaluate conservative_policy ?r = Inr d"
    "risk_budget_of conservative_policy ?r (1/4) 1 1 100 = Inr b" "rd_quantity d = capped_quantity (bu_quantity_caps b)"
    "rd_notional d = dmul (rd_quantity d) 1400" "rd_risk_at_stop d = dmul (rd_quantity d) 100"
    "rd_margin d = ddiv (rd_notional d) 5"
    "sizing_gates ?r b (rd_quantity d) (rd_notional d) (rd_risk_at_stop d) (rd_margin d) = Inr gs"
    "rd_approved d \<longleftrightarrow> list_all gate_passed gs"
    by (rule risk_evaluate_sized [OF conservative_policy_ok ex_risk_request_ok ex_risk_clear, of 1300])
      (simp_all add: ex_risk_values sd, simp add: ex_risk_request_def)
  note B = ex_risk_budget [OF d(2)]
  have "2 \<le> dround (50/7)" "2 \<le> dround (250/7)" by (intro ctx.rnd_ge_fixed; simp add: dec_eval)+
  then have q: "rd_quantity d = 2" unfolding d(3) using B(8) by (intro capped_quantity_eq) (auto simp: dec_defs dec_eval)
  have "rr_entry_fee_fraction ?r = 0" by (simp add: ex_risk_request_def)
  then have "rd_approved d"
    unfolding d(8) sizing_gates_result(2) [OF d(7)] using B d(4-6) q by (simp add: dec_defs dec_eval)
  with d(1) q show ?thesis by blast
qed

theorem risk_evaluation_witness:
  "risk_policy_ok conservative_policy \<and> risk_request_ok (ex_risk_request 1300) \<and>
     (\<exists>d. risk_evaluate conservative_policy (ex_risk_request 1300) = Inr d \<and> map rg_check (rd_gates d) = all_risk_checks)"
  using risk_evaluation [OF conservative_policy_ok ex_risk_request_ok, of 1300] conservative_policy_ok ex_risk_request_ok by auto

theorem risk_approval_within_limits_witness:
  "\<exists>d. risk_evaluate conservative_policy (ex_risk_request 1300) = Inr d \<and> rd_quantity d = 2 \<and>
     rd_risk_at_stop d \<le> dmul 10000 (1/50)"
proof -
  obtain d where d: "risk_evaluate conservative_policy (ex_risk_request 1300) = Inr d" "rd_approved d" "rd_quantity d = 2"
    using ex_risk_approved by blast
  have "rr_capital (ex_risk_request 1300) = 10000" "rp_maximum_trade_loss_fraction conservative_policy = 1/50"
    by (simp_all add: ex_risk_request_def conservative_policy_def)
  with risk_approval_within_limits [OF conservative_policy_ok ex_risk_request_ok d(1,2)] d show ?thesis by auto
qed

lemma sizing_gates_first:
  assumes "sizing_gates r b q n k m = Inr gs" "0 < q" "bu_risk_budget b < k"
  shows "\<exists>g gs'. gs = g # gs' \<and> \<not> gate_passed g \<and> rg_reason_code g = ''trade_risk_sized_within_all_caps''"
  using assms by (auto simp: sizing_gates_def Let_def result_simps gate_passed_def dest!: risk_gate_fields)

text \<open>
  C28: Sizing can defeat itself.  The quantity is the risk budget divided by the stop distance,
  rounded half-even to 28 digits, and the gate then demands that quantity times distance is at most
  the budget.  With capital 10000, the conservative policy and a stop 140 away the rounded quotient is
  too large by less than one unit in its last place, so the otherwise clear request is rejected, and
  the reason it reports is that the risk was sized within all caps.
\<close>

theorem risk_sizing_defeats_itself:
  "\<exists>d. risk_evaluate conservative_policy (ex_risk_request 1260) = Inr d \<and> first_gates_clear conservative_policy (ex_risk_request 1260)
     \<and> \<not> rd_approved d \<and> 0 < rd_quantity d \<and> rd_rejection_reason d = Some ''trade_risk_sized_within_all_caps''"
proof -
  let ?r = "ex_risk_request 1260"
  have sd: "stop_distance_of ?r = 140" by (simp add: stop_distance_of_def ex_risk_request_def dec_defs dec_eval)
  obtain d b done' gs where d: "risk_evaluate conservative_policy ?r = Inr d"
    "risk_budget_of conservative_policy ?r (1/4) 1 1 140 = Inr b" "rd_quantity d = capped_quantity (bu_quantity_caps b)"
    "rd_risk_at_stop d = dmul (rd_quantity d) 140" "list_all gate_passed done'"
    "sizing_gates ?r b (rd_quantity d) (rd_notional d) (rd_risk_at_stop d) (rd_margin d) = Inr gs"
    "rd_approved d \<longleftrightarrow> list_all gate_passed gs" "rd_rejection_reason d = first_rejection (done' @ gs)"
    by (rule risk_evaluate_sized [OF conservative_policy_ok ex_risk_request_ok ex_risk_clear, of 1260])
      (simp_all add: ex_risk_values sd)
  note B = ex_risk_budget [OF d(2)]
  have "dround (10/7) \<le> dround (30/7)" "dround (10/7) \<le> dround (50/7)" "dround (10/7) \<le> dround (250/7)"
    by (intro dround_mono; simp)+
  then have q: "rd_quantity d = dround (10/7)"
    unfolding d(3) using B(8) by (intro capped_quantity_eq) (auto simp: ddiv_def)
  have r1: "dround (10/7) = 1428571428571428571428571429 / 1000000000000000000000000000"
    using dround_literal [of "10/7" 1428571428571428571428571429 "-27"] by (simp add: power_int_minus)
  have r2: "dround (1428571428571428571428571429 / 1000000000000000000000000000 * 140) =
      2000000000000000000000000001 / 10000000000000000000000000"
    using dround_literal [of "1428571428571428571428571429 / 1000000000000000000000000000 * 140" 2000000000000000000000000001 "-25"]
    by (simp add: power_int_minus)
  have "bu_risk_budget b < rd_risk_at_stop d" "0 < rd_quantity d"
    unfolding d(4) q dmul_def r1 r2 B(1) by simp_all
  then obtain g gs' where g: "gs = g # gs'" "\<not> gate_passed g" "rg_reason_code g = ''trade_risk_sized_within_all_caps''"
    using sizing_gates_first [OF d(6)] by blast
  have "first_rejection (done' @ gs) = Some ''trade_risk_sized_within_all_caps''"
    using find_first [OF d(5) g(2), of gs'] g(1,3) by (simp add: first_rejection_def)
  with d g \<open>0 < rd_quantity d\<close> ex_risk_clear [of 1260] show ?thesis by auto
qed

end
