(* ===== verification/Manifest.thy ===== *)
theory Manifest
  imports "HOL-Library.Multiset" Json Market
begin

text \<open>
  \<^verbatim>\<open>maais/experiments/manifest.py\<close>: the identity of an experiment, with one entry for each of the
  eight agents of \<^verbatim>\<open>maais/config/constants.py\<close>.

  A mapping field holds a Python value; the constructor replaces it by its frozen JSON form.  \<open>str\<close>
  of a \<^verbatim>\<open>Decimal\<close> shows its exponent, which a rational does not keep, so an entry carries the text of
  its weight beside the value.
\<close>

section \<open>Agents\<close>

definition ALL_AGENTS :: "string list" where
  "ALL_AGENTS = [''momentum'', ''technical_structure'', ''liquidity'', ''order_flow_toxicity'', ''stop_run_detection'',
     ''mean_reversion'', ''carry_yield'', ''macro_sentiment'']"

datatype agent_maturity = IMPLEMENTED | PROXY | DISABLED

fun agent_maturity_value :: "agent_maturity \<Rightarrow> string" where
  "agent_maturity_value IMPLEMENTED = ''implemented''"
| "agent_maturity_value PROXY = ''proxy''"
| "agent_maturity_value DISABLED = ''disabled''"

datatype run_mode = REPLAY | PAPER_LIVE | TESTNET_SMOKE

fun run_mode_value :: "run_mode \<Rightarrow> string" where
  "run_mode_value REPLAY = ''replay''"
| "run_mode_value PAPER_LIVE = ''paper_live''"
| "run_mode_value TESTNET_SMOKE = ''testnet_smoke''"

definition lower_hex :: "char \<Rightarrow> bool" where
  "lower_hex c \<longleftrightarrow> CHR ''0'' \<le> c \<and> c \<le> CHR ''9'' \<or> CHR ''a'' \<le> c \<and> c \<le> CHR ''f''"

definition require_hash :: "string \<Rightarrow> string \<Rightarrow> nat list \<Rightarrow> unit result" where
  "require_hash name value lengths =
     raise_if (length value \<notin> set lengths \<or> value = [] \<or> \<not> list_all lower_hex value)
       (ValueError (name @ '' must be '' @ join '' or '' (map (\<lambda>n. show_int (int n)) lengths) @
          '' lowercase hexadecimal characters''))"

definition freeze_mapping :: "string \<Rightarrow> pyval \<Rightarrow> json result" where
  "freeze_mapping name value = bindE (freeze_json value) (require_mapping (name @ '' must be a JSON object''))"

record agent_manifest_entry =
  me_agent_name :: string
  me_version :: string
  me_maturity :: agent_maturity
  me_weight :: decimal
  me_weight_text :: string
  me_enabled :: bool
  me_implementation_hash :: string
  me_data_dependencies :: pyval

definition manifest_entry_post_init :: "agent_manifest_entry \<Rightarrow> agent_manifest_entry result" where
  "manifest_entry_post_init e =
     thenE (checks
       [raise_if (me_agent_name e \<notin> set ALL_AGENTS) (ValueError (''unknown agent: '' @ me_agent_name e)),
        raise_if (blank (me_version e)) (ValueError ''agent version cannot be empty''),
        raise_if (me_weight e \<le> 0) (ValueError ''agent weight must be finite and positive''),
        require_hash ''implementation_hash'' (me_implementation_hash e) [64],
        raise_if (me_enabled e \<and> me_maturity e = DISABLED) (ValueError ''a disabled-maturity agent cannot be enabled''),
        raise_if (\<not> me_enabled e \<and> me_maturity e \<noteq> DISABLED) (ValueError ''a disabled agent must have disabled maturity'')])
     (bindE (freeze_mapping ''data_dependencies'' (me_data_dependencies e)) (\<lambda>j.
        Inr (e\<lparr>me_data_dependencies := json_pyval j\<rparr>)))"

definition manifest_entry_to_dict :: "agent_manifest_entry \<Rightarrow> pyval result" where
  "manifest_entry_to_dict e =
     bindE (freeze_json (me_data_dependencies e)) (\<lambda>dependencies.
       Inr (pydict
         [(''agent_name'', PyStr (me_agent_name e)), (''version'', PyStr (me_version e)),
          (''maturity'', PyStr (agent_maturity_value (me_maturity e))), (''weight'', PyStr (me_weight_text e)),
          (''enabled'', PyBool (me_enabled e)), (''implementation_hash'', PyStr (me_implementation_hash e)),
          (''data_dependencies'', json_pyval dependencies)]))"

section \<open>Manifests\<close>

record experiment_manifest =
  em_experiment_id :: uuid
  em_name :: string
  em_mode :: run_mode
  em_initial_capital :: decimal
  em_currency :: string
  em_created_at :: datetime
  em_git_sha :: string
  em_worktree_hash :: "string option"
  em_lock_hash :: string
  em_schema_revision :: string
  em_configuration :: pyval
  em_symbols :: "string list"
  em_exchange_metadata :: pyval
  em_component_versions :: pyval
  em_agent_versions :: "agent_manifest_entry list"
  em_fee_policy :: pyval
  em_funding_policy :: pyval
  em_clock_policy :: pyval
  em_market_data_sources :: pyval
  em_data_versions :: pyval
  em_fill_policy :: pyval
  em_manifest_schema_version :: int

text \<open>The dict of the entries by name (a later entry replaces an earlier one), and its reading in order.\<close>

definition agents_by_name :: "agent_manifest_entry list \<Rightarrow> string \<Rightarrow> agent_manifest_entry option" where
  "agents_by_name entries = map_of (rev (map (\<lambda>e. (me_agent_name e, e)) entries))"

definition agent_named :: "agent_manifest_entry list \<Rightarrow> string \<Rightarrow> agent_manifest_entry result" where
  "agent_named entries name =
     (case agents_by_name entries name of None \<Rightarrow> Inl (LookupError name) | Some e \<Rightarrow> Inr e)"

definition ordered_agents :: "agent_manifest_entry list \<Rightarrow> agent_manifest_entry list result" where
  "ordered_agents entries =
     thenE (raise_if (length entries \<noteq> length ALL_AGENTS \<or> set (map me_agent_name entries) \<noteq> set ALL_AGENTS)
       (ValueError ''manifest must contain exactly eight unique configured agents''))
     (bindE (agent_named entries ''macro_sentiment'') (\<lambda>macro.
      thenE (raise_if (me_maturity macro \<noteq> PROXY \<and> me_maturity macro \<noteq> DISABLED)
        (ValueError ''macro_sentiment must be visibly proxy or disabled''))
      (mapE (agent_named entries) ALL_AGENTS)))"

definition manifest_field :: "int \<Rightarrow> string \<Rightarrow> pyval \<Rightarrow> pyval result" where
  "manifest_field version field_name current =
     bindE (freeze_mapping field_name current) (\<lambda>frozen.
     thenE (raise_if (field_name \<noteq> ''configuration'' \<and> frozen = JObject [] \<and>
              \<not> (version = 1 \<and> (field_name = ''data_versions'' \<or> field_name = ''fill_policy'')))
        (ValueError (field_name @ '' cannot be empty'')))
     (Inr (json_pyval frozen)))"

definition manifest_identity :: "experiment_manifest \<Rightarrow> unit result" where
  "manifest_identity m = checks
     [raise_if (em_experiment_id m = 0) (ValueError ''experiment_id cannot be nil''),
      raise_if (blank (em_name m)) (ValueError ''experiment name cannot be empty''),
      raise_if (em_initial_capital m \<le> 0) (ValueError ''initial capital must be finite and positive''),
      raise_if (em_currency m \<noteq> ''USDT'') (ValueError ''the initial paper account currency must be USDT''),
      raise_if (\<not> is_utc (em_created_at m)) (ValueError ''created_at must be UTC-aware''),
      require_hash ''git_sha'' (em_git_sha m) [40, 64],
      (case em_worktree_hash m of None \<Rightarrow> Inr () | Some h \<Rightarrow> require_hash ''worktree_hash'' h [64]),
      require_hash ''lock_hash'' (em_lock_hash m) [64],
      raise_if (blank (em_schema_revision m)) (ValueError ''schema_revision cannot be empty''),
      raise_if (em_manifest_schema_version m \<noteq> 1 \<and> em_manifest_schema_version m \<noteq> 2)
        (ValueError ''unsupported manifest_schema_version''),
      raise_if (em_symbols m = [] \<or> \<not> distinct (em_symbols m)) (ValueError ''symbols must be non-empty and unique''),
      raise_if (list_ex (\<lambda>s. blank s \<or> s \<noteq> upper s) (em_symbols m))
        (ValueError ''symbols must be non-empty uppercase venue symbols'')]"

definition manifest_post_init :: "experiment_manifest \<Rightarrow> experiment_manifest result" where
  "manifest_post_init m =
     (let field = manifest_field (em_manifest_schema_version m)
      in thenE (manifest_identity m)
     (bindE (ordered_agents (em_agent_versions m)) (\<lambda>agents.
      bindE (field ''configuration'' (em_configuration m)) (\<lambda>configuration.
      bindE (field ''exchange_metadata'' (em_exchange_metadata m)) (\<lambda>exchange_metadata.
      bindE (field ''component_versions'' (em_component_versions m)) (\<lambda>component_versions.
      bindE (field ''fee_policy'' (em_fee_policy m)) (\<lambda>fee_policy.
      bindE (field ''funding_policy'' (em_funding_policy m)) (\<lambda>funding_policy.
      bindE (field ''clock_policy'' (em_clock_policy m)) (\<lambda>clock_policy.
      bindE (field ''market_data_sources'' (em_market_data_sources m)) (\<lambda>market_data_sources.
      bindE (field ''data_versions'' (em_data_versions m)) (\<lambda>data_versions.
      bindE (field ''fill_policy'' (em_fill_policy m)) (\<lambda>fill_policy.
      thenE (raise_if (em_manifest_schema_version m = 1 \<and> (data_versions \<noteq> PyMapping [] \<or> fill_policy \<noteq> PyMapping []))
        (ValueError ''legacy manifest schema cannot contain v2 data or fill policy''))
      (Inr (m\<lparr>em_agent_versions := agents, em_configuration := configuration,
              em_exchange_metadata := exchange_metadata, em_component_versions := component_versions,
              em_fee_policy := fee_policy, em_funding_policy := funding_policy, em_clock_policy := clock_policy,
              em_market_data_sources := market_data_sources, em_data_versions := data_versions,
              em_fill_policy := fill_policy\<rparr>))))))))))))))"

definition config_hash :: "experiment_manifest \<Rightarrow> string result" where
  "config_hash m = content_hash (em_configuration m)"

definition manifest_to_dict :: "experiment_manifest \<Rightarrow> json result" where
  "manifest_to_dict m =
     bindE (mapE manifest_entry_to_dict (em_agent_versions m)) (\<lambda>agents.
     bindE (freeze_json (pydict
       ([(''manifest_schema_version'', PyInt (em_manifest_schema_version m)),
         (''experiment_id'', PyUUID (em_experiment_id m)), (''name'', PyStr (em_name m)),
         (''mode'', PyEnum (PyStr (run_mode_value (em_mode m)))), (''initial_capital'', PyDecimal (em_initial_capital m)),
         (''currency'', PyStr (em_currency m)), (''created_at'', PyDatetime (em_created_at m)),
         (''git_sha'', PyStr (em_git_sha m)), (''worktree_hash'', py_option PyStr (em_worktree_hash m)),
         (''lock_hash'', PyStr (em_lock_hash m)), (''schema_revision'', PyStr (em_schema_revision m)),
         (''configuration'', em_configuration m), (''symbols'', strings (em_symbols m)),
         (''exchange_metadata'', em_exchange_metadata m), (''component_versions'', em_component_versions m),
         (''agent_versions'', PySequence agents), (''fee_policy'', em_fee_policy m),
         (''funding_policy'', em_funding_policy m), (''clock_policy'', em_clock_policy m),
         (''market_data_sources'', em_market_data_sources m)] @
        (if em_manifest_schema_version m \<ge> 2
         then [(''data_versions'', em_data_versions m), (''fill_policy'', em_fill_policy m)] else []))))
       (require_mapping ''normalized manifest must be an object''))"

definition manifest_hash :: "experiment_manifest \<Rightarrow> string result" where
  "manifest_hash m = bindE (manifest_to_dict m) (\<lambda>j. content_hash (json_pyval j))"

definition require_candidate_identity :: "experiment_manifest \<Rightarrow> experiment_manifest result" where
  "require_candidate_identity m =
     thenE (checks
       [raise_if (em_worktree_hash m \<noteq> None) (ValueError ''official candidates require a clean committed worktree''),
        require_hash ''git_sha'' (em_git_sha m) [40, 64]])
     (Inr m)"

section \<open>The identity of a manifest\<close>

lemma agents_by_name_iff:
  assumes "distinct (map me_agent_name es)"
  shows "agents_by_name es n = Some e \<longleftrightarrow> e \<in> set es \<and> me_agent_name e = n"
proof -
  have "distinct (map fst (rev (map (\<lambda>e. (me_agent_name e, e)) es)))"
    using assms by (simp add: rev_map [symmetric] o_def del: rev_map)
  then show ?thesis by (auto simp: agents_by_name_def)
qed

lemma agents_by_name_perm:
  assumes "mset es = mset es'" and "distinct (map me_agent_name es)"
  shows "agents_by_name es = agents_by_name es'"
proof (intro ext option_eqI)
  fix n e
  have "distinct (map me_agent_name es')"
    using assms by (metis mset_eq_imp_distinct_iff mset_map)
  then show "agents_by_name es n = Some e \<longleftrightarrow> agents_by_name es' n = Some e"
    using assms mset_eq_setD [OF assms(1)] by (simp add: agents_by_name_iff)
qed

lemma eight_distinct:
  assumes "length es = length ALL_AGENTS" and "set (map me_agent_name es) = set ALL_AGENTS"
  shows "distinct (map me_agent_name es)"
proof (rule card_distinct)
  have "distinct ALL_AGENTS" by (simp add: ALL_AGENTS_def)
  then show "card (set (map me_agent_name es)) = length (map me_agent_name es)"
    using assms distinct_card by fastforce
qed

lemma ordered_agents_perm:
  assumes "mset es = mset es'"
  shows "ordered_agents es = ordered_agents es'"
proof (cases "length es = length ALL_AGENTS \<and> set (map me_agent_name es) = set ALL_AGENTS")
  case True
  then have "agents_by_name es = agents_by_name es'"
    using agents_by_name_perm [OF assms] eight_distinct by blast
  then have "agent_named es = agent_named es'" by (simp add: agent_named_def fun_eq_iff)
  then show ?thesis
    using mset_eq_length [OF assms] mset_eq_setD [OF assms] by (simp add: ordered_agents_def)
next
  case False
  then show ?thesis
    using mset_eq_length [OF assms] mset_eq_setD [OF assms] by (auto simp: ordered_agents_def)
qed

lemma agent_named_result: "agent_named es n = Inr e \<Longrightarrow> e \<in> set es \<and> me_agent_name e = n"
  by (auto simp: agent_named_def agents_by_name_def split: option.splits dest!: map_of_SomeD)

lemma ordered_agents_result:
  assumes "ordered_agents es = Inr as"
  shows "map me_agent_name as = ALL_AGENTS" "set as \<subseteq> set es" "ordered_agents as = Inr as"
proof -
  have l: "length es = length ALL_AGENTS" "set (map me_agent_name es) = set ALL_AGENTS" and
    m: "mapE (agent_named es) ALL_AGENTS = Inr as"
    using assms by (auto simp: ordered_agents_def result_simps)
  show n: "map me_agent_name as = ALL_AGENTS"
    using mapE_length [OF m] mapE_nth [OF m] agent_named_result by (intro nth_equalityI) fastforce+
  show s: "set as \<subseteq> set es" using mapE_set [OF m] agent_named_result by blast
  have "distinct (map me_agent_name as)" unfolding n by (simp add: ALL_AGENTS_def)
  then have d: "distinct as" "distinct es" using eight_distinct [OF l] by (simp_all add: distinct_map)
  have "card (set as) = card (set es)" using d distinct_card mapE_length [OF m] l(1) by metis
  then have "set as = set es" using s by (intro card_subset_eq) auto
  then have "mset as = mset es" using d by (simp add: set_eq_iff_mset_eq_distinct)
  then show "ordered_agents as = Inr as" using ordered_agents_perm [of as es] assms by argo
qed

lemma manifest_field_frozen:
  assumes "manifest_field v n x = Inr y"
  shows "manifest_field v n y = Inr y" "\<exists>j. freeze_json y = Inr j"
proof -
  obtain j ms where j: "freeze_json x = Inr j" "j = JObject ms" and
    e: "raise_if (n \<noteq> ''configuration'' \<and> j = JObject [] \<and>
              \<not> (v = 1 \<and> (n = ''data_versions'' \<or> n = ''fill_policy'')))
        (ValueError (n @ '' cannot be empty'')) = Inr ()" and y: "y = json_pyval j"
    using assms unfolding manifest_field_def freeze_mapping_def bindE_Inr_iff thenE_Inr_iff require_mapping_Inr_iff by blast
  show "\<exists>j. freeze_json y = Inr j" unfolding y by (simp add: freeze_json_pyval)
  show "manifest_field v n y = Inr y"
    unfolding y manifest_field_def freeze_mapping_def freeze_json_pyval(1) bindE.simps require_mapping_def
    using e by (simp add: j(2))
qed

lemma manifest_post_init_result:
  assumes "manifest_post_init m = Inr m'"
  shows "manifest_post_init m' = Inr m'" "ordered_agents (em_agent_versions m) = Inr (em_agent_versions m')"
    "manifest_identity m' = Inr ()"
    "\<forall>x \<in> {em_configuration m', em_exchange_metadata m', em_component_versions m', em_fee_policy m',
       em_funding_policy m', em_clock_policy m', em_market_data_sources m', em_data_versions m', em_fill_policy m'}.
       \<exists>j. freeze_json x = Inr j"
proof -
  let ?f = "manifest_field (em_manifest_schema_version m)"
  obtain as c1 c2 c3 c4 c5 c6 c7 c8 c9 where i: "manifest_identity m = Inr ()" and a: "ordered_agents (em_agent_versions m) = Inr as"
    and f: "?f ''configuration'' (em_configuration m) = Inr c1" "?f ''exchange_metadata'' (em_exchange_metadata m) = Inr c2"
      "?f ''component_versions'' (em_component_versions m) = Inr c3" "?f ''fee_policy'' (em_fee_policy m) = Inr c4"
      "?f ''funding_policy'' (em_funding_policy m) = Inr c5" "?f ''clock_policy'' (em_clock_policy m) = Inr c6"
      "?f ''market_data_sources'' (em_market_data_sources m) = Inr c7" "?f ''data_versions'' (em_data_versions m) = Inr c8"
      "?f ''fill_policy'' (em_fill_policy m) = Inr c9"
    and v: "\<not> (em_manifest_schema_version m = 1 \<and> (c8 \<noteq> PyMapping [] \<or> c9 \<noteq> PyMapping []))"
    and m': "m' = m\<lparr>em_agent_versions := as, em_configuration := c1, em_exchange_metadata := c2, em_component_versions := c3,
      em_fee_policy := c4, em_funding_policy := c5, em_clock_policy := c6, em_market_data_sources := c7,
      em_data_versions := c8, em_fill_policy := c9\<rparr>"
    using assms by (auto simp: manifest_post_init_def Let_def result_simps)
  note frozen = f [THEN manifest_field_frozen(1)] f [THEN manifest_field_frozen(2)]
  show "manifest_identity m' = Inr ()" using i by (simp add: m' manifest_identity_def)
  then show "manifest_post_init m' = Inr m'"
    using frozen ordered_agents_result(3) [OF a] v by (simp add: manifest_post_init_def m' result_simps)
  show "ordered_agents (em_agent_versions m) = Inr (em_agent_versions m')" using a by (simp add: m')
  show "\<forall>x \<in> {em_configuration m', em_exchange_metadata m', em_component_versions m', em_fee_policy m',
       em_funding_policy m', em_clock_policy m', em_market_data_sources m', em_data_versions m', em_fill_policy m'}.
       \<exists>j. freeze_json x = Inr j"
    using frozen by (simp add: m')
qed

lemma manifest_entry_to_dict_ok:
  assumes "manifest_entry_post_init e = Inr e'"
  shows "\<exists>v. manifest_entry_to_dict e' = Inr v \<and> freezes v"
proof -
  obtain j where "me_data_dependencies e' = json_pyval j"
    using assms by (auto simp: manifest_entry_post_init_def result_simps)
  then show ?thesis
    by (auto simp: manifest_entry_to_dict_def freeze_json_pyval simp del: json_pyval.simps)
qed

lemma manifest_hash_ok:
  assumes "manifest_post_init m = Inr m" and "\<forall>e \<in> set (em_agent_versions m). manifest_entry_post_init e = Inr e"
  shows "\<exists>h. manifest_hash m = Inr h \<and> length h = 64"
proof -
  note c = manifest_post_init_result [OF assms(1)]
  obtain as where as: "mapE manifest_entry_to_dict (em_agent_versions m) = Inr as" "list_all freezes as"
    using mapE_all [of "em_agent_versions m" manifest_entry_to_dict freezes] assms(2) manifest_entry_to_dict_ok by blast
  have "is_utc (em_created_at m)" using c(3) by (auto simp: manifest_identity_def result_simps)
  then have "\<exists>j. manifest_to_dict m = Inr j"
    unfolding manifest_to_dict_def as(1) bindE.simps using as(2) c(4)
    by (intro freezes_object) (simp add: freezes_def [symmetric])
  then show ?thesis using content_hash_shape [OF freeze_json_pyval(1)] by (auto simp: manifest_hash_def)
qed

text \<open>
  C31: A constructed manifest lists the eight agents in their fixed order, is a fixed point of the
  constructor, and has a manifest hash of 64 digits; the order in which the agents were given does
  not matter: any permutation of the entries constructs the same manifest.
\<close>

theorem manifest_canonical:
  assumes "manifest_post_init m = Inr m'" and "\<forall>e \<in> set (em_agent_versions m). manifest_entry_post_init e = Inr e"
  shows "map me_agent_name (em_agent_versions m') = ALL_AGENTS \<and> manifest_post_init m' = Inr m'
    \<and> (\<forall>es. mset es = mset (em_agent_versions m) \<longrightarrow> manifest_post_init (m\<lparr>em_agent_versions := es\<rparr>) = Inr m')
    \<and> (\<exists>h. manifest_hash m' = Inr h \<and> length h = 64)"
proof (intro conjI allI impI)
  note c = manifest_post_init_result [OF assms(1)]
  note a = ordered_agents_result [OF c(2)]
  show "map me_agent_name (em_agent_versions m') = ALL_AGENTS" "manifest_post_init m' = Inr m'" by (rule a(1) c(1))+
  show "\<exists>h. manifest_hash m' = Inr h \<and> length h = 64"
    using manifest_hash_ok [OF c(1)] a(2) assms(2) by blast
  fix es
  assume "mset es = mset (em_agent_versions m)"
  from ordered_agents_perm [OF this] have "ordered_agents es = ordered_agents (em_agent_versions m)" .
  then have "manifest_post_init (m\<lparr>em_agent_versions := es\<rparr>) = manifest_post_init m"
    by (simp add: manifest_post_init_def manifest_identity_def)
  then show "manifest_post_init (m\<lparr>em_agent_versions := es\<rparr>) = Inr m'" using assms(1) by simp
qed

lemma require_hash_replicate: "n \<in> set ls \<Longrightarrow> 0 < n \<Longrightarrow> lower_hex c \<Longrightarrow> require_hash name (replicate n c) ls = Inr ()"
  by (simp add: require_hash_def list_all_iff)

definition ex_manifest_entry :: "string \<Rightarrow> agent_manifest_entry" where
  "ex_manifest_entry n =
     \<lparr>me_agent_name = n, me_version = ''1'', me_maturity = (if n = ''macro_sentiment'' then PROXY else IMPLEMENTED),
      me_weight = 1, me_weight_text = ''1'', me_enabled = True, me_implementation_hash = replicate 64 CHR ''a'',
      me_data_dependencies = PyMapping []\<rparr>"

definition ex_manifest :: experiment_manifest where
  "ex_manifest =
     (let versions = pydict [(''v'', PyInt 1)]
      in \<lparr>em_experiment_id = 1, em_name = ''paper'', em_mode = REPLAY, em_initial_capital = 10000,
          em_currency = ''USDT'', em_created_at = utc 1000000, em_git_sha = replicate 40 CHR ''a'',
          em_worktree_hash = None, em_lock_hash = replicate 64 CHR ''b'', em_schema_revision = ''22'',
          em_configuration = PyMapping [], em_symbols = [''BTCUSDT''], em_exchange_metadata = versions,
          em_component_versions = versions, em_agent_versions = map ex_manifest_entry ALL_AGENTS,
          em_fee_policy = versions, em_funding_policy = versions, em_clock_policy = versions,
          em_market_data_sources = versions, em_data_versions = versions, em_fill_policy = versions,
          em_manifest_schema_version = 2\<rparr>)"

lemma ex_manifest_entry_ok: "n \<in> set ALL_AGENTS \<Longrightarrow> manifest_entry_post_init (ex_manifest_entry n) = Inr (ex_manifest_entry n)"
  by (simp add: manifest_entry_post_init_def ex_manifest_entry_def blank_def py_space_def less_eq_char_def
      require_hash_replicate lower_hex_def freeze_mapping_def require_mapping_def)

lemma ex_ordered_agents: "ordered_agents (map ex_manifest_entry ALL_AGENTS) = Inr (map ex_manifest_entry ALL_AGENTS)"
  by (simp add: ordered_agents_def agent_named_def agents_by_name_def ALL_AGENTS_def ex_manifest_entry_def)

lemma ex_manifest_ok: "manifest_post_init ex_manifest = Inr ex_manifest"
  by (simp add: manifest_post_init_def ex_manifest_def Let_def manifest_identity_def blank_def py_space_def
      less_eq_char_def require_hash_replicate lower_hex_def ex_ordered_agents manifest_field_def freeze_mapping_def
      require_mapping_def pydict_def upper_def upper_char_def)

theorem manifest_canonical_witness:
  "manifest_post_init (ex_manifest\<lparr>em_agent_versions := rev (map ex_manifest_entry ALL_AGENTS)\<rparr>) = Inr ex_manifest
   \<and> (\<exists>h. manifest_hash ex_manifest = Inr h \<and> length h = 64)"
proof -
  have e: "\<forall>e \<in> set (em_agent_versions ex_manifest). manifest_entry_post_init e = Inr e"
    using ex_manifest_entry_ok by (auto simp: ex_manifest_def Let_def)
  have "mset (rev (map ex_manifest_entry ALL_AGENTS)) = mset (em_agent_versions ex_manifest)"
    by (simp add: ex_manifest_def Let_def)
  with manifest_canonical [OF ex_manifest_ok e] show ?thesis by blast
qed

end
