(* ===== verification/Agents.thy ===== *)
theory Agents
  imports Manifest
begin

text \<open>
  \<^verbatim>\<open>maais/agents/evaluations.py\<close>: the matrix of agent evaluations a decision is based on, and the run
  of the eight agents that produces it.

  What an agent computes from the features is a parameter: an agent is its name, the regimes it
  accepts and a function from features to an output or to the text of the exception it raised.  The
  code runs the agents concurrently on one \<^verbatim>\<open>FeatureSet\<close> object, which is mutable; the model takes
  the analysis of an agent to depend on the features it is given and to leave them as they are, so
  that the order in which the agents run does not matter, and evaluates them in manifest order.
  An agent that wrote to the shared object would be outside this model.  A float is its value as \<^verbatim>\<open>Decimal(str(x))\<close> reads it together with its \<^verbatim>\<open>repr\<close>, or not finite.
\<close>

section \<open>Features\<close>

datatype float_value = Finite decimal string | NonFinite string

fun float_pyval :: "float_value \<Rightarrow> pyval" where
  "float_pyval (Finite x r) = PyFloat True r"
| "float_pyval (NonFinite r) = PyFloat False r"

record feature_set =
  ft_symbol :: string
  ft_timeframe :: string
  ft_timestamp :: datetime
  ft_zscore :: "float_value option"
  ft_zscore_mean :: "float_value option"
  ft_zscore_std :: "float_value option"
  ft_ema_fast :: "float_value option"
  ft_ema_slow :: "float_value option"
  ft_ema_signal :: "float_value option"
  ft_roc_short :: "float_value option"
  ft_roc_long :: "float_value option"
  ft_atr :: "float_value option"
  ft_rolling_std :: "float_value option"
  ft_bid_ask_spread :: "float_value option"
  ft_book_imbalance :: "float_value option"
  ft_funding_rate :: "float_value option"
  ft_annualized_funding :: "float_value option"
  ft_funding_bias :: "string option"
  ft_regime :: "string option"

definition feature_to_dict :: "feature_set \<Rightarrow> pyval" where
  "feature_to_dict f = pydict
     [(''symbol'', PyStr (ft_symbol f)), (''timeframe'', PyStr (ft_timeframe f)),
      (''timestamp'', PyStr (isoformat (ft_timestamp f))),
      (''zscore'', py_option float_pyval (ft_zscore f)), (''zscore_mean'', py_option float_pyval (ft_zscore_mean f)),
      (''zscore_std'', py_option float_pyval (ft_zscore_std f)), (''ema_fast'', py_option float_pyval (ft_ema_fast f)),
      (''ema_slow'', py_option float_pyval (ft_ema_slow f)), (''ema_signal'', py_option float_pyval (ft_ema_signal f)),
      (''roc_short'', py_option float_pyval (ft_roc_short f)), (''roc_long'', py_option float_pyval (ft_roc_long f)),
      (''atr'', py_option float_pyval (ft_atr f)), (''rolling_std'', py_option float_pyval (ft_rolling_std f)),
      (''bid_ask_spread'', py_option float_pyval (ft_bid_ask_spread f)),
      (''book_imbalance'', py_option float_pyval (ft_book_imbalance f)),
      (''funding_rate'', py_option float_pyval (ft_funding_rate f)),
      (''annualized_funding'', py_option float_pyval (ft_annualized_funding f)),
      (''funding_bias'', py_option PyStr (ft_funding_bias f)), (''regime'', py_option PyStr (ft_regime f))]"

section \<open>Rows of the matrix\<close>

record agent_output_snapshot =
  ou_direction :: direction
  ou_probability :: decimal
  ou_confidence :: decimal
  ou_risk :: decimal

definition require_unit_interval :: "decimal \<Rightarrow> string \<Rightarrow> unit result" where
  "require_unit_interval x message = raise_if (x < 0 \<or> x > 1) (ValueError (message @ '' must be a finite Decimal in [0, 1]''))"

definition agent_output_post_init :: "agent_output_snapshot \<Rightarrow> agent_output_snapshot result" where
  "agent_output_post_init o' =
     thenE (checks
       [require_unit_interval (ou_probability o') ''agent probability'',
        require_unit_interval (ou_confidence o') ''agent confidence'',
        require_unit_interval (ou_risk o') ''agent risk''])
     (Inr o')"

definition neutral_output :: "decimal \<Rightarrow> agent_output_snapshot result" where
  "neutral_output risk =
     agent_output_post_init \<lparr>ou_direction = NEUTRAL, ou_probability = 5/10, ou_confidence = 0, ou_risk = risk\<rparr>"

record agent_output =
  ao_agent_name :: string
  ao_directional_hypothesis :: string
  ao_probability_estimate :: float_value
  ao_confidence_score :: float_value
  ao_risk_estimate :: float_value

definition parse_direction :: "string \<Rightarrow> direction result" where
  "parse_direction s =
     (case map_of [(direction_value d, d). d \<leftarrow> [LONG, SHORT, NEUTRAL]] s of
        Some d \<Rightarrow> Inr d
      | None \<Rightarrow> Inl (ValueError ([CHR 0x27] @ s @ [CHR 0x27] @ '' is not a valid Direction'')))"

fun finite_decimal :: "string \<Rightarrow> float_value \<Rightarrow> decimal result" where
  "finite_decimal field (Finite x r) = Inr x"
| "finite_decimal field (NonFinite r) = Inl (ValueError (''agent '' @ field @ '' must be a finite Decimal in [0, 1]''))"

text \<open>
  \<open>from_legacy\<close>: the constructor looks at the three numbers one after the other, so the first one
  that is not finite or out of range is the one reported.
\<close>

definition from_legacy :: "agent_output \<Rightarrow> agent_output_snapshot result" where
  "from_legacy o' =
     bindE (parse_direction (ao_directional_hypothesis o')) (\<lambda>d.
     bindE (finite_decimal ''probability'' (ao_probability_estimate o')) (\<lambda>p.
     thenE (require_unit_interval p ''agent probability'')
     (bindE (finite_decimal ''confidence'' (ao_confidence_score o')) (\<lambda>c.
      thenE (require_unit_interval c ''agent confidence'')
      (bindE (finite_decimal ''risk'' (ao_risk_estimate o')) (\<lambda>k.
       agent_output_post_init \<lparr>ou_direction = d, ou_probability = p, ou_confidence = c, ou_risk = k\<rparr>))))))"

definition agent_output_to_dict :: "agent_output_snapshot \<Rightarrow> pyval" where
  "agent_output_to_dict o' = pydict
     [(''direction'', PyEnum (PyStr (direction_value (ou_direction o')))), (''probability'', PyDecimal (ou_probability o')),
      (''confidence'', PyDecimal (ou_confidence o')), (''risk'', PyDecimal (ou_risk o'))]"

record agent_evaluation =
  ae_agent_name :: string
  ae_version :: string
  ae_maturity :: agent_maturity
  ae_proxy_label :: "string option"
  ae_weight :: decimal
  ae_enabled :: bool
  ae_compatible :: bool
  ae_voting :: bool
  ae_reason_codes :: "string list"
  ae_input_contributions :: json
  ae_duration_ms :: int
  ae_output :: agent_output_snapshot
  ae_failure_reason :: "string option"

definition truthy :: "string option \<Rightarrow> bool" where
  "truthy s \<longleftrightarrow> s \<noteq> None \<and> s \<noteq> Some []"

definition agent_evaluation_post_init :: "agent_evaluation \<Rightarrow> agent_evaluation result" where
  "agent_evaluation_post_init e =
     thenE (checks
       [raise_if (ae_agent_name e \<notin> set ALL_AGENTS \<or> ae_version e = []) (ValueError ''agent evaluation identity is invalid''),
        raise_if (ae_weight e \<le> 0) (ValueError ''agent evaluation weight must be positive and finite''),
        raise_if (ae_duration_ms e < 0 \<or> ae_reason_codes e = [])
          (ValueError ''agent evaluation duration and reason codes are invalid''),
        raise_if (ae_maturity e = PROXY \<and> \<not> truthy (ae_proxy_label e))
          (ValueError ''proxy agent evaluation requires a visible proxy label''),
        raise_if (ae_maturity e \<noteq> PROXY \<and> ae_proxy_label e \<noteq> None) (ValueError ''only a proxy agent can have a proxy label''),
        raise_if (ae_voting e \<and> (\<not> ae_enabled e \<or> \<not> ae_compatible e \<or> truthy (ae_failure_reason e)))
          (ValueError ''only a successful enabled compatible agent can vote''),
        raise_if (\<not> ae_voting e \<and> ou_direction (ae_output e) \<noteq> NEUTRAL) (ValueError ''nonvoting agent output must be neutral'')])
     (bindE (freeze_json (json_pyval (ae_input_contributions e))) (\<lambda>normalized.
      bindE (require_mapping ''agent input contributions must be an object'' normalized) (\<lambda>inputs.
        Inr (e\<lparr>ae_input_contributions := inputs\<rparr>))))"

definition agent_evaluation_to_dict :: "agent_evaluation \<Rightarrow> pyval" where
  "agent_evaluation_to_dict e = pydict
     [(''agent_name'', PyStr (ae_agent_name e)), (''version'', PyStr (ae_version e)),
      (''maturity'', PyEnum (PyStr (agent_maturity_value (ae_maturity e)))),
      (''proxy_label'', py_option PyStr (ae_proxy_label e)), (''weight'', PyDecimal (ae_weight e)),
      (''enabled'', PyBool (ae_enabled e)), (''compatible'', PyBool (ae_compatible e)), (''voting'', PyBool (ae_voting e)),
      (''reason_codes'', strings (ae_reason_codes e)),
      (''input_contributions'', json_pyval (ae_input_contributions e)),
      (''duration_ms'', PyInt (ae_duration_ms e)), (''output'', agent_output_to_dict (ae_output e)),
      (''failure_reason'', py_option PyStr (ae_failure_reason e))]"

record agent_evaluation_matrix =
  am_experiment_id :: uuid
  am_symbol :: string
  am_timeframe :: string
  am_feature_at :: datetime
  am_regime :: "string option"
  am_evaluations :: "agent_evaluation list"

definition agent_matrix_post_init :: "agent_evaluation_matrix \<Rightarrow> agent_evaluation_matrix result" where
  "agent_matrix_post_init m =
     thenE (checks
       [raise_if (am_experiment_id m = 0) (ValueError ''agent matrix experiment_id cannot be nil''),
        raise_if (am_symbol m = [] \<or> am_symbol m \<noteq> upper (am_symbol m) \<or> am_timeframe m = [])
          (ValueError ''agent matrix market identity is invalid''),
        require_utc (am_feature_at m) ''agent matrix feature_at'',
        raise_if (map ae_agent_name (am_evaluations m) \<noteq> ALL_AGENTS)
          (ValueError ''agent evaluation matrix must contain exactly eight ordered rows'')])
     (Inr m)"

definition matrix_items :: "agent_evaluation_matrix \<Rightarrow> (string \<times> pyval) list" where
  "matrix_items m =
     [(''experiment_id'', PyUUID (am_experiment_id m)), (''symbol'', PyStr (am_symbol m)),
      (''timeframe'', PyStr (am_timeframe m)), (''feature_at'', PyDatetime (am_feature_at m)),
      (''regime'', py_option PyStr (am_regime m)),
      (''evaluations'', PySequence (map agent_evaluation_to_dict (am_evaluations m)))]"

definition matrix_content_hash :: "agent_evaluation_matrix \<Rightarrow> string result" where
  "matrix_content_hash m = content_hash (pydict (matrix_items m))"

definition matrix_to_dict :: "agent_evaluation_matrix \<Rightarrow> json result" where
  "matrix_to_dict m =
     bindE (matrix_content_hash m) (\<lambda>h.
     bindE (freeze_json (pydict (matrix_items m @ [(''content_hash'', PyStr h)])))
       (require_mapping ''agent matrix must normalize to an object''))"

section \<open>Running the agents\<close>

record agent =
  ag_name :: string
  ag_compatible_regimes :: "string list"
  ag_analyze :: "feature_set \<Rightarrow> string + agent_output"

definition is_compatible_with_regime :: "agent \<Rightarrow> string option \<Rightarrow> bool" where
  "is_compatible_with_regime a regime \<longleftrightarrow>
     (if ag_compatible_regimes a = [] then True else regime \<in> Some ` set (ag_compatible_regimes a))"

text \<open>
  The readings of the monotonic clock are inputs: the one before an agent's analysis, the one after a
  successful analysis, and the one the exception handler takes, which is a second one when the row
  fails after the first.  A deterministic source has a table.
\<close>

datatype clock_reading = AFTER_ANALYSIS | IN_HANDLER

type_synonym clock_readings = "string \<Rightarrow> int \<times> (clock_reading \<Rightarrow> int)"

datatype duration_source =
    MonotonicDurationSource clock_readings
  | DeterministicDurationSource "(string \<times> int) list"

definition deterministic_duration_source :: "(string \<times> int) list \<Rightarrow> duration_source result" where
  "deterministic_duration_source durations =
     (if list_ex (\<lambda>(name, value). name \<notin> set ALL_AGENTS \<or> value < 0) durations
      then Inl (ValueError ''deterministic agent durations must be named and nonnegative'')
      else Inr (DeterministicDurationSource durations))"

fun elapsed_ms :: "duration_source \<Rightarrow> string \<Rightarrow> clock_reading \<Rightarrow> int" where
  "elapsed_ms (MonotonicDurationSource clock) agent_name reading =
     (case clock agent_name of (started, now) \<Rightarrow> max 0 ((now reading - started) div 1000000))"
| "elapsed_ms (DeterministicDurationSource durations) agent_name reading =
     (case map_of durations agent_name of None \<Rightarrow> 0 | Some ms \<Rightarrow> ms)"

definition source_for :: "run_mode \<Rightarrow> clock_readings \<Rightarrow> duration_source option \<Rightarrow> duration_source" where
  "source_for mode clock durations =
     (case durations of
        Some d \<Rightarrow> d
      | None \<Rightarrow> if mode = REPLAY then DeterministicDurationSource [] else MonotonicDurationSource clock)"

record agent_failure =
  fa_agent_name :: string
  fa_reason_code :: string
  fa_details :: string

datatype matrix_outcome =
    Matrix agent_evaluation_matrix
  | AgentMatrixError string agent_evaluation_matrix "agent_failure list"

definition proxy_label :: "agent_manifest_entry \<Rightarrow> string option" where
  "proxy_label entry =
     (if me_maturity entry \<noteq> PROXY then None
      else if me_agent_name entry = ''macro_sentiment'' then Some ''technical_features_proxy'' else Some ''proxy'')"

definition agent_inputs :: "agent_manifest_entry \<Rightarrow> feature_set \<Rightarrow> json result" where
  "agent_inputs entry features =
     bindE (freeze_json (pydict [(''declared_dependencies'', me_data_dependencies entry),
                                 (''feature_snapshot'', feature_to_dict features)]))
       (require_mapping ''agent inputs must be an object'')"

definition neutral_evaluation ::
  "agent_manifest_entry \<Rightarrow> feature_set \<Rightarrow> bool \<Rightarrow> string \<Rightarrow> string option \<Rightarrow> int \<Rightarrow> agent_evaluation result" where
  "neutral_evaluation entry features compatible reason_code failure_reason duration_ms =
     bindE (agent_inputs entry features) (\<lambda>inputs.
     bindE (neutral_output (if truthy failure_reason then 1 else 5/10)) (\<lambda>output.
       agent_evaluation_post_init
         \<lparr>ae_agent_name = me_agent_name entry, ae_version = me_version entry, ae_maturity = me_maturity entry,
          ae_proxy_label = proxy_label entry, ae_weight = me_weight entry, ae_enabled = me_enabled entry,
          ae_compatible = compatible, ae_voting = False, ae_reason_codes = [reason_code],
          ae_input_contributions = inputs, ae_duration_ms = duration_ms, ae_output = output,
          ae_failure_reason = failure_reason\<rparr>))"

definition voting_evaluation ::
  "agent_manifest_entry \<Rightarrow> feature_set \<Rightarrow> int \<Rightarrow> agent_output_snapshot \<Rightarrow> agent_evaluation result" where
  "voting_evaluation entry features duration_ms snapshot =
     bindE (agent_inputs entry features) (\<lambda>inputs.
       agent_evaluation_post_init
         \<lparr>ae_agent_name = me_agent_name entry, ae_version = me_version entry, ae_maturity = me_maturity entry,
          ae_proxy_label = proxy_label entry, ae_weight = me_weight entry, ae_enabled = True,
          ae_compatible = True, ae_voting = True, ae_reason_codes = [''agent_evaluated''],
          ae_input_contributions = inputs, ae_duration_ms = duration_ms, ae_output = snapshot,
          ae_failure_reason = None\<rparr>)"

text \<open>\<open>type(exc).__name__: exc\<close> for the exceptions the row itself can raise.\<close>

fun error_text :: "py_error \<Rightarrow> string" where
  "error_text (ValueError m) = ''ValueError: '' @ m"
| "error_text (TypeError m) = ''TypeError: '' @ m"
| "error_text _ = ''Exception: ''"

definition analyzed_row ::
  "agent_manifest_entry \<Rightarrow> feature_set \<Rightarrow> int \<Rightarrow> agent \<Rightarrow> string + agent_evaluation" where
  "analyzed_row entry features duration_ms a =
     (case ag_analyze a features of
        Inl details \<Rightarrow> Inl details
      | Inr output \<Rightarrow>
          (case (if ao_agent_name output \<noteq> me_agent_name entry
                 then Inl (ValueError (''agent output identity '' @ [CHR 0x27] @ ao_agent_name output @ [CHR 0x27] @
                        '' differs from '' @ [CHR 0x27] @ me_agent_name entry @ [CHR 0x27]))
                 else bindE (from_legacy output) (voting_evaluation entry features duration_ms)) of
             Inl e \<Rightarrow> Inl (error_text e)
           | Inr row \<Rightarrow> Inr row))"

definition evaluate_agent ::
  "feature_set \<Rightarrow> duration_source \<Rightarrow> agent \<Rightarrow> agent_manifest_entry \<Rightarrow> (agent_evaluation \<times> agent_failure option) result" where
  "evaluate_agent features source a entry =
     (let compatible = is_compatible_with_regime a (ft_regime features)
      in if \<not> me_enabled entry
         then bindE (neutral_evaluation entry features compatible ''disabled_agent'' None 0) (\<lambda>row. Inr (row, None))
         else if \<not> compatible
         then bindE (neutral_evaluation entry features False ''incompatible_regime'' None 0) (\<lambda>row. Inr (row, None))
         else (case analyzed_row entry features (elapsed_ms source (me_agent_name entry) AFTER_ANALYSIS) a of
             Inr row \<Rightarrow> Inr (row, None)
           | Inl details \<Rightarrow>
               bindE (neutral_evaluation entry features True ''agent_exception'' (Some details)
                        (elapsed_ms source (me_agent_name entry) IN_HANDLER)) (\<lambda>row.
                 Inr (row, Some \<lparr>fa_agent_name = me_agent_name entry, fa_reason_code = ''agent_exception'',
                                 fa_details = details\<rparr>))))"

definition matrix_of :: "uuid \<Rightarrow> feature_set \<Rightarrow> agent_evaluation list \<Rightarrow> agent_evaluation_matrix result" where
  "matrix_of experiment_id features rows =
     agent_matrix_post_init
       \<lparr>am_experiment_id = experiment_id, am_symbol = ft_symbol features, am_timeframe = ft_timeframe features,
        am_feature_at = ft_timestamp features, am_regime = ft_regime features, am_evaluations = rows\<rparr>"

definition registry_reason :: "agent list \<Rightarrow> string \<Rightarrow> string" where
  "registry_reason registry name =
     (let count = length (filter (\<lambda>a. ag_name a = name) registry)
      in if count = 0 then ''agent_missing'' else if count > 1 then ''agent_duplicate'' else ''agent_registry_invalid'')"

definition registry_failures :: "agent_manifest_entry list \<Rightarrow> agent list \<Rightarrow> agent_failure list" where
  "registry_failures entries registry =
     concat (map (\<lambda>entry.
       let reason = registry_reason registry (me_agent_name entry)
       in if reason = ''agent_missing''
          then [\<lparr>fa_agent_name = me_agent_name entry, fa_reason_code = reason, fa_details = ''configured agent is missing''\<rparr>]
          else if reason = ''agent_duplicate''
          then [\<lparr>fa_agent_name = me_agent_name entry, fa_reason_code = reason,
                 fa_details = ''configured agent appears more than once''\<rparr>]
          else []) entries) @
     map (\<lambda>name. \<lparr>fa_agent_name = name, fa_reason_code = ''agent_unknown'', fa_details = ''unknown registry agent''\<rparr>)
       (sort (filter (\<lambda>name. name \<notin> set ALL_AGENTS) (remdups (map ag_name registry))))"

definition registry_failure_matrix ::
  "experiment_manifest \<Rightarrow> feature_set \<Rightarrow> agent list \<Rightarrow> (agent_evaluation_matrix \<times> agent_failure list) result" where
  "registry_failure_matrix manifest features registry =
     bindE (mapE (\<lambda>entry. let reason = registry_reason registry (me_agent_name entry)
                          in neutral_evaluation entry features False reason (Some reason) 0) (em_agent_versions manifest)) (\<lambda>rows.
     bindE (matrix_of (em_experiment_id manifest) features rows) (\<lambda>matrix.
       Inr (matrix, registry_failures (em_agent_versions manifest) registry)))"

definition registry_ok :: "agent list \<Rightarrow> bool" where
  "registry_ok registry \<longleftrightarrow> set (map ag_name registry) = set ALL_AGENTS \<and> distinct (map ag_name registry)"

definition evaluate_entry ::
  "feature_set \<Rightarrow> duration_source \<Rightarrow> agent list \<Rightarrow> agent_manifest_entry \<Rightarrow> (agent_evaluation \<times> agent_failure option) result" where
  "evaluate_entry features source registry entry =
     (case find (\<lambda>a. ag_name a = me_agent_name entry) registry of
        None \<Rightarrow> Inl (LookupError (me_agent_name entry))
      | Some a \<Rightarrow> evaluate_agent features source a entry)"

definition run_agent_matrix ::
  "feature_set \<Rightarrow> experiment_manifest \<Rightarrow> agent list \<Rightarrow> duration_source option \<Rightarrow> clock_readings
     \<Rightarrow> matrix_outcome result" where
  "run_agent_matrix features manifest registry durations clock =
     (if \<not> registry_ok registry
      then bindE (registry_failure_matrix manifest features registry) (\<lambda>(matrix, failures).
             Inr (AgentMatrixError ''agent registry does not match the manifest'' matrix failures))
      else bindE (mapE (evaluate_entry features (source_for (em_mode manifest) clock durations) registry)
                    (em_agent_versions manifest)) (\<lambda>results.
           bindE (matrix_of (em_experiment_id manifest) features (map fst results)) (\<lambda>matrix.
           let failures = List.map_filter snd results
           in if failures \<noteq> []
              then Inr (AgentMatrixError ''one or more mandatory agents failed'' matrix failures)
              else Inr (Matrix matrix))))"

end
