(* ===== verification/Decision.thy ===== *)
theory Decision
  imports Agents
begin

text \<open>
  \<^verbatim>\<open>maais/decision/official.py\<close>: the weighted consensus of the agents' votes, the challenge by the
  dissenters, the expected value of the trade after costs, and the alpha over a benchmark.
\<close>

section \<open>Policy and analysis\<close>

record official_decision_policy =
  dp_adversarial_block_threshold :: decimal
  dp_round_trip_fee_fraction :: decimal
  dp_atr_slippage_multiplier :: decimal
  dp_spread_impact_multiplier :: decimal
  dp_maximum_expected_move_fraction :: decimal
  dp_minimum_directional_voters :: int

definition require_policy_nonneg :: "decimal \<Rightarrow> string \<Rightarrow> unit result" where
  "require_policy_nonneg x name = raise_if (x < 0) (ValueError (name @ '' must be nonnegative and finite''))"

definition decision_policy_post_init :: "official_decision_policy \<Rightarrow> official_decision_policy result" where
  "decision_policy_post_init p =
     thenE (checks
       [require_policy_nonneg (dp_adversarial_block_threshold p) ''adversarial_block_threshold'',
        require_policy_nonneg (dp_round_trip_fee_fraction p) ''round_trip_fee_fraction'',
        require_policy_nonneg (dp_atr_slippage_multiplier p) ''atr_slippage_multiplier'',
        require_policy_nonneg (dp_spread_impact_multiplier p) ''spread_impact_multiplier'',
        require_policy_nonneg (dp_maximum_expected_move_fraction p) ''maximum_expected_move_fraction'',
        raise_if (dp_adversarial_block_threshold p > 1) (ValueError ''adversarial threshold cannot exceed one''),
        raise_if (dp_minimum_directional_voters p \<le> 0) (ValueError ''minimum directional voters must be positive'')])
     (Inr p)"

definition BINANCE_USDM_REGULAR_TAKER_FEE_RATE :: decimal where
  "BINANCE_USDM_REGULAR_TAKER_FEE_RATE = 5 / 10000"

definition conservative_decision_policy :: "decimal \<Rightarrow> official_decision_policy result" where
  "conservative_decision_policy taker_fee_fraction =
     thenE (raise_if (taker_fee_fraction < 0 \<or> taker_fee_fraction > 1 / 100)
       (ValueError ''taker fee fraction must be a finite Decimal in [0, 0.01]''))
     (decision_policy_post_init
        \<lparr>dp_adversarial_block_threshold = 65 / 100, dp_round_trip_fee_fraction = dmul taker_fee_fraction 2,
         dp_atr_slippage_multiplier = 5 / 10, dp_spread_impact_multiplier = 3 / 10,
         dp_maximum_expected_move_fraction = 20 / 100, dp_minimum_directional_voters = 2\<rparr>)"

record official_decision_analysis =
  da_direction :: direction
  da_consensus_probability :: decimal
  da_consensus_confidence :: decimal
  da_long_weight :: decimal
  da_short_weight :: decimal
  da_neutral_weight :: decimal
  da_directional_voters :: int
  da_consensus_passed :: bool
  da_consensus_reason :: string
  da_dissenters :: "string list"
  da_dissent_probability :: decimal
  da_dissent_confidence :: decimal
  da_challenge_blocked :: bool
  da_expected_gain :: decimal
  da_expected_loss :: decimal
  da_gross_ev :: decimal
  da_funding_carry :: decimal
  da_estimated_cost :: decimal
  da_net_ev :: decimal
  da_ev_positive :: bool
  da_ev_reason :: string
  da_benchmark_available :: bool
  da_benchmark_return :: decimal
  da_alpha_estimate :: decimal
  da_alpha_positive :: bool
  da_alpha_reason :: string
  da_consensus_snapshot :: json
  da_adversarial_snapshot :: json
  da_ev_snapshot :: json
  da_cost_snapshot :: json
  da_content_hash :: string

definition require_probability :: "decimal \<Rightarrow> string \<Rightarrow> unit result" where
  "require_probability x name = raise_if (x < 0 \<or> x > 1) (ValueError (name @ '' must be a finite Decimal in [0, 1]''))"

definition frozen_object :: "string \<Rightarrow> json \<Rightarrow> json result" where
  "frozen_object name j = bindE (freeze_json (json_pyval j)) (require_mapping (name @ '' must be an object''))"

definition decision_analysis_post_init :: "official_decision_analysis \<Rightarrow> official_decision_analysis result" where
  "decision_analysis_post_init a =
     thenE (checks
       [require_probability (da_consensus_probability a) ''consensus_probability'',
        require_probability (da_consensus_confidence a) ''consensus_confidence'',
        require_probability (da_dissent_probability a) ''dissent_probability'',
        require_probability (da_dissent_confidence a) ''dissent_confidence'',
        require_policy_nonneg (da_long_weight a) ''long_weight'',
        require_policy_nonneg (da_short_weight a) ''short_weight'',
        require_policy_nonneg (da_neutral_weight a) ''neutral_weight'',
        require_policy_nonneg (da_expected_gain a) ''expected_gain'',
        require_policy_nonneg (da_expected_loss a) ''expected_loss'',
        require_policy_nonneg (da_estimated_cost a) ''estimated_cost'',
        raise_if (da_direction a = NEUTRAL \<and> da_consensus_passed a) (ValueError ''neutral consensus cannot pass''),
        raise_if (da_ev_positive a \<noteq> (da_net_ev a > 0)) (ValueError ''EV verdict differs from net EV''),
        raise_if (da_alpha_positive a \<noteq> (da_benchmark_available a \<and> da_alpha_estimate a > 0))
          (ValueError ''alpha verdict differs from alpha estimate''),
        raise_if (length (da_content_hash a) \<noteq> 64) (ValueError ''official decision content hash must be SHA-256'')])
     (bindE (frozen_object ''consensus_snapshot'' (da_consensus_snapshot a)) (\<lambda>consensus.
      bindE (frozen_object ''adversarial_snapshot'' (da_adversarial_snapshot a)) (\<lambda>adversarial.
      bindE (frozen_object ''ev_snapshot'' (da_ev_snapshot a)) (\<lambda>ev.
      bindE (frozen_object ''cost_snapshot'' (da_cost_snapshot a)) (\<lambda>cost.
        Inr (a\<lparr>da_consensus_snapshot := consensus, da_adversarial_snapshot := adversarial,
               da_ev_snapshot := ev, da_cost_snapshot := cost\<rparr>))))))"

section \<open>Consensus\<close>

definition votes_for :: "direction \<Rightarrow> agent_evaluation list \<Rightarrow> agent_evaluation list" where
  "votes_for d rows = filter (\<lambda>e. ou_direction (ae_output e) = d) rows"

definition directional_rows :: "agent_evaluation_matrix \<Rightarrow> agent_evaluation list" where
  "directional_rows m =
     filter (\<lambda>e. ae_voting e \<and> (ou_direction (ae_output e) = LONG \<or> ou_direction (ae_output e) = SHORT)) (am_evaluations m)"

definition neutral_rows :: "agent_evaluation_matrix \<Rightarrow> agent_evaluation list" where
  "neutral_rows m = filter (\<lambda>e. \<not> ae_voting e \<or> ou_direction (ae_output e) = NEUTRAL) (am_evaluations m)"

definition total_weight :: "agent_evaluation list \<Rightarrow> decimal" where
  "total_weight rows = dsum (map ae_weight rows)"

text \<open>The weighted mean of an output over some rows.\<close>

definition weighted_mean :: "(agent_output_snapshot \<Rightarrow> decimal) \<Rightarrow> agent_evaluation list \<Rightarrow> decimal" where
  "weighted_mean g rows = ddiv (dsum (map (\<lambda>e. dmul (ae_weight e) (g (ae_output e))) rows)) (total_weight rows)"

definition consensus_direction :: "official_decision_policy \<Rightarrow> agent_evaluation_matrix \<Rightarrow> direction \<times> string" where
  "consensus_direction p m =
     (let directional = directional_rows m;
          long_weight = total_weight (votes_for LONG directional);
          short_weight = total_weight (votes_for SHORT directional)
      in if int (length directional) < dp_minimum_directional_voters p then (NEUTRAL, ''insufficient_directional_voters'')
         else if long_weight = short_weight then (NEUTRAL, ''directional_weight_tie'')
         else if long_weight > short_weight then (LONG, ''long_weight_majority'')
         else (SHORT, ''short_weight_majority''))"

text \<open>Probability and confidence of the winners, and of the dissenters.\<close>

definition winner_view :: "agent_evaluation_matrix \<Rightarrow> direction \<Rightarrow> decimal \<times> decimal" where
  "winner_view m d =
     (let winners = votes_for (if d = LONG then LONG else SHORT) (directional_rows m)
      in if d = NEUTRAL \<or> total_weight winners = 0 then (5 / 10, 0)
         else (weighted_mean ou_probability winners, weighted_mean ou_confidence winners))"

definition minority_direction :: "direction \<Rightarrow> direction" where
  "minority_direction d = (if d = LONG then SHORT else LONG)"

definition dissenting_rows :: "agent_evaluation_matrix \<Rightarrow> direction \<Rightarrow> agent_evaluation list" where
  "dissenting_rows m d = votes_for (minority_direction d) (directional_rows m)"

definition dissent_view :: "agent_evaluation_matrix \<Rightarrow> direction \<Rightarrow> decimal \<times> decimal" where
  "dissent_view m d =
     (let dissenters = dissenting_rows m d
      in if d = NEUTRAL \<or> total_weight dissenters = 0 then (0, 0)
         else (weighted_mean ou_probability dissenters, weighted_mean ou_confidence dissenters))"

section \<open>Expected value\<close>

fun feature_decimal :: "float_value option \<Rightarrow> decimal option" where
  "feature_decimal (Some (Finite x r)) = Some x"
| "feature_decimal _ = None"

definition funding_carry :: "feature_set \<Rightarrow> direction \<Rightarrow> decimal" where
  "funding_carry f d =
     (case feature_decimal (ft_annualized_funding f) of
        None \<Rightarrow> 0
      | Some annualized \<Rightarrow>
          if ft_funding_bias f \<noteq> Some ''long_heavy'' \<and> ft_funding_bias f \<noteq> Some ''short_heavy'' then 0
          else let per_period = ddiv (dabs annualized) (365 * 3);
                   rewarded = (if ft_funding_bias f = Some ''long_heavy'' then d = SHORT else d = LONG)
               in if rewarded then per_period else dneg per_period)"

record ev_figures =
  ev_gain :: decimal
  ev_loss :: decimal
  ev_gross :: decimal
  ev_carry :: decimal
  ev_cost :: decimal
  ev_net :: decimal
  ev_why :: string

definition move_available :: "official_decision_policy \<Rightarrow> decimal option \<Rightarrow> decimal \<Rightarrow> bool" where
  "move_available p atr price =
     (case atr of None \<Rightarrow> False | Some a \<Rightarrow> a > 0 \<and> ddiv a price \<le> dp_maximum_expected_move_fraction p)"

definition costed_ev :: "official_decision_policy \<Rightarrow> feature_set \<Rightarrow> direction \<Rightarrow> decimal \<Rightarrow> decimal \<Rightarrow> decimal \<Rightarrow> ev_figures" where
  "costed_ev p f d probability move spread =
     (let gross = dsub (dmul probability move) (dmul (dsub 1 probability) move);
          carry = funding_carry f d;
          slippage = dadd (dmul move (dp_atr_slippage_multiplier p)) (dmul spread (dp_spread_impact_multiplier p));
          cost = dadd (dp_round_trip_fee_fraction p) slippage;
          net = dsub (dadd gross carry) cost
      in \<lparr>ev_gain = move, ev_loss = move, ev_gross = gross, ev_carry = carry, ev_cost = cost, ev_net = net,
          ev_why = (if net > 0 then ''positive_ev'' else ''non_positive_ev'')\<rparr>)"

definition decision_ev ::
  "official_decision_policy \<Rightarrow> feature_set \<Rightarrow> direction \<Rightarrow> decimal \<Rightarrow> decimal \<Rightarrow> ev_figures result" where
  "decision_ev p f d probability price =
     (let atr = feature_decimal (ft_atr f);
          spread = feature_decimal (ft_bid_ask_spread f);
          none = \<lparr>ev_gain = 0, ev_loss = 0, ev_gross = 0, ev_carry = 0, ev_cost = 0, ev_net = 0, ev_why = []\<rparr>
      in if d = NEUTRAL \<or> \<not> move_available p atr price
         then Inr (none\<lparr>ev_why := (if d = NEUTRAL then ''neutral_consensus''
                     else if atr = None \<or> the atr \<le> 0 then ''expected_move_unavailable''
                     else ''expected_move_out_of_bounds'')\<rparr>)
         else case atr of
           None \<Rightarrow> Inl (RuntimeError ''available expected move unexpectedly has no ATR'')
         | Some a \<Rightarrow>
             Inr (case spread of
                    Some s \<Rightarrow>
                      if s \<ge> 0 then costed_ev p f d probability (ddiv a price) s
                      else none\<lparr>ev_gain := ddiv a price, ev_loss := ddiv a price, ev_why := ''cost_inputs_unavailable''\<rparr>
                  | None \<Rightarrow> none\<lparr>ev_gain := ddiv a price, ev_loss := ddiv a price, ev_why := ''cost_inputs_unavailable''\<rparr>))"

section \<open>The evaluation\<close>

definition decision_object :: "(string \<times> pyval) list \<Rightarrow> json result" where
  "decision_object kvs =
     bindE (freeze_json (pydict kvs)) (require_mapping ''official decision snapshot must be an object'')"

definition direction_pyval :: "direction \<Rightarrow> pyval" where
  "direction_pyval d = PyEnum (PyStr (direction_value d))"

definition consensus_items :: "official_decision_policy \<Rightarrow> agent_evaluation_matrix \<Rightarrow> string \<Rightarrow> (string \<times> pyval) list" where
  "consensus_items p m matrix_hash =
     (let (d, reason) = consensus_direction p m; (probability, confidence) = winner_view m d
      in [(''direction'', direction_pyval d), (''reason'', PyStr reason), (''probability'', PyDecimal probability),
          (''confidence'', PyDecimal confidence),
          (''long_weight'', PyDecimal (total_weight (votes_for LONG (directional_rows m)))),
          (''short_weight'', PyDecimal (total_weight (votes_for SHORT (directional_rows m)))),
          (''neutral_weight'', PyDecimal (total_weight (neutral_rows m))),
          (''directional_voters'', PyInt (int (length (directional_rows m)))), (''matrix_hash'', PyStr matrix_hash)])"

definition challenge_blocked :: "official_decision_policy \<Rightarrow> agent_evaluation_matrix \<Rightarrow> direction \<Rightarrow> bool" where
  "challenge_blocked p m d \<longleftrightarrow>
     d \<noteq> NEUTRAL \<and> dissenting_rows m d \<noteq> [] \<and> snd (dissent_view m d) \<ge> dp_adversarial_block_threshold p"

definition adversarial_items :: "official_decision_policy \<Rightarrow> agent_evaluation_matrix \<Rightarrow> direction \<Rightarrow> (string \<times> pyval) list" where
  "adversarial_items p m d =
     [(''majority_direction'', direction_pyval d),
      (''minority_direction'', direction_pyval (if d \<noteq> NEUTRAL then minority_direction d else NEUTRAL)),
      (''dissenters'', strings (map ae_agent_name (dissenting_rows m d))),
      (''dissent_probability'', PyDecimal (fst (dissent_view m d))),
      (''dissent_confidence'', PyDecimal (snd (dissent_view m d))),
      (''challenge_blocked'', PyBool (challenge_blocked p m d)),
      (''threshold'', PyDecimal (dp_adversarial_block_threshold p))]"

definition cost_items :: "official_decision_policy \<Rightarrow> feature_set \<Rightarrow> ev_figures \<Rightarrow> (string \<times> pyval) list" where
  "cost_items p f e =
     [(''round_trip_fee_fraction'', PyDecimal (dp_round_trip_fee_fraction p)),
      (''atr_slippage_multiplier'', PyDecimal (dp_atr_slippage_multiplier p)),
      (''spread_impact_multiplier'', PyDecimal (dp_spread_impact_multiplier p)),
      (''maximum_expected_move_fraction'', PyDecimal (dp_maximum_expected_move_fraction p)),
      (''spread_fraction'', py_option PyDecimal (feature_decimal (ft_bid_ask_spread f))),
      (''estimated_cost'', PyDecimal (ev_cost e))]"

definition alpha_of :: "ev_figures \<Rightarrow> decimal option \<Rightarrow> decimal" where
  "alpha_of e benchmark_return = dsub (ev_net e) (case benchmark_return of None \<Rightarrow> 0 | Some b \<Rightarrow> b)"

definition alpha_positive :: "ev_figures \<Rightarrow> decimal option \<Rightarrow> bool" where
  "alpha_positive e benchmark_return \<longleftrightarrow> benchmark_return \<noteq> None \<and> alpha_of e benchmark_return > 0"

definition alpha_reason :: "ev_figures \<Rightarrow> decimal option \<Rightarrow> string" where
  "alpha_reason e benchmark_return =
     (if benchmark_return = None then ''benchmark_unavailable''
      else if alpha_positive e benchmark_return then ''positive_alpha'' else ''non_positive_alpha'')"

definition ev_items :: "decimal \<Rightarrow> ev_figures \<Rightarrow> decimal option \<Rightarrow> (string \<times> pyval) list" where
  "ev_items probability e benchmark_return =
     [(''p_win'', PyDecimal probability), (''p_loss'', PyDecimal (dsub 1 probability)),
      (''expected_gain'', PyDecimal (ev_gain e)), (''expected_loss'', PyDecimal (ev_loss e)),
      (''gross_ev'', PyDecimal (ev_gross e)), (''funding_carry'', PyDecimal (ev_carry e)),
      (''estimated_cost'', PyDecimal (ev_cost e)), (''net_ev'', PyDecimal (ev_net e)), (''ev_reason'', PyStr (ev_why e)),
      (''benchmark_available'', PyBool (benchmark_return \<noteq> None)),
      (''benchmark_return'', py_option PyDecimal benchmark_return),
      (''alpha_estimate'', PyDecimal (alpha_of e benchmark_return)),
      (''alpha_reason'', PyStr (alpha_reason e benchmark_return))]"

definition decision_identity :: "feature_set \<Rightarrow> agent_evaluation_matrix \<Rightarrow> decimal \<Rightarrow> unit result" where
  "decision_identity f m executable_price = checks
     [raise_if (executable_price \<le> 0) (ValueError ''executable price must be a positive finite Decimal''),
      raise_if (am_symbol m \<noteq> ft_symbol f \<or> am_timeframe m \<noteq> ft_timeframe f \<or> \<not> dt_eq (am_feature_at m) (ft_timestamp f) \<or>
          am_regime m \<noteq> ft_regime f)
        (ValueError ''agent matrix and feature identity differ'')]"

text \<open>The analysis the constructor is called with, from the direction, the figures and the snapshots.\<close>

definition decision_record ::
  "official_decision_policy \<Rightarrow> agent_evaluation_matrix \<Rightarrow> decimal option \<Rightarrow> direction \<Rightarrow> string \<Rightarrow> ev_figures
     \<Rightarrow> json \<Rightarrow> json \<Rightarrow> json \<Rightarrow> json \<Rightarrow> string \<Rightarrow> official_decision_analysis" where
  "decision_record p m benchmark_return d reason e consensus adversarial cost ev h =
     \<lparr>da_direction = d, da_consensus_probability = fst (winner_view m d), da_consensus_confidence = snd (winner_view m d),
      da_long_weight = total_weight (votes_for LONG (directional_rows m)),
      da_short_weight = total_weight (votes_for SHORT (directional_rows m)),
      da_neutral_weight = total_weight (neutral_rows m),
      da_directional_voters = int (length (directional_rows m)), da_consensus_passed = (d \<noteq> NEUTRAL),
      da_consensus_reason = reason, da_dissenters = map ae_agent_name (dissenting_rows m d),
      da_dissent_probability = fst (dissent_view m d), da_dissent_confidence = snd (dissent_view m d),
      da_challenge_blocked = challenge_blocked p m d,
      da_expected_gain = ev_gain e, da_expected_loss = ev_loss e, da_gross_ev = ev_gross e,
      da_funding_carry = ev_carry e, da_estimated_cost = ev_cost e, da_net_ev = ev_net e,
      da_ev_positive = (ev_net e > 0), da_ev_reason = ev_why e,
      da_benchmark_available = (benchmark_return \<noteq> None),
      da_benchmark_return = (case benchmark_return of None \<Rightarrow> 0 | Some b \<Rightarrow> b),
      da_alpha_estimate = alpha_of e benchmark_return, da_alpha_positive = alpha_positive e benchmark_return,
      da_alpha_reason = alpha_reason e benchmark_return, da_consensus_snapshot = consensus,
      da_adversarial_snapshot = adversarial, da_ev_snapshot = ev, da_cost_snapshot = cost,
      da_content_hash = h\<rparr>"

definition decision_evaluate ::
  "official_decision_policy \<Rightarrow> feature_set \<Rightarrow> agent_evaluation_matrix \<Rightarrow> decimal \<Rightarrow> decimal option
     \<Rightarrow> official_decision_analysis result" where
  "decision_evaluate p f m executable_price benchmark_return =
     thenE (decision_identity f m executable_price)
     (let (d, reason) = consensus_direction p m;
          probability = fst (winner_view m d)
      in bindE (decision_ev p f d probability executable_price) (\<lambda>e.
         bindE (matrix_content_hash m) (\<lambda>matrix_hash.
         bindE (decision_object (consensus_items p m matrix_hash)) (\<lambda>consensus.
         bindE (decision_object (adversarial_items p m d)) (\<lambda>adversarial.
         bindE (decision_object (cost_items p f e)) (\<lambda>cost.
         bindE (decision_object (ev_items probability e benchmark_return)) (\<lambda>ev.
         bindE (content_hash (pydict [(''consensus'', json_pyval consensus), (''adversarial'', json_pyval adversarial),
                                      (''cost'', json_pyval cost), (''ev'', json_pyval ev)])) (\<lambda>h.
           decision_analysis_post_init
             (decision_record p m benchmark_return d reason e consensus adversarial cost ev h)))))))))"

end
