(* ===== verification/Agent_Matrix.thy ===== *)
theory Agent_Matrix
  imports Agents
begin

text \<open>
  What a run of the agents guarantees: every vote is the vote of an enabled, compatible agent, and a
  run on finite features always ends in a full matrix that names every failed agent.
\<close>

section \<open>Rows\<close>

lemma agent_evaluation_post_init_result:
  "agent_evaluation_post_init e = Inr e' \<Longrightarrow> e' = e"
  by (auto simp: agent_evaluation_post_init_def result_simps freeze_json_pyval simp del: json_pyval.simps)

lemma neutral_evaluation_result:
  assumes "neutral_evaluation entry f c reason failure ms = Inr row"
  shows "ae_agent_name row = me_agent_name entry" "ae_weight row = me_weight entry" "\<not> ae_voting row"
    "ou_direction (ae_output row) = NEUTRAL" "ou_confidence (ae_output row) = 0" "ae_reason_codes row = [reason]"
    "ae_failure_reason row = failure" "agent_evaluation_post_init row = Inr row"
proof -
  obtain i o' where o: "neutral_output (if truthy failure then 1 else 5/10) = Inr o'" and
    r: "agent_evaluation_post_init
         \<lparr>ae_agent_name = me_agent_name entry, ae_version = me_version entry, ae_maturity = me_maturity entry,
          ae_proxy_label = proxy_label entry, ae_weight = me_weight entry, ae_enabled = me_enabled entry,
          ae_compatible = c, ae_voting = False, ae_reason_codes = [reason],
          ae_input_contributions = i, ae_duration_ms = ms, ae_output = o',
          ae_failure_reason = failure\<rparr> = Inr row"
    using assms by (auto simp: neutral_evaluation_def bindE_Inr_iff)
  have "ou_direction o' = NEUTRAL" "ou_confidence o' = 0"
    using o by (auto simp: neutral_output_def agent_output_post_init_def result_simps)
  with r show "ae_agent_name row = me_agent_name entry" "ae_weight row = me_weight entry" "\<not> ae_voting row"
    "ou_direction (ae_output row) = NEUTRAL" "ou_confidence (ae_output row) = 0" "ae_reason_codes row = [reason]"
    "ae_failure_reason row = failure" "agent_evaluation_post_init row = Inr row"
    using agent_evaluation_post_init_result [OF r] by simp_all
qed

lemma voting_evaluation_result:
  assumes "voting_evaluation entry f ms o' = Inr row"
  shows "ae_agent_name row = me_agent_name entry" "ae_weight row = me_weight entry" "ae_voting row"
    "ae_output row = o'" "ae_failure_reason row = None" "agent_evaluation_post_init row = Inr row"
proof -
  obtain i where r: "agent_evaluation_post_init
         \<lparr>ae_agent_name = me_agent_name entry, ae_version = me_version entry, ae_maturity = me_maturity entry,
          ae_proxy_label = proxy_label entry, ae_weight = me_weight entry, ae_enabled = True,
          ae_compatible = True, ae_voting = True, ae_reason_codes = [''agent_evaluated''],
          ae_input_contributions = i, ae_duration_ms = ms, ae_output = o',
          ae_failure_reason = None\<rparr> = Inr row"
    using assms by (auto simp: voting_evaluation_def bindE_Inr_iff)
  from r show "ae_agent_name row = me_agent_name entry" "ae_weight row = me_weight entry" "ae_voting row"
    "ae_output row = o'" "ae_failure_reason row = None" "agent_evaluation_post_init row = Inr row"
    using agent_evaluation_post_init_result [OF r] by simp_all
qed

text \<open>What a row says about the agent: it votes with the agent's own output, abstains, or records a failure.\<close>

definition casts_vote :: "feature_set \<Rightarrow> agent_manifest_entry \<Rightarrow> agent \<Rightarrow> agent_evaluation \<Rightarrow> bool" where
  "casts_vote f entry a row \<longleftrightarrow>
     ae_voting row \<and> ae_failure_reason row = None \<and>
     (\<exists>o'. ag_analyze a f = Inr o' \<and> ao_agent_name o' = me_agent_name entry \<and> from_legacy o' = Inr (ae_output row))"

definition abstains :: "agent_evaluation \<Rightarrow> bool" where
  "abstains row \<longleftrightarrow> \<not> ae_voting row \<and> ou_direction (ae_output row) = NEUTRAL \<and> ou_confidence (ae_output row) = 0"

lemma evaluate_agent_result:
  assumes "evaluate_agent f src a entry = Inr (row, failure)"
  shows "ae_agent_name row = me_agent_name entry \<and> ae_weight row = me_weight entry \<and> agent_evaluation_post_init row = Inr row
    \<and> (if me_enabled entry \<and> is_compatible_with_regime a (ft_regime f)
       then (case failure of
               None \<Rightarrow> casts_vote f entry a row
             | Some x \<Rightarrow> abstains row \<and> ae_failure_reason row = Some (fa_details x) \<and> fa_agent_name x = me_agent_name entry)
       else failure = None \<and> abstains row \<and> ae_failure_reason row = None)"
proof (cases "me_enabled entry \<and> is_compatible_with_regime a (ft_regime f)")
  case False
  then obtain c reason where "neutral_evaluation entry f c reason None 0 = Inr row" "failure = None"
    using assms by (auto simp: evaluate_agent_def Let_def result_simps split: if_splits)
  with False show ?thesis by (auto simp: abstains_def dest: neutral_evaluation_result)
next
  case True
  show ?thesis
  proof (cases "analyzed_row entry f (elapsed_ms src (me_agent_name entry) AFTER_ANALYSIS) a")
    case (Inl d)
    then have "neutral_evaluation entry f True ''agent_exception'' (Some d) (elapsed_ms src (me_agent_name entry) IN_HANDLER) = Inr row"
      "failure = Some \<lparr>fa_agent_name = me_agent_name entry, fa_reason_code = ''agent_exception'', fa_details = d\<rparr>"
      using assms True by (auto simp: evaluate_agent_def Let_def result_simps)
    with True show ?thesis by (auto simp: abstains_def dest: neutral_evaluation_result)
  next
    case (Inr r)
    then have r: "r = row" "failure = None" using assms True by (auto simp: evaluate_agent_def Let_def)
    obtain o' p where "ag_analyze a f = Inr o'" "ao_agent_name o' = me_agent_name entry" "from_legacy o' = Inr p"
      "voting_evaluation entry f (elapsed_ms src (me_agent_name entry) AFTER_ANALYSIS) p = Inr row"
      using Inr r by (auto simp: analyzed_row_def bindE_Inr_iff split: sum.splits if_splits)
    with True r show ?thesis by (auto simp: casts_vote_def dest: voting_evaluation_result)
  qed
qed

section \<open>The run\<close>

fun outcome_matrix :: "matrix_outcome \<Rightarrow> agent_evaluation_matrix" where
  "outcome_matrix (Matrix m) = m"
| "outcome_matrix (AgentMatrixError message m failures) = m"

fun outcome_failures :: "matrix_outcome \<Rightarrow> agent_failure list" where
  "outcome_failures (Matrix m) = []"
| "outcome_failures (AgentMatrixError message m failures) = failures"

abbreviation outcome_rows :: "matrix_outcome \<Rightarrow> agent_evaluation list" where
  "outcome_rows out \<equiv> am_evaluations (outcome_matrix out)"

lemma matrix_of_result:
  "matrix_of i f rows = Inr m \<Longrightarrow> am_evaluations m = rows \<and> map ae_agent_name rows = ALL_AGENTS"
  by (auto simp: matrix_of_def agent_matrix_post_init_def result_simps)

lemma length_ALL_AGENTS [simp]: "length ALL_AGENTS = 8"
  by (simp add: ALL_AGENTS_def)

lemma run_agent_matrix_cases:
  assumes "run_agent_matrix f m registry d clock = Inr out" and "registry_ok registry"
  obtains results where
    "mapE (evaluate_entry f (source_for (em_mode m) clock d) registry) (em_agent_versions m) = Inr results"
    "outcome_rows out = map fst results" "map ae_agent_name (map fst results) = ALL_AGENTS"
    "outcome_failures out = List.map_filter snd results" "(\<exists>x. out = Matrix x) \<longleftrightarrow> List.map_filter snd results = []"
proof -
  obtain results x where r: "mapE (evaluate_entry f (source_for (em_mode m) clock d) registry) (em_agent_versions m) = Inr results"
    "matrix_of (em_experiment_id m) f (map fst results) = Inr x"
    "out = (if List.map_filter snd results \<noteq> []
            then AgentMatrixError ''one or more mandatory agents failed'' x (List.map_filter snd results) else Matrix x)"
    using assms by (auto simp: run_agent_matrix_def Let_def bindE_Inr_iff split: if_splits)
  show thesis using that [OF r(1)] matrix_of_result [OF r(2)] r(3) by (simp split: if_splits)
qed

lemma evaluate_entry_result:
  assumes "evaluate_entry f src registry e = Inr (row, failure)"
  obtains a where "a \<in> set registry" "ag_name a = me_agent_name e" "evaluate_agent f src a e = Inr (row, failure)"
proof (cases "find (\<lambda>a. ag_name a = me_agent_name e) registry")
  case (Some a)
  then have "a \<in> set registry" "ag_name a = me_agent_name e" by (auto simp: find_Some_iff)
  with Some assms show thesis by (intro that) (simp_all add: evaluate_entry_def)
qed (use assms in \<open>simp add: evaluate_entry_def\<close>)

lemma map_filter_Nil_iff: "List.map_filter g xs = [] \<longleftrightarrow> (\<forall>x \<in> set xs. g x = None)"
  by (induction xs) (auto simp: List.map_filter_def)

text \<open>
  C29: A successful run lists the eight agents in order, each row with the weight of the manifest.
  An enabled agent whose regimes admit the current one votes with exactly the output it computed;
  every other row is neutral, has no confidence and does not vote.
\<close>

theorem agent_votes:
  assumes "run_agent_matrix f m registry d clock = Inr (Matrix x)"
  shows "map ae_agent_name (am_evaluations x) = ALL_AGENTS \<and>
    (\<forall>i < 8. \<exists>a \<in> set registry. let e = em_agent_versions m ! i; row = am_evaluations x ! i
       in ag_name a = ALL_AGENTS ! i \<and> me_agent_name e = ALL_AGENTS ! i \<and> ae_weight row = me_weight e
          \<and> (if me_enabled e \<and> is_compatible_with_regime a (ft_regime f) then casts_vote f e a row else abstains row))"
proof -
  have ok: "registry_ok registry" using assms by (auto simp: run_agent_matrix_def bindE_Inr_iff split: if_splits)
  obtain results where r0: "mapE (evaluate_entry f (source_for (em_mode m) clock d) registry) (em_agent_versions m) = Inr results"
    "outcome_rows (Matrix x) = map fst results" "map ae_agent_name (map fst results) = ALL_AGENTS"
    "outcome_failures (Matrix x) = List.map_filter snd results"
    by (rule run_agent_matrix_cases [OF assms ok])
  note r = r0(1) r0(2) [unfolded outcome_matrix.simps] r0(3) r0(4) [unfolded outcome_failures.simps, symmetric]
  have l: "length results = 8" using arg_cong [OF r(3), of length] by simp
  have "\<exists>a \<in> set registry. ag_name a = ALL_AGENTS ! i \<and> me_agent_name (em_agent_versions m ! i) = ALL_AGENTS ! i
      \<and> ae_weight (am_evaluations x ! i) = me_weight (em_agent_versions m ! i)
      \<and> (if me_enabled (em_agent_versions m ! i) \<and> is_compatible_with_regime a (ft_regime f)
         then casts_vote f (em_agent_versions m ! i) a (am_evaluations x ! i) else abstains (am_evaluations x ! i))"
    if i: "i < 8" for i
  proof -
    obtain row failure where rf: "results ! i = (row, failure)" by (cases "results ! i")
    have "snd (results ! i) = None" using r(4) i l by (simp add: map_filter_Nil_iff)
    then have n: "failure = None" using rf by simp
    have "evaluate_entry f (source_for (em_mode m) clock d) registry (em_agent_versions m ! i) = Inr (row, failure)"
      using mapE_nth [OF r(1)] mapE_length [OF r(1)] i l rf by simp
    then obtain a where a: "a \<in> set registry" "ag_name a = me_agent_name (em_agent_versions m ! i)"
      "evaluate_agent f (source_for (em_mode m) clock d) a (em_agent_versions m ! i) = Inr (row, failure)"
      by (rule evaluate_entry_result)
    have row: "am_evaluations x ! i = row" using r(2) i l rf by simp
    have "ae_agent_name row = ALL_AGENTS ! i" using arg_cong [OF r(3), of "\<lambda>l. l ! i"] i l rf by simp
    then show ?thesis using evaluate_agent_result [OF a(3)] a(1,2) n row by (intro bexI [OF _ a(1)]) (auto split: if_splits)
  qed
  moreover have "map ae_agent_name (am_evaluations x) = ALL_AGENTS" unfolding r(2) by (rule r(3))
  ultimately show ?thesis unfolding Let_def by blast
qed

section \<open>Which runs return\<close>

definition feature_floats :: "feature_set \<Rightarrow> float_value option list" where
  "feature_floats f =
     [ft_zscore f, ft_zscore_mean f, ft_zscore_std f, ft_ema_fast f, ft_ema_slow f, ft_ema_signal f, ft_roc_short f,
      ft_roc_long f, ft_atr f, ft_rolling_std f, ft_bid_ask_spread f, ft_book_imbalance f, ft_funding_rate f,
      ft_annualized_funding f]"

fun finite_feature :: "float_value option \<Rightarrow> bool" where
  "finite_feature (Some (NonFinite r)) = False"
| "finite_feature _ = True"

definition features_finite :: "feature_set \<Rightarrow> bool" where
  "features_finite f \<longleftrightarrow> list_all finite_feature (feature_floats f)"

lemma finite_feature_freezes: "finite_feature x \<longleftrightarrow> (\<forall>v. x = Some v \<longrightarrow> freezes (float_pyval v))"
  by (cases x rule: finite_feature.cases) auto

lemma features_freeze: "freezes (feature_to_dict f) \<longleftrightarrow> features_finite f"
  by (simp add: feature_to_dict_def features_finite_def feature_floats_def finite_feature_freezes)

text \<open>The only way normalising the features can fail.\<close>

lemma freeze_float_error:
  "only_raises (\<lambda>e. e = ValueError ''JSON floats must be finite'') (freeze_json (py_option float_pyval x))"
  by (cases x rule: finite_feature.cases) (simp_all add: py_option_def)

lemma freeze_pydict_raises:
  "list_all (\<lambda>(k, v). only_raises P (freeze_json v)) kvs \<Longrightarrow> only_raises P (freeze_json (pydict kvs))"
proof -
  have "list_all (\<lambda>(k, v). only_raises P (freeze_json v)) kvs \<Longrightarrow>
      only_raises P (freeze_items (map (\<lambda>(k, v). (PyStr k, v)) kvs))"
    by (induction kvs) (auto intro!: raises_intros)
  then show "list_all (\<lambda>(k, v). only_raises P (freeze_json v)) kvs \<Longrightarrow> only_raises P (freeze_json (pydict kvs))"
    by (auto simp: pydict_def intro!: raises_intros)
qed

lemma freeze_features_error:
  "only_raises (\<lambda>e. e = ValueError ''JSON floats must be finite'') (freeze_json (feature_to_dict f))"
  unfolding feature_to_dict_def
  by (rule freeze_pydict_raises) (simp add: freeze_float_error py_option_def [of PyStr] split: option.splits)

lemma manifest_entry_dependencies:
  "manifest_entry_post_init e = Inr e' \<Longrightarrow> \<exists>j. me_data_dependencies e' = json_pyval j"
  by (auto simp: manifest_entry_post_init_def result_simps)

lemma manifest_entry_valid:
  "manifest_entry_post_init e = Inr e' \<Longrightarrow> me_agent_name e' \<in> set ALL_AGENTS \<and> me_version e' \<noteq> [] \<and> 0 < me_weight e'"
  by (auto simp: manifest_entry_post_init_def result_simps blank_def)

lemma agent_inputs_cases:
  assumes "manifest_entry_post_init e = Inr e"
  shows "(\<exists>j. agent_inputs e f = Inr j) \<longleftrightarrow> features_finite f"
    and "only_raises (\<lambda>x. x = ValueError ''JSON floats must be finite'') (agent_inputs e f)"
proof -
  let ?d = "pydict [(''declared_dependencies'', me_data_dependencies e), (''feature_snapshot'', feature_to_dict f)]"
  obtain j where j: "me_data_dependencies e = json_pyval j" using manifest_entry_dependencies [OF assms] by blast
  have z: "freezes ?d \<longleftrightarrow> features_finite f" using j by (simp add: features_freeze)
  show "(\<exists>j. agent_inputs e f = Inr j) \<longleftrightarrow> features_finite f"
    using z freezes_object [of _ "''agent inputs must be an object''"]
    by (auto simp: agent_inputs_def bindE_Inr_iff freezes_def)
  have "only_raises (\<lambda>x. x = ValueError ''JSON floats must be finite'') (freeze_json ?d)"
    by (rule freeze_pydict_raises) (simp add: freeze_features_error j freeze_json_pyval)
  then show "only_raises (\<lambda>x. x = ValueError ''JSON floats must be finite'') (agent_inputs e f)"
    using freeze_pydict_Inr by (fastforce simp: agent_inputs_def only_raises_def bindE_Inl_iff require_mapping_def)
qed


lemma agent_inputs_object: "agent_inputs e f = Inr j \<Longrightarrow> \<exists>ms. j = JObject ms"
  by (auto simp: agent_inputs_def result_simps)

definition analysis_ok :: "feature_set \<Rightarrow> agent_manifest_entry \<Rightarrow> agent \<Rightarrow> bool" where
  "analysis_ok f e a \<longleftrightarrow>
     (\<exists>o' p. ag_analyze a f = Inr o' \<and> ao_agent_name o' = me_agent_name e \<and> from_legacy o' = Inr p)"

lemma neutral_evaluation_cases:
  assumes e: "manifest_entry_post_init e = Inr e" and "reason \<noteq> []" and "0 \<le> ms"
  shows "features_finite f \<Longrightarrow> \<exists>row. neutral_evaluation e f c reason failure ms = Inr row"
    and "\<not> features_finite f \<Longrightarrow>
      neutral_evaluation e f c reason failure ms = Inl (ValueError ''JSON floats must be finite'')"
proof -
  assume "features_finite f"
  then obtain j ms' where j: "agent_inputs e f = Inr j" "j = JObject ms'"
    using agent_inputs_cases(1) [OF e] agent_inputs_object by metis
  show "\<exists>row. neutral_evaluation e f c reason failure ms = Inr row"
    using manifest_entry_valid [OF e] assms(2,3) j
    by (auto simp: neutral_evaluation_def neutral_output_def agent_output_post_init_def require_unit_interval_def
        agent_evaluation_post_init_def proxy_label_def truthy_def require_mapping_def freeze_json_pyval
        simp del: json_pyval.simps)
next
  assume "\<not> features_finite f"
  then have "agent_inputs e f = Inl (ValueError ''JSON floats must be finite'')"
    using agent_inputs_cases [OF e, of f] by (cases "agent_inputs e f") auto
  then show "neutral_evaluation e f c reason failure ms = Inl (ValueError ''JSON floats must be finite'')"
    by (simp add: neutral_evaluation_def)
qed

lemma voting_evaluation_cases:
  assumes e: "manifest_entry_post_init e = Inr e" and "0 \<le> ms"
  shows "features_finite f \<Longrightarrow> \<exists>row. voting_evaluation e f ms p = Inr row"
    and "\<not> features_finite f \<Longrightarrow> voting_evaluation e f ms p = Inl (ValueError ''JSON floats must be finite'')"
proof -
  assume "features_finite f"
  then obtain j ms' where j: "agent_inputs e f = Inr j" "j = JObject ms'"
    using agent_inputs_cases(1) [OF e] agent_inputs_object by metis
  show "\<exists>row. voting_evaluation e f ms p = Inr row"
    using manifest_entry_valid [OF e] assms(2) j
    by (auto simp: voting_evaluation_def agent_evaluation_post_init_def proxy_label_def truthy_def require_mapping_def
        freeze_json_pyval simp del: json_pyval.simps)
next
  assume "\<not> features_finite f"
  then have "agent_inputs e f = Inl (ValueError ''JSON floats must be finite'')"
    using agent_inputs_cases [OF e, of f] by (cases "agent_inputs e f") auto
  then show "voting_evaluation e f ms p = Inl (ValueError ''JSON floats must be finite'')"
    by (simp add: voting_evaluation_def)
qed

lemma evaluate_agent_total:
  assumes e: "manifest_entry_post_init e = Inr e" and ms: "\<forall>c. 0 \<le> elapsed_ms src (me_agent_name e) c"
  shows "features_finite f \<Longrightarrow> \<exists>row failure. evaluate_agent f src a e = Inr (row, failure)
      \<and> (failure \<noteq> None \<longleftrightarrow> me_enabled e \<and> is_compatible_with_regime a (ft_regime f) \<and> \<not> analysis_ok f e a)"
    and "\<not> features_finite f \<Longrightarrow> evaluate_agent f src a e = Inl (ValueError ''JSON floats must be finite'')"
proof -
  note neutral = neutral_evaluation_cases [OF e]
  note voting = voting_evaluation_cases [OF e ms [rule_format]]
  let ?ms = "elapsed_ms src (me_agent_name e) AFTER_ANALYSIS" and ?mh = "elapsed_ms src (me_agent_name e) IN_HANDLER"
  {
    assume f: "features_finite f"
    have ok: "(\<exists>row. analyzed_row e f ?ms a = Inr row) \<longleftrightarrow> analysis_ok f e a"
      using voting(1) [OF f] by (auto simp: analyzed_row_def analysis_ok_def bindE_Inr_iff split: sum.splits if_splits)
        (metis bindE.simps sum.exhaust Inl_Inr_False)+
    show "\<exists>row failure. evaluate_agent f src a e = Inr (row, failure)
      \<and> (failure \<noteq> None \<longleftrightarrow> me_enabled e \<and> is_compatible_with_regime a (ft_regime f) \<and> \<not> analysis_ok f e a)"
    proof -
      note total = neutral(1) [OF _ _ f]
      obtain r1 where r1: "neutral_evaluation e f (is_compatible_with_regime a (ft_regime f)) ''disabled_agent'' None 0 = Inr r1"
        using total [of "''disabled_agent''" 0] by auto
      obtain r2 where r2: "neutral_evaluation e f False ''incompatible_regime'' None 0 = Inr r2"
        using total [of "''incompatible_regime''" 0] by auto
      obtain r3 where r3: "neutral_evaluation e f True ''agent_exception'' (Some d) ?mh = Inr (r3 d)" for d
        using total [of "''agent_exception''" ?mh True] ms choice [of "\<lambda>d r. neutral_evaluation e f True ''agent_exception'' (Some d) ?mh = Inr r"] by blast
      show ?thesis
        using ok r1 r2 r3 by (cases "analyzed_row e f ?ms a") (simp_all add: evaluate_agent_def Let_def)
    qed
  }
  assume f: "\<not> features_finite f"
  have "\<nexists>row. analyzed_row e f ?ms a = Inr row"
    using voting(2) [OF f] by (auto simp: analyzed_row_def bindE_Inr_iff split: sum.splits if_splits)
  then show "evaluate_agent f src a e = Inl (ValueError ''JSON floats must be finite'')"
    using neutral(2) [OF _ _ f] ms by (cases "analyzed_row e f ?ms a") (auto simp: evaluate_agent_def Let_def)
qed

definition agent_fails :: "feature_set \<Rightarrow> agent list \<Rightarrow> agent_manifest_entry \<Rightarrow> bool" where
  "agent_fails f registry e \<longleftrightarrow>
     (\<exists>a \<in> set registry. ag_name a = me_agent_name e \<and> me_enabled e \<and> is_compatible_with_regime a (ft_regime f) \<and>
        \<not> analysis_ok f e a)"

lemma registry_agent:
  assumes "registry_ok registry" and "n \<in> set ALL_AGENTS"
  obtains a where "find (\<lambda>a. ag_name a = n) registry = Some a" "a \<in> set registry" "ag_name a = n"
    "\<forall>b \<in> set registry. ag_name b = n \<longrightarrow> b = a"
proof -
  obtain a where a: "a \<in> set registry" "ag_name a = n" using assms by (force simp: registry_ok_def)
  have u: "b = a" if "b \<in> set registry" "ag_name b = n" for b
    using that a assms(1) inj_onD [of ag_name "set registry" b a] by (simp add: registry_ok_def distinct_map)
  obtain b where b: "find (\<lambda>a. ag_name a = n) registry = Some b" using a by (cases "find (\<lambda>a. ag_name a = n) registry") (auto simp: find_None_iff)
  then have "b = a" by (intro u) (auto simp: find_Some_iff)
  then show thesis using that b a u by blast
qed

lemma evaluate_entry_total:
  assumes e: "manifest_entry_post_init e = Inr e" and r: "registry_ok registry" and ms: "\<forall>n c. 0 \<le> elapsed_ms src n c"
  shows "features_finite f \<Longrightarrow> \<exists>row failure. evaluate_entry f src registry e = Inr (row, failure)
      \<and> ae_agent_name row = me_agent_name e \<and> (failure \<noteq> None \<longleftrightarrow> agent_fails f registry e)
      \<and> (\<forall>x. failure = Some x \<longrightarrow> fa_agent_name x = me_agent_name e)"
    and "\<not> features_finite f \<Longrightarrow> evaluate_entry f src registry e = Inl (ValueError ''JSON floats must be finite'')"
proof -
  obtain a where a: "find (\<lambda>a. ag_name a = me_agent_name e) registry = Some a" "a \<in> set registry" "ag_name a = me_agent_name e"
    "\<forall>b \<in> set registry. ag_name b = me_agent_name e \<longrightarrow> b = a"
    using registry_agent [OF r] manifest_entry_valid [OF e] by blast
  have mse: "\<forall>c. 0 \<le> elapsed_ms src (me_agent_name e) c" using ms by simp
  have ee: "evaluate_entry f src registry e = evaluate_agent f src a e" using a(1) by (simp add: evaluate_entry_def)
  show "evaluate_entry f src registry e = Inl (ValueError ''JSON floats must be finite'')" if "\<not> features_finite f"
    unfolding ee by (rule evaluate_agent_total(2) [OF e mse that])
  assume "features_finite f"
  then obtain row failure where v: "evaluate_agent f src a e = Inr (row, failure)"
    "failure \<noteq> None \<longleftrightarrow> me_enabled e \<and> is_compatible_with_regime a (ft_regime f) \<and> \<not> analysis_ok f e a"
    using evaluate_agent_total(1) [OF e mse] by blast
  have "agent_fails f registry e \<longleftrightarrow> failure \<noteq> None" unfolding v(2) agent_fails_def using a(2-4) by blast
  moreover have "ae_agent_name row = me_agent_name e \<and> (\<forall>x. failure = Some x \<longrightarrow> fa_agent_name x = me_agent_name e)"
    using evaluate_agent_result [OF v(1)] v(2) by (auto split: if_splits)
  ultimately show "\<exists>row failure. evaluate_entry f src registry e = Inr (row, failure)
      \<and> ae_agent_name row = me_agent_name e \<and> (failure \<noteq> None \<longleftrightarrow> agent_fails f registry e)
      \<and> (\<forall>x. failure = Some x \<longrightarrow> fa_agent_name x = me_agent_name e)"
    unfolding ee using v(1) by blast
qed

lemma evaluate_entries_total:
  assumes "\<forall>e \<in> set es. manifest_entry_post_init e = Inr e" and "registry_ok registry" and "\<forall>n c. 0 \<le> elapsed_ms src n c"
    and "features_finite f"
  shows "\<exists>results. mapE (evaluate_entry f src registry) es = Inr results
    \<and> map ae_agent_name (map fst results) = map me_agent_name es
    \<and> map fa_agent_name (List.map_filter snd results) = map me_agent_name (filter (agent_fails f registry) es)"
  using assms(1)
proof (induction es)
  case (Cons e es)
  then obtain results where "mapE (evaluate_entry f src registry) es = Inr results"
    "map ae_agent_name (map fst results) = map me_agent_name es"
    "map fa_agent_name (List.map_filter snd results) = map me_agent_name (filter (agent_fails f registry) es)" by auto
  moreover obtain row failure where "evaluate_entry f src registry e = Inr (row, failure)"
      "ae_agent_name row = me_agent_name e" "failure \<noteq> None \<longleftrightarrow> agent_fails f registry e"
      "\<forall>x. failure = Some x \<longrightarrow> fa_agent_name x = me_agent_name e"
    using evaluate_entry_total(1) [OF _ assms(2-4)] Cons.prems by fastforce
  ultimately show ?case by (cases failure) (simp_all add: List.map_filter_simps)
qed (simp add: List.map_filter_simps)

lemma manifest_agents:
  assumes "manifest_post_init m = Inr m"
  shows "map me_agent_name (em_agent_versions m) = ALL_AGENTS" "em_experiment_id m \<noteq> 0"
  using manifest_post_init_result(2,3) [OF assms] ordered_agents_result(1)
  by (blast, auto simp: manifest_identity_def result_simps)

lemma run_agent_matrix_returns:
  assumes m: "manifest_post_init m = Inr m" and e: "\<forall>e \<in> set (em_agent_versions m). manifest_entry_post_init e = Inr e"
    and r: "registry_ok registry" and ms: "\<forall>n c. 0 \<le> elapsed_ms (source_for (em_mode m) clock d) n c"
    and f: "ft_symbol f \<noteq> []" "ft_symbol f = upper (ft_symbol f)" "ft_timeframe f \<noteq> []" "is_utc (ft_timestamp f)"
    and fin: "features_finite f"
  shows "\<exists>out. run_agent_matrix f m registry d clock = Inr out \<and>
     map fa_agent_name (outcome_failures out) = map me_agent_name (filter (agent_fails f registry) (em_agent_versions m)) \<and>
     ((\<exists>x. out = Matrix x) \<longleftrightarrow> \<not> list_ex (agent_fails f registry) (em_agent_versions m))"
proof -
  note names = manifest_agents [OF m]
  obtain results where v: "mapE (evaluate_entry f (source_for (em_mode m) clock d) registry) (em_agent_versions m) = Inr results"
    "map ae_agent_name (map fst results) = ALL_AGENTS"
    "map fa_agent_name (List.map_filter snd results) = map me_agent_name (filter (agent_fails f registry) (em_agent_versions m))"
    using evaluate_entries_total [OF e r ms fin] names(1) by metis
  obtain x where x: "matrix_of (em_experiment_id m) f (map fst results) = Inr x"
    using v(2) f names(2) by (simp add: matrix_of_def agent_matrix_post_init_def require_utc_def is_utc_def)
  have "List.map_filter snd results = [] \<longleftrightarrow> \<not> list_ex (agent_fails f registry) (em_agent_versions m)"
    using arg_cong [OF v(3), of "\<lambda>l. l = []"] by (simp add: list_ex_iff filter_empty_conv)
  then show ?thesis using v x r by (auto simp: run_agent_matrix_def Let_def list_ex_iff)
qed

text \<open>
  C30: For a constructed manifest, a complete registry and well-identified features, a run of the
  agents always ends in a matrix of eight rows: the failures it reports are exactly the enabled,
  compatible agents whose analysis raised or returned an invalid output, in order, and the run
  succeeds exactly when there are none.  The one exception is a feature that is not finite: the
  inputs of a row cannot be recorded then, not even of the neutral row of a failure, and a plain
  ValueError escapes instead of the error that carries the matrix.
\<close>

theorem agent_matrix_total:
  assumes "manifest_post_init m = Inr m" and "\<forall>e \<in> set (em_agent_versions m). manifest_entry_post_init e = Inr e"
    and "registry_ok registry" and "\<forall>n c. 0 \<le> elapsed_ms (source_for (em_mode m) clock d) n c"
    and "ft_symbol f \<noteq> []" "ft_symbol f = upper (ft_symbol f)" "ft_timeframe f \<noteq> []" "is_utc (ft_timestamp f)"
  shows "if features_finite f
     then \<exists>out. run_agent_matrix f m registry d clock = Inr out \<and>
       map fa_agent_name (outcome_failures out) = map me_agent_name (filter (agent_fails f registry) (em_agent_versions m)) \<and>
       ((\<exists>x. out = Matrix x) \<longleftrightarrow> \<not> list_ex (agent_fails f registry) (em_agent_versions m))
     else run_agent_matrix f m registry d clock = Inl (ValueError ''JSON floats must be finite'')"
proof (cases "features_finite f")
  case False
  have "em_agent_versions m \<noteq> []" using manifest_agents(1) [OF assms(1)] by (auto simp: ALL_AGENTS_def)
  then show ?thesis
    using evaluate_entry_total(2) [OF _ assms(3,4) False] assms(2,3) False
    by (cases "em_agent_versions m") (simp_all add: run_agent_matrix_def)
qed (use run_agent_matrix_returns [OF assms] in simp)

section \<open>Examples\<close>

definition ex_agent :: "string \<Rightarrow> string + agent_output \<Rightarrow> agent" where
  "ex_agent n result = \<lparr>ag_name = n, ag_compatible_regimes = (if n = ''mean_reversion'' then [''range_bound''] else []),
     ag_analyze = (\<lambda>f. result)\<rparr>"

definition ex_output :: "string \<Rightarrow> agent_output" where
  "ex_output n = \<lparr>ao_agent_name = n, ao_directional_hypothesis = ''long'', ao_probability_estimate = Finite (7/10) ''0.7'',
     ao_confidence_score = Finite (8/10) ''0.8'', ao_risk_estimate = Finite (3/10) ''0.3''\<rparr>"

definition ex_registry :: "agent list" where
  "ex_registry = map (\<lambda>n. ex_agent n (Inr (ex_output n))) ALL_AGENTS"

definition ex_faulty_registry :: "agent list" where
  "ex_faulty_registry = map (\<lambda>n. ex_agent n (if n = ''liquidity'' then Inl ''KeyError: depth'' else Inr (ex_output n))) ALL_AGENTS"

definition ex_features :: feature_set where
  "ex_features = \<lparr>ft_symbol = ''BTCUSDT'', ft_timeframe = ''1m'', ft_timestamp = utc 60000000, ft_zscore = None,
     ft_zscore_mean = None, ft_zscore_std = None, ft_ema_fast = None, ft_ema_slow = None, ft_ema_signal = None,
     ft_roc_short = None, ft_roc_long = None, ft_atr = Some (Finite 100 ''100.0''), ft_rolling_std = None,
     ft_bid_ask_spread = None, ft_book_imbalance = None, ft_funding_rate = None, ft_annualized_funding = None,
     ft_funding_bias = None, ft_regime = Some ''trending''\<rparr>"

lemma ex_features_ok: "features_finite ex_features" "ft_symbol ex_features \<noteq> []"
  "ft_symbol ex_features = upper (ft_symbol ex_features)" "ft_timeframe ex_features \<noteq> []" "is_utc (ft_timestamp ex_features)"
  by (simp_all add: features_finite_def feature_floats_def ex_features_def upper_def upper_char_def less_eq_char_def)

lemma ex_registries_ok [simp]: "registry_ok ex_registry" "registry_ok ex_faulty_registry"
  by (simp_all add: registry_ok_def ex_registry_def ex_faulty_registry_def ex_agent_def ALL_AGENTS_def)

lemma ex_manifest_entries: "\<forall>e \<in> set (em_agent_versions ex_manifest). manifest_entry_post_init e = Inr e"
  using ex_manifest_entry_ok by (auto simp: ex_manifest_def Let_def)

lemma ex_source: "\<forall>n c. 0 \<le> elapsed_ms (source_for (em_mode ex_manifest) clock None) n c"
  by (simp add: ex_manifest_def Let_def source_for_def)

lemma ex_output_ok: "from_legacy (ex_output n) = Inr \<lparr>ou_direction = LONG, ou_probability = 7/10, ou_confidence = 8/10, ou_risk = 3/10\<rparr>"
  by (simp add: from_legacy_def ex_output_def parse_direction_def agent_output_post_init_def require_unit_interval_def)

lemma ex_fails:
  "agent_fails ex_features ex_registry (ex_manifest_entry n) \<longleftrightarrow> False"
  "agent_fails ex_features ex_faulty_registry (ex_manifest_entry n) \<longleftrightarrow> n = ''liquidity''"
  using ex_output_ok
  by (auto simp: agent_fails_def analysis_ok_def ex_registry_def ex_faulty_registry_def ex_agent_def ex_manifest_entry_def
      is_compatible_with_regime_def ALL_AGENTS_def ex_output_def)

lemma ex_agent_versions: "em_agent_versions ex_manifest = map ex_manifest_entry ALL_AGENTS"
  by (simp add: ex_manifest_def Let_def)

lemma ex_failing: "map me_agent_name (filter (agent_fails ex_features ex_faulty_registry) (em_agent_versions ex_manifest)) = [''liquidity'']"
proof -
  have "me_agent_name (ex_manifest_entry n) = n" for n by (simp add: ex_manifest_entry_def)
  then show ?thesis by (simp add: ex_agent_versions ALL_AGENTS_def ex_fails)
qed

lemmas ex_run = run_agent_matrix_returns [OF ex_manifest_ok ex_manifest_entries _ ex_source ex_features_ok(2-5,1)]

lemma ex_matrix: "\<exists>x. run_agent_matrix ex_features ex_manifest ex_registry None clock = Inr (Matrix x)"
  using ex_run [OF ex_registries_ok(1), of clock] by (auto simp: ex_agent_versions ex_fails list_ex_iff)

theorem agent_matrix_total_witness:
  "(\<exists>out. run_agent_matrix ex_features ex_manifest ex_faulty_registry None (\<lambda>n. (0, \<lambda>c. 0)) = Inr out \<and>
      map fa_agent_name (outcome_failures out) = [''liquidity'']) \<and>
   run_agent_matrix (ex_features\<lparr>ft_atr := Some (NonFinite ''nan'')\<rparr>) ex_manifest ex_registry None (\<lambda>n. (0, \<lambda>c. 0))
     = Inl (ValueError ''JSON floats must be finite'')"
proof (intro conjI)
  note total = agent_matrix_total [OF ex_manifest_ok ex_manifest_entries _ ex_source]
  show "\<exists>out. run_agent_matrix ex_features ex_manifest ex_faulty_registry None (\<lambda>n. (0, \<lambda>c. 0)) = Inr out \<and>
      map fa_agent_name (outcome_failures out) = [''liquidity'']"
    using total [OF ex_registries_ok(2) ex_features_ok(2-5), of "\<lambda>n. (0, \<lambda>c. 0)"] ex_features_ok(1)
    unfolding ex_failing by auto
  show "run_agent_matrix (ex_features\<lparr>ft_atr := Some (NonFinite ''nan'')\<rparr>) ex_manifest ex_registry None (\<lambda>n. (0, \<lambda>c. 0))
     = Inl (ValueError ''JSON floats must be finite'')"
    using total [OF ex_registries_ok(1), of "ex_features\<lparr>ft_atr := Some (NonFinite ''nan'')\<rparr>" "\<lambda>n. (0, \<lambda>c. 0)"] ex_features_ok(2-5)
    by (simp add: features_finite_def feature_floats_def)
qed

theorem agent_votes_witness:
  "\<exists>x. run_agent_matrix ex_features ex_manifest ex_registry None (\<lambda>n. (0, \<lambda>c. 0)) = Inr (Matrix x) \<and>
     ae_weight (am_evaluations x ! 0) = 1 \<and> ae_voting (am_evaluations x ! 0) \<and> \<not> ae_voting (am_evaluations x ! 5)"
proof -
  obtain x where x: "run_agent_matrix ex_features ex_manifest ex_registry None (\<lambda>n. (0, \<lambda>c. 0)) = Inr (Matrix x)"
    using ex_matrix by blast
  note v = conjunct2 [OF agent_votes [OF x], rule_format, unfolded Let_def ex_agent_versions]
  from v [of 0] v [of 5] x show ?thesis
    by (auto simp: ex_agent_versions ALL_AGENTS_def ex_registry_def ex_agent_def ex_manifest_entry_def casts_vote_def abstains_def
        is_compatible_with_regime_def ex_features_def)
qed

end
