(* ===== verification/Decision_Safety.thy ===== *)
theory Decision_Safety
  imports Decision Agent_Matrix
begin

text \<open>
  What the decision analytics guarantee: an evaluation of constructed inputs always returns, with
  probabilities between zero and one; on a weight grid the direction is the one of the exact weighted
  majority; a positive verdict rests on every input it needs; and long and short are treated alike.
\<close>

section \<open>Reading an analysis\<close>

lemma frozen_object_result: "frozen_object name j = Inr k \<longleftrightarrow> k = j \<and> (\<exists>ms. j = JObject ms)"
  by (auto simp: frozen_object_def result_simps freeze_json_pyval simp del: json_pyval.simps)

lemma decision_analysis_post_init_id: "decision_analysis_post_init a = Inr a' \<Longrightarrow> a' = a"
  by (auto simp: decision_analysis_post_init_def result_simps frozen_object_result)

lemma decision_evaluate_result:
  assumes "decision_evaluate p f m price b = Inr a"
  obtains d reason e j1 j2 j3 j4 h where "decision_identity f m price = Inr ()" "consensus_direction p m = (d, reason)"
    "decision_ev p f d (fst (winner_view m d)) price = Inr e" "a = decision_record p m b d reason e j1 j2 j3 j4 h"
    "decision_analysis_post_init a = Inr a" "decision_object (cost_items p f e) = Inr j3"
    "decision_object (ev_items (fst (winner_view m d)) e b) = Inr j4"
proof -
  obtain d reason where d: "consensus_direction p m = (d, reason)" by (cases "consensus_direction p m")
  obtain e j1 j2 j3 j4 h where e: "decision_identity f m price = Inr ()"
    "decision_ev p f d (fst (winner_view m d)) price = Inr e"
    and a: "decision_analysis_post_init (decision_record p m b d reason e j1 j2 j3 j4 h) = Inr a"
    and j: "decision_object (cost_items p f e) = Inr j3" "decision_object (ev_items (fst (winner_view m d)) e b) = Inr j4"
    using assms by (auto simp: decision_evaluate_def d Let_def bindE_Inr_iff thenE_Inr_iff)
  then show thesis using that [OF e(1) d e(2) _ _ j] decision_analysis_post_init_id [OF a] a by simp
qed

section \<open>Weighted means\<close>

text \<open>A row as the constructors build it, with a weight of at most 28 digits.\<close>

definition sound_row :: "agent_evaluation \<Rightarrow> bool" where
  "sound_row e \<longleftrightarrow> agent_evaluation_post_init e = Inr e \<and> agent_output_post_init (ae_output e) = Inr (ae_output e)
     \<and> representable (ae_weight e)"

lemma sound_row_bounds:
  assumes "sound_row e"
  shows "0 < ae_weight e" "dround (ae_weight e) = ae_weight e" "0 \<le> ou_probability (ae_output e)" "ou_probability (ae_output e) \<le> 1"
    "0 \<le> ou_confidence (ae_output e)" "ou_confidence (ae_output e) \<le> 1"
  using assms
  by (auto simp: sound_row_def agent_evaluation_post_init_def agent_output_post_init_def require_unit_interval_def
      result_simps dround_exact)

lemma weighted_mean_unit:
  assumes "\<forall>e \<in> set rows. sound_row e \<and> 0 \<le> g (ae_output e) \<and> g (ae_output e) \<le> 1"
  shows "0 \<le> weighted_mean g rows \<and> weighted_mean g rows \<le> 1"
proof -
  have t: "0 \<le> dmul (ae_weight e) (g (ae_output e)) \<and> dmul (ae_weight e) (g (ae_output e)) \<le> ae_weight e"
    if "e \<in> set rows" for e
  proof -
    note w = sound_row_bounds [of e] and g = assms [rule_format, OF that]
    have "ae_weight e * g (ae_output e) \<le> ae_weight e" using w g mult_left_le by force
    then show ?thesis using w g by (auto simp: dmul_def intro!: ctx.rnd_le_fixed)
  qed
  let ?n = "dsum (map (\<lambda>e. dmul (ae_weight e) (g (ae_output e))) rows)" and ?w = "dsum (map ae_weight rows)"
  have "?n \<le> ?w" using t by (intro dsum_mono) (simp add: list_all2_map1 list_all2_map2 list_all2_same)
  moreover have n: "0 \<le> ?n" using t by (intro dsum_nonneg) auto
  ultimately have "0 < ?w \<or> ?w = 0" "?n \<le> ?w" by linarith+
  with n have q: "0 \<le> ?n / ?w" "?n / ?w \<le> 1" by (auto simp: divide_le_eq_1)
  then have "dround (?n / ?w) \<le> 1" by (intro ctx.rnd_le_fixed) (simp_all add: dround_1)
  with q show ?thesis by (simp add: weighted_mean_def ddiv_def total_weight_def)
qed

lemma total_weight_nonneg: "\<forall>e \<in> set rows. sound_row e \<Longrightarrow> 0 \<le> total_weight rows"
  unfolding total_weight_def using sound_row_bounds(1) by (intro dsum_nonneg) fastforce

lemma votes_for_subset [simp]: "set (votes_for d (directional_rows m)) \<subseteq> set (am_evaluations m)"
  "set (neutral_rows m) \<subseteq> set (am_evaluations m)"
  by (auto simp: votes_for_def directional_rows_def neutral_rows_def)

lemma views_unit:
  assumes "\<forall>e \<in> set (am_evaluations m). sound_row e"
  shows "0 \<le> fst (winner_view m d) \<and> fst (winner_view m d) \<le> 1" "0 \<le> snd (winner_view m d) \<and> snd (winner_view m d) \<le> 1"
    "0 \<le> fst (dissent_view m d) \<and> fst (dissent_view m d) \<le> 1" "0 \<le> snd (dissent_view m d) \<and> snd (dissent_view m d) \<le> 1"
proof -
  have s: "\<forall>e \<in> set (votes_for d' (directional_rows m)). sound_row e" for d' using assms votes_for_subset by blast
  have pr: "0 \<le> weighted_mean ou_probability (votes_for d' (directional_rows m)) \<and>
      weighted_mean ou_probability (votes_for d' (directional_rows m)) \<le> 1" for d'
    using s sound_row_bounds(3,4) by (intro weighted_mean_unit) blast
  have cf: "0 \<le> weighted_mean ou_confidence (votes_for d' (directional_rows m)) \<and>
      weighted_mean ou_confidence (votes_for d' (directional_rows m)) \<le> 1" for d'
    using s sound_row_bounds(5,6) by (intro weighted_mean_unit) blast
  show "0 \<le> fst (winner_view m d) \<and> fst (winner_view m d) \<le> 1" "0 \<le> snd (winner_view m d) \<and> snd (winner_view m d) \<le> 1"
    "0 \<le> fst (dissent_view m d) \<and> fst (dissent_view m d) \<le> 1" "0 \<le> snd (dissent_view m d) \<and> snd (dissent_view m d) \<le> 1"
    using pr cf by (simp_all add: winner_view_def dissent_view_def dissenting_rows_def Let_def)
qed

section \<open>Totality\<close>

lemma decision_object_ok:
  assumes "freezes (pydict kvs)"
  obtains ms where "decision_object kvs = Inr (JObject ms)"
  using freezes_object [OF assms, of "''official decision snapshot must be an object''"]
  by (auto simp: decision_object_def result_simps)

lemma matrix_hash_ok:
  assumes "agent_matrix_post_init m = Inr m"
  shows "\<exists>h. matrix_content_hash m = Inr h"
proof -
  have "is_utc (am_feature_at m)"
    using assms by (auto simp: agent_matrix_post_init_def require_utc_def is_utc_def result_simps)
  then have "freezes (pydict (matrix_items m))"
    by (simp add: matrix_items_def list_all_iff agent_evaluation_to_dict_def agent_output_to_dict_def)
  then show ?thesis using content_hash_shape by (fastforce simp: matrix_content_hash_def freezes_def)
qed

lemma move_nonneg: "move_available p (Some x) price \<Longrightarrow> 0 < price \<Longrightarrow> 0 \<le> ddiv x price"
  by (simp add: move_available_def ddiv_def)

lemma decision_ev_ok:
  assumes "decision_policy_post_init p = Inr p" and "0 < price"
  shows "\<exists>e. decision_ev p f d pr price = Inr e \<and> 0 \<le> ev_gain e \<and> 0 \<le> ev_loss e \<and> 0 \<le> ev_cost e"
proof -
  have p: "0 \<le> dp_round_trip_fee_fraction p" "0 \<le> dp_atr_slippage_multiplier p" "0 \<le> dp_spread_impact_multiplier p"
    using assms(1) by (auto simp: decision_policy_post_init_def require_policy_nonneg_def result_simps)
  show ?thesis
  proof (cases "d = NEUTRAL \<or> \<not> move_available p (feature_decimal (ft_atr f)) price")
    case True
    then show ?thesis by (simp add: decision_ev_def Let_def)
  next
    case False
    then obtain x where x: "feature_decimal (ft_atr f) = Some x" by (auto simp: move_available_def split: option.splits)
    have m: "0 \<le> ddiv x price" using move_nonneg [of p x price] False x assms(2) by simp
    then have "0 \<le> ev_cost (costed_ev p f d pr (ddiv x price) s)" if "0 \<le> s" for s
      using p that by (simp add: costed_ev_def Let_def dadd_def dmul_def)
    then show ?thesis using False x m
      by (auto simp: decision_ev_def Let_def costed_ev_def split: option.splits)
  qed
qed

lemma decision_evaluate_ok:
  assumes p: "decision_policy_post_init p = Inr p" and m: "agent_matrix_post_init m = Inr m"
    and rows: "\<forall>e \<in> set (am_evaluations m). sound_row e" and i: "decision_identity f m price = Inr ()"
  shows "\<exists>a. decision_evaluate p f m price b = Inr a"
proof -
  obtain d reason where d: "consensus_direction p m = (d, reason)" by (cases "consensus_direction p m")
  have "0 < price" using i by (auto simp: decision_identity_def result_simps)
  then obtain e where e: "decision_ev p f d (fst (winner_view m d)) price = Inr e" "0 \<le> ev_gain e" "0 \<le> ev_loss e" "0 \<le> ev_cost e"
    using decision_ev_ok [OF p] by blast
  obtain mh where mh: "matrix_content_hash m = Inr mh" using matrix_hash_ok [OF m] by blast
  obtain j1 where j1: "decision_object (consensus_items p m mh) = Inr (JObject j1)"
    by (rule decision_object_ok [of "consensus_items p m mh"])
      (auto simp: consensus_items_def direction_pyval_def d Let_def split_def)
  obtain j2 where j2: "decision_object (adversarial_items p m d) = Inr (JObject j2)"
    by (rule decision_object_ok [of "adversarial_items p m d"]) (auto simp: adversarial_items_def direction_pyval_def)
  obtain j3 where j3: "decision_object (cost_items p f e) = Inr (JObject j3)"
    by (rule decision_object_ok [of "cost_items p f e"]) (auto simp: cost_items_def)
  obtain j4 where j4: "decision_object (ev_items (fst (winner_view m d)) e b) = Inr (JObject j4)"
    by (rule decision_object_ok [of "ev_items (fst (winner_view m d)) e b"]) (auto simp: ev_items_def)
  let ?o = "pydict [(''consensus'', json_pyval (JObject j1)), (''adversarial'', json_pyval (JObject j2)),
      (''cost'', json_pyval (JObject j3)), (''ev'', json_pyval (JObject j4))]"
  have "freezes ?o" by (simp del: json_pyval.simps)
  then obtain h where h: "content_hash ?o = Inr h" "length h = 64" using content_hash_shape by (auto simp: freezes_def)
  let ?a = "decision_record p m b d reason e (JObject j1) (JObject j2) (JObject j3) (JObject j4) h"
  have w: "0 \<le> total_weight (votes_for d' (directional_rows m))" "0 \<le> total_weight (neutral_rows m)" for d'
    using rows votes_for_subset by (blast intro: total_weight_nonneg)+
  have a: "decision_analysis_post_init ?a = Inr ?a"
    using views_unit [OF rows, of d] w(1) [of LONG] w(1) [of SHORT] w(2) e h(2)
    by (simp add: decision_analysis_post_init_def decision_record_def require_probability_def require_policy_nonneg_def
        frozen_object_def freeze_json_pyval require_mapping_def alpha_positive_def del: json_pyval.simps)
  have "decision_evaluate p f m price b = Inr ?a"
    unfolding decision_evaluate_def i d Let_def prod.case thenE_simps e(1) mh j1 j2 j3 j4 bindE.simps h(1) a ..
  then show ?thesis ..
qed

text \<open>
  C32: For a constructed policy, a constructed matrix of the same features and a positive price, the
  evaluation always returns an analysis (no rounding of the weighted means can push a probability or
  a confidence outside the unit interval, so no check of the result can raise), it passes exactly
  when a direction was found, and its hash has 64 digits.
\<close>

theorem decision_total:
  assumes "decision_policy_post_init p = Inr p" and "agent_matrix_post_init m = Inr m"
    and "\<forall>e \<in> set (am_evaluations m). sound_row e" and "decision_identity f m price = Inr ()"
  shows "\<exists>a. decision_evaluate p f m price b = Inr a
    \<and> 0 \<le> da_consensus_probability a \<and> da_consensus_probability a \<le> 1
    \<and> 0 \<le> da_consensus_confidence a \<and> da_consensus_confidence a \<le> 1
    \<and> 0 \<le> da_dissent_confidence a \<and> da_dissent_confidence a \<le> 1 \<and> 0 \<le> da_estimated_cost a
    \<and> da_consensus_passed a = (da_direction a \<noteq> NEUTRAL) \<and> length (da_content_hash a) = 64"
proof -
  obtain a where a: "decision_evaluate p f m price b = Inr a" using decision_evaluate_ok [OF assms] by blast
  then obtain d reason e j1 j2 j3 j4 h where r: "a = decision_record p m b d reason e j1 j2 j3 j4 h"
    and ok: "decision_analysis_post_init a = Inr a"
    by (rule decision_evaluate_result)
  from ok have "0 \<le> da_consensus_probability a \<and> da_consensus_probability a \<le> 1
    \<and> 0 \<le> da_consensus_confidence a \<and> da_consensus_confidence a \<le> 1
    \<and> 0 \<le> da_dissent_confidence a \<and> da_dissent_confidence a \<le> 1 \<and> 0 \<le> da_estimated_cost a
    \<and> length (da_content_hash a) = 64"
    unfolding decision_analysis_post_init_def thenE_Inr_iff
    by (auto simp: require_probability_def require_policy_nonneg_def checks_Cons_Inr_iff raise_if_Inr_iff)
  moreover have "da_consensus_passed a = (da_direction a \<noteq> NEUTRAL)" by (simp add: r decision_record_def)
  ultimately show ?thesis using a by blast
qed

section \<open>Verdicts\<close>

text \<open>
  C33: Every positive verdict rests on the inputs it needs.  A positive expected value has a
  direction, the required number of directional voters, a positive ATR whose move is within the
  bound and a nonnegative spread, and its net value is the gross value plus the funding carry less
  the whole cost; without them the net value is zero.  A positive alpha additionally has a benchmark
  and the net value exceeds it, and the challenge blocks exactly when some dissenter exists and the
  dissenters' confidence reaches the threshold.
\<close>

theorem decision_fail_closed:
  assumes "decision_evaluate p f m price b = Inr a"
  shows "(da_ev_positive a \<longrightarrow>
      (\<exists>atr spread. da_direction a \<noteq> NEUTRAL \<and> dp_minimum_directional_voters p \<le> da_directional_voters a
        \<and> feature_decimal (ft_atr f) = Some atr \<and> 0 < atr \<and> ddiv atr price \<le> dp_maximum_expected_move_fraction p
        \<and> feature_decimal (ft_bid_ask_spread f) = Some spread \<and> 0 \<le> spread \<and> da_expected_gain a = ddiv atr price
        \<and> da_estimated_cost a = dadd (dp_round_trip_fee_fraction p)
            (dadd (dmul (ddiv atr price) (dp_atr_slippage_multiplier p)) (dmul spread (dp_spread_impact_multiplier p)))
        \<and> da_estimated_cost a < dadd (da_gross_ev a) (da_funding_carry a)))
    \<and> (da_ev_reason a \<notin> {''positive_ev'', ''non_positive_ev''} \<longrightarrow> da_net_ev a = 0)
    \<and> (da_alpha_positive a \<longleftrightarrow> (\<exists>r. b = Some r \<and> r < da_net_ev a))
    \<and> (da_challenge_blocked a \<longleftrightarrow> da_direction a \<noteq> NEUTRAL \<and> da_dissenters a \<noteq> []
        \<and> dp_adversarial_block_threshold p \<le> da_dissent_confidence a)"
proof -
  obtain d reason e j1 j2 j3 j4 h where d: "consensus_direction p m = (d, reason)"
    and e: "decision_ev p f d (fst (winner_view m d)) price = Inr e" and a: "a = decision_record p m b d reason e j1 j2 j3 j4 h"
    by (rule decision_evaluate_result [OF assms])
  have voters: "d \<noteq> NEUTRAL \<Longrightarrow> dp_minimum_directional_voters p \<le> int (length (directional_rows m))"
    using d by (auto simp: consensus_direction_def Let_def split: if_splits)
  have net: "ev_net e = 0 \<and> ev_why e \<notin> {''positive_ev'', ''non_positive_ev''} \<or>
     (\<exists>x s. d \<noteq> NEUTRAL \<and> feature_decimal (ft_atr f) = Some x \<and> move_available p (Some x) price
        \<and> feature_decimal (ft_bid_ask_spread f) = Some s \<and> 0 \<le> s \<and> e = costed_ev p f d (fst (winner_view m d)) (ddiv x price) s)"
    using e by (auto simp: decision_ev_def Let_def split: if_splits option.splits)
  have "da_alpha_positive a \<longleftrightarrow> (\<exists>r. b = Some r \<and> r < da_net_ev a)"
    by (auto simp: a decision_record_def alpha_positive_def alpha_of_def dsub_def)
  moreover have "da_challenge_blocked a \<longleftrightarrow> da_direction a \<noteq> NEUTRAL \<and> da_dissenters a \<noteq> []
        \<and> dp_adversarial_block_threshold p \<le> da_dissent_confidence a"
    by (simp add: a decision_record_def challenge_blocked_def)
  moreover from net have "da_ev_reason a \<notin> {''positive_ev'', ''non_positive_ev''} \<longrightarrow> da_net_ev a = 0"
    by (auto simp: a decision_record_def costed_ev_def Let_def split: if_splits)
  moreover from net voters have "da_ev_positive a \<longrightarrow>
      (\<exists>atr spread. da_direction a \<noteq> NEUTRAL \<and> dp_minimum_directional_voters p \<le> da_directional_voters a
        \<and> feature_decimal (ft_atr f) = Some atr \<and> 0 < atr \<and> ddiv atr price \<le> dp_maximum_expected_move_fraction p
        \<and> feature_decimal (ft_bid_ask_spread f) = Some spread \<and> 0 \<le> spread \<and> da_expected_gain a = ddiv atr price
        \<and> da_estimated_cost a = dadd (dp_round_trip_fee_fraction p)
            (dadd (dmul (ddiv atr price) (dp_atr_slippage_multiplier p)) (dmul spread (dp_spread_impact_multiplier p)))
        \<and> da_estimated_cost a < dadd (da_gross_ev a) (da_funding_carry a))"
    by (auto simp: a decision_record_def costed_ev_def Let_def move_available_def dsub_def)
  ultimately show ?thesis by blast
qed

section \<open>The exact majority\<close>

text \<open>The exact margin of the directional votes: longs count positively, shorts negatively.\<close>

definition signed_weight :: "agent_evaluation \<Rightarrow> rat" where
  "signed_weight e =
     (if \<not> ae_voting e then 0
      else case ou_direction (ae_output e) of LONG \<Rightarrow> ae_weight e | SHORT \<Rightarrow> - ae_weight e | NEUTRAL \<Rightarrow> 0)"

definition margin :: "agent_evaluation_matrix \<Rightarrow> rat" where
  "margin m = sum_list (map signed_weight (am_evaluations m))"

definition majority :: "int \<Rightarrow> agent_evaluation_matrix \<Rightarrow> direction" where
  "majority n m =
     (if int (length (filter (\<lambda>e. ae_voting e \<and> ou_direction (ae_output e) \<noteq> NEUTRAL) (am_evaluations m))) < n then NEUTRAL
      else if margin m = 0 then NEUTRAL else if margin m > 0 then LONG else SHORT)"

lemma sum_list_filter_le: "\<forall>x \<in> set xs. 0 \<le> (g x :: rat) \<Longrightarrow> sum_list (map g (filter P xs)) \<le> sum_list (map g xs)"
  by (induction xs) auto

lemma margin_split:
  "margin m = sum_list (map ae_weight (votes_for LONG (directional_rows m)))
     - sum_list (map ae_weight (votes_for SHORT (directional_rows m)))"
proof -
  have "sum_list (map signed_weight es) =
      sum_list (map ae_weight (votes_for LONG (filter (\<lambda>e. ae_voting e \<and> (ou_direction (ae_output e) = LONG \<or> ou_direction (ae_output e) = SHORT)) es)))
     - sum_list (map ae_weight (votes_for SHORT (filter (\<lambda>e. ae_voting e \<and> (ou_direction (ae_output e) = LONG \<or> ou_direction (ae_output e) = SHORT)) es)))" for es
    by (induction es) (auto simp: signed_weight_def votes_for_def split: direction.splits)
  then show ?thesis by (simp add: margin_def directional_rows_def)
qed

lemma directional_rows_eq:
  "directional_rows m = filter (\<lambda>e. ae_voting e \<and> ou_direction (ae_output e) \<noteq> NEUTRAL) (am_evaluations m)"
  unfolding directional_rows_def by (rule filter_cong) (auto, (metis direction.exhaust)+)

text \<open>
  C34: When the weights lie on a decimal grid and their sum fits the precision, the direction of the
  analysis is the one of the exact weighted majority: neutral below the minimum number of
  directional voters and on a tie, otherwise the sign of the exact difference of the long and short
  weights.
\<close>

theorem decision_majority:
  assumes "decision_evaluate p f m price b = Inr a" and "k \<le> 28"
    and "\<forall>e \<in> set (am_evaluations m). 0 < ae_weight e \<and> on_grid k (ae_weight e)"
    and "sum_list (map ae_weight (am_evaluations m)) \<le> 10 ^ (28 - k)"
  shows "da_direction a = majority (dp_minimum_directional_voters p) m \<and>
    da_long_weight a - da_short_weight a = margin m"
proof -
  obtain d reason e j1 j2 j3 j4 h where d: "consensus_direction p m = (d, reason)"
    and a: "a = decision_record p m b d reason e j1 j2 j3 j4 h"
    by (rule decision_evaluate_result [OF assms(1)])
  have exact: "total_weight (votes_for d' (directional_rows m)) = sum_list (map ae_weight (votes_for d' (directional_rows m)))" for d'
  proof -
    let ?v = "votes_for d' (directional_rows m)"
    have abs: "map abs (map ae_weight ?v) = map ae_weight ?v"
      using assms(3) votes_for_subset(1) [of d' m] by (fastforce simp: subset_iff)
    have "sum_list (map ae_weight ?v) \<le> sum_list (map ae_weight (am_evaluations m))"
      unfolding votes_for_def directional_rows_def filter_filter using assms(3) by (intro sum_list_filter_le) auto
    then have "sum_list (map abs (map ae_weight ?v)) \<le> 10 ^ (28 - k)" unfolding abs using assms(4) by linarith
    then show ?thesis
      unfolding total_weight_def using assms(2,3) votes_for_subset(1) [of d' m] by (intro dsum_on_grid [of _ k]) (auto simp: subset_iff)
  qed
  have "d = majority (dp_minimum_directional_voters p) m"
    using d unfolding consensus_direction_def Let_def exact majority_def margin_split directional_rows_eq [symmetric]
    by (auto split: if_splits)
  then show ?thesis by (simp add: a decision_record_def margin_split exact)
qed

section \<open>Symmetry\<close>

fun mirror :: "direction \<Rightarrow> direction" where
  "mirror LONG = SHORT"
| "mirror SHORT = LONG"
| "mirror NEUTRAL = NEUTRAL"

definition mirror_row :: "agent_evaluation \<Rightarrow> agent_evaluation" where
  "mirror_row e = e\<lparr>ae_output := (ae_output e)\<lparr>ou_direction := mirror (ou_direction (ae_output e))\<rparr>\<rparr>"

definition mirror_matrix :: "agent_evaluation_matrix \<Rightarrow> agent_evaluation_matrix" where
  "mirror_matrix m = m\<lparr>am_evaluations := map mirror_row (am_evaluations m)\<rparr>"

definition mirror_bias :: "feature_set \<Rightarrow> feature_set" where
  "mirror_bias f = f\<lparr>ft_funding_bias :=
     (if ft_funding_bias f = Some ''long_heavy'' then Some ''short_heavy''
      else if ft_funding_bias f = Some ''short_heavy'' then Some ''long_heavy'' else ft_funding_bias f)\<rparr>"

lemma mirror_eq_iff [simp]: "mirror d = LONG \<longleftrightarrow> d = SHORT" "mirror d = SHORT \<longleftrightarrow> d = LONG" "mirror d = NEUTRAL \<longleftrightarrow> d = NEUTRAL"
  by (cases d; simp)+

lemma mirror_row_simps [simp]: "ae_weight (mirror_row e) = ae_weight e" "ae_voting (mirror_row e) = ae_voting e"
  "ae_agent_name (mirror_row e) = ae_agent_name e" "ou_direction (ae_output (mirror_row e)) = mirror (ou_direction (ae_output e))"
  "ou_probability (ae_output (mirror_row e)) = ou_probability (ae_output e)"
  "ou_confidence (ae_output (mirror_row e)) = ou_confidence (ae_output e)"
  by (simp_all add: mirror_row_def)

lemma directional_mirror: "directional_rows (mirror_matrix m) = map mirror_row (directional_rows m)"
  by (simp add: directional_rows_def mirror_matrix_def filter_map o_def disj_commute)

lemma neutral_mirror: "neutral_rows (mirror_matrix m) = map mirror_row (neutral_rows m)"
  by (simp add: neutral_rows_def mirror_matrix_def filter_map o_def)

lemma votes_mirror [simp]:
  "votes_for LONG (map mirror_row rows) = map mirror_row (votes_for SHORT rows)"
  "votes_for SHORT (map mirror_row rows) = map mirror_row (votes_for LONG rows)"
  by (simp_all add: votes_for_def filter_map o_def)

lemma weight_mirror [simp]: "total_weight (map mirror_row rows) = total_weight rows"
  "weighted_mean ou_probability (map mirror_row rows) = weighted_mean ou_probability rows"
  "weighted_mean ou_confidence (map mirror_row rows) = weighted_mean ou_confidence rows"
  by (simp_all add: total_weight_def weighted_mean_def o_def)

lemma consensus_mirror: "fst (consensus_direction p (mirror_matrix m)) = mirror (fst (consensus_direction p m))"
  by (auto simp: consensus_direction_def Let_def directional_mirror)

definition mirror_reason :: "string \<Rightarrow> string" where
  "mirror_reason reason =
     (if reason = ''long_weight_majority'' then ''short_weight_majority''
      else if reason = ''short_weight_majority'' then ''long_weight_majority'' else reason)"

lemma reason_mirror: "snd (consensus_direction p (mirror_matrix m)) = mirror_reason (snd (consensus_direction p m))"
  by (auto simp: consensus_direction_def Let_def directional_mirror mirror_reason_def)

lemma winner_mirror: "winner_view (mirror_matrix m) (mirror d) = winner_view m d"
  by (cases d) (simp_all add: winner_view_def Let_def directional_mirror)

lemma dissent_mirror: "dissent_view (mirror_matrix m) (mirror d) = dissent_view m d"
  by (cases d) (simp_all add: dissent_view_def dissenting_rows_def minority_direction_def Let_def directional_mirror)

lemma dissenting_mirror:
  "d \<noteq> NEUTRAL \<Longrightarrow> dissenting_rows (mirror_matrix m) (mirror d) = map mirror_row (dissenting_rows m d)"
  by (cases d) (simp_all add: dissenting_rows_def minority_direction_def directional_mirror)

lemma dissenters_mirror:
  "map ae_agent_name (dissenting_rows (mirror_matrix m) (mirror d)) =
     map ae_agent_name (if d = NEUTRAL then votes_for SHORT (directional_rows m) else dissenting_rows m d)"
  by (cases d) (simp_all add: dissenting_rows_def minority_direction_def directional_mirror)

lemma cost_items_mirror: "cost_items p (mirror_bias f) e = cost_items p f e"
  by (simp add: cost_items_def mirror_bias_def)

lemma ev_mirror: "d \<noteq> NEUTRAL \<Longrightarrow> decision_ev p (mirror_bias f) (mirror d) pr price = decision_ev p f d pr price"
  by (cases d) (simp_all add: decision_ev_def mirror_bias_def costed_ev_def funding_carry_def Let_def split: option.splits)

text \<open>
  C35: Long and short are treated alike: if every vote and the funding bias are turned around, the
  analysis is the same in every field but these: the direction is turned around, the long and short
  weights change places, the reason names the other side, and the consensus snapshot, the
  adversarial snapshot and the content hash, which record these values and the matrix, are new.
  So probabilities, confidences, neutral weight, voters, the challenge and its probability and
  confidence, gain, loss, gross and net expected value, carry, cost, benchmark, alpha, their reasons
  and the expected value and cost snapshots do not change.  The dissenters are the same agents too,
  except under a neutral consensus, where the code lists those who voted long.
\<close>

theorem decision_symmetry:
  assumes "decision_evaluate p f m price b = Inr a"
    and "decision_evaluate p (mirror_bias f) (mirror_matrix m) price b = Inr a'"
  shows "\<exists>consensus adversarial h. a' = a\<lparr>da_direction := mirror (da_direction a),
      da_long_weight := da_short_weight a, da_short_weight := da_long_weight a,
      da_consensus_reason := mirror_reason (da_consensus_reason a),
      da_dissenters := (if da_direction a = NEUTRAL then map ae_agent_name (votes_for SHORT (directional_rows m))
        else da_dissenters a),
      da_consensus_snapshot := consensus, da_adversarial_snapshot := adversarial, da_content_hash := h\<rparr>"
proof -
  obtain d reason e j1 j2 j3 j4 h where d: "consensus_direction p m = (d, reason)"
    and e: "decision_ev p f d (fst (winner_view m d)) price = Inr e" and a: "a = decision_record p m b d reason e j1 j2 j3 j4 h"
    and j: "decision_object (cost_items p f e) = Inr j3" "decision_object (ev_items (fst (winner_view m d)) e b) = Inr j4"
    by (rule decision_evaluate_result [OF assms(1)])
  obtain d' reason' e' k1 k2 k3 k4 h' where d': "consensus_direction p (mirror_matrix m) = (d', reason')"
    and e': "decision_ev p (mirror_bias f) d' (fst (winner_view (mirror_matrix m) d')) price = Inr e'"
    and a': "a' = decision_record p (mirror_matrix m) b d' reason' e' k1 k2 k3 k4 h'"
    and k: "decision_object (cost_items p (mirror_bias f) e') = Inr k3"
      "decision_object (ev_items (fst (winner_view (mirror_matrix m) d')) e' b) = Inr k4"
    by (rule decision_evaluate_result [OF assms(2)])
  have dd: "d' = mirror d" "reason' = mirror_reason reason" using consensus_mirror [of p m] reason_mirror [of p m] d d' by simp_all
  have ee: "e' = e"
  proof (cases "d = NEUTRAL")
    case True
    then show ?thesis using e e' dd by (simp add: decision_ev_def Let_def)
  qed (use e e' dd in \<open>simp add: winner_mirror ev_mirror\<close>)
  have "k3 = j3" "k4 = j4" using j k by (simp_all add: ee dd cost_items_mirror winner_mirror)
  moreover have "challenge_blocked p (mirror_matrix m) (mirror d) = challenge_blocked p m d"
    by (cases "d = NEUTRAL") (simp_all add: challenge_blocked_def dissent_mirror dissenting_mirror)
  ultimately show ?thesis
    by (intro exI [of _ k1] exI [of _ k2] exI [of _ h'])
      (simp add: a a' dd ee decision_record_def winner_mirror dissent_mirror directional_mirror neutral_mirror dissenters_mirror)
qed

section \<open>Examples\<close>

definition ex_vote :: "string \<Rightarrow> agent_evaluation" where
  "ex_vote n =
     \<lparr>ae_agent_name = n, ae_version = ''1'', ae_maturity = IMPLEMENTED, ae_proxy_label = None, ae_weight = 1,
      ae_enabled = True, ae_compatible = True, ae_voting = True, ae_reason_codes = [''agent_evaluated''],
      ae_input_contributions = JObject [], ae_duration_ms = 0,
      ae_output = \<lparr>ou_direction = (if n = ''liquidity'' then SHORT else LONG), ou_probability = 9/10, ou_confidence = 8/10,
        ou_risk = 3/10\<rparr>, ae_failure_reason = None\<rparr>"

definition ex_votes :: agent_evaluation_matrix where
  "ex_votes = \<lparr>am_experiment_id = 1, am_symbol = ''BTCUSDT'', am_timeframe = ''1m'', am_feature_at = utc 60000000,
     am_regime = Some ''trending'', am_evaluations = map ex_vote ALL_AGENTS\<rparr>"

definition ex_market :: feature_set where
  "ex_market = ex_features\<lparr>ft_bid_ask_spread := Some (Finite (1/10000) ''0.0001'')\<rparr>"

definition ex_decision_policy :: official_decision_policy where
  "ex_decision_policy =
     \<lparr>dp_adversarial_block_threshold = 65 / 100, dp_round_trip_fee_fraction = 1 / 1000,
      dp_atr_slippage_multiplier = 5 / 10, dp_spread_impact_multiplier = 3 / 10,
      dp_maximum_expected_move_fraction = 20 / 100, dp_minimum_directional_voters = 2\<rparr>"

lemma ex_decision_policy_ok: "decision_policy_post_init ex_decision_policy = Inr ex_decision_policy"
  by (simp add: decision_policy_post_init_def ex_decision_policy_def require_policy_nonneg_def)

lemma ex_vote_ok: "n \<in> set ALL_AGENTS \<Longrightarrow> sound_row (ex_vote n)"
  by (simp add: sound_row_def ex_vote_def agent_evaluation_post_init_def agent_output_post_init_def
      require_unit_interval_def truthy_def require_mapping_def dround_eq_iff [symmetric] dround_1)

lemma ex_votes_ok: "agent_matrix_post_init ex_votes = Inr ex_votes" "\<forall>e \<in> set (am_evaluations ex_votes). sound_row e"
proof -
  show "agent_matrix_post_init ex_votes = Inr ex_votes"
    by (simp add: ex_votes_def agent_matrix_post_init_def require_utc_def upper_def upper_char_def less_eq_char_def
        ex_vote_def ALL_AGENTS_def)
  show "\<forall>e \<in> set (am_evaluations ex_votes). sound_row e" by (simp add: ex_votes_def ex_vote_ok)
qed

lemma ex_identity: "decision_identity ex_market ex_votes 10000 = Inr ()"
  by (simp add: decision_identity_def dt_eq_def ex_market_def ex_features_def ex_votes_def)

lemma ex_decision: "\<exists>a. decision_evaluate ex_decision_policy ex_market ex_votes 10000 b = Inr a"
  by (rule decision_evaluate_ok [OF ex_decision_policy_ok ex_votes_ok ex_identity])

theorem decision_total_witness:
  "\<exists>a. decision_evaluate ex_decision_policy ex_market ex_votes 10000 None = Inr a \<and> da_consensus_probability a \<le> 1"
  using decision_total [OF ex_decision_policy_ok ex_votes_ok ex_identity, of None] by blast

lemma ex_consensus: "consensus_direction ex_decision_policy ex_votes = (LONG, ''long_weight_majority'')"
  "fst (winner_view ex_votes LONG) = 9/10"
  by (simp_all add: consensus_direction_def winner_view_def weighted_mean_def directional_rows_def votes_for_def
      total_weight_def dsum_def dec_defs dec_eval Let_def ex_votes_def ex_vote_def ALL_AGENTS_def ex_decision_policy_def)

lemma ex_ev: "decision_ev ex_decision_policy ex_market LONG (9/10) 10000 = Inr e \<Longrightarrow> ev_net e = 197/100000"
  by (auto simp: decision_ev_def Let_def ex_market_def ex_features_def ex_decision_policy_def move_available_def
      costed_ev_def funding_carry_def dec_defs dec_eval)

theorem decision_fail_closed_witness:
  "\<exists>a. decision_evaluate ex_decision_policy ex_market ex_votes 10000 (Some 0) = Inr a \<and> da_ev_positive a \<and>
     da_alpha_positive a \<and> da_estimated_cost a < dadd (da_gross_ev a) (da_funding_carry a)"
proof -
  obtain a where a: "decision_evaluate ex_decision_policy ex_market ex_votes 10000 (Some 0) = Inr a" using ex_decision by blast
  then obtain d reason e j1 j2 j3 j4 h where r: "consensus_direction ex_decision_policy ex_votes = (d, reason)"
    "decision_ev ex_decision_policy ex_market d (fst (winner_view ex_votes d)) 10000 = Inr e"
    "a = decision_record ex_decision_policy ex_votes (Some 0) d reason e j1 j2 j3 j4 h"
    by (rule decision_evaluate_result)
  have "0 < ev_net e" using r(1,2) ex_ev by (simp add: ex_consensus)
  then have "da_ev_positive a" "0 < da_net_ev a" by (simp_all add: r(3) decision_record_def)
  then show ?thesis using decision_fail_closed [OF a] a by blast
qed

theorem decision_majority_witness:
  "\<exists>a. decision_evaluate ex_decision_policy ex_market ex_votes 10000 None = Inr a \<and> da_direction a = LONG"
proof -
  obtain a where a: "decision_evaluate ex_decision_policy ex_market ex_votes 10000 None = Inr a" using ex_decision by blast
  have g: "\<forall>e \<in> set (am_evaluations ex_votes). 0 < ae_weight e \<and> on_grid 0 (ae_weight e)"
    using on_grid_of_int [of 0 1] by (simp add: ex_votes_def ex_vote_def)
  have s: "sum_list (map ae_weight (am_evaluations ex_votes)) \<le> 10 ^ (28 - 0)"
    by (simp add: ex_votes_def ex_vote_def ALL_AGENTS_def)
  have "majority (dp_minimum_directional_voters ex_decision_policy) ex_votes = LONG"
    by (simp add: majority_def margin_def signed_weight_def ex_votes_def ex_vote_def ALL_AGENTS_def ex_decision_policy_def)
  then show ?thesis using decision_majority [OF a _ g s] a by simp
qed

lemma ex_mirror_ok: "\<exists>a. decision_evaluate ex_decision_policy (mirror_bias ex_market) (mirror_matrix ex_votes) 10000 None = Inr a"
proof (rule decision_evaluate_ok [OF ex_decision_policy_ok])
  show "agent_matrix_post_init (mirror_matrix ex_votes) = Inr (mirror_matrix ex_votes)"
    by (simp add: mirror_matrix_def agent_matrix_post_init_def ex_votes_def o_def mirror_row_def require_utc_def
        upper_def upper_char_def less_eq_char_def ex_vote_def ALL_AGENTS_def)
  show "decision_identity (mirror_bias ex_market) (mirror_matrix ex_votes) 10000 = Inr ()"
    using ex_identity by (simp add: mirror_bias_def mirror_matrix_def decision_identity_def)
  have "sound_row (mirror_row (ex_vote n))" if "n \<in> set ALL_AGENTS" for n
    using that
    by (simp add: sound_row_def mirror_row_def ex_vote_def agent_evaluation_post_init_def agent_output_post_init_def
        require_unit_interval_def truthy_def require_mapping_def dround_eq_iff [symmetric] dround_1)
  then show "\<forall>e \<in> set (am_evaluations (mirror_matrix ex_votes)). sound_row e" by (auto simp: mirror_matrix_def ex_votes_def)
qed

theorem decision_symmetry_witness:
  "\<exists>a a'. decision_evaluate ex_decision_policy ex_market ex_votes 10000 None = Inr a \<and>
     decision_evaluate ex_decision_policy (mirror_bias ex_market) (mirror_matrix ex_votes) 10000 None = Inr a' \<and>
     da_direction a' = mirror (da_direction a) \<and> da_net_ev a' = da_net_ev a \<and>
     da_dissent_probability a' = da_dissent_probability a"
proof -
  obtain a where a: "decision_evaluate ex_decision_policy ex_market ex_votes 10000 None = Inr a" using ex_decision by blast
  obtain a' where a': "decision_evaluate ex_decision_policy (mirror_bias ex_market) (mirror_matrix ex_votes) 10000 None = Inr a'"
    using ex_mirror_ok by blast
  from decision_symmetry [OF a a'] obtain c adv h where "a' = a\<lparr>da_direction := mirror (da_direction a),
      da_long_weight := da_short_weight a, da_short_weight := da_long_weight a,
      da_consensus_reason := mirror_reason (da_consensus_reason a),
      da_dissenters := (if da_direction a = NEUTRAL then map ae_agent_name (votes_for SHORT (directional_rows ex_votes))
        else da_dissenters a),
      da_consensus_snapshot := c, da_adversarial_snapshot := adv, da_content_hash := h\<rparr>" by blast
  then have "da_direction a' = mirror (da_direction a)" "da_net_ev a' = da_net_ev a"
    "da_dissent_probability a' = da_dissent_probability a" by simp_all
  with a a' show ?thesis by blast
qed

end
