(* ===== verification/Admission.thy ===== *)
theory Admission
  imports Gates
begin

text \<open>
  \<^verbatim>\<open>maais/monitoring/admission.py\<close>: whether monitoring admits a decision: the kill switch, the health
  of the mandatory components, the volatility baseline, the spread and the benchmark.

  \<open>int(x.total_seconds())\<close> of an age limit is its whole seconds (limits are far below the magnitude of \<open>2 ^ 33\<close> seconds
  from which the float of \<open>total_seconds\<close> would round).
\<close>

section \<open>Policy and context\<close>

datatype admission_check = KILL_SWITCH | HEALTH | BASELINE_WARMUP | VOLATILITY | LIQUIDITY | BENCHMARK

fun admission_check_value :: "admission_check \<Rightarrow> string" where
  "admission_check_value KILL_SWITCH = ''kill_switch''"
| "admission_check_value HEALTH = ''health''"
| "admission_check_value BASELINE_WARMUP = ''baseline_warmup''"
| "admission_check_value VOLATILITY = ''volatility''"
| "admission_check_value LIQUIDITY = ''liquidity''"
| "admission_check_value BENCHMARK = ''benchmark''"

definition all_admission_checks :: "admission_check list" where
  "all_admission_checks = [KILL_SWITCH, HEALTH, BASELINE_WARMUP, VOLATILITY, LIQUIDITY, BENCHMARK]"

record official_admission_policy =
  mp_mandatory_components :: "string list"
  mp_health_max_age :: timedelta
  mp_market_observation_max_age :: timedelta
  mp_benchmark_max_age :: timedelta
  mp_minimum_baseline_samples :: int
  mp_volatility_multiplier :: decimal
  mp_maximum_spread_fraction :: decimal

definition admission_policy_post_init :: "official_admission_policy \<Rightarrow> official_admission_policy result" where
  "admission_policy_post_init p =
     thenE (checks
       [raise_if (mp_mandatory_components p = [] \<or> \<not> distinct (mp_mandatory_components p) \<or>
            [] \<in> set (mp_mandatory_components p))
          (ValueError ''mandatory monitoring components must be nonempty and unique''),
        raise_if (mp_health_max_age p \<le> 0) (ValueError ''health_max_age must be positive''),
        raise_if (mp_market_observation_max_age p \<le> 0) (ValueError ''market_observation_max_age must be positive''),
        raise_if (mp_benchmark_max_age p \<le> 0) (ValueError ''benchmark_max_age must be positive''),
        raise_if (mp_minimum_baseline_samples p \<le> 1) (ValueError ''baseline warmup must require multiple samples''),
        raise_if (mp_volatility_multiplier p \<le> 0) (ValueError ''volatility_multiplier must be a positive finite Decimal''),
        raise_if (mp_maximum_spread_fraction p \<le> 0)
          (ValueError ''maximum_spread_fraction must be a positive finite Decimal'')])
     (Inr p)"

definition component_names :: "string list" where
  "component_names = [''market_data'', ''feature_pipeline'', ''agents'', ''decision'', ''risk'', ''execution'', ''monitoring'']"

definition conservative_admission_policy :: official_admission_policy where
  "conservative_admission_policy =
     \<lparr>mp_mandatory_components = component_names, mp_health_max_age = 10 * 1000000,
      mp_market_observation_max_age = 2 * 1000000, mp_benchmark_max_age = 60 * 1000000,
      mp_minimum_baseline_samples = 60, mp_volatility_multiplier = 15 / 10, mp_maximum_spread_fraction = 5 / 100\<rparr>"

definition admission_utc :: "datetime \<Rightarrow> string \<Rightarrow> unit result" where
  "admission_utc t field = raise_if (\<not> is_utc t) (ValueError (field @ '' must be UTC-aware''))"

record health_observation =
  ho_component :: string
  ho_healthy :: bool
  ho_observed_at :: datetime
  ho_error :: "string option"

definition health_observation_post_init :: "health_observation \<Rightarrow> health_observation result" where
  "health_observation_post_init h =
     thenE (checks
       [raise_if (ho_component h = []) (ValueError ''health component is required''),
        admission_utc (ho_observed_at h) ''health observed_at'',
        raise_if (ho_healthy h \<and> ho_error h \<noteq> None) (ValueError ''healthy component cannot carry an error'')])
     (Inr h)"

record rolling_volatility_baseline =
  vb_symbol :: string
  vb_timeframe :: string
  vb_sample_count :: int
  vb_baseline_std :: decimal
  vb_current_std :: decimal
  vb_spread_fraction :: decimal
  vb_observed_at :: datetime

definition volatility_baseline_post_init :: "rolling_volatility_baseline \<Rightarrow> rolling_volatility_baseline result" where
  "volatility_baseline_post_init v =
     thenE (checks
       [raise_if (vb_symbol v = [] \<or> vb_symbol v \<noteq> upper (vb_symbol v) \<or> vb_timeframe v = [])
          (ValueError ''volatility baseline identity is invalid''),
        raise_if (vb_sample_count v < 0) (ValueError ''volatility baseline sample count cannot be negative''),
        raise_if (vb_baseline_std v \<le> 0) (ValueError ''baseline std must be positive and finite''),
        raise_if (vb_current_std v < 0) (ValueError ''current_std must be nonnegative and finite''),
        raise_if (vb_spread_fraction v < 0) (ValueError ''spread_fraction must be nonnegative and finite''),
        admission_utc (vb_observed_at v) ''volatility observed_at''])
     (Inr v)"

record benchmark_observation =
  bo_symbol :: string
  bo_return_fraction :: decimal
  bo_observed_at :: datetime
  bo_source_event_id :: string

definition benchmark_observation_post_init :: "benchmark_observation \<Rightarrow> benchmark_observation result" where
  "benchmark_observation_post_init b =
     thenE (checks
       [raise_if (bo_symbol b = [] \<or> bo_symbol b \<noteq> upper (bo_symbol b) \<or> bo_source_event_id b = [])
          (ValueError ''benchmark identity is invalid''),
        admission_utc (bo_observed_at b) ''benchmark observed_at''])
     (Inr b)"

record monitoring_admission_context =
  mc_symbol :: string
  mc_timeframe :: string
  mc_evaluated_at :: datetime
  mc_kill_switch_active :: bool
  mc_kill_switch_reason :: "string option"
  mc_kill_switch_version :: int
  mc_kill_switch_changed_at :: datetime
  mc_kill_switch_changed_by :: string
  mc_health :: "health_observation list"
  mc_volatility :: "rolling_volatility_baseline option"
  mc_benchmark :: "benchmark_observation option"

definition admission_context_post_init :: "monitoring_admission_context \<Rightarrow> monitoring_admission_context result" where
  "admission_context_post_init c =
     thenE (checks
       [raise_if (mc_symbol c = [] \<or> mc_symbol c \<noteq> upper (mc_symbol c) \<or> mc_timeframe c = [])
          (ValueError ''monitoring context identity is invalid''),
        admission_utc (mc_evaluated_at c) ''monitoring evaluated_at'',
        admission_utc (mc_kill_switch_changed_at c) ''kill_switch_changed_at'',
        raise_if (mc_kill_switch_active c \<noteq> (mc_kill_switch_reason c \<noteq> None))
          (ValueError ''kill switch state and reason must appear together''),
        raise_if (mc_kill_switch_version c < 0) (ValueError ''kill switch version cannot be negative''),
        raise_if (mc_kill_switch_changed_by c = []) (ValueError ''kill switch actor is required''),
        raise_if (mc_kill_switch_changed_at c > mc_evaluated_at c)
          (ValueError ''kill switch state cannot come from the future''),
        raise_if (\<not> distinct (map ho_component (mc_health c)))
          (ValueError ''health observations must be unique by component'')])
     (Inr (c\<lparr>mc_health := sort_key ho_component (mc_health c)\<rparr>))"

section \<open>Gates and decisions\<close>

record admission_gate_result =
  gr_check :: admission_check
  gr_status :: quality_status
  gr_reason_code :: string
  gr_details :: json

definition admission_gate_post_init :: "admission_gate_result \<Rightarrow> admission_gate_result result" where
  "admission_gate_post_init g =
     thenE (raise_if (gr_reason_code g = []) (ValueError ''admission reason code is required''))
     (bindE (freeze_json (json_pyval (gr_details g))) (\<lambda>normalized.
      bindE (require_mapping ''admission gate details must be an object'' normalized) (\<lambda>details.
        Inr (g\<lparr>gr_details := details\<rparr>))))"

definition admission_gate_to_dict :: "admission_gate_result \<Rightarrow> pyval" where
  "admission_gate_to_dict g = pydict
     [(''check'', PyEnum (PyStr (admission_check_value (gr_check g)))),
      (''status'', PyEnum (PyStr (quality_status_value (gr_status g)))),
      (''reason_code'', PyStr (gr_reason_code g)), (''details'', json_pyval (gr_details g))]"

definition admission_gate ::
  "admission_check \<Rightarrow> quality_status \<Rightarrow> string \<Rightarrow> (string \<times> pyval) list \<Rightarrow> admission_gate_result result" where
  "admission_gate check status reason_code details =
     bindE (freeze_json (pydict details)) (\<lambda>normalized.
     bindE (require_mapping ''admission gate details must be an object'' normalized) (\<lambda>d.
       admission_gate_post_init \<lparr>gr_check = check, gr_status = status, gr_reason_code = reason_code, gr_details = d\<rparr>))"

record monitoring_admission_decision =
  md_allowed :: bool
  md_input_snapshot :: json
  md_gates :: "admission_gate_result list"
  md_blocking_checks :: "admission_check list"
  md_content_hash :: string

definition blocking_gates :: "admission_gate_result list \<Rightarrow> admission_check list" where
  "blocking_gates gates = map gr_check (filter (\<lambda>g. gr_status g \<noteq> PASSED) gates)"

definition admission_decision_post_init :: "monitoring_admission_decision \<Rightarrow> monitoring_admission_decision result" where
  "admission_decision_post_init d =
     thenE (checks
       [raise_if (map gr_check (md_gates d) \<noteq> all_admission_checks)
          (ValueError ''monitoring decision must contain every ordered admission check''),
        raise_if (blocking_gates (md_gates d) \<noteq> md_blocking_checks d \<or> md_allowed d \<noteq> (blocking_gates (md_gates d) = []))
          (ValueError ''monitoring admission does not match its gate results''),
        raise_if (length (md_content_hash d) \<noteq> 64) (ValueError ''monitoring admission content hash must be SHA-256'')])
     (bindE (freeze_json (json_pyval (md_input_snapshot d))) (\<lambda>normalized.
      bindE (require_mapping ''monitoring input snapshot must be an object'' normalized) (\<lambda>snapshot.
        Inr (d\<lparr>md_input_snapshot := snapshot\<rparr>))))"

section \<open>The checks\<close>

definition kill_switch_gate :: "monitoring_admission_context \<Rightarrow> admission_gate_result result" where
  "kill_switch_gate c =
     (if mc_kill_switch_active c
      then admission_gate KILL_SWITCH FAILED ''kill_switch_active''
        [(''reason'', py_option PyStr (mc_kill_switch_reason c)), (''version'', PyInt (mc_kill_switch_version c)),
         (''changed_at'', PyDatetime (mc_kill_switch_changed_at c)), (''changed_by'', PyStr (mc_kill_switch_changed_by c))]
      else admission_gate KILL_SWITCH PASSED ''kill_switch_clear''
        [(''version'', PyInt (mc_kill_switch_version c)), (''changed_at'', PyDatetime (mc_kill_switch_changed_at c)),
         (''changed_by'', PyStr (mc_kill_switch_changed_by c))])"

definition health_of :: "monitoring_admission_context \<Rightarrow> string \<Rightarrow> health_observation option" where
  "health_of c = map_of (rev (map (\<lambda>h. (ho_component h, h)) (mc_health c)))"

text \<open>The mandatory components whose observation satisfies a condition, sorted.\<close>

definition components_with ::
  "official_admission_policy \<Rightarrow> monitoring_admission_context \<Rightarrow> (health_observation \<Rightarrow> bool) \<Rightarrow> string list" where
  "components_with p c P =
     sort (filter (\<lambda>n. case health_of c n of None \<Rightarrow> False | Some h \<Rightarrow> P h) (mp_mandatory_components p))"

definition whole_seconds :: "timedelta \<Rightarrow> int" where
  "whole_seconds d = d div 1000000"

definition health_gate ::
  "official_admission_policy \<Rightarrow> monitoring_admission_context \<Rightarrow> admission_gate_result result" where
  "health_gate p c =
     (let missing = sort (filter (\<lambda>n. health_of c n = None) (remdups (mp_mandatory_components p)));
          unhealthy = components_with p c (\<lambda>h. \<not> ho_healthy h);
          future = components_with p c (\<lambda>h. ho_observed_at h > mc_evaluated_at c);
          stale = components_with p c (\<lambda>h. dt_diff (mc_evaluated_at c) (ho_observed_at h) > mp_health_max_age p)
      in if missing \<noteq> [] then admission_gate HEALTH NOT_APPLICABLE ''mandatory_health_missing'' [(''components'', strings missing)]
         else if unhealthy \<noteq> [] then admission_gate HEALTH FAILED ''mandatory_health_unhealthy'' [(''components'', strings unhealthy)]
         else if future \<noteq> [] then admission_gate HEALTH FAILED ''mandatory_health_from_future'' [(''components'', strings future)]
         else if stale \<noteq> [] then admission_gate HEALTH FAILED ''mandatory_health_stale''
           [(''components'', strings stale), (''maximum_age_seconds'', PyInt (whole_seconds (mp_health_max_age p)))]
         else admission_gate HEALTH PASSED ''mandatory_health_fresh'' [(''components'', strings (mp_mandatory_components p))])"

definition baseline_gate ::
  "official_admission_policy \<Rightarrow> monitoring_admission_context \<Rightarrow> admission_gate_result result" where
  "baseline_gate p c =
     (case mc_volatility c of
        None \<Rightarrow> admission_gate BASELINE_WARMUP NOT_APPLICABLE ''baseline_missing'' []
      | Some v \<Rightarrow>
          if (vb_symbol v, vb_timeframe v) \<noteq> (mc_symbol c, mc_timeframe c)
          then admission_gate BASELINE_WARMUP FAILED ''baseline_identity_mismatch''
            [(''expected_symbol'', PyStr (mc_symbol c)), (''expected_timeframe'', PyStr (mc_timeframe c)),
             (''actual_symbol'', PyStr (vb_symbol v)), (''actual_timeframe'', PyStr (vb_timeframe v))]
          else if vb_observed_at v > mc_evaluated_at c then admission_gate BASELINE_WARMUP FAILED ''baseline_from_future'' []
          else if dt_diff (mc_evaluated_at c) (vb_observed_at v) > mp_market_observation_max_age p
          then admission_gate BASELINE_WARMUP FAILED ''baseline_observation_stale'' []
          else if vb_sample_count v < mp_minimum_baseline_samples p
          then admission_gate BASELINE_WARMUP NOT_APPLICABLE ''baseline_cold''
            [(''sample_count'', PyInt (vb_sample_count v)), (''minimum_samples'', PyInt (mp_minimum_baseline_samples p))]
          else admission_gate BASELINE_WARMUP PASSED ''baseline_warm''
            [(''sample_count'', PyInt (vb_sample_count v)), (''baseline_std'', PyDecimal (vb_baseline_std v))])"

definition volatility_gate ::
  "official_admission_policy \<Rightarrow> monitoring_admission_context \<Rightarrow> admission_gate_result result" where
  "volatility_gate p c =
     bindE (baseline_gate p c) (\<lambda>baseline.
       case mc_volatility c of
         None \<Rightarrow> admission_gate VOLATILITY NOT_APPLICABLE ''baseline_unavailable'' []
       | Some v \<Rightarrow>
           if gr_status baseline \<noteq> PASSED then admission_gate VOLATILITY NOT_APPLICABLE ''baseline_unavailable'' []
           else let threshold = dmul (vb_baseline_std v) (mp_volatility_multiplier p)
                in if vb_current_std v > threshold
                   then admission_gate VOLATILITY FAILED ''volatility_circuit_breaker''
                     [(''current_std'', PyDecimal (vb_current_std v)), (''baseline_std'', PyDecimal (vb_baseline_std v)),
                      (''threshold'', PyDecimal threshold)]
                   else admission_gate VOLATILITY PASSED ''volatility_within_limit''
                     [(''current_std'', PyDecimal (vb_current_std v)), (''threshold'', PyDecimal threshold)])"

definition liquidity_gate ::
  "official_admission_policy \<Rightarrow> monitoring_admission_context \<Rightarrow> admission_gate_result result" where
  "liquidity_gate p c =
     bindE (baseline_gate p c) (\<lambda>baseline.
       case mc_volatility c of
         None \<Rightarrow> admission_gate LIQUIDITY NOT_APPLICABLE ''liquidity_observation_missing'' []
       | Some v \<Rightarrow>
           if gr_status baseline \<noteq> PASSED then admission_gate LIQUIDITY NOT_APPLICABLE ''liquidity_observation_missing'' []
           else if vb_spread_fraction v > mp_maximum_spread_fraction p
           then admission_gate LIQUIDITY FAILED ''liquidity_spread_exceeded''
             [(''spread_fraction'', PyDecimal (vb_spread_fraction v)),
              (''maximum_spread_fraction'', PyDecimal (mp_maximum_spread_fraction p))]
           else admission_gate LIQUIDITY PASSED ''liquidity_within_limit''
             [(''spread_fraction'', PyDecimal (vb_spread_fraction v))])"

definition benchmark_gate ::
  "official_admission_policy \<Rightarrow> monitoring_admission_context \<Rightarrow> admission_gate_result result" where
  "benchmark_gate p c =
     (case mc_benchmark c of
        None \<Rightarrow> admission_gate BENCHMARK NOT_APPLICABLE ''benchmark_missing'' []
      | Some b \<Rightarrow>
          if bo_observed_at b > mc_evaluated_at c
          then admission_gate BENCHMARK FAILED ''benchmark_from_future'' [(''source_event_id'', PyStr (bo_source_event_id b))]
          else if dt_diff (mc_evaluated_at c) (bo_observed_at b) > mp_benchmark_max_age p
          then admission_gate BENCHMARK FAILED ''benchmark_stale'' [(''source_event_id'', PyStr (bo_source_event_id b))]
          else admission_gate BENCHMARK PASSED ''benchmark_explicit_and_fresh''
            [(''benchmark_symbol'', PyStr (bo_symbol b)), (''return_fraction'', PyDecimal (bo_return_fraction b)),
             (''source_event_id'', PyStr (bo_source_event_id b)), (''observed_at'', PyDatetime (bo_observed_at b))])"

section \<open>The evaluation\<close>

definition health_payload :: "health_observation \<Rightarrow> pyval" where
  "health_payload h = pydict
     [(''component'', PyStr (ho_component h)), (''healthy'', PyBool (ho_healthy h)),
      (''observed_at'', PyDatetime (ho_observed_at h)), (''error'', py_option PyStr (ho_error h))]"

definition volatility_payload :: "rolling_volatility_baseline \<Rightarrow> pyval" where
  "volatility_payload v = pydict
     [(''symbol'', PyStr (vb_symbol v)), (''timeframe'', PyStr (vb_timeframe v)), (''sample_count'', PyInt (vb_sample_count v)),
      (''baseline_std'', PyDecimal (vb_baseline_std v)), (''current_std'', PyDecimal (vb_current_std v)),
      (''spread_fraction'', PyDecimal (vb_spread_fraction v)), (''observed_at'', PyDatetime (vb_observed_at v))]"

definition benchmark_payload :: "benchmark_observation \<Rightarrow> pyval" where
  "benchmark_payload b = pydict
     [(''symbol'', PyStr (bo_symbol b)), (''return_fraction'', PyDecimal (bo_return_fraction b)),
      (''observed_at'', PyDatetime (bo_observed_at b)), (''source_event_id'', PyStr (bo_source_event_id b))]"

definition admission_input_snapshot :: "official_admission_policy \<Rightarrow> monitoring_admission_context \<Rightarrow> json result" where
  "admission_input_snapshot p c =
     bindE (freeze_json (pydict
       [(''context'', pydict
          [(''symbol'', PyStr (mc_symbol c)), (''timeframe'', PyStr (mc_timeframe c)),
           (''evaluated_at'', PyDatetime (mc_evaluated_at c)), (''kill_switch_active'', PyBool (mc_kill_switch_active c)),
           (''kill_switch_reason'', py_option PyStr (mc_kill_switch_reason c)),
           (''kill_switch_version'', PyInt (mc_kill_switch_version c)),
           (''kill_switch_changed_at'', PyDatetime (mc_kill_switch_changed_at c)),
           (''kill_switch_changed_by'', PyStr (mc_kill_switch_changed_by c)),
           (''health'', PySequence (map health_payload (mc_health c))),
           (''volatility'', py_option volatility_payload (mc_volatility c)),
           (''benchmark'', py_option benchmark_payload (mc_benchmark c))]),
        (''policy'', pydict
          [(''mandatory_components'', strings (mp_mandatory_components p)),
           (''health_max_age_seconds'', PyInt (whole_seconds (mp_health_max_age p))),
           (''market_observation_max_age_seconds'', PyInt (whole_seconds (mp_market_observation_max_age p))),
           (''benchmark_max_age_seconds'', PyInt (whole_seconds (mp_benchmark_max_age p))),
           (''minimum_baseline_samples'', PyInt (mp_minimum_baseline_samples p)),
           (''volatility_multiplier'', PyDecimal (mp_volatility_multiplier p)),
           (''maximum_spread_fraction'', PyDecimal (mp_maximum_spread_fraction p))])]))
       (require_mapping ''monitoring input snapshot must be an object'')"

definition admission_gates ::
  "official_admission_policy \<Rightarrow> monitoring_admission_context \<Rightarrow> admission_gate_result list result" where
  "admission_gates p c = mapE (\<lambda>gate. gate)
     [kill_switch_gate c, health_gate p c, baseline_gate p c, volatility_gate p c, liquidity_gate p c, benchmark_gate p c]"

definition admission_evaluate ::
  "official_admission_policy \<Rightarrow> monitoring_admission_context \<Rightarrow> monitoring_admission_decision result" where
  "admission_evaluate p c =
     bindE (admission_input_snapshot p c) (\<lambda>input_snapshot.
     bindE (admission_gates p c) (\<lambda>gates.
     let blocking = blocking_gates gates
     in bindE (content_hash (pydict
          [(''allowed'', PyBool (blocking = [])), (''input_snapshot'', json_pyval input_snapshot),
           (''gates'', PySequence (map admission_gate_to_dict gates)),
           (''blocking_checks'', PySequence (map (\<lambda>k. PyEnum (PyStr (admission_check_value k))) blocking))])) (\<lambda>h.
        admission_decision_post_init
          \<lparr>md_allowed = (blocking = []), md_input_snapshot = input_snapshot, md_gates = gates,
           md_blocking_checks = blocking, md_content_hash = h\<rparr>)))"

end
