(* ===== verification/Admission_Safety.thy ===== *)
theory Admission_Safety
  imports Admission
begin

text \<open>
  What the monitoring admission guarantees: every evaluation of a constructed context returns a
  decision with the six checks in order, it admits exactly when every condition holds, and an
  admission lapses when the observations it rests on are not renewed.
\<close>

section \<open>Gates\<close>

lemma admission_gate_id: "admission_gate_post_init g = Inr g' \<Longrightarrow> g' = g"
  by (auto simp: admission_gate_post_init_def result_simps freeze_json_pyval simp del: json_pyval.simps)

interpretation adm: gate_chain admission_gate gr_check gr_status admission_gate_to_dict
proof
  fix reason c s g and details :: "(string \<times> pyval) list"
  show "\<exists>g. admission_gate c s reason details = Inr g" if "reason \<noteq> []" "list_all (\<lambda>(k, v). freezes v) details"
  proof -
    have "freezes (pydict details)" using that(2) by simp
    from freezes_object [OF this, of "''admission gate details must be an object''"] that(1) show ?thesis
      by (auto simp: admission_gate_def admission_gate_post_init_def result_simps freeze_json_pyval simp del: json_pyval.simps)
  qed
  show "gr_check g = c \<and> gr_status g = s" if "admission_gate c s reason details = Inr g"
    using that admission_gate_id by (fastforce simp: admission_gate_def bindE_Inr_iff)
  show "freezes (admission_gate_to_dict g)" by (simp add: admission_gate_to_dict_def)
qed

section \<open>The conditions\<close>

definition kill_switch_clear :: "monitoring_admission_context \<Rightarrow> bool" where
  "kill_switch_clear c \<longleftrightarrow> \<not> mc_kill_switch_active c"

definition health_fresh :: "official_admission_policy \<Rightarrow> monitoring_admission_context \<Rightarrow> bool" where
  "health_fresh p c \<longleftrightarrow>
     (\<forall>n \<in> set (mp_mandatory_components p). \<exists>h \<in> set (mc_health c). ho_component h = n \<and> ho_healthy h
        \<and> ho_observed_at h \<le> mc_evaluated_at c \<and> dt_diff (mc_evaluated_at c) (ho_observed_at h) \<le> mp_health_max_age p)"

definition baseline_warm :: "official_admission_policy \<Rightarrow> monitoring_admission_context \<Rightarrow> rolling_volatility_baseline \<Rightarrow> bool" where
  "baseline_warm p c v \<longleftrightarrow>
     mc_volatility c = Some v \<and> vb_symbol v = mc_symbol c \<and> vb_timeframe v = mc_timeframe c
     \<and> vb_observed_at v \<le> mc_evaluated_at c \<and> dt_diff (mc_evaluated_at c) (vb_observed_at v) \<le> mp_market_observation_max_age p
     \<and> mp_minimum_baseline_samples p \<le> vb_sample_count v"

definition benchmark_fresh :: "official_admission_policy \<Rightarrow> monitoring_admission_context \<Rightarrow> bool" where
  "benchmark_fresh p c \<longleftrightarrow>
     (\<exists>b. mc_benchmark c = Some b \<and> bo_observed_at b \<le> mc_evaluated_at c
        \<and> dt_diff (mc_evaluated_at c) (bo_observed_at b) \<le> mp_benchmark_max_age p)"

text \<open>A context as the constructors build it.\<close>

definition sound_context :: "monitoring_admission_context \<Rightarrow> bool" where
  "sound_context c \<longleftrightarrow> admission_context_post_init c = Inr c
     \<and> (\<forall>h \<in> set (mc_health c). health_observation_post_init h = Inr h)
     \<and> (\<forall>v. mc_volatility c = Some v \<longrightarrow> volatility_baseline_post_init v = Inr v)
     \<and> (\<forall>b. mc_benchmark c = Some b \<longrightarrow> benchmark_observation_post_init b = Inr b)"

lemma sound_context_times:
  assumes "sound_context c"
  shows "is_utc (mc_evaluated_at c)" "is_utc (mc_kill_switch_changed_at c)" "distinct (map ho_component (mc_health c))"
    "\<forall>h \<in> set (mc_health c). is_utc (ho_observed_at h)" "\<forall>v. mc_volatility c = Some v \<longrightarrow> is_utc (vb_observed_at v)"
    "\<forall>b. mc_benchmark c = Some b \<longrightarrow> is_utc (bo_observed_at b)"
proof -
  have "admission_context_post_init c = Inr c" using assms by (simp add: sound_context_def)
  then show "is_utc (mc_evaluated_at c)" "is_utc (mc_kill_switch_changed_at c)" "distinct (map ho_component (mc_health c))"
    unfolding admission_context_post_init_def thenE_Inr_iff by (auto simp: admission_utc_def result_simps)
  show "\<forall>h \<in> set (mc_health c). is_utc (ho_observed_at h)" "\<forall>v. mc_volatility c = Some v \<longrightarrow> is_utc (vb_observed_at v)"
    "\<forall>b. mc_benchmark c = Some b \<longrightarrow> is_utc (bo_observed_at b)"
    using assms by (auto simp: sound_context_def health_observation_post_init_def volatility_baseline_post_init_def
        benchmark_observation_post_init_def admission_utc_def result_simps)
qed

lemma health_of_iff:
  assumes "distinct (map ho_component (mc_health c))"
  shows "health_of c n = Some h \<longleftrightarrow> h \<in> set (mc_health c) \<and> ho_component h = n"
proof -
  have "distinct (map fst (rev (map (\<lambda>h. (ho_component h, h)) (mc_health c))))"
    using assms by (simp add: rev_map [symmetric] o_def del: rev_map)
  then show ?thesis by (auto simp: health_of_def)
qed

lemma components_with_Nil:
  "components_with p c P = [] \<longleftrightarrow> (\<forall>n \<in> set (mp_mandatory_components p). \<forall>h. health_of c n = Some h \<longrightarrow> \<not> P h)"
  by (auto simp: components_with_def filter_empty_conv split: option.splits)

lemma health_fresh_iff:
  assumes "distinct (map ho_component (mc_health c))"
  shows "health_fresh p c \<longleftrightarrow> sort (filter (\<lambda>n. health_of c n = None) (remdups (mp_mandatory_components p))) = []
    \<and> components_with p c (\<lambda>h. \<not> ho_healthy h) = [] \<and> components_with p c (\<lambda>h. ho_observed_at h > mc_evaluated_at c) = []
    \<and> components_with p c (\<lambda>h. dt_diff (mc_evaluated_at c) (ho_observed_at h) > mp_health_max_age p) = []"
proof -
  have a: "health_fresh p c \<longleftrightarrow> (\<forall>n \<in> set (mp_mandatory_components p). \<exists>h. health_of c n = Some h \<and> ho_healthy h
        \<and> ho_observed_at h \<le> mc_evaluated_at c \<and> dt_diff (mc_evaluated_at c) (ho_observed_at h) \<le> mp_health_max_age p)"
    unfolding health_fresh_def health_of_iff [OF assms] by blast
  have b: "(\<exists>h. x = Some h \<and> A h \<and> B h \<and> C h) \<longleftrightarrow>
      x \<noteq> None \<and> (\<forall>h. x = Some h \<longrightarrow> A h) \<and> (\<forall>h. x = Some h \<longrightarrow> B h) \<and> (\<forall>h. x = Some h \<longrightarrow> C h)"
    for x :: "health_observation option" and A B C by (cases x) auto
  show ?thesis
    unfolding a b components_with_Nil sort_Nil_iff filter_empty_conv not_less not_not set_remdups ball_conj_distrib ..
qed

lemma health_gate_produces:
  assumes "distinct (map ho_component (mc_health c))"
  shows "produces gr_check gr_status (health_gate p c) HEALTH (health_fresh p c)"
  unfolding health_gate_def Let_def health_fresh_iff [OF assms] by (simp add: adm.produces_make_iff)

lemma baseline_warm_ex:
  "(\<exists>v. baseline_warm p c v \<and> P v) \<longleftrightarrow> (case mc_volatility c of None \<Rightarrow> False | Some v \<Rightarrow> baseline_warm p c v \<and> P v)"
  by (auto simp: baseline_warm_def split: option.splits)

lemma baseline_gate_produces:
  "produces gr_check gr_status (baseline_gate p c) BASELINE_WARMUP (\<exists>v. baseline_warm p c v \<and> True)"
proof (cases "mc_volatility c")
  case (Some v)
  then show ?thesis
    unfolding baseline_gate_def baseline_warm_ex by (simp add: adm.produces_make_iff baseline_warm_def not_less) auto
qed (simp add: baseline_gate_def baseline_warm_def adm.produces_make_iff)

lemma baseline_returns:
  obtains g where "baseline_gate p c = Inr g" "gr_status g = PASSED \<longleftrightarrow> (\<exists>v. baseline_warm p c v \<and> True)"
  using baseline_gate_produces [of p c] by (auto simp: produces_def)

lemma volatility_gate_produces:
  "produces gr_check gr_status (volatility_gate p c) VOLATILITY
     (\<exists>v. baseline_warm p c v \<and> vb_current_std v \<le> dmul (vb_baseline_std v) (mp_volatility_multiplier p))"
proof -
  obtain g where g: "baseline_gate p c = Inr g" "gr_status g = PASSED \<longleftrightarrow> (\<exists>v. baseline_warm p c v \<and> True)" by (rule baseline_returns)
  show ?thesis
    unfolding volatility_gate_def g(1) bindE.simps g(2) baseline_warm_ex
    by (cases "mc_volatility c") (simp_all add: adm.produces_make_iff Let_def not_less)
qed

lemma liquidity_gate_produces:
  "produces gr_check gr_status (liquidity_gate p c) LIQUIDITY
     (\<exists>v. baseline_warm p c v \<and> vb_spread_fraction v \<le> mp_maximum_spread_fraction p)"
proof -
  obtain g where g: "baseline_gate p c = Inr g" "gr_status g = PASSED \<longleftrightarrow> (\<exists>v. baseline_warm p c v \<and> True)" by (rule baseline_returns)
  show ?thesis
    unfolding liquidity_gate_def g(1) bindE.simps g(2) baseline_warm_ex
    by (cases "mc_volatility c") (simp_all add: adm.produces_make_iff not_less)
qed

lemma benchmark_gate_produces:
  "\<forall>b. mc_benchmark c = Some b \<longrightarrow> is_utc (bo_observed_at b) \<Longrightarrow>
     produces gr_check gr_status (benchmark_gate p c) BENCHMARK (benchmark_fresh p c)"
  unfolding benchmark_gate_def benchmark_fresh_def
  by (cases "mc_benchmark c") (simp_all add: adm.produces_make_iff not_less not_le [symmetric])

lemma kill_switch_gate_produces:
  "is_utc (mc_kill_switch_changed_at c) \<Longrightarrow>
     produces gr_check gr_status (kill_switch_gate c) KILL_SWITCH (kill_switch_clear c)"
  by (auto simp: kill_switch_gate_def kill_switch_clear_def adm.produces_make_iff)

section \<open>Decisions\<close>

definition admissible :: "official_admission_policy \<Rightarrow> monitoring_admission_context \<Rightarrow> bool" where
  "admissible p c \<longleftrightarrow> kill_switch_clear c \<and> health_fresh p c \<and> benchmark_fresh p c
     \<and> (\<exists>v. baseline_warm p c v \<and> vb_current_std v \<le> dmul (vb_baseline_std v) (mp_volatility_multiplier p)
           \<and> vb_spread_fraction v \<le> mp_maximum_spread_fraction p)"

lemma admission_gates_ok:
  assumes "sound_context c"
  shows "\<exists>gs. admission_gates p c = Inr gs \<and> map gr_check gs = all_admission_checks \<and>
    (list_all (\<lambda>g. gr_status g = PASSED) gs \<longleftrightarrow> admissible p c)"
proof -
  note t = sound_context_times [OF assms]
  let ?cps = "[(KILL_SWITCH, kill_switch_clear c), (HEALTH, health_fresh p c), (BASELINE_WARMUP, \<exists>v. baseline_warm p c v \<and> True),
    (VOLATILITY, \<exists>v. baseline_warm p c v \<and> vb_current_std v \<le> dmul (vb_baseline_std v) (mp_volatility_multiplier p)),
    (LIQUIDITY, \<exists>v. baseline_warm p c v \<and> vb_spread_fraction v \<le> mp_maximum_spread_fraction p),
    (BENCHMARK, benchmark_fresh p c)]"
  have "list_all2 (\<lambda>m (c, P). produces gr_check gr_status m c P)
      [kill_switch_gate c, health_gate p c, baseline_gate p c, volatility_gate p c, liquidity_gate p c, benchmark_gate p c] ?cps"
    using kill_switch_gate_produces [OF t(2)] health_gate_produces [OF t(3)] baseline_gate_produces volatility_gate_produces
      liquidity_gate_produces benchmark_gate_produces [OF t(6)] by simp
  from adm.chain_returns [OF this] obtain gs where gs: "admission_gates p c = Inr gs" "map gr_check gs = map fst ?cps"
    "list_all2 (\<lambda>g (c, P). gr_status g = PASSED \<longleftrightarrow> P) gs ?cps"
    unfolding admission_gates_def by blast
  have "list_all snd ?cps \<longleftrightarrow> admissible p c" by (auto simp: admissible_def baseline_warm_def)
  then show ?thesis using gs adm.chain_passes [OF gs(3)] by (auto simp: all_admission_checks_def)
qed

lemma admission_snapshot_ok:
  assumes "sound_context c"
  shows "\<exists>ms. admission_input_snapshot p c = Inr (JObject ms)"
proof -
  note t = sound_context_times [OF assms]
  have "freezes (health_payload h)" if "h \<in> set (mc_health c)" for h using t(4) that by (auto simp: health_payload_def)
  moreover have "freezes (volatility_payload v)" if "mc_volatility c = Some v" for v
    using t(5) that by (auto simp: volatility_payload_def)
  moreover have "freezes (benchmark_payload b)" if "mc_benchmark c = Some b" for b
    using t(6) that by (auto simp: benchmark_payload_def)
  ultimately have "\<exists>j. admission_input_snapshot p c = Inr j"
    unfolding admission_input_snapshot_def using t(1,2) by (intro freezes_object) (simp add: list_all_iff)
  then show ?thesis by (auto simp: admission_input_snapshot_def result_simps)
qed

lemma admission_evaluate_ok:
  assumes "sound_context c"
  shows "\<exists>d. admission_evaluate p c = Inr d \<and> md_allowed d = admissible p c \<and> map gr_check (md_gates d) = all_admission_checks
    \<and> md_blocking_checks d = blocking_gates (md_gates d) \<and> length (md_content_hash d) = 64"
proof -
  obtain ms where s: "admission_input_snapshot p c = Inr (JObject ms)" using admission_snapshot_ok [OF assms] by blast
  obtain gs where g: "admission_gates p c = Inr gs" "map gr_check gs = all_admission_checks"
    "list_all (\<lambda>g. gr_status g = PASSED) gs \<longleftrightarrow> admissible p c" using admission_gates_ok [OF assms] by blast
  let ?o = "pydict [(''allowed'', PyBool (blocking_gates gs = [])), (''input_snapshot'', json_pyval (JObject ms)),
           (''gates'', PySequence (map admission_gate_to_dict gs)),
           (''blocking_checks'', PySequence (map (\<lambda>k. PyEnum (PyStr (admission_check_value k))) (blocking_gates gs)))]"
  have "freezes ?o" using adm.dicts_freeze by (simp add: list_all_iff del: json_pyval.simps)
  then obtain h where h: "content_hash ?o = Inr h" "length h = 64" using content_hash_shape by (auto simp: freezes_def)
  let ?d = "\<lparr>md_allowed = (blocking_gates gs = []), md_input_snapshot = JObject ms, md_gates = gs,
           md_blocking_checks = blocking_gates gs, md_content_hash = h\<rparr>"
  have "admission_decision_post_init ?d = Inr ?d"
    using g(2) h(2) by (simp add: admission_decision_post_init_def freeze_json_pyval require_mapping_def del: json_pyval.simps)
  then have "admission_evaluate p c = Inr ?d"
    unfolding admission_evaluate_def s g(1) bindE.simps Let_def h(1) .
  moreover have "blocking_gates gs = [] \<longleftrightarrow> admissible p c"
    unfolding g(3) [symmetric] by (auto simp: blocking_gates_def filter_empty_conv list_all_iff)
  ultimately show ?thesis using g(2) h(2) by auto
qed

text \<open>
  C36: Every evaluation of a constructed context returns a decision with the six checks in order and
  a hash, and it is allowed exactly when the kill switch is off, every mandatory component has a
  healthy observation that is neither from the future nor too old, the volatility baseline is the
  one of the symbol and timeframe, fresh and warm, with the volatility and the spread within their
  limits, and the benchmark is fresh.  The blocking checks are the ones that did not pass.
\<close>

theorem admission_exact:
  assumes "sound_context c"
  shows "\<exists>d. admission_evaluate p c = Inr d \<and> map gr_check (md_gates d) = all_admission_checks \<and> length (md_content_hash d) = 64
    \<and> md_blocking_checks d = map gr_check (filter (\<lambda>g. gr_status g \<noteq> PASSED) (md_gates d))
    \<and> (md_allowed d \<longleftrightarrow> \<not> mc_kill_switch_active c
        \<and> (\<forall>n \<in> set (mp_mandatory_components p). \<exists>h \<in> set (mc_health c). ho_component h = n \<and> ho_healthy h
            \<and> ho_observed_at h \<le> mc_evaluated_at c \<and> dt_diff (mc_evaluated_at c) (ho_observed_at h) \<le> mp_health_max_age p)
        \<and> (\<exists>v. mc_volatility c = Some v \<and> vb_symbol v = mc_symbol c \<and> vb_timeframe v = mc_timeframe c
            \<and> vb_observed_at v \<le> mc_evaluated_at c
            \<and> dt_diff (mc_evaluated_at c) (vb_observed_at v) \<le> mp_market_observation_max_age p
            \<and> mp_minimum_baseline_samples p \<le> vb_sample_count v
            \<and> vb_current_std v \<le> dmul (vb_baseline_std v) (mp_volatility_multiplier p)
            \<and> vb_spread_fraction v \<le> mp_maximum_spread_fraction p)
        \<and> (\<exists>b. mc_benchmark c = Some b \<and> bo_observed_at b \<le> mc_evaluated_at c
            \<and> dt_diff (mc_evaluated_at c) (bo_observed_at b) \<le> mp_benchmark_max_age p))"
proof -
  obtain d where d: "admission_evaluate p c = Inr d" "md_allowed d = admissible p c" "map gr_check (md_gates d) = all_admission_checks"
    "md_blocking_checks d = blocking_gates (md_gates d)" "length (md_content_hash d) = 64"
    using admission_evaluate_ok [OF assms] by blast
  then show ?thesis
    by (intro exI [of _ d])
      (auto simp: admissible_def kill_switch_clear_def health_fresh_def baseline_warm_def benchmark_fresh_def blocking_gates_def)
qed

text \<open>
  C37: An admission lapses: the same observations that are admitted at one time are refused at every
  later time further away than the maximum age of a market observation.
\<close>

theorem admission_lapses:
  assumes "sound_context c" and "admission_evaluate p c = Inr d" and "md_allowed d" and "is_utc t"
    and "mp_market_observation_max_age p < dt_diff t (mc_evaluated_at c)" and "mc_evaluated_at c \<le> t"
    and "admission_evaluate p (c\<lparr>mc_evaluated_at := t\<rparr>) = Inr d'"
  shows "\<not> md_allowed d'"
proof
  let ?c = "c\<lparr>mc_evaluated_at := t\<rparr>"
  assume a': "md_allowed d'"
  have c: "sound_context ?c"
  proof -
    have i: "admission_context_post_init c = Inr c" using assms(1) by (simp add: sound_context_def)
    have "mc_kill_switch_changed_at c \<le> mc_evaluated_at c"
      using i unfolding admission_context_post_init_def thenE_Inr_iff by (auto simp: result_simps)
    then have "mc_kill_switch_changed_at c \<le> t" using assms(6) by (rule order_trans)
    moreover have "c\<lparr>mc_health := sort_key ho_component (mc_health c)\<rparr> = c"
      using i unfolding admission_context_post_init_def thenE_Inr_iff by simp
    from arg_cong [OF this, of mc_health] have "sort_key ho_component (mc_health c) = mc_health c" by simp
    ultimately have "admission_context_post_init ?c = Inr ?c"
      using i assms(4) unfolding admission_context_post_init_def thenE_Inr_iff by (auto simp: result_simps admission_utc_def)
    then show ?thesis using assms(1) by (simp add: sound_context_def)
  qed
  have "admissible p ?c" using admission_evaluate_ok [OF c, of p] assms(7) a' by auto
  moreover have "admissible p c" using admission_evaluate_ok [OF assms(1), of p] assms(2,3) by auto
  ultimately obtain v where v: "vb_observed_at v \<le> mc_evaluated_at c" "dt_diff t (vb_observed_at v) \<le> mp_market_observation_max_age p"
    "mc_volatility c = Some v" by (auto simp: admissible_def baseline_warm_def)
  then have "instant (vb_observed_at v) \<le> instant (mc_evaluated_at c)"
    using sound_context_times [OF assms(1)] by (simp add: utc_le_iff)
  then show False using v(2) assms(5) by (simp add: dt_diff_def)
qed

section \<open>Examples\<close>

definition ex_context :: monitoring_admission_context where
  "ex_context = \<lparr>mc_symbol = ''BTCUSDT'', mc_timeframe = ''1m'', mc_evaluated_at = utc 60000000, mc_kill_switch_active = False,
     mc_kill_switch_reason = None, mc_kill_switch_version = 0, mc_kill_switch_changed_at = utc 0,
     mc_kill_switch_changed_by = ''operator'',
     mc_health = [\<lparr>ho_component = ''market_data'', ho_healthy = True, ho_observed_at = utc 59000000, ho_error = None\<rparr>],
     mc_volatility = Some \<lparr>vb_symbol = ''BTCUSDT'', vb_timeframe = ''1m'', vb_sample_count = 60, vb_baseline_std = 1,
       vb_current_std = 1, vb_spread_fraction = 1/1000, vb_observed_at = utc 59000000\<rparr>,
     mc_benchmark = Some \<lparr>bo_symbol = ''BTCUSDT'', bo_return_fraction = 0, bo_observed_at = utc 59000000,
       bo_source_event_id = ''e1''\<rparr>\<rparr>"

definition ex_admission_policy :: official_admission_policy where
  "ex_admission_policy = conservative_admission_policy\<lparr>mp_mandatory_components := [''market_data'']\<rparr>"

lemma ex_context_ok: "0 \<le> s \<Longrightarrow> sound_context (ex_context\<lparr>mc_evaluated_at := utc s\<rparr>)" "sound_context ex_context"
  by (simp_all add: sound_context_def ex_context_def admission_context_post_init_def health_observation_post_init_def
      volatility_baseline_post_init_def benchmark_observation_post_init_def admission_utc_def upper_def upper_char_def
      less_eq_char_def)

lemma ex_admissible: "admissible ex_admission_policy ex_context"
  by (simp add: admissible_def kill_switch_clear_def health_fresh_def benchmark_fresh_def baseline_warm_def ex_context_def
      ex_admission_policy_def conservative_admission_policy_def dt_diff_def dmul_def dec_eval)

theorem admission_exact_witness: "\<exists>d. admission_evaluate ex_admission_policy ex_context = Inr d \<and> md_allowed d"
  using admission_exact [OF ex_context_ok(2), of ex_admission_policy]
  by (auto simp: ex_context_def ex_admission_policy_def conservative_admission_policy_def dt_diff_def dmul_def dec_eval)

theorem admission_lapses_witness:
  "\<exists>d d'. admission_evaluate ex_admission_policy ex_context = Inr d \<and> md_allowed d \<and>
     admission_evaluate ex_admission_policy (ex_context\<lparr>mc_evaluated_at := utc 63000000\<rparr>) = Inr d' \<and> \<not> md_allowed d'"
proof -
  obtain d where d: "admission_evaluate ex_admission_policy ex_context = Inr d" "md_allowed d"
    using admission_evaluate_ok [OF ex_context_ok(2), of ex_admission_policy] ex_admissible by auto
  obtain d' where d': "admission_evaluate ex_admission_policy (ex_context\<lparr>mc_evaluated_at := utc 63000000\<rparr>) = Inr d'"
    using admission_evaluate_ok [OF ex_context_ok(1), of 63000000] by auto
  have "mp_market_observation_max_age ex_admission_policy < dt_diff (utc 63000000) (mc_evaluated_at ex_context)"
    "mc_evaluated_at ex_context \<le> utc 63000000"
    by (simp_all add: ex_admission_policy_def conservative_admission_policy_def ex_context_def dt_diff_def)
  from admission_lapses [OF ex_context_ok(2) d is_utc_utc this d'] d d' show ?thesis by blast
qed

end
