(* ===== verification/Events.thy ===== *)
theory Events
  imports Gates
begin

text \<open>
  \<^verbatim>\<open>maais/market_data/events.py\<close>: the eight kinds of market payload, each a dataclass with its
  validation and its dict, and the observed event that carries one of them with its identity and content hash.
  A \<open>_post_init\<close> function is the dataclass's \<open>__post_init__\<close>; a Decimal is finite by its type.
\<close>

section \<open>Guards and enumerations\<close>

definition event_require_decimal :: "decimal \<Rightarrow> string \<Rightarrow> bool \<Rightarrow> bool \<Rightarrow> unit result" where
  "event_require_decimal x field positive nonnegative = checks
     [raise_if (positive \<and> x \<le> 0) (ValueError (field @ '' must be positive'')),
      raise_if (nonnegative \<and> x < 0) (ValueError (field @ '' must be nonnegative''))]"

lemma event_require_decimal_iff [result_simps]:
  "event_require_decimal x field positive nonnegative = Inr u \<longleftrightarrow> (positive \<longrightarrow> 0 < x) \<and> (nonnegative \<longrightarrow> 0 \<le> x)"
  by (auto simp: event_require_decimal_def result_simps)

datatype market_event_kind =
  CLOSED_BAR | ORDER_BOOK | TRADE | MARK_FUNDING | FUNDING_SETTLEMENT | REFERENCE_PRICE | VENUE_CLOCK | SYMBOL_STATE

fun market_event_kind_value :: "market_event_kind \<Rightarrow> string" where
  "market_event_kind_value CLOSED_BAR = ''closed_bar''"
| "market_event_kind_value ORDER_BOOK = ''order_book''"
| "market_event_kind_value TRADE = ''trade''"
| "market_event_kind_value MARK_FUNDING = ''mark_funding''"
| "market_event_kind_value FUNDING_SETTLEMENT = ''funding_settlement''"
| "market_event_kind_value REFERENCE_PRICE = ''reference_price''"
| "market_event_kind_value VENUE_CLOCK = ''venue_clock''"
| "market_event_kind_value SYMBOL_STATE = ''symbol_state''"

datatype reference_kind = PRIMARY_SPOT | SECONDARY_VENUE

fun reference_kind_value :: "reference_kind \<Rightarrow> string" where
  "reference_kind_value PRIMARY_SPOT = ''primary_spot''"
| "reference_kind_value SECONDARY_VENUE = ''secondary_venue''"

datatype aggressor_side = AGGRESSOR_BUY | AGGRESSOR_SELL

fun aggressor_side_value :: "aggressor_side \<Rightarrow> string" where
  "aggressor_side_value AGGRESSOR_BUY = ''buy''"
| "aggressor_side_value AGGRESSOR_SELL = ''sell''"

section \<open>Payloads\<close>

record price_level =
  pl_price :: decimal
  pl_quantity :: decimal

definition price_level_post_init :: "price_level \<Rightarrow> price_level result" where
  "price_level_post_init l = thenE (checks
     [event_require_decimal (pl_price l) ''price level price'' True False,
      event_require_decimal (pl_quantity l) ''price level quantity'' True False])
     (Inr l)"

definition price_level_dict :: "price_level \<Rightarrow> pyval" where
  "price_level_dict l = pydict [(''price'', PyDecimal (pl_price l)), (''quantity'', PyDecimal (pl_quantity l))]"

record closed_bar_payload =
  cb_timeframe :: string
  cb_bar_open_at :: datetime
  cb_bar_close_at :: datetime
  cb_open :: decimal
  cb_high :: decimal
  cb_low :: decimal
  cb_close :: decimal
  cb_volume :: decimal
  cb_quote_volume :: decimal
  cb_trade_count :: int
  cb_taker_buy_volume :: decimal
  cb_taker_buy_quote_volume :: decimal
  cb_closed :: bool

definition closed_bar_post_init :: "closed_bar_payload \<Rightarrow> closed_bar_payload result" where
  "closed_bar_post_init b = thenE (checks
     [raise_if (cb_timeframe b = []) (ValueError ''bar timeframe is required''),
      require_utc (cb_bar_open_at b) ''bar_open_at'',
      require_utc (cb_bar_close_at b) ''bar_close_at'',
      raise_if (cb_bar_close_at b \<le> cb_bar_open_at b) (ValueError ''bar_close_at must follow bar_open_at''),
      event_require_decimal (cb_open b) ''open'' True False,
      event_require_decimal (cb_high b) ''high'' True False,
      event_require_decimal (cb_low b) ''low'' True False,
      event_require_decimal (cb_close b) ''close'' True False,
      event_require_decimal (cb_volume b) ''volume'' False True,
      event_require_decimal (cb_quote_volume b) ''quote_volume'' False True,
      event_require_decimal (cb_taker_buy_volume b) ''taker_buy_volume'' False True,
      event_require_decimal (cb_taker_buy_quote_volume b) ''taker_buy_quote_volume'' False True,
      raise_if (cb_trade_count b < 0) (ValueError ''trade_count must be nonnegative''),
      raise_if (cb_low b > min (cb_open b) (cb_close b) \<or> cb_high b < max (cb_open b) (cb_close b))
        (ValueError ''bar OHLC values are inconsistent''),
      raise_if (cb_high b < cb_low b) (ValueError ''bar high cannot be below low''),
      raise_if (cb_taker_buy_volume b > cb_volume b) (ValueError ''taker buy volume cannot exceed total volume''),
      raise_if (cb_taker_buy_quote_volume b > cb_quote_volume b)
        (ValueError ''taker buy quote volume cannot exceed total quote volume'')])
     (Inr b)"

definition closed_bar_dict :: "closed_bar_payload \<Rightarrow> pyval" where
  "closed_bar_dict b = pydict
     [(''timeframe'', PyStr (cb_timeframe b)),
      (''bar_open_at'', PyDatetime (cb_bar_open_at b)),
      (''bar_close_at'', PyDatetime (cb_bar_close_at b)),
      (''open'', PyDecimal (cb_open b)),
      (''high'', PyDecimal (cb_high b)),
      (''low'', PyDecimal (cb_low b)),
      (''close'', PyDecimal (cb_close b)),
      (''volume'', PyDecimal (cb_volume b)),
      (''quote_volume'', PyDecimal (cb_quote_volume b)),
      (''trade_count'', PyInt (cb_trade_count b)),
      (''taker_buy_volume'', PyDecimal (cb_taker_buy_volume b)),
      (''taker_buy_quote_volume'', PyDecimal (cb_taker_buy_quote_volume b)),
      (''closed'', PyBool (cb_closed b))]"

record order_book_payload =
  ob_bids :: "price_level list"
  ob_asks :: "price_level list"
  ob_published_at :: datetime
  ob_sequence_start :: int
  ob_previous_sequence :: "int option"
  ob_snapshot_sequence :: "int option"

definition negative_sequence :: "int option \<Rightarrow> bool" where
  "negative_sequence s \<longleftrightarrow> (case s of None \<Rightarrow> False | Some n \<Rightarrow> n < 0)"

text \<open>\<open>bids[0].price\<close> and \<open>asks[0].price\<close>: an \<^verbatim>\<open>IndexError\<close> on an empty side.\<close>

definition first_price :: "price_level list \<Rightarrow> decimal result" where
  "first_price ls = (case ls of [] \<Rightarrow> Inl (LookupError ''tuple index out of range'') | l # _ \<Rightarrow> Inr (pl_price l))"

definition order_book_best_bid :: "order_book_payload \<Rightarrow> decimal result" where
  "order_book_best_bid b = first_price (ob_bids b)"

definition order_book_best_ask :: "order_book_payload \<Rightarrow> decimal result" where
  "order_book_best_ask b = first_price (ob_asks b)"

definition order_book_post_init :: "order_book_payload \<Rightarrow> order_book_payload result" where
  "order_book_post_init b = thenE (checks
     [require_utc (ob_published_at b) ''order book published_at'',
      raise_if (ob_sequence_start b < 0) (ValueError ''order book sequence_start must be nonnegative''),
      raise_if (negative_sequence (ob_previous_sequence b)) (ValueError ''order book previous_sequence must be nonnegative''),
      raise_if (negative_sequence (ob_snapshot_sequence b)) (ValueError ''order book snapshot_sequence must be nonnegative''),
      raise_if (ob_bids b = [] \<or> ob_asks b = []) (ValueError ''order book requires bid and ask depth''),
      raise_if (\<not> adjacent_ok (>) (map pl_price (ob_bids b))) (ValueError ''order book bids must be strictly descending''),
      raise_if (\<not> adjacent_ok (<) (map pl_price (ob_asks b))) (ValueError ''order book asks must be strictly ascending'')])
     (bindE (first_price (ob_bids b)) (\<lambda>bid. bindE (first_price (ob_asks b)) (\<lambda>ask.
       thenE (raise_if (bid \<ge> ask) (ValueError ''order book is crossed or locked'')) (Inr b))))"

definition order_book_dict :: "order_book_payload \<Rightarrow> pyval" where
  "order_book_dict b = pydict
     [(''bids'', PySequence (map price_level_dict (ob_bids b))),
      (''asks'', PySequence (map price_level_dict (ob_asks b))),
      (''published_at'', PyDatetime (ob_published_at b)),
      (''sequence_start'', PyInt (ob_sequence_start b)),
      (''previous_sequence'', py_option PyInt (ob_previous_sequence b)),
      (''snapshot_sequence'', py_option PyInt (ob_snapshot_sequence b))]"

record trade_payload =
  tp_price :: decimal
  tp_quantity :: decimal
  tp_aggressor_side :: aggressor_side

definition trade_payload_post_init :: "trade_payload \<Rightarrow> trade_payload result" where
  "trade_payload_post_init t = thenE (checks
     [event_require_decimal (tp_price t) ''trade price'' True False,
      event_require_decimal (tp_quantity t) ''trade quantity'' True False])
     (Inr t)"

definition trade_payload_dict :: "trade_payload \<Rightarrow> pyval" where
  "trade_payload_dict t = pydict
     [(''price'', PyDecimal (tp_price t)),
      (''quantity'', PyDecimal (tp_quantity t)),
      (''aggressor_side'', PyEnum (PyStr (aggressor_side_value (tp_aggressor_side t))))]"

record mark_funding_payload =
  mf_mark_price :: decimal
  mf_index_price :: decimal
  mf_funding_rate :: decimal
  mf_next_funding_at :: datetime
  mf_estimated_settle_price :: "decimal option"

definition mark_funding_post_init :: "mark_funding_payload \<Rightarrow> mark_funding_payload result" where
  "mark_funding_post_init m = thenE (checks
     [event_require_decimal (mf_mark_price m) ''mark_price'' True False,
      event_require_decimal (mf_index_price m) ''index_price'' True False,
      event_require_decimal (mf_funding_rate m) ''funding_rate'' False False,
      require_utc (mf_next_funding_at m) ''next_funding_at'',
      (case mf_estimated_settle_price m of None \<Rightarrow> Inr ()
       | Some x \<Rightarrow> event_require_decimal x ''estimated_settle_price'' False True)])
     (Inr m)"

definition mark_funding_dict :: "mark_funding_payload \<Rightarrow> pyval" where
  "mark_funding_dict m = pydict
     [(''mark_price'', PyDecimal (mf_mark_price m)),
      (''index_price'', PyDecimal (mf_index_price m)),
      (''funding_rate'', PyDecimal (mf_funding_rate m)),
      (''next_funding_at'', PyDatetime (mf_next_funding_at m)),
      (''estimated_settle_price'', py_option PyDecimal (mf_estimated_settle_price m))]"

record funding_settlement_payload =
  fs_funding_at :: datetime
  fs_funding_rate :: decimal
  fs_mark_price :: decimal
  fs_rate_type :: string

definition funding_settlement_post_init :: "funding_settlement_payload \<Rightarrow> funding_settlement_payload result" where
  "funding_settlement_post_init f = thenE (checks
     [require_utc (fs_funding_at f) ''funding_at'',
      event_require_decimal (fs_funding_rate f) ''funding_rate'' False False,
      event_require_decimal (fs_mark_price f) ''funding mark_price'' True False,
      raise_if (fs_rate_type f \<notin> {''Regular'', ''Special''}) (ValueError ''funding rate_type must be Regular or Special'')])
     (Inr f)"

definition funding_settlement_dict :: "funding_settlement_payload \<Rightarrow> pyval" where
  "funding_settlement_dict f = pydict
     [(''funding_at'', PyDatetime (fs_funding_at f)),
      (''funding_rate'', PyDecimal (fs_funding_rate f)),
      (''mark_price'', PyDecimal (fs_mark_price f)),
      (''rate_type'', PyStr (fs_rate_type f))]"

record reference_price_payload =
  rp_reference_kind :: reference_kind
  rp_instrument :: string
  rp_price :: decimal
  rp_source_event_id :: string
  rp_source_quantity :: "decimal option"
  rp_source_side :: "aggressor_side option"
  rp_source_bid :: "decimal option"
  rp_source_ask :: "decimal option"
  rp_source_published_at :: "datetime option"
  rp_source_engine_at :: "datetime option"

definition require_utc_option :: "datetime option \<Rightarrow> string \<Rightarrow> unit result" where
  "require_utc_option t field = (case t of None \<Rightarrow> Inr () | Some t \<Rightarrow> require_utc t field)"

lemma require_utc_option_iff [result_simps]: "require_utc_option t f = Inr u \<longleftrightarrow> (\<forall>v. t = Some v \<longrightarrow> is_utc v)"
  by (cases t) (simp_all add: require_utc_option_def result_simps)

definition reference_price_post_init :: "reference_price_payload \<Rightarrow> reference_price_payload result" where
  "reference_price_post_init r = thenE (checks
     [raise_if (rp_instrument r = [] \<or> rp_source_event_id r = [])
        (ValueError ''reference instrument and source event are required''),
      event_require_decimal (rp_price r) ''reference price'' True False,
      (case rp_source_quantity r of None \<Rightarrow> Inr ()
       | Some q \<Rightarrow> event_require_decimal q ''reference source quantity'' True False),
      raise_if ((rp_source_bid r = None) \<noteq> (rp_source_ask r = None))
        (ValueError ''reference bid and ask must be present together''),
      (case (rp_source_bid r, rp_source_ask r) of
         (Some bid, Some ask) \<Rightarrow> checks
           [event_require_decimal bid ''reference source bid'' True False,
            event_require_decimal ask ''reference source ask'' True False,
            raise_if (bid \<ge> ask) (ValueError ''reference source bid must be below ask'')]
       | _ \<Rightarrow> Inr ()),
      require_utc_option (rp_source_published_at r) ''reference source_published_at'',
      require_utc_option (rp_source_engine_at r) ''reference source_engine_at''])
     (Inr r)"

definition reference_price_dict :: "reference_price_payload \<Rightarrow> pyval" where
  "reference_price_dict r = pydict
     [(''reference_kind'', PyEnum (PyStr (reference_kind_value (rp_reference_kind r)))),
      (''instrument'', PyStr (rp_instrument r)),
      (''price'', PyDecimal (rp_price r)),
      (''source_event_id'', PyStr (rp_source_event_id r)),
      (''source_quantity'', py_option PyDecimal (rp_source_quantity r)),
      (''source_side'', py_option (\<lambda>x. PyEnum (PyStr (aggressor_side_value x))) (rp_source_side r)),
      (''source_bid'', py_option PyDecimal (rp_source_bid r)),
      (''source_ask'', py_option PyDecimal (rp_source_ask r)),
      (''source_published_at'', py_option PyDatetime (rp_source_published_at r)),
      (''source_engine_at'', py_option PyDatetime (rp_source_engine_at r))]"

record venue_clock_payload =
  vc_server_time :: datetime

definition venue_clock_post_init :: "venue_clock_payload \<Rightarrow> venue_clock_payload result" where
  "venue_clock_post_init c = thenE (require_utc (vc_server_time c) ''server_time'') (Inr c)"

definition venue_clock_dict :: "venue_clock_payload \<Rightarrow> pyval" where
  "venue_clock_dict c = pydict [(''server_time'', PyDatetime (vc_server_time c))]"

record symbol_state_payload =
  sy_status :: string

definition symbol_state_post_init :: "symbol_state_payload \<Rightarrow> symbol_state_payload result" where
  "symbol_state_post_init s = thenE
     (raise_if (sy_status s = [] \<or> sy_status s \<noteq> upper (sy_status s))
       (ValueError ''symbol status must be a nonempty uppercase value'')) (Inr s)"

definition symbol_state_dict :: "symbol_state_payload \<Rightarrow> pyval" where
  "symbol_state_dict s = pydict [(''status'', PyStr (sy_status s))]"

section \<open>Observed events\<close>

datatype market_payload =
    ClosedBarPayload closed_bar_payload
  | OrderBookPayload order_book_payload
  | TradePayload trade_payload
  | MarkFundingPayload mark_funding_payload
  | FundingSettlementPayload funding_settlement_payload
  | ReferencePricePayload reference_price_payload
  | VenueClockPayload venue_clock_payload
  | SymbolStatePayload symbol_state_payload

fun payload_type :: "market_payload \<Rightarrow> string" where
  "payload_type (ClosedBarPayload _) = ''ClosedBarPayload''"
| "payload_type (OrderBookPayload _) = ''OrderBookPayload''"
| "payload_type (TradePayload _) = ''TradePayload''"
| "payload_type (MarkFundingPayload _) = ''MarkFundingPayload''"
| "payload_type (FundingSettlementPayload _) = ''FundingSettlementPayload''"
| "payload_type (ReferencePricePayload _) = ''ReferencePricePayload''"
| "payload_type (VenueClockPayload _) = ''VenueClockPayload''"
| "payload_type (SymbolStatePayload _) = ''SymbolStatePayload''"

fun payload_types :: "market_event_kind \<Rightarrow> string" where
  "payload_types CLOSED_BAR = ''ClosedBarPayload''"
| "payload_types ORDER_BOOK = ''OrderBookPayload''"
| "payload_types TRADE = ''TradePayload''"
| "payload_types MARK_FUNDING = ''MarkFundingPayload''"
| "payload_types FUNDING_SETTLEMENT = ''FundingSettlementPayload''"
| "payload_types REFERENCE_PRICE = ''ReferencePricePayload''"
| "payload_types VENUE_CLOCK = ''VenueClockPayload''"
| "payload_types SYMBOL_STATE = ''SymbolStatePayload''"

fun payload_dict :: "market_payload \<Rightarrow> pyval" where
  "payload_dict (ClosedBarPayload p) = closed_bar_dict p"
| "payload_dict (OrderBookPayload p) = order_book_dict p"
| "payload_dict (TradePayload p) = trade_payload_dict p"
| "payload_dict (MarkFundingPayload p) = mark_funding_dict p"
| "payload_dict (FundingSettlementPayload p) = funding_settlement_dict p"
| "payload_dict (ReferencePricePayload p) = reference_price_dict p"
| "payload_dict (VenueClockPayload p) = venue_clock_dict p"
| "payload_dict (SymbolStatePayload p) = symbol_state_dict p"

record observed_market_event =
  me_venue :: string
  me_stream :: string
  me_symbol :: string
  me_event_id :: string
  me_kind :: market_event_kind
  me_venue_event_at :: datetime
  me_observed_at :: datetime
  me_sequence :: "int option"
  me_sequence_not_applicable_reason :: "string option"
  me_payload :: market_payload

definition market_event_post_init :: "observed_market_event \<Rightarrow> observed_market_event result" where
  "market_event_post_init e = thenE (checks
     [raise_if (me_venue e = [] \<or> me_stream e = [] \<or> me_event_id e = []) (ValueError ''venue, stream, and event_id are required''),
      raise_if (me_symbol e = [] \<or> me_symbol e \<noteq> upper (me_symbol e)) (ValueError ''event symbol must be nonempty uppercase''),
      require_utc (me_venue_event_at e) ''venue_event_at'',
      require_utc (me_observed_at e) ''observed_at'',
      (case me_sequence e of
         None \<Rightarrow> raise_if (me_sequence_not_applicable_reason e \<in> {None, Some []})
           (ValueError ''missing sequence requires an explicit reason'')
       | Some n \<Rightarrow> checks
           [raise_if (n < 0) (ValueError ''sequence must be nonnegative''),
            raise_if (me_sequence_not_applicable_reason e \<noteq> None)
              (ValueError ''sequence reason is invalid when a sequence exists'')]),
      raise_if (payload_type (me_payload e) \<noteq> payload_types (me_kind e))
        (ValueError (''event payload does not match kind '' @ market_event_kind_value (me_kind e) @ '': expected '' @ payload_types (me_kind e)))])
     (Inr e)"

definition event_identity :: "observed_market_event \<Rightarrow> string \<times> string \<times> string \<times> string" where
  "event_identity e = (me_venue e, me_stream e, me_symbol e, me_event_id e)"

definition sequence_scope :: "observed_market_event \<Rightarrow> string \<times> string \<times> string" where
  "sequence_scope e = (me_venue e, me_stream e, me_symbol e)"

definition market_event_dict :: "observed_market_event \<Rightarrow> pyval" where
  "market_event_dict e = pydict
     [(''venue'', PyStr (me_venue e)),
      (''stream'', PyStr (me_stream e)),
      (''symbol'', PyStr (me_symbol e)),
      (''event_id'', PyStr (me_event_id e)),
      (''kind'', PyEnum (PyStr (market_event_kind_value (me_kind e)))),
      (''venue_event_at'', PyDatetime (me_venue_event_at e)),
      (''observed_at'', PyDatetime (me_observed_at e)),
      (''sequence'', py_option PyInt (me_sequence e)),
      (''sequence_not_applicable_reason'', py_option PyStr (me_sequence_not_applicable_reason e)),
      (''payload'', payload_dict (me_payload e))]"

definition event_hash :: "observed_market_event \<Rightarrow> string result" where
  "event_hash e = content_hash (market_event_dict e)"

section \<open>Constructed values\<close>

text \<open>A constructed payload or event passed its constructor and those of its parts.\<close>

definition levels_ok :: "price_level list \<Rightarrow> bool" where
  "levels_ok ls \<longleftrightarrow> list_all (\<lambda>l. price_level_post_init l = Inr l) ls"

fun payload_ok :: "market_payload \<Rightarrow> bool" where
  "payload_ok (ClosedBarPayload p) \<longleftrightarrow> closed_bar_post_init p = Inr p"
| "payload_ok (OrderBookPayload p) \<longleftrightarrow> order_book_post_init p = Inr p \<and> levels_ok (ob_bids p) \<and> levels_ok (ob_asks p)"
| "payload_ok (TradePayload p) \<longleftrightarrow> trade_payload_post_init p = Inr p"
| "payload_ok (MarkFundingPayload p) \<longleftrightarrow> mark_funding_post_init p = Inr p"
| "payload_ok (FundingSettlementPayload p) \<longleftrightarrow> funding_settlement_post_init p = Inr p"
| "payload_ok (ReferencePricePayload p) \<longleftrightarrow> reference_price_post_init p = Inr p"
| "payload_ok (VenueClockPayload p) \<longleftrightarrow> venue_clock_post_init p = Inr p"
| "payload_ok (SymbolStatePayload p) \<longleftrightarrow> symbol_state_post_init p = Inr p"

definition event_ok :: "observed_market_event \<Rightarrow> bool" where
  "event_ok e \<longleftrightarrow> market_event_post_init e = Inr e \<and> payload_ok (me_payload e)"

lemma price_level_freezes [simp]: "freezes (price_level_dict l)"
  by (simp add: price_level_dict_def)

lemma levels_freeze [simp]: "list_all freezes (map price_level_dict ls)"
  by (simp add: list_all_iff)

lemma closed_bar_freezes: "closed_bar_post_init p = Inr p \<Longrightarrow> freezes (closed_bar_dict p)"
  by (simp add: closed_bar_post_init_def closed_bar_dict_def result_simps)

lemma payload_freezes: "payload_ok p \<Longrightarrow> freezes (payload_dict p)"
  by (cases p) (simp_all add: closed_bar_freezes order_book_post_init_def order_book_dict_def trade_payload_dict_def
    mark_funding_post_init_def mark_funding_dict_def funding_settlement_post_init_def funding_settlement_dict_def
    reference_price_post_init_def reference_price_dict_def venue_clock_post_init_def venue_clock_dict_def
    symbol_state_dict_def result_simps)

lemma event_ok_utc: "event_ok e \<Longrightarrow> is_utc (me_observed_at e) \<and> is_utc (me_venue_event_at e)"
  by (simp add: event_ok_def market_event_post_init_def result_simps)

lemma event_ok_kind: "event_ok e \<Longrightarrow> payload_type (me_payload e) = payload_types (me_kind e)"
  by (simp add: event_ok_def market_event_post_init_def result_simps)

lemma event_freezes: "event_ok e \<Longrightarrow> freezes (market_event_dict e)"
  using payload_freezes [of "me_payload e"] event_ok_utc [of e] by (simp add: event_ok_def market_event_dict_def)

lemma event_hash_returns: "event_ok e \<Longrightarrow> \<exists>h. event_hash e = Inr h \<and> length h = 64"
  using event_freezes [of e] content_hash_shape by (auto simp: event_hash_def freezes_def)

end
