(* ===== verification/Frames.thy ===== *)
theory Frames
  imports Events Uuid5
begin

text \<open>
  \<^verbatim>\<open>maais/market_data/frames.py\<close>: the frame key with its deterministic identifier, the source
  observations, and the builder that selects, from the events observed by a decision cutoff, the data of one
  closed minute bar.  The dict of events by identity is the list of its values in insertion order.
\<close>

section \<open>Frame keys\<close>

datatype timestamp_basis = VENUE_EVENT | LOCAL_OBSERVATION

fun timestamp_basis_value :: "timestamp_basis \<Rightarrow> string" where
  "timestamp_basis_value VENUE_EVENT = ''venue_event''"
| "timestamp_basis_value LOCAL_OBSERVATION = ''local_observation''"

record frame_key =
  fk_experiment_id :: uuid
  fk_strategy_version_id :: uuid
  fk_symbol :: string
  fk_timeframe :: string
  fk_bar_close_at :: datetime

definition frame_key_post_init :: "frame_key \<Rightarrow> frame_key result" where
  "frame_key_post_init k = thenE (checks
     [raise_if (fk_experiment_id k = 0 \<or> fk_strategy_version_id k = 0) (ValueError ''frame key UUIDs cannot be nil''),
      raise_if (fk_symbol k = [] \<or> fk_symbol k \<noteq> upper (fk_symbol k)) (ValueError ''frame key symbol must be nonempty uppercase''),
      raise_if (fk_timeframe k = []) (ValueError ''frame key timeframe is required''),
      raise_if (utcoffset (fk_bar_close_at k) \<noteq> Some 0) (ValueError ''frame key bar_close_at must be UTC-aware'')])
     (Inr k)"

definition frame_key_id :: "frame_key \<Rightarrow> uuid" where
  "frame_key_id k = uuid5_url (''maais://market-frame/'' @
     uuid_str (fk_experiment_id k) @ ''/'' @ uuid_str (fk_strategy_version_id k) @ ''/'' @ fk_symbol k @ ''/'' @
     fk_timeframe k @ ''/'' @ isoformat (fk_bar_close_at k))"

definition frame_key_dict :: "frame_key \<Rightarrow> pyval" where
  "frame_key_dict k = pydict
     [(''experiment_id'', PyUUID (fk_experiment_id k)),
      (''strategy_version_id'', PyUUID (fk_strategy_version_id k)),
      (''symbol'', PyStr (fk_symbol k)),
      (''timeframe'', PyStr (fk_timeframe k)),
      (''bar_close_at'', PyDatetime (fk_bar_close_at k))]"

section \<open>Source observations\<close>

record source_observation =
  so_venue :: string
  so_stream :: string
  so_event_id :: string
  so_content_hash :: string
  so_venue_event_at :: datetime
  so_observed_at :: datetime
  so_sequence :: "int option"
  so_source_published_at :: "datetime option"
  so_source_engine_at :: "datetime option"
  so_timestamp_basis :: timestamp_basis

definition source_from_event :: "observed_market_event \<Rightarrow> source_observation result" where
  "source_from_event e = bindE (event_hash e) (\<lambda>h. Inr
     \<lparr>so_venue = me_venue e, so_stream = me_stream e, so_event_id = me_event_id e, so_content_hash = h,
      so_venue_event_at = me_venue_event_at e, so_observed_at = me_observed_at e, so_sequence = me_sequence e,
      so_source_published_at = (case me_payload e of ReferencePricePayload r \<Rightarrow> rp_source_published_at r | _ \<Rightarrow> None),
      so_source_engine_at = (case me_payload e of ReferencePricePayload r \<Rightarrow> rp_source_engine_at r | _ \<Rightarrow> None),
      so_timestamp_basis = (if me_venue_event_at e = me_observed_at e then LOCAL_OBSERVATION else VENUE_EVENT)\<rparr>)"

definition source_observation_dict :: "source_observation \<Rightarrow> pyval" where
  "source_observation_dict s = pydict
     [(''venue'', PyStr (so_venue s)),
      (''stream'', PyStr (so_stream s)),
      (''event_id'', PyStr (so_event_id s)),
      (''content_hash'', PyStr (so_content_hash s)),
      (''venue_event_at'', PyDatetime (so_venue_event_at s)),
      (''observed_at'', PyDatetime (so_observed_at s)),
      (''sequence'', py_option PyInt (so_sequence s)),
      (''source_published_at'', py_option PyDatetime (so_source_published_at s)),
      (''source_engine_at'', py_option PyDatetime (so_source_engine_at s)),
      (''timestamp_basis'', PyEnum (PyStr (timestamp_basis_value (so_timestamp_basis s))))]"

section \<open>The frame\<close>

record causal_minute_frame =
  fr_key :: frame_key
  fr_frame_id :: uuid
  fr_cutoff_at :: datetime
  fr_bar :: closed_bar_payload
  fr_book_bids :: "price_level list"
  fr_book_asks :: "price_level list"
  fr_best_bid :: "decimal option"
  fr_best_ask :: "decimal option"
  fr_mark_price :: "decimal option"
  fr_index_price :: "decimal option"
  fr_funding_rate :: "decimal option"
  fr_primary_spot_price :: "decimal option"
  fr_secondary_venue_price :: "decimal option"
  fr_venue_server_time :: "datetime option"
  fr_symbol_status :: "string option"
  fr_source_manifest :: "(string \<times> source_observation) list"
  fr_content_hash :: string

definition frame_post_init :: "causal_minute_frame \<Rightarrow> causal_minute_frame result" where
  "frame_post_init f = thenE (checks
     [raise_if (fr_frame_id f \<noteq> frame_key_id (fr_key f)) (ValueError ''frame_id differs from deterministic frame key''),
      raise_if (length (fr_content_hash f) \<noteq> 64) (ValueError ''frame content_hash must be SHA-256''),
      raise_if ((fr_book_bids f \<noteq> []) \<noteq> (fr_book_asks f \<noteq> [])) (ValueError ''causal frame book sides must be present together''),
      (case (fr_book_bids f, fr_book_asks f) of
         (bid # _, ask # _) \<Rightarrow> raise_if (fr_best_bid f \<noteq> Some (pl_price bid) \<or> fr_best_ask f \<noteq> Some (pl_price ask))
           (ValueError ''causal frame best prices differ from captured book depth'')
       | _ \<Rightarrow> raise_if (fr_best_bid f \<noteq> None \<or> fr_best_ask f \<noteq> None)
           (ValueError ''causal frame best prices require captured book depth''))])
     (Inr f)"

definition frame_normalized :: "causal_minute_frame \<Rightarrow> pyval" where
  "frame_normalized f = pydict
     [(''key'', frame_key_dict (fr_key f)),
      (''frame_id'', PyUUID (fr_frame_id f)),
      (''cutoff_at'', PyDatetime (fr_cutoff_at f)),
      (''bar'', closed_bar_dict (fr_bar f)),
      (''book_bids'', PySequence (map price_level_dict (fr_book_bids f))),
      (''book_asks'', PySequence (map price_level_dict (fr_book_asks f))),
      (''best_bid'', py_option PyDecimal (fr_best_bid f)),
      (''best_ask'', py_option PyDecimal (fr_best_ask f)),
      (''mark_price'', py_option PyDecimal (fr_mark_price f)),
      (''index_price'', py_option PyDecimal (fr_index_price f)),
      (''funding_rate'', py_option PyDecimal (fr_funding_rate f)),
      (''primary_spot_price'', py_option PyDecimal (fr_primary_spot_price f)),
      (''secondary_venue_price'', py_option PyDecimal (fr_secondary_venue_price f)),
      (''venue_server_time'', py_option PyDatetime (fr_venue_server_time f)),
      (''symbol_status'', py_option PyStr (fr_symbol_status f)),
      (''source_manifest'', pydict (map (\<lambda>(name, s). (name, source_observation_dict s)) (fr_source_manifest f)))]"

section \<open>The builder\<close>

text \<open>\<^verbatim>\<open>repr\<close> of a string and of a tuple of strings, as the conflict message prints an identity.\<close>

definition repr_char :: "char \<Rightarrow> char \<Rightarrow> string" where
  "repr_char q c =
     (if c = q \<or> c = CHR 0x5C then [CHR 0x5C, c]
      else if c = CHR 0x09 then [CHR 0x5C, CHR ''t'']
      else if c = CHR 0x0A then [CHR 0x5C, CHR ''n'']
      else if c = CHR 0x0D then [CHR 0x5C, CHR ''r'']
      else if c < CHR 0x20 \<or> c = CHR 0x7F then [CHR 0x5C, CHR ''x'', hex_digit (of_char c div 16), hex_digit (of_char c)]
      else [c])"

definition repr_string :: "string \<Rightarrow> string" where
  "repr_string s =
     (let q = (if CHR 0x27 \<in> set s \<and> CHR 0x22 \<notin> set s then CHR 0x22 else CHR 0x27)
      in [q] @ concat (map (repr_char q) s) @ [q])"

fun repr_identity :: "string \<times> string \<times> string \<times> string \<Rightarrow> string" where
  "repr_identity (a, b, c, d) = ''('' @ join '', '' (map repr_string [a, b, c, d]) @ '')''"

definition dedup_step :: "observed_market_event list \<Rightarrow> observed_market_event \<Rightarrow> observed_market_event list result" where
  "dedup_step seen e =
     (case find (\<lambda>x. event_identity x = event_identity e) seen of
        None \<Rightarrow> Inr (seen @ [e])
      | Some existing \<Rightarrow> bindE (event_hash existing) (\<lambda>h. bindE (event_hash e) (\<lambda>h'.
          if h \<noteq> h' then Inl (FrameIdentityConflict
            (''event '' @ repr_identity (event_identity e) @ '' has different content under the same identity''))
          else Inr seen)))"

definition deduplicate :: "observed_market_event list \<Rightarrow> observed_market_event list result" where
  "deduplicate events = foldE dedup_step [] events"

type_synonym latest_key = "datetime \<times> datetime \<times> int \<times> string \<times> string"

definition event_latest_key :: "observed_market_event \<Rightarrow> latest_key result" where
  "event_latest_key e = bindE (event_hash e) (\<lambda>h. Inr (me_observed_at e, me_venue_event_at e,
     (case me_sequence e of None \<Rightarrow> - 1 | Some n \<Rightarrow> n), me_event_id e, h))"

definition latest :: "observed_market_event list \<Rightarrow> (observed_market_event \<Rightarrow> bool) \<Rightarrow> observed_market_event option result" where
  "latest events predicate =
     bindE (mapE (\<lambda>e. bindE (event_latest_key e) (\<lambda>k. Inr (k, e))) (filter predicate events)) (\<lambda>keyed.
       Inr (map_option snd (max_key fst keyed)))"

definition is_reference :: "reference_kind \<Rightarrow> observed_market_event \<Rightarrow> bool" where
  "is_reference kind e \<longleftrightarrow> me_kind e = REFERENCE_PRICE \<and>
     (case me_payload e of ReferencePricePayload r \<Rightarrow> rp_reference_kind r = kind | _ \<Rightarrow> False)"

definition latest_reference :: "observed_market_event list \<Rightarrow> reference_kind \<Rightarrow> observed_market_event option result" where
  "latest_reference events kind = latest events (is_reference kind)"

text \<open>The checked reading of a selected event's payload; the selectors are the \<open>isinstance\<close> tests.\<close>

fun as_order_book :: "market_payload \<Rightarrow> order_book_payload option" where
  "as_order_book (OrderBookPayload p) = Some p"
| "as_order_book _ = None"

fun as_mark_funding :: "market_payload \<Rightarrow> mark_funding_payload option" where
  "as_mark_funding (MarkFundingPayload p) = Some p"
| "as_mark_funding _ = None"

fun as_reference_price :: "market_payload \<Rightarrow> reference_price_payload option" where
  "as_reference_price (ReferencePricePayload p) = Some p"
| "as_reference_price _ = None"

fun as_venue_clock :: "market_payload \<Rightarrow> venue_clock_payload option" where
  "as_venue_clock (VenueClockPayload p) = Some p"
| "as_venue_clock _ = None"

fun as_symbol_state :: "market_payload \<Rightarrow> symbol_state_payload option" where
  "as_symbol_state (SymbolStatePayload p) = Some p"
| "as_symbol_state _ = None"

definition event_payload :: "(market_payload \<Rightarrow> 'p option) \<Rightarrow> string \<Rightarrow> observed_market_event option \<Rightarrow> 'p option result" where
  "event_payload as_type expected event =
     (case event of
        None \<Rightarrow> Inr None
      | Some e \<Rightarrow>
          (case as_type (me_payload e) of
             None \<Rightarrow> Inl (TypeError (''event payload is not '' @ expected))
           | Some p \<Rightarrow> Inr (Some p)))"

fun canonical_bar :: "observed_market_event \<Rightarrow> observed_market_event list \<Rightarrow> observed_market_event option result" where
  "canonical_bar bar [] = Inr None"
| "canonical_bar bar (e # es) =
     (if event_identity e = event_identity bar then
        bindE (event_hash e) (\<lambda>h. bindE (event_hash bar) (\<lambda>h'. if h = h' then Inr (Some e) else canonical_bar bar es))
      else canonical_bar bar es)"

definition of_kind :: "market_event_kind \<Rightarrow> string \<Rightarrow> observed_market_event \<Rightarrow> bool" where
  "of_kind kind venue e \<longleftrightarrow> me_kind e = kind \<and> me_venue e = venue"

definition best_price :: "(order_book_payload \<Rightarrow> decimal result) \<Rightarrow> order_book_payload option \<Rightarrow> decimal option result" where
  "best_price price book = (case book of None \<Rightarrow> Inr None | Some b \<Rightarrow> bindE (price b) (\<lambda>x. Inr (Some x)))"

definition levels_of :: "(order_book_payload \<Rightarrow> price_level list) \<Rightarrow> order_book_payload option \<Rightarrow> price_level list" where
  "levels_of side book = (case book of None \<Rightarrow> [] | Some b \<Rightarrow> side b)"

text \<open>
  The builder in the order of its statements: \<open>select_events\<close> picks the canonical bar and the six latest events,
  \<open>assemble_frame\<close> reads their payloads and constructs the frame, \<open>build_frame\<close> is the method with its guards.
\<close>

record frame_selection =
  sel_closed_bar :: observed_market_event
  sel_order_book :: "observed_market_event option"
  sel_mark_funding :: "observed_market_event option"
  sel_primary_spot :: "observed_market_event option"
  sel_secondary_venue :: "observed_market_event option"
  sel_venue_clock :: "observed_market_event option"
  sel_symbol_state :: "observed_market_event option"

definition select_events :: "observed_market_event \<Rightarrow> observed_market_event list \<Rightarrow> frame_selection result" where
  "select_events closed_bar deduplicated =
     bindE (canonical_bar closed_bar deduplicated) (\<lambda>found.
     case found of
       None \<Rightarrow> Inl (FrameIdentityConflict ''closed bar identity has different content'')
     | Some canonical \<Rightarrow>
         bindE (latest deduplicated (of_kind ORDER_BOOK (me_venue closed_bar))) (\<lambda>book_event.
         bindE (latest deduplicated (of_kind MARK_FUNDING (me_venue closed_bar))) (\<lambda>mark_event.
         bindE (latest_reference deduplicated PRIMARY_SPOT) (\<lambda>spot_event.
         bindE (latest_reference deduplicated SECONDARY_VENUE) (\<lambda>secondary_event.
         bindE (latest deduplicated (of_kind VENUE_CLOCK (me_venue closed_bar))) (\<lambda>clock_event.
         bindE (latest deduplicated (of_kind SYMBOL_STATE (me_venue closed_bar))) (\<lambda>symbol_event.
         Inr \<lparr>sel_closed_bar = canonical, sel_order_book = book_event, sel_mark_funding = mark_event,
              sel_primary_spot = spot_event, sel_secondary_venue = secondary_event,
              sel_venue_clock = clock_event, sel_symbol_state = symbol_event\<rparr>)))))))"

definition selected_events :: "frame_selection \<Rightarrow> (string \<times> observed_market_event) list" where
  "selected_events sel = concat (map (\<lambda>(name, e). case e of None \<Rightarrow> [] | Some e \<Rightarrow> [(name, e)])
     [(''closed_bar'', Some (sel_closed_bar sel)),
      (''order_book'', sel_order_book sel),
      (''mark_funding'', sel_mark_funding sel),
      (''primary_spot'', sel_primary_spot sel),
      (''secondary_venue'', sel_secondary_venue sel),
      (''venue_clock'', sel_venue_clock sel),
      (''symbol_state'', sel_symbol_state sel)])"

definition frame_manifest :: "frame_selection \<Rightarrow> (string \<times> source_observation) list result" where
  "frame_manifest sel = mapE (\<lambda>(name, e). bindE (source_from_event e) (\<lambda>s. Inr (name, s))) (selected_events sel)"

definition assemble_frame ::
  "frame_key \<Rightarrow> datetime \<Rightarrow> closed_bar_payload \<Rightarrow> frame_selection \<Rightarrow> causal_minute_frame result" where
  "assemble_frame key cutoff bar sel =
     bindE (event_payload as_order_book ''OrderBookPayload'' (sel_order_book sel)) (\<lambda>book.
     bindE (event_payload as_mark_funding ''MarkFundingPayload'' (sel_mark_funding sel)) (\<lambda>mark.
     bindE (event_payload as_reference_price ''ReferencePricePayload'' (sel_primary_spot sel)) (\<lambda>spot.
     bindE (event_payload as_reference_price ''ReferencePricePayload'' (sel_secondary_venue sel)) (\<lambda>secondary.
     bindE (event_payload as_venue_clock ''VenueClockPayload'' (sel_venue_clock sel)) (\<lambda>clock.
     bindE (event_payload as_symbol_state ''SymbolStatePayload'' (sel_symbol_state sel)) (\<lambda>state.
     bindE (frame_manifest sel) (\<lambda>manifest.
     bindE (best_price order_book_best_bid book) (\<lambda>bid.
     bindE (best_price order_book_best_ask book) (\<lambda>ask.
     bindE (content_hash (pydict
       [(''key'', frame_key_dict key),
        (''frame_id'', PyUUID (frame_key_id key)),
        (''cutoff_at'', PyDatetime cutoff),
        (''bar'', closed_bar_dict bar),
        (''book_bids'', PySequence (map price_level_dict (levels_of ob_bids book))),
        (''book_asks'', PySequence (map price_level_dict (levels_of ob_asks book))),
        (''best_bid'', py_option PyDecimal bid),
        (''best_ask'', py_option PyDecimal ask),
        (''mark_price'', py_option PyDecimal (map_option mf_mark_price mark)),
        (''index_price'', py_option PyDecimal (map_option mf_index_price mark)),
        (''funding_rate'', py_option PyDecimal (map_option mf_funding_rate mark)),
        (''primary_spot_price'', py_option PyDecimal (map_option rp_price spot)),
        (''secondary_venue_price'', py_option PyDecimal (map_option rp_price secondary)),
        (''venue_server_time'', py_option PyDatetime (map_option vc_server_time clock)),
        (''symbol_status'', py_option PyStr (map_option sy_status state)),
        (''source_manifest'', pydict (map (\<lambda>(name, s). (name, source_observation_dict s)) manifest))])) (\<lambda>h.
     frame_post_init
       \<lparr>fr_key = key, fr_frame_id = frame_key_id key, fr_cutoff_at = cutoff, fr_bar = bar,
        fr_book_bids = levels_of ob_bids book, fr_book_asks = levels_of ob_asks book,
        fr_best_bid = bid, fr_best_ask = ask,
        fr_mark_price = map_option mf_mark_price mark, fr_index_price = map_option mf_index_price mark,
        fr_funding_rate = map_option mf_funding_rate mark,
        fr_primary_spot_price = map_option rp_price spot, fr_secondary_venue_price = map_option rp_price secondary,
        fr_venue_server_time = map_option vc_server_time clock, fr_symbol_status = map_option sy_status state,
        fr_source_manifest = manifest, fr_content_hash = h\<rparr>))))))))))"

definition frame_cutoff :: "observed_market_event \<Rightarrow> datetime option \<Rightarrow> datetime" where
  "frame_cutoff closed_bar decision_cutoff = (case decision_cutoff of None \<Rightarrow> me_observed_at closed_bar | Some t \<Rightarrow> t)"

definition available_events :: "frame_key \<Rightarrow> datetime \<Rightarrow> observed_market_event list \<Rightarrow> observed_market_event list" where
  "available_events key cutoff events = filter (\<lambda>e. me_symbol e = fk_symbol key \<and> me_observed_at e \<le> cutoff) events"

definition build_frame ::
  "frame_key \<Rightarrow> observed_market_event \<Rightarrow> observed_market_event list \<Rightarrow> datetime option \<Rightarrow> causal_minute_frame result" where
  "build_frame key closed_bar events decision_cutoff =
     (case (me_kind closed_bar, me_payload closed_bar) of
        (CLOSED_BAR, ClosedBarPayload bar) \<Rightarrow>
          (let cutoff = frame_cutoff closed_bar decision_cutoff
           in thenE (checks
                [raise_if (\<not> cb_closed bar) (ValueError ''frame requires a fully closed bar''),
                 raise_if (cb_timeframe bar \<noteq> ''1m'' \<or> dt_diff (cb_bar_close_at bar) (cb_bar_open_at bar) \<noteq> seconds 60)
                   (ValueError ''frame builder requires an aligned one-minute bar''),
                 raise_if (fk_symbol key \<noteq> me_symbol closed_bar \<or> fk_timeframe key \<noteq> cb_timeframe bar \<or>
                     fk_bar_close_at key \<noteq> cb_bar_close_at bar)
                   (ValueError ''frame key does not match the closed bar''),
                 raise_if (utcoffset cutoff \<noteq> Some 0) (ValueError ''frame decision cutoff must be UTC-aware''),
                 raise_if (cutoff < cb_bar_close_at bar \<or> cutoff > me_observed_at closed_bar)
                   (ValueError ''frame decision cutoff must fall between bar close and bar observation'')])
              (bindE (deduplicate (available_events key cutoff events @ [closed_bar])) (\<lambda>deduplicated.
               bindE (select_events closed_bar deduplicated) (\<lambda>sel.
               assemble_frame key cutoff bar sel))))
      | _ \<Rightarrow> Inl (ValueError ''frame requires a closed-bar event''))"

end
