(* ===== verification/Decimal_Root.thy ===== *)
theory Decimal_Root
  imports Json
begin

text \<open>
  The remaining Decimal operations the statistics use: \<open>x ** 2\<close>, which libmpdec computes with three guard digits
  before the final rounding, the correctly rounded \<open>sqrt\<close>, and \<open>Decimal(str(d.total_seconds()))\<close> of a
  duration with its text.  The float of \<open>total_seconds\<close> has a unit in the last place below a microsecond for
  durations under \<open>2 ^ 33\<close> seconds (272 years), so its shortest text is the exact number of microseconds.
\<close>

section \<open>Squares and roots\<close>

definition dsquare :: "decimal \<Rightarrow> decimal" where
  "dsquare x = round_prec 28 (round_prec 31 (x * x))"

function isqrt :: "int \<Rightarrow> int" where
  "isqrt n = (if n \<le> 0 then 0 else let r = 2 * isqrt (n div 4) in if (r + 1) * (r + 1) \<le> n then r + 1 else r)"
  by pat_completeness auto
termination
  by (relation "measure nat") auto

declare isqrt.simps [simp del]

text \<open>
  The root with 28 significant digits, rounded to the nearest, ties to even; a variance is not negative, so no other
  value reaches it.
\<close>

definition dsqrt :: "decimal \<Rightarrow> decimal" where
  "dsqrt x =
     (if x \<le> 0 then 0
      else let k = adjusted x div 2 - 27;
               y = x / 10 powi (2 * k);
               n = isqrt \<lfloor>y\<rfloor>;
               mid = (of_int n + 1 / 2) * (of_int n + 1 / 2)
           in of_int (if mid < y \<or> mid = y \<and> odd n then n + 1 else n) * 10 powi k)"

lemma isqrt_bounds: "0 \<le> n \<Longrightarrow> 0 \<le> isqrt n \<and> isqrt n * isqrt n \<le> n \<and> n < (isqrt n + 1) * (isqrt n + 1)"
proof (induction n rule: isqrt.induct)
  case (1 n)
  show ?case
  proof (cases "n \<le> 0")
    case True
    then show ?thesis using 1 by (simp add: isqrt.simps)
  next
    case False
    let ?r = "isqrt (n div 4)"
    have IH: "0 \<le> ?r" "?r * ?r \<le> n div 4" "n div 4 < (?r + 1) * (?r + 1)" using 1 False by simp_all
    have "n < 4 * ((?r + 1) * (?r + 1))" using IH(3) by presburger
    moreover have "4 * ((?r + 1) * (?r + 1)) = (2 * ?r + 1 + 1) * (2 * ?r + 1 + 1)" by (simp add: algebra_simps)
    moreover have "4 * (?r * ?r) \<le> n" using IH(2) by presburger
    then have "2 * ?r * (2 * ?r) \<le> n" by (simp add: algebra_simps)
    moreover have "isqrt n = (if (2 * ?r + 1) * (2 * ?r + 1) \<le> n then 2 * ?r + 1 else 2 * ?r)"
      using False by (subst isqrt.simps) (simp add: Let_def)
    ultimately show ?thesis using IH(1) by simp
  qed
qed

lemma isqrt_pos:
  assumes "0 < n"
  shows "0 < isqrt n"
  using isqrt_bounds [of n] assms by (cases "isqrt n = 0") auto

lemma dsqrt_pos:
  assumes "0 < x"
  shows "0 < dsqrt x"
proof -
  let ?k = "adjusted x div 2 - 27"
  have "10 powi (2 * ?k) \<le> (10 :: rat) powi adjusted x" unfolding powi10_le_iff by presburger
  also have "\<dots> \<le> x" using adjusted_bounds [of x] assms by simp
  finally have "1 \<le> x / 10 powi (2 * ?k)" by (simp add: pos_le_divide_eq)
  then have "0 < \<lfloor>x / 10 powi (2 * ?k)\<rfloor>" by linarith
  from isqrt_pos [OF this] show ?thesis using assms by (simp add: dsqrt_def Let_def)
qed

section \<open>Seconds\<close>

definition seconds_decimal :: "timedelta \<Rightarrow> decimal" where
  "seconds_decimal d = of_int d / 1000000"

text \<open>The text of a nonnegative duration: at least one and at most six fractional digits.\<close>

fun strip_text :: "string \<Rightarrow> string" where
  "strip_text (c # cs) = (if c = CHR ''0'' \<and> cs \<noteq> [] then strip_text cs else c # cs)"
| "strip_text [] = []"

definition seconds_text :: "timedelta \<Rightarrow> string" where
  "seconds_text d = show_int (d div 1000000) @ ''.'' @ rev (strip_text (rev (pad_left 6 (show_int (d mod 1000000)))))"

end
