(* ===== verification/Integrity.thy ===== *)
theory Integrity
  imports Frames Decimal_Root
begin

text \<open>
  \<^verbatim>\<open>maais/market_data/integrity/state_machine.py\<close>: the policy, the context and the eighteen checks that admit a frame or
  quarantine it.  A frozenset is a set; a Mapping is the list of its items, read with \<open>map_of\<close>, and \<open>sorted(m.items())\<close>
  orders it by its keys, which are distinct.
\<close>

section \<open>Enumerations\<close>

datatype integrity_check =
    REQUIRED_SOURCES | MISSING_INTERVAL | DUPLICATE_CONFLICT | SEQUENCE | VENUE_TIMESTAMP | OBSERVED_LAG
  | SOURCE_FRESHNESS | CLOCK_DRIFT | STALE_BOOK | API_OUTAGE | OHLC | VOLUME
  | CROSSED_BOOK | SYMBOL_STATE_CHECK | HISTORICAL_COVERAGE | CLOSE_RETURN_OUTLIER | FUTURES_SPOT_BASIS | SECONDARY_REFERENCE

fun integrity_check_value :: "integrity_check \<Rightarrow> string" where
  "integrity_check_value REQUIRED_SOURCES = ''required_sources''"
| "integrity_check_value MISSING_INTERVAL = ''missing_interval''"
| "integrity_check_value DUPLICATE_CONFLICT = ''duplicate_conflict''"
| "integrity_check_value SEQUENCE = ''sequence''"
| "integrity_check_value VENUE_TIMESTAMP = ''venue_timestamp''"
| "integrity_check_value OBSERVED_LAG = ''observed_lag''"
| "integrity_check_value SOURCE_FRESHNESS = ''source_freshness''"
| "integrity_check_value CLOCK_DRIFT = ''clock_drift''"
| "integrity_check_value STALE_BOOK = ''stale_book''"
| "integrity_check_value API_OUTAGE = ''api_outage''"
| "integrity_check_value OHLC = ''ohlc''"
| "integrity_check_value VOLUME = ''volume''"
| "integrity_check_value CROSSED_BOOK = ''crossed_book''"
| "integrity_check_value SYMBOL_STATE_CHECK = ''symbol_state''"
| "integrity_check_value HISTORICAL_COVERAGE = ''historical_coverage''"
| "integrity_check_value CLOSE_RETURN_OUTLIER = ''close_return_outlier''"
| "integrity_check_value FUTURES_SPOT_BASIS = ''futures_spot_basis''"
| "integrity_check_value SECONDARY_REFERENCE = ''secondary_reference''"

definition all_integrity_checks :: "integrity_check list" where
  "all_integrity_checks =
    [REQUIRED_SOURCES, MISSING_INTERVAL, DUPLICATE_CONFLICT, SEQUENCE, VENUE_TIMESTAMP, OBSERVED_LAG,
     SOURCE_FRESHNESS, CLOCK_DRIFT, STALE_BOOK, API_OUTAGE, OHLC, VOLUME,
     CROSSED_BOOK, SYMBOL_STATE_CHECK, HISTORICAL_COVERAGE, CLOSE_RETURN_OUTLIER, FUTURES_SPOT_BASIS, SECONDARY_REFERENCE]"

datatype frame_admission = ADMITTED | QUARANTINED

fun frame_admission_value :: "frame_admission \<Rightarrow> string" where
  "frame_admission_value ADMITTED = ''admitted''"
| "frame_admission_value QUARANTINED = ''quarantined''"

datatype sequence_rule = CONTIGUOUS | MONOTONIC

fun sequence_rule_value :: "sequence_rule \<Rightarrow> string" where
  "sequence_rule_value CONTIGUOUS = ''contiguous''"
| "sequence_rule_value MONOTONIC = ''monotonic''"

section \<open>Policy and context\<close>

record integrity_policy =
  ip_required_checks :: "integrity_check set"
  ip_required_sources :: "string set"
  ip_sequence_rules :: "(string \<times> sequence_rule) list"
  ip_source_max_age :: "(string \<times> timedelta) list"
  ip_max_venue_timestamp_skew :: timedelta
  ip_venue_timestamp_skew_overrides :: "(string \<times> timedelta) list"
  ip_max_venue_clock_drift :: timedelta
  ip_max_book_age :: timedelta
  ip_max_decision_lag :: timedelta
  ip_minimum_history_bars :: int
  ip_minimum_outlier_returns :: int
  ip_outlier_z_threshold :: decimal
  ip_maximum_basis_fraction :: decimal
  ip_maximum_secondary_divergence :: decimal

definition integrity_policy_post_init :: "integrity_policy \<Rightarrow> integrity_policy result" where
  "integrity_policy_post_init p = thenE (checks
     [raise_if (ip_required_checks p = {} \<or> ip_required_sources p = {}) (ValueError ''official integrity policy cannot be empty''),
      raise_if (ip_max_venue_timestamp_skew p \<le> 0) (ValueError ''max_venue_timestamp_skew must be positive''),
      raise_if (ip_max_venue_clock_drift p \<le> 0) (ValueError ''max_venue_clock_drift must be positive''),
      raise_if (ip_max_book_age p \<le> 0) (ValueError ''max_book_age must be positive''),
      raise_if (ip_max_decision_lag p \<le> 0) (ValueError ''max_decision_lag must be positive''),
      raise_if (ip_minimum_history_bars p \<le> 0 \<or> ip_minimum_outlier_returns p < 2) (ValueError ''integrity warm-up windows are invalid''),
      require_positive_decimal (ip_outlier_z_threshold p) ''outlier_z_threshold'',
      require_positive_decimal (ip_maximum_basis_fraction p) ''maximum_basis_fraction'',
      require_positive_decimal (ip_maximum_secondary_divergence p) ''maximum_secondary_divergence'',
      raise_if (\<not> fst ` set (ip_venue_timestamp_skew_overrides p) \<subseteq> ip_required_sources p)
        (ValueError ''venue timestamp skew overrides must name required sources''),
      raise_if (\<exists>(name, value) \<in> set (ip_venue_timestamp_skew_overrides p). value \<le> 0)
        (ValueError ''venue timestamp skew overrides must be positive''),
      raise_if (ip_sequence_rules p = [] \<or> \<not> fst ` set (ip_sequence_rules p) \<subseteq> ip_required_sources p)
        (ValueError ''sequence rules must name required sources'')])
     (Inr p)"

definition official_integrity_policy :: "integrity_policy result" where
  "official_integrity_policy = integrity_policy_post_init
     \<lparr>ip_required_checks = set all_integrity_checks,
      ip_required_sources = {''closed_bar'', ''order_book'', ''mark_funding'', ''primary_spot'', ''secondary_venue'', ''venue_clock'', ''symbol_state''},
      ip_sequence_rules = [(''closed_bar'', CONTIGUOUS), (''order_book'', MONOTONIC)],
      ip_source_max_age = [(''closed_bar'', seconds 1), (''order_book'', seconds 2), (''mark_funding'', seconds 2),
        (''primary_spot'', seconds 5), (''secondary_venue'', seconds 5), (''venue_clock'', seconds 60), (''symbol_state'', seconds 86400)],
      ip_max_venue_timestamp_skew = seconds 1,
      ip_venue_timestamp_skew_overrides = [(''primary_spot'', seconds 5), (''secondary_venue'', seconds 5)],
      ip_max_venue_clock_drift = seconds 1, ip_max_book_age = seconds 2, ip_max_decision_lag = seconds 5,
      ip_minimum_history_bars = 60, ip_minimum_outlier_returns = 20, ip_outlier_z_threshold = 5,
      ip_maximum_basis_fraction = 2 / 100, ip_maximum_secondary_divergence = 2 / 100\<rparr>"

record integrity_context =
  ic_frame :: causal_minute_frame
  ic_evaluated_at :: datetime
  ic_previous_bar_close_at :: "datetime option"
  ic_previous_close :: "decimal option"
  ic_prior_sequences :: "(string \<times> int) list"
  ic_recent_close_returns :: "decimal list"
  ic_historical_bar_count :: int

definition integrity_context_post_init :: "integrity_context \<Rightarrow> integrity_context result" where
  "integrity_context_post_init c = thenE (checks
     [require_utc (ic_evaluated_at c) ''evaluated_at'',
      require_utc_option (ic_previous_bar_close_at c) ''previous_bar_close_at'',
      raise_if (case ic_previous_close c of None \<Rightarrow> False | Some x \<Rightarrow> x \<le> 0)
        (ValueError ''previous_close must be a positive finite Decimal''),
      raise_if (ic_historical_bar_count c < 0) (ValueError ''historical_bar_count must be nonnegative''),
      raise_if (\<exists>(name, value) \<in> set (ic_prior_sequences c). name = [] \<or> value < 0)
        (ValueError ''prior source sequences must be named and nonnegative'')])
     (Inr c)"

section \<open>Results and assessments\<close>

record integrity_result =
  ir_check :: integrity_check
  ir_status :: quality_status
  ir_reason_code :: string
  ir_details :: json

definition integrity_result_post_init :: "integrity_result \<Rightarrow> integrity_result result" where
  "integrity_result_post_init r =
     thenE (raise_if (ir_reason_code r = []) (ValueError ''integrity reason_code is required''))
     (bindE (freeze_json (json_pyval (ir_details r))) (\<lambda>normalized.
      bindE (require_mapping ''integrity details must be an object'' normalized) (\<lambda>details.
        Inr (r\<lparr>ir_details := details\<rparr>))))"

definition integrity_result_dict :: "integrity_result \<Rightarrow> pyval" where
  "integrity_result_dict r = pydict
     [(''check'', PyEnum (PyStr (integrity_check_value (ir_check r)))),
      (''status'', PyEnum (PyStr (quality_status_value (ir_status r)))),
      (''reason_code'', PyStr (ir_reason_code r)), (''details'', json_pyval (ir_details r))]"

definition check_result ::
  "integrity_check \<Rightarrow> quality_status \<Rightarrow> string \<Rightarrow> (string \<times> pyval) list \<Rightarrow> integrity_result result" where
  "check_result check status reason_code details =
     bindE (freeze_json (pydict details)) (\<lambda>normalized.
       case normalized of
         JObject _ \<Rightarrow> integrity_result_post_init
           \<lparr>ir_check = check, ir_status = status, ir_reason_code = reason_code, ir_details = normalized\<rparr>
       | _ \<Rightarrow> Inl AssertionError)"

record integrity_assessment =
  as_frame_id :: uuid
  as_admission :: frame_admission
  as_quality_status :: quality_status
  as_results :: "integrity_result list"
  as_blocking_checks :: "integrity_check list"
  as_content_hash :: string

fun expected_reasons :: "integrity_check \<Rightarrow> string set" where
  "expected_reasons MISSING_INTERVAL = {''previous_bar_missing''}"
| "expected_reasons HISTORICAL_COVERAGE = {''historical_warmup_incomplete''}"
| "expected_reasons CLOSE_RETURN_OUTLIER = {''previous_close_missing'', ''return_warmup_incomplete''}"
| "expected_reasons _ = {}"

definition is_expected_warmup :: "integrity_assessment \<Rightarrow> bool" where
  "is_expected_warmup a \<longleftrightarrow> as_blocking_checks a \<noteq> [] \<and>
     (let by_check = map_of (rev (map (\<lambda>r. (ir_check r, r)) (as_results a)))
      in list_all (\<lambda>check. case by_check check of
           None \<Rightarrow> False
         | Some r \<Rightarrow> ir_status r = NOT_APPLICABLE \<and> ir_reason_code r \<in> expected_reasons check) (as_blocking_checks a))"

section \<open>The checks\<close>

definition frame_source :: "integrity_context \<Rightarrow> string \<Rightarrow> source_observation option" where
  "frame_source c = map_of (fr_source_manifest (ic_frame c))"

definition required_sources_check :: "integrity_policy \<Rightarrow> integrity_context \<Rightarrow> integrity_result result" where
  "required_sources_check p c =
     (let missing = sorted_list_of_set (ip_required_sources p - fst ` set (fr_source_manifest (ic_frame c)))
      in if missing \<noteq> [] then check_result REQUIRED_SOURCES NOT_APPLICABLE ''required_sources_missing'' [(''missing'', strings missing)]
         else check_result REQUIRED_SOURCES PASSED ''required_sources_present'' [])"

definition missing_interval_check :: "integrity_context \<Rightarrow> integrity_result result" where
  "missing_interval_check c =
     (case ic_previous_bar_close_at c of
        None \<Rightarrow> check_result MISSING_INTERVAL NOT_APPLICABLE ''previous_bar_missing'' []
      | Some previous \<Rightarrow>
          if previous \<noteq> cb_bar_open_at (fr_bar (ic_frame c))
          then check_result MISSING_INTERVAL FAILED ''bar_interval_gap''
            [(''expected_open'', PyDatetime previous), (''actual_open'', PyDatetime (cb_bar_open_at (fr_bar (ic_frame c))))]
          else check_result MISSING_INTERVAL PASSED ''bar_interval_contiguous'' [])"

text \<open>The rule of a source is broken by a sequence number after a previous one.\<close>

definition sequence_violation :: "sequence_rule \<Rightarrow> int \<Rightarrow> int \<Rightarrow> bool" where
  "sequence_violation rule previous current \<longleftrightarrow>
     rule = CONTIGUOUS \<and> current \<noteq> previous + 1 \<or> rule = MONOTONIC \<and> current \<le> previous"

definition source_sequence :: "integrity_context \<Rightarrow> string \<Rightarrow> int option" where
  "source_sequence c name = Option.bind (frame_source c name) so_sequence"

definition bad_sequence :: "integrity_context \<Rightarrow> string \<times> sequence_rule \<Rightarrow> (int \<times> int) option" where
  "bad_sequence c = (\<lambda>(name, rule).
     case (source_sequence c name, map_of (ic_prior_sequences c) name) of
       (Some current, Some previous) \<Rightarrow> if sequence_violation rule previous current then Some (previous, current) else None
     | _ \<Rightarrow> None)"

definition sequence_check :: "integrity_policy \<Rightarrow> integrity_context \<Rightarrow> integrity_result result" where
  "sequence_check p c =
     (let rules = sort_key fst (ip_sequence_rules p);
          missing = map fst (filter (\<lambda>(name, rule). source_sequence c name = None) rules);
          bad = concat (map (\<lambda>(name, rule). case bad_sequence c (name, rule) of None \<Rightarrow> []
            | Some (previous, current) \<Rightarrow> [pydict [(''source'', PyStr name), (''rule'', PyEnum (PyStr (sequence_rule_value rule))),
                (''previous'', PyInt previous), (''current'', PyInt current)]]) rules)
      in if missing \<noteq> [] then check_result SEQUENCE NOT_APPLICABLE ''required_sequence_missing'' [(''sources'', strings missing)]
         else if bad \<noteq> [] then check_result SEQUENCE FAILED ''sequence_gap_or_regression'' [(''sources'', PySequence bad)]
         else check_result SEQUENCE PASSED ''sequences_contiguous_or_initialized'' [])"

definition skew_limit :: "integrity_policy \<Rightarrow> string \<Rightarrow> timedelta" where
  "skew_limit p name = (case map_of (ip_venue_timestamp_skew_overrides p) name of None \<Rightarrow> ip_max_venue_timestamp_skew p | Some d \<Rightarrow> d)"

definition source_skew :: "source_observation \<Rightarrow> timedelta" where
  "source_skew s = \<bar>dt_diff (so_observed_at s) (so_venue_event_at s)\<bar>"

definition skewed :: "integrity_policy \<Rightarrow> string \<times> source_observation \<Rightarrow> bool" where
  "skewed p = (\<lambda>(name, s). so_timestamp_basis s \<noteq> LOCAL_OBSERVATION \<and> source_skew s > skew_limit p name)"

definition skew_observation :: "integrity_policy \<Rightarrow> string \<times> source_observation \<Rightarrow> string \<times> pyval" where
  "skew_observation p = (\<lambda>(name, s). (name, pydict
     [(''skew_seconds'', PyDecimal (seconds_decimal (source_skew s))),
      (''limit_seconds'', PyDecimal (seconds_decimal (skew_limit p name))),
      (''timestamp_basis'', PyEnum (PyStr (timestamp_basis_value (so_timestamp_basis s)))),
      (''comparable'', PyBool (so_timestamp_basis s = VENUE_EVENT))]))"

definition venue_timestamp_check :: "integrity_policy \<Rightarrow> integrity_context \<Rightarrow> integrity_result result" where
  "venue_timestamp_check p c =
     (let sources = sort_key fst (fr_source_manifest (ic_frame c));
          bad = map fst (filter (skewed p) sources);
          observations = pydict (map (skew_observation p) sources);
          observation_based = list_ex (\<lambda>(name, s). so_timestamp_basis s = LOCAL_OBSERVATION) sources
      in if bad \<noteq> [] then check_result VENUE_TIMESTAMP FAILED ''venue_timestamp_skew''
           [(''sources'', strings bad), (''observations'', observations)]
         else check_result VENUE_TIMESTAMP PASSED
           (if observation_based then ''venue_timestamps_within_skew_or_observation_based'' else ''venue_timestamps_within_skew'')
           [(''observations'', observations)])"

definition decision_lag :: "integrity_context \<Rightarrow> timedelta" where
  "decision_lag c = dt_diff (ic_evaluated_at c) (fr_cutoff_at (ic_frame c))"

definition observed_lag_check :: "integrity_policy \<Rightarrow> integrity_context \<Rightarrow> integrity_result result" where
  "observed_lag_check p c =
     (if decision_lag c < 0 then check_result OBSERVED_LAG FAILED ''evaluation_precedes_frame'' []
      else if decision_lag c > ip_max_decision_lag p then check_result OBSERVED_LAG FAILED ''decision_lag_exceeded''
        [(''lag_seconds'', PyStr (seconds_text (decision_lag c)))]
      else check_result OBSERVED_LAG PASSED ''decision_lag_within_limit'' [])"

definition source_age :: "integrity_context \<Rightarrow> source_observation \<Rightarrow> timedelta" where
  "source_age c s = dt_diff (fr_cutoff_at (ic_frame c)) (so_observed_at s)"

definition stale_source :: "integrity_policy \<Rightarrow> integrity_context \<Rightarrow> string \<Rightarrow> bool" where
  "stale_source p c name \<longleftrightarrow>
     (case (map_of (ip_source_max_age p) name, frame_source c name) of
        (Some maximum_age, Some s) \<Rightarrow> source_age c s > maximum_age
      | _ \<Rightarrow> False)"

definition source_freshness_check :: "integrity_policy \<Rightarrow> integrity_context \<Rightarrow> integrity_result result" where
  "source_freshness_check p c =
     (let required = sorted_list_of_set (ip_required_sources p);
          missing_policy = filter (\<lambda>name. map_of (ip_source_max_age p) name = None) required;
          stale = filter (stale_source p c) required
      in if missing_policy \<noteq> [] then check_result SOURCE_FRESHNESS NOT_APPLICABLE ''source_freshness_policy_missing''
           [(''sources'', strings missing_policy)]
         else if stale \<noteq> [] then check_result SOURCE_FRESHNESS FAILED ''source_stale'' [(''sources'', strings stale)]
         else check_result SOURCE_FRESHNESS PASSED ''sources_fresh'' [])"

definition clock_drift_check :: "integrity_policy \<Rightarrow> integrity_context \<Rightarrow> integrity_result result" where
  "clock_drift_check p c =
     (case (frame_source c ''venue_clock'', fr_venue_server_time (ic_frame c)) of
        (Some s, Some server_time) \<Rightarrow>
          (let drift = \<bar>dt_diff server_time (so_observed_at s)\<bar>
           in if drift > ip_max_venue_clock_drift p then check_result CLOCK_DRIFT FAILED ''venue_clock_drift_exceeded''
                [(''drift_seconds'', PyStr (seconds_text drift))]
              else check_result CLOCK_DRIFT PASSED ''venue_clock_within_limit'' [])
      | _ \<Rightarrow> check_result CLOCK_DRIFT NOT_APPLICABLE ''venue_clock_missing'' [])"

definition stale_book_check :: "integrity_policy \<Rightarrow> integrity_context \<Rightarrow> integrity_result result" where
  "stale_book_check p c =
     (case frame_source c ''order_book'' of
        None \<Rightarrow> check_result STALE_BOOK NOT_APPLICABLE ''order_book_missing'' []
      | Some s \<Rightarrow>
          if source_age c s > ip_max_book_age p then check_result STALE_BOOK FAILED ''order_book_stale'' []
          else check_result STALE_BOOK PASSED ''order_book_fresh'' [])"

definition api_outage_check :: "integrity_policy \<Rightarrow> integrity_context \<Rightarrow> integrity_result result" where
  "api_outage_check p c =
     (if decision_lag c > ip_max_decision_lag p then check_result API_OUTAGE FAILED ''market_data_outage'' []
      else check_result API_OUTAGE PASSED ''market_data_current'' [])"

definition passed_if :: "bool \<Rightarrow> quality_status" where
  "passed_if valid = (if valid then PASSED else FAILED)"

definition ohlc_check :: "integrity_context \<Rightarrow> integrity_result result" where
  "ohlc_check c =
     (let bar = fr_bar (ic_frame c);
          valid = (cb_low bar \<le> min (cb_open bar) (cb_close bar) \<and> cb_high bar \<ge> max (cb_open bar) (cb_close bar))
      in check_result OHLC (passed_if valid) (if valid then ''ohlc_valid'' else ''ohlc_invalid'') [])"

definition volume_check :: "integrity_context \<Rightarrow> integrity_result result" where
  "volume_check c =
     (let valid = (cb_volume (fr_bar (ic_frame c)) \<ge> 0 \<and> cb_quote_volume (fr_bar (ic_frame c)) \<ge> 0)
      in check_result VOLUME (passed_if valid) (if valid then ''volume_nonnegative'' else ''volume_negative'') [])"

definition crossed_book_check :: "integrity_context \<Rightarrow> integrity_result result" where
  "crossed_book_check c =
     (case (fr_best_bid (ic_frame c), fr_best_ask (ic_frame c)) of
        (Some bid, Some ask) \<Rightarrow> check_result CROSSED_BOOK (passed_if (bid < ask))
          (if bid < ask then ''book_not_crossed'' else ''book_crossed_or_locked'') []
      | _ \<Rightarrow> check_result CROSSED_BOOK NOT_APPLICABLE ''order_book_missing'' [])"

definition symbol_state_check :: "integrity_context \<Rightarrow> integrity_result result" where
  "symbol_state_check c =
     (case fr_symbol_status (ic_frame c) of
        None \<Rightarrow> check_result SYMBOL_STATE_CHECK NOT_APPLICABLE ''symbol_state_missing'' []
      | Some status \<Rightarrow> check_result SYMBOL_STATE_CHECK (passed_if (status = ''TRADING''))
          (if status = ''TRADING'' then ''symbol_trading'' else ''symbol_not_trading'') [(''symbol_status'', PyStr status)])"

definition historical_coverage_check :: "integrity_policy \<Rightarrow> integrity_context \<Rightarrow> integrity_result result" where
  "historical_coverage_check p c =
     (if ic_historical_bar_count c < ip_minimum_history_bars p
      then check_result HISTORICAL_COVERAGE NOT_APPLICABLE ''historical_warmup_incomplete''
        [(''actual'', PyInt (ic_historical_bar_count c)), (''required'', PyInt (ip_minimum_history_bars p))]
      else check_result HISTORICAL_COVERAGE PASSED ''historical_coverage_sufficient'' [])"

text \<open>The statistics of the recent returns: the mean and the sample variance.\<close>

definition returns_mean :: "decimal list \<Rightarrow> decimal result" where
  "returns_mean xs = ddivE (dsum xs) (of_nat (length xs))"

definition returns_variance :: "decimal \<Rightarrow> decimal list \<Rightarrow> decimal result" where
  "returns_variance mean xs = ddivE (dsum (map (\<lambda>x. dsquare (dsub x mean)) xs)) (of_nat (length xs) - 1)"

definition return_outlier_check :: "integrity_policy \<Rightarrow> decimal \<Rightarrow> decimal \<Rightarrow> decimal \<Rightarrow> integrity_result result" where
  "return_outlier_check p current mean variance =
     (if variance = 0
      then check_result CLOSE_RETURN_OUTLIER (passed_if (current = mean))
        (if current \<noteq> mean then ''zero_variance_outlier'' else ''return_matches_zero_variance_baseline'')
        [(''current_return'', PyDecimal current), (''baseline_mean'', PyDecimal mean)]
      else bindE (ddivE (dabs (dsub current mean)) (dsqrt variance)) (\<lambda>z_score.
        check_result CLOSE_RETURN_OUTLIER (passed_if (\<not> z_score > ip_outlier_z_threshold p))
          (if z_score > ip_outlier_z_threshold p then ''return_outlier'' else ''return_within_baseline'')
          [(''current_return'', PyDecimal current), (''z_score'', PyDecimal z_score)]))"

definition close_return_outlier_check :: "integrity_policy \<Rightarrow> integrity_context \<Rightarrow> integrity_result result" where
  "close_return_outlier_check p c =
     (if ic_historical_bar_count c < ip_minimum_history_bars p
      then check_result CLOSE_RETURN_OUTLIER NOT_APPLICABLE ''return_warmup_incomplete''
        [(''actual'', PyInt (ic_historical_bar_count c)), (''required'', PyInt (ip_minimum_history_bars p))]
      else case ic_previous_close c of
        None \<Rightarrow> check_result CLOSE_RETURN_OUTLIER NOT_APPLICABLE ''previous_close_missing'' []
      | Some previous \<Rightarrow>
          (let values = ic_recent_close_returns c
           in if int (length values) < ip_minimum_outlier_returns p
              then check_result CLOSE_RETURN_OUTLIER NOT_APPLICABLE ''return_warmup_incomplete''
                [(''actual'', PyInt (int (length values))), (''required'', PyInt (ip_minimum_outlier_returns p))]
              else bindE (ddivE (dsub (cb_close (fr_bar (ic_frame c))) previous) previous) (\<lambda>current.
                   bindE (returns_mean values) (\<lambda>mean.
                   bindE (returns_variance mean values) (\<lambda>variance.
                   return_outlier_check p current mean variance)))))"

definition divergence :: "decimal \<Rightarrow> decimal \<Rightarrow> decimal result" where
  "divergence mark reference = ddivE (dabs (dsub mark reference)) reference"

definition futures_spot_basis_check :: "integrity_policy \<Rightarrow> integrity_context \<Rightarrow> integrity_result result" where
  "futures_spot_basis_check p c =
     (case (fr_mark_price (ic_frame c), fr_primary_spot_price (ic_frame c)) of
        (Some mark, Some spot) \<Rightarrow> bindE (divergence mark spot) (\<lambda>d.
          check_result FUTURES_SPOT_BASIS (passed_if (\<not> d > ip_maximum_basis_fraction p))
            (if d > ip_maximum_basis_fraction p then ''basis_divergence_exceeded'' else ''basis_within_limit'')
            [(''divergence'', PyDecimal d), (''futures_mark'', PyDecimal mark), (''primary_spot'', PyDecimal spot)])
      | _ \<Rightarrow> check_result FUTURES_SPOT_BASIS NOT_APPLICABLE ''futures_or_spot_price_missing'' [])"

definition secondary_reference_check :: "integrity_policy \<Rightarrow> integrity_context \<Rightarrow> integrity_result result" where
  "secondary_reference_check p c =
     (case fr_secondary_venue_price (ic_frame c) of
        None \<Rightarrow> check_result SECONDARY_REFERENCE NOT_APPLICABLE ''secondary_reference_missing'' []
      | Some reference \<Rightarrow>
          (case fr_mark_price (ic_frame c) of
             None \<Rightarrow> check_result SECONDARY_REFERENCE NOT_APPLICABLE ''futures_mark_missing'' []
           | Some mark \<Rightarrow> bindE (divergence mark reference) (\<lambda>d.
               check_result SECONDARY_REFERENCE (passed_if (\<not> d > ip_maximum_secondary_divergence p))
                 (if d > ip_maximum_secondary_divergence p then ''secondary_divergence_exceeded'' else ''secondary_divergence_within_limit'')
                 [(''divergence'', PyDecimal d), (''futures_mark'', PyDecimal mark), (''secondary_reference'', PyDecimal reference)])))"

section \<open>The evaluation\<close>

definition integrity_results :: "integrity_policy \<Rightarrow> integrity_context \<Rightarrow> integrity_result list result" where
  "integrity_results p c = mapE (\<lambda>m. m)
     [required_sources_check p c, missing_interval_check c,
      check_result DUPLICATE_CONFLICT PASSED ''frame_identity_canonical'' [],
      sequence_check p c, venue_timestamp_check p c, observed_lag_check p c, source_freshness_check p c,
      clock_drift_check p c, stale_book_check p c, api_outage_check p c, ohlc_check c, volume_check c,
      crossed_book_check c, symbol_state_check c, historical_coverage_check p c, close_return_outlier_check p c,
      futures_spot_basis_check p c, secondary_reference_check p c]"

definition integrity_blocking :: "integrity_policy \<Rightarrow> integrity_result list \<Rightarrow> integrity_check list" where
  "integrity_blocking p results = map ir_check (filter (\<lambda>r. ir_status r = FAILED \<or>
     ir_status r = NOT_APPLICABLE \<and> ir_check r \<in> ip_required_checks p) results)"

definition integrity_evaluate :: "integrity_policy \<Rightarrow> integrity_context \<Rightarrow> integrity_assessment result" where
  "integrity_evaluate p c =
     bindE (integrity_results p c) (\<lambda>results.
       let blocking = integrity_blocking p results;
           admission = (if blocking \<noteq> [] then QUARANTINED else ADMITTED);
           quality = (if blocking \<noteq> [] then FAILED else PASSED)
       in bindE (content_hash (pydict
            [(''frame_id'', PyUUID (fr_frame_id (ic_frame c))),
             (''admission'', PyEnum (PyStr (frame_admission_value admission))),
             (''quality_status'', PyEnum (PyStr (quality_status_value quality))),
             (''results'', PySequence (map integrity_result_dict results)),
             (''blocking_checks'', PySequence (map (\<lambda>k. PyEnum (PyStr (integrity_check_value k))) blocking))])) (\<lambda>h.
          Inr \<lparr>as_frame_id = fr_frame_id (ic_frame c), as_admission = admission, as_quality_status = quality,
               as_results = results, as_blocking_checks = blocking, as_content_hash = h\<rparr>))"

end
