(* ===== verification/Frame_Safety.thy ===== *)
theory Frame_Safety
  imports Frames
begin

text \<open>
  Lemmas on the frame builder: what deduplication keeps, which event each source selects, when a frame is
  built, what it contains, and that neither the order nor the redelivery of the events matters.
\<close>

section \<open>Deduplication\<close>

text \<open>Two events under one identity have the same content hash.\<close>

definition conflict_free :: "observed_market_event list \<Rightarrow> bool" where
  "conflict_free es \<longleftrightarrow> (\<forall>x \<in> set es. \<forall>y \<in> set es. event_identity x = event_identity y \<longrightarrow> event_hash x = event_hash y)"

text \<open>The kept events are among the given ones, have distinct identities, and stand for every given event.\<close>

definition stands_for :: "observed_market_event list \<Rightarrow> observed_market_event list \<Rightarrow> bool" where
  "stands_for ds es \<longleftrightarrow> set ds \<subseteq> set es \<and> distinct (map event_identity ds) \<and>
     (\<forall>e \<in> set es. \<exists>d \<in> set ds. event_identity d = event_identity e \<and> event_hash d = event_hash e)"

lemma conflict_freeD:
  "conflict_free es \<Longrightarrow> x \<in> set es \<Longrightarrow> y \<in> set es \<Longrightarrow> event_identity x = event_identity y \<Longrightarrow> event_hash x = event_hash y"
  unfolding conflict_free_def by blast

lemma stands_for_in: "stands_for ds es \<Longrightarrow> d \<in> set ds \<Longrightarrow> d \<in> set es"
  by (auto simp: stands_for_def)

lemma stands_for_rep:
  "stands_for ds es \<Longrightarrow> e \<in> set es \<Longrightarrow> \<exists>d \<in> set ds. event_identity d = event_identity e \<and> event_hash d = event_hash e"
  by (simp add: stands_for_def)

lemma stands_for_seen:
  "stands_for ds es \<Longrightarrow> d \<in> set ds \<Longrightarrow> event_identity d = event_identity e \<Longrightarrow> event_hash d = event_hash e \<Longrightarrow>
    stands_for ds (es @ [e])"
  unfolding stands_for_def by simp blast

lemma stands_for_new:
  assumes "stands_for ds es" and new: "\<forall>d \<in> set ds. event_identity d \<noteq> event_identity e"
  shows "stands_for (ds @ [e]) (es @ [e])"
  unfolding stands_for_def
proof (intro conjI ballI)
  show "set (ds @ [e]) \<subseteq> set (es @ [e])" using stands_for_in [OF assms(1)] by auto
  have "event_identity e \<notin> event_identity ` set ds" using new by (metis imageE)
  then show "distinct (map event_identity (ds @ [e]))" using assms(1) by (simp add: stands_for_def)
  fix x
  assume "x \<in> set (es @ [e])"
  then consider "x = e" | "x \<in> set es" by auto
  then show "\<exists>d \<in> set (ds @ [e]). event_identity d = event_identity x \<and> event_hash d = event_hash x"
  proof cases
    case 2
    from stands_for_rep [OF assms(1) this] show ?thesis by auto
  qed simp
qed

lemma dedup_step_cases:
  assumes "event_ok e" and "list_all event_ok ds"
  shows "dedup_step ds e =
    (if \<exists>d \<in> set ds. event_identity d = event_identity e then
       (if \<exists>d. find (\<lambda>x. event_identity x = event_identity e) ds = Some d \<and> event_hash d = event_hash e then Inr ds
        else Inl (FrameIdentityConflict
          (''event '' @ repr_identity (event_identity e) @ '' has different content under the same identity'')))
     else Inr (ds @ [e]))"
proof (cases "find (\<lambda>x. event_identity x = event_identity e) ds")
  case None
  then have "\<not> (\<exists>d \<in> set ds. event_identity d = event_identity e)" by (simp add: find_None_iff)
  with None show ?thesis by (simp add: dedup_step_def)
next
  case (Some d)
  then have d: "d \<in> set ds" "event_identity d = event_identity e" by (auto simp: find_Some_iff)
  obtain h where h: "event_hash e = Inr h" using event_hash_returns [OF assms(1)] by blast
  obtain h' where h': "event_hash d = Inr h'" using event_hash_returns [of d] d(1) assms(2) by (auto simp: list_all_iff)
  show ?thesis using Some d h h' by (auto simp: dedup_step_def)
qed

lemma stands_for_find:
  assumes "stands_for ds es" and "d \<in> set ds" and "event_identity d = i"
  shows "find (\<lambda>x. event_identity x = i) ds = Some d"
proof -
  obtain d' where f: "find (\<lambda>x. event_identity x = i) ds = Some d'"
    using assms(2,3) by (cases "find (\<lambda>x. event_identity x = i) ds") (auto simp: find_None_iff)
  then have "d' \<in> set ds" "event_identity d' = i" by (auto simp: find_Some_iff)
  moreover have "inj_on event_identity (set ds)" using assms(1) by (simp add: stands_for_def distinct_map)
  ultimately show ?thesis using assms(2,3) f by (simp add: inj_on_def)
qed

lemma dedup_step_returns:
  assumes "event_ok e" "list_all event_ok ds" "stands_for ds es" "conflict_free (es @ [e])"
  shows "\<exists>ds'. dedup_step ds e = Inr ds' \<and> stands_for ds' (es @ [e])"
proof (cases "\<exists>d \<in> set ds. event_identity d = event_identity e")
  case True
  then obtain d where d: "d \<in> set ds" "event_identity d = event_identity e" by blast
  have h: "event_hash d = event_hash e"
    using conflict_freeD [OF assms(4) _ _ d(2)] stands_for_in [OF assms(3) d(1)] by simp
  have "dedup_step ds e = Inr ds"
    unfolding dedup_step_cases [OF assms(1,2)] using True stands_for_find [OF assms(3) d] h by simp
  moreover have "stands_for ds (es @ [e])" by (rule stands_for_seen [OF assms(3) d h])
  ultimately show ?thesis by simp
next
  case False
  then have "dedup_step ds e = Inr (ds @ [e])" unfolding dedup_step_cases [OF assms(1,2)] by simp
  moreover have "stands_for (ds @ [e]) (es @ [e])" using stands_for_new [OF assms(3)] False by simp
  ultimately show ?thesis by simp
qed

lemma stands_for_ok: "stands_for ds es \<Longrightarrow> list_all event_ok es \<Longrightarrow> list_all event_ok ds"
  by (auto simp: stands_for_def list_all_iff)

lemma conflict_free_subset: "conflict_free es \<Longrightarrow> set fs \<subseteq> set es \<Longrightarrow> conflict_free fs"
  unfolding conflict_free_def by blast

lemma deduplicate_snoc: "deduplicate (es @ [e]) = bindE (deduplicate es) (\<lambda>ds. dedup_step ds e)"
  by (cases "foldE dedup_step [] es") (simp_all add: deduplicate_def foldE_append bindE_return)

lemma deduplicate_returns:
  assumes "list_all event_ok es" and "conflict_free es"
  shows "\<exists>ds. deduplicate es = Inr ds \<and> stands_for ds es"
  using assms
proof (induction es rule: rev_induct)
  case Nil
  then show ?case by (simp add: deduplicate_def stands_for_def)
next
  case (snoc e es)
  then obtain ds where ds: "deduplicate es = Inr ds" "stands_for ds es"
    using conflict_free_subset [OF snoc.prems(2), of es] snoc.prems(1) snoc.IH by auto
  have ok: "event_ok e" "list_all event_ok ds" using snoc.prems(1) stands_for_ok [OF ds(2)] by simp_all
  from dedup_step_returns [OF ok ds(2) snoc.prems(2)] ds(1) show ?case by (simp add: deduplicate_snoc)
qed

lemma dedup_step_conflict:
  assumes "event_ok e" "list_all event_ok ds" "stands_for ds es" "conflict_free es" "\<not> conflict_free (es @ [e])"
  shows "dedup_step ds e = Inl (FrameIdentityConflict
    (''event '' @ repr_identity (event_identity e) @ '' has different content under the same identity''))"
proof -
  obtain x y where xy: "x \<in> set (es @ [e])" "y \<in> set (es @ [e])" "event_identity x = event_identity y" "event_hash x \<noteq> event_hash y"
    using assms(5) unfolding conflict_free_def by blast
  obtain z where z: "z \<in> set es" "event_identity z = event_identity e" "event_hash z \<noteq> event_hash e"
  proof (cases "x \<in> set es")
    case True
    then have "y = e" using conflict_freeD [OF assms(4) True _ xy(3)] xy(2,4) by auto
    then show ?thesis using that [OF True] xy(3,4) by simp
  next
    case False
    then have "x = e" "y \<in> set es" using xy by auto
    then show ?thesis using that [of y] xy(3,4) by simp
  qed
  obtain d where d: "d \<in> set ds" "event_identity d = event_identity z" "event_hash d = event_hash z"
    using stands_for_rep [OF assms(3) z(1)] by blast
  have f: "find (\<lambda>x. event_identity x = event_identity e) ds = Some d"
    by (rule stands_for_find [OF assms(3) d(1)]) (simp add: d z)
  have "\<exists>d \<in> set ds. event_identity d = event_identity e" using d z by auto
  then show ?thesis unfolding dedup_step_cases [OF assms(1,2)] using f d(3) z(3) by simp
qed

definition identity_conflict :: "py_error \<Rightarrow> bool" where
  "identity_conflict e \<longleftrightarrow> (\<exists>message. e = FrameIdentityConflict message)"

lemma deduplicate_conflict:
  assumes "list_all event_ok es" and "\<not> conflict_free es"
  shows "\<exists>e. deduplicate es = Inl e \<and> identity_conflict e"
  using assms
proof (induction es rule: rev_induct)
  case Nil
  then show ?case by (simp add: conflict_free_def)
next
  case (snoc e es)
  show ?case
  proof (cases "conflict_free es")
    case True
    then obtain ds where ds: "deduplicate es = Inr ds" "stands_for ds es"
      using deduplicate_returns [of es] snoc.prems(1) by auto
    have ok: "event_ok e" "list_all event_ok ds" using snoc.prems(1) stands_for_ok [OF ds(2)] by simp_all
    show ?thesis
      unfolding deduplicate_snoc using dedup_step_conflict [OF ok ds(2) True snoc.prems(2)] ds(1)
      by (simp add: identity_conflict_def)
  next
    case False
    then show ?thesis using snoc.IH snoc.prems(1) by (auto simp: deduplicate_snoc)
  qed
qed

section \<open>Selection\<close>

text \<open>The key with the hash read off, and the greatest candidate under it.\<close>

definition total_key :: "observed_market_event \<Rightarrow> latest_key" where
  "total_key e = (me_observed_at e, me_venue_event_at e,
     (case me_sequence e of None \<Rightarrow> - 1 | Some n \<Rightarrow> n), me_event_id e, projr (event_hash e))"

definition pick :: "(observed_market_event \<Rightarrow> bool) \<Rightarrow> observed_market_event list \<Rightarrow> observed_market_event option" where
  "pick P es = max_key total_key (filter P es)"

lemma event_latest_key_ok: "event_ok e \<Longrightarrow> event_latest_key e = Inr (total_key e)"
  using event_hash_returns [of e] by (auto simp: event_latest_key_def total_key_def)

lemma latest_pick:
  assumes "list_all event_ok es"
  shows "latest es P = Inr (pick P es)"
proof -
  have "mapE (\<lambda>e. bindE (event_latest_key e) (\<lambda>k. Inr (k, e))) (filter P es) = Inr (map (\<lambda>e. (total_key e, e)) (filter P es))"
    using assms by (intro mapE_Inr_map) (simp add: event_latest_key_ok list_all_iff)
  then show ?thesis by (simp add: latest_def pick_def max_key_map option.map_comp o_def option.map_ident)
qed

lemma canonical_bar_found:
  assumes "list_all event_ok ds" "event_ok bar" "d \<in> set ds" "event_identity d = event_identity bar" "event_hash d = event_hash bar"
  shows "\<exists>c \<in> set ds. canonical_bar bar ds = Inr (Some c) \<and> event_identity c = event_identity bar \<and> event_hash c = event_hash bar"
  using assms
proof (induction ds)
  case (Cons e es)
  obtain h where h: "event_hash e = Inr h" using event_hash_returns [of e] Cons.prems(1) by auto
  obtain h' where h': "event_hash bar = Inr h'" using event_hash_returns [OF Cons.prems(2)] by blast
  show ?case
  proof (cases "event_identity e = event_identity bar \<and> event_hash e = event_hash bar")
    case True
    then show ?thesis using h h' by simp
  next
    case False
    then have "d \<in> set es" using Cons.prems(3-5) by auto
    with Cons.IH Cons.prems obtain c where c: "c \<in> set es" "canonical_bar bar es = Inr (Some c)"
      "event_identity c = event_identity bar" "event_hash c = event_hash bar" by auto
    moreover have "canonical_bar bar (e # es) = canonical_bar bar es" using False h h' by auto
    ultimately show ?thesis by auto
  qed
qed simp

text \<open>The selection the builder makes, given the canonical bar.\<close>

definition selection :: "observed_market_event \<Rightarrow> string \<Rightarrow> observed_market_event list \<Rightarrow> frame_selection" where
  "selection bar venue es = \<lparr>sel_closed_bar = bar,
     sel_order_book = pick (of_kind ORDER_BOOK venue) es, sel_mark_funding = pick (of_kind MARK_FUNDING venue) es,
     sel_primary_spot = pick (is_reference PRIMARY_SPOT) es, sel_secondary_venue = pick (is_reference SECONDARY_VENUE) es,
     sel_venue_clock = pick (of_kind VENUE_CLOCK venue) es, sel_symbol_state = pick (of_kind SYMBOL_STATE venue) es\<rparr>"

lemma select_events_returns:
  assumes "stands_for ds es" "list_all event_ok es" "bar \<in> set es"
  shows "\<exists>c \<in> set ds. event_identity c = event_identity bar \<and> event_hash c = event_hash bar \<and>
    select_events bar ds = Inr (selection c (me_venue bar) ds)"
proof -
  have ok: "list_all event_ok ds" by (rule stands_for_ok [OF assms(1,2)])
  obtain d where d: "d \<in> set ds" "event_identity d = event_identity bar" "event_hash d = event_hash bar"
    using stands_for_rep [OF assms(1,3)] by blast
  have "event_ok bar" using assms(2,3) by (simp add: list_all_iff)
  from canonical_bar_found [OF ok this d] obtain c where c: "c \<in> set ds" "canonical_bar bar ds = Inr (Some c)"
    "event_identity c = event_identity bar" "event_hash c = event_hash bar" by blast
  then show ?thesis
    by (intro bexI [of _ c]) (simp_all add: select_events_def latest_reference_def latest_pick [OF ok] selection_def)
qed

lemma pick_in: "pick P es = Some e \<Longrightarrow> e \<in> set es \<and> P e"
  by (auto simp: pick_def dest: max_key_in)

lemma pick_ge: "pick P es = Some e \<Longrightarrow> x \<in> set es \<Longrightarrow> P x \<Longrightarrow> total_key x \<le> total_key e"
  by (auto simp: pick_def intro: max_key_ge)

lemma pick_None: "pick P es = None \<longleftrightarrow> filter P es = []"
  by (simp add: pick_def)

section \<open>Assembly\<close>

text \<open>The payload of a selected event, and the selections whose events carry the payloads of their sources.\<close>

definition read :: "(market_payload \<Rightarrow> 'p option) \<Rightarrow> observed_market_event option \<Rightarrow> 'p option" where
  "read as_type event = Option.bind event (\<lambda>e. as_type (me_payload e))"

definition carries :: "(market_payload \<Rightarrow> 'p option) \<Rightarrow> observed_market_event option \<Rightarrow> bool" where
  "carries as_type event \<longleftrightarrow> (\<forall>e. event = Some e \<longrightarrow> event_ok e \<and> as_type (me_payload e) \<noteq> None)"

definition selection_ok :: "frame_selection \<Rightarrow> bool" where
  "selection_ok sel \<longleftrightarrow> event_ok (sel_closed_bar sel) \<and> carries as_order_book (sel_order_book sel) \<and>
     carries as_mark_funding (sel_mark_funding sel) \<and> carries as_reference_price (sel_primary_spot sel) \<and>
     carries as_reference_price (sel_secondary_venue sel) \<and> carries as_venue_clock (sel_venue_clock sel) \<and>
     carries as_symbol_state (sel_symbol_state sel)"

lemma event_payload_read: "carries as_type event \<Longrightarrow> event_payload as_type expected event = Inr (read as_type event)"
  by (cases event) (auto simp: event_payload_def read_def carries_def)

lemma kind_payload:
  assumes "event_ok e"
  shows "me_kind e = ORDER_BOOK \<Longrightarrow> as_order_book (me_payload e) \<noteq> None"
    "me_kind e = MARK_FUNDING \<Longrightarrow> as_mark_funding (me_payload e) \<noteq> None"
    "me_kind e = REFERENCE_PRICE \<Longrightarrow> as_reference_price (me_payload e) \<noteq> None"
    "me_kind e = VENUE_CLOCK \<Longrightarrow> as_venue_clock (me_payload e) \<noteq> None"
    "me_kind e = SYMBOL_STATE \<Longrightarrow> as_symbol_state (me_payload e) \<noteq> None"
  using event_ok_kind [OF assms] by (cases "me_payload e"; simp)+

lemma carries_pick:
  assumes "list_all event_ok es" and "\<And>e. event_ok e \<Longrightarrow> P e \<Longrightarrow> as_type (me_payload e) \<noteq> None"
  shows "carries as_type (pick P es)"
  unfolding carries_def
proof (intro allI impI)
  fix e
  assume "pick P es = Some e"
  from pick_in [OF this] have "event_ok e" "P e" using assms(1) by (auto simp: list_all_iff)
  with assms(2) show "event_ok e \<and> as_type (me_payload e) \<noteq> None" by blast
qed

lemma selection_is_ok:
  assumes "list_all event_ok es" and "event_ok bar"
  shows "selection_ok (selection bar venue es)"
  unfolding selection_ok_def selection_def frame_selection.simps
  by (intro conjI assms(2) carries_pick [OF assms(1)]) (simp_all only: of_kind_def is_reference_def kind_payload not_False_eq_True)

lemma carriesD: "carries as_type event \<Longrightarrow> Some e = event \<Longrightarrow> event_ok e"
  unfolding carries_def by (drule sym) simp

lemma selected_events_ok:
  assumes "selection_ok sel" and "(name, e) \<in> set (selected_events sel)"
  shows "event_ok e"
  using assms by (auto simp: selection_ok_def selected_events_def dest: carriesD split: option.splits)

lemma source_from_event_ok:
  assumes "event_ok e"
  shows "\<exists>s. source_from_event e = Inr s \<and> freezes (source_observation_dict s) \<and> so_observed_at s = me_observed_at e"
proof -
  obtain h where h: "event_hash e = Inr h" using event_hash_returns [OF assms] by blast
  have "payload_ok (me_payload e)" using assms by (simp add: event_ok_def)
  then have "case me_payload e of ReferencePricePayload r \<Rightarrow>
      (\<forall>t. rp_source_published_at r = Some t \<longrightarrow> is_utc t) \<and> (\<forall>t. rp_source_engine_at r = Some t \<longrightarrow> is_utc t) | _ \<Rightarrow> True"
    by (cases "me_payload e") (simp_all add: reference_price_post_init_def result_simps)
  then show ?thesis using event_ok_utc [OF assms]
    by (simp add: source_from_event_def h source_observation_dict_def split: market_payload.splits)
qed

lemma frame_manifest_returns:
  assumes "selection_ok sel"
  shows "\<exists>m. frame_manifest sel = Inr m \<and> list_all (\<lambda>(name, s). freezes (source_observation_dict s)) m"
  unfolding frame_manifest_def
proof (rule mapE_all, rule ballI)
  fix ne
  assume sel: "ne \<in> set (selected_events sel)"
  obtain name e where ne: "ne = (name, e)" by (rule prod.exhaust)
  from source_from_event_ok [OF selected_events_ok [OF assms sel [unfolded ne]]]
  show "\<exists>y. (case ne of (name, e) \<Rightarrow> bindE (source_from_event e) (\<lambda>s. Inr (name, s))) = Inr y \<and>
      (case y of (name, s) \<Rightarrow> freezes (source_observation_dict s))"
    by (auto simp: ne)
qed

lemma carries_read_ok:
  assumes "carries as_type event" and "read as_type event = Some p"
  shows "\<exists>e. event = Some e \<and> event_ok e \<and> as_type (me_payload e) = Some p"
  using assms by (cases event) (auto simp: carries_def read_def)

lemma as_type_Some:
  "as_order_book p = Some b \<Longrightarrow> p = OrderBookPayload b"
  "as_venue_clock p = Some c \<Longrightarrow> p = VenueClockPayload c"
  by (cases p; simp)+

lemma read_book_ok:
  assumes "carries as_order_book event" and "read as_order_book event = Some b"
  shows "order_book_post_init b = Inr b"
  using carries_read_ok [OF assms] as_type_Some(1) by (fastforce simp: event_ok_def)

lemma read_clock_utc:
  assumes "carries as_venue_clock event" and "read as_venue_clock event = Some c"
  shows "is_utc (vc_server_time c)"
  using carries_read_ok [OF assms] as_type_Some(2) by (fastforce simp: event_ok_def venue_clock_post_init_def result_simps)

text \<open>The best prices of an optional book: the first level of each side.\<close>

definition top_price :: "price_level list \<Rightarrow> decimal option" where
  "top_price ls = (case ls of [] \<Rightarrow> None | l # _ \<Rightarrow> Some (pl_price l))"

lemma order_book_sides: "order_book_post_init b = Inr b \<Longrightarrow> ob_bids b \<noteq> [] \<and> ob_asks b \<noteq> []"
  by (simp add: order_book_post_init_def result_simps)

lemma best_prices:
  assumes "\<And>b. book = Some b \<Longrightarrow> order_book_post_init b = Inr b"
  shows "best_price order_book_best_bid book = Inr (top_price (levels_of ob_bids book))"
    "best_price order_book_best_ask book = Inr (top_price (levels_of ob_asks book))"
    "(levels_of ob_bids book = []) = (levels_of ob_asks book = [])"
  using order_book_sides assms
  by (cases book; fastforce simp: best_price_def levels_of_def top_price_def order_book_best_bid_def order_book_best_ask_def
    first_price_def split: list.splits)+

text \<open>The frame of a selection with a given manifest and content hash.\<close>

definition frame_of :: "frame_key \<Rightarrow> datetime \<Rightarrow> closed_bar_payload \<Rightarrow> frame_selection \<Rightarrow>
    (string \<times> source_observation) list \<Rightarrow> string \<Rightarrow> causal_minute_frame" where
  "frame_of key cutoff bar sel m h =
     (let book = read as_order_book (sel_order_book sel); mark = read as_mark_funding (sel_mark_funding sel)
      in \<lparr>fr_key = key, fr_frame_id = frame_key_id key, fr_cutoff_at = cutoff, fr_bar = bar,
        fr_book_bids = levels_of ob_bids book, fr_book_asks = levels_of ob_asks book,
        fr_best_bid = top_price (levels_of ob_bids book), fr_best_ask = top_price (levels_of ob_asks book),
        fr_mark_price = map_option mf_mark_price mark, fr_index_price = map_option mf_index_price mark,
        fr_funding_rate = map_option mf_funding_rate mark,
        fr_primary_spot_price = map_option rp_price (read as_reference_price (sel_primary_spot sel)),
        fr_secondary_venue_price = map_option rp_price (read as_reference_price (sel_secondary_venue sel)),
        fr_venue_server_time = map_option vc_server_time (read as_venue_clock (sel_venue_clock sel)),
        fr_symbol_status = map_option sy_status (read as_symbol_state (sel_symbol_state sel)),
        fr_source_manifest = m, fr_content_hash = h\<rparr>)"

lemma frame_of_freezes:
  assumes "selection_ok sel" "is_utc cutoff" "freezes (closed_bar_dict bar)" "is_utc (fk_bar_close_at key)"
    "list_all (\<lambda>(name, s). freezes (source_observation_dict s)) m"
  shows "freezes (frame_normalized (frame_of key cutoff bar sel m h))"
proof -
  have "list_all (\<lambda>(k, v). freezes v) (map (\<lambda>(name, s). (name, source_observation_dict s)) m)"
    using assms(5) by (auto simp: list_all_iff)
  moreover have "\<And>c. read as_venue_clock (sel_venue_clock sel) = Some c \<Longrightarrow> is_utc (vc_server_time c)"
    by (rule read_clock_utc) (use assms(1) in \<open>auto simp: selection_ok_def\<close>)
  ultimately show ?thesis using assms(2-4) by (auto simp: frame_normalized_def frame_of_def Let_def frame_key_dict_def)
qed

lemma frame_of_valid:
  assumes "length h = 64" and "\<And>b. read as_order_book (sel_order_book sel) = Some b \<Longrightarrow> order_book_post_init b = Inr b"
  shows "frame_post_init (frame_of key cutoff bar sel m h) = Inr (frame_of key cutoff bar sel m h)"
  using best_prices(3) [of "read as_order_book (sel_order_book sel)", OF assms(2)] assms(1)
  by (auto simp: frame_post_init_def frame_of_def Let_def top_price_def split: list.splits)

lemma frame_dict_of:
  "frame_normalized (frame_of key cutoff bar sel m h) = frame_normalized (frame_of key cutoff bar sel m h')"
  by (simp add: frame_normalized_def frame_of_def Let_def)

lemma assemble_frame_returns:
  assumes "selection_ok sel" "is_utc cutoff" "freezes (closed_bar_dict bar)" "is_utc (fk_bar_close_at key)"
  shows "\<exists>m h. frame_manifest sel = Inr m \<and> assemble_frame key cutoff bar sel = Inr (frame_of key cutoff bar sel m h) \<and>
    content_hash (frame_normalized (frame_of key cutoff bar sel m h)) = Inr h"
proof -
  obtain m where m: "frame_manifest sel = Inr m" "list_all (\<lambda>(name, s). freezes (source_observation_dict s)) m"
    using frame_manifest_returns [OF assms(1)] by blast
  obtain j where "freeze_json (frame_normalized (frame_of key cutoff bar sel m [])) = Inr j"
    using frame_of_freezes [OF assms m(2)] unfolding freezes_def by blast
  from content_hash_shape [OF this] obtain h
    where h: "content_hash (frame_normalized (frame_of key cutoff bar sel m [])) = Inr h" "length h = 64" by blast
  have book: "\<And>b. read as_order_book (sel_order_book sel) = Some b \<Longrightarrow> order_book_post_init b = Inr b"
    by (rule read_book_ok) (use assms(1) in \<open>auto simp: selection_ok_def\<close>)
  have carried: "carries as_order_book (sel_order_book sel)" "carries as_mark_funding (sel_mark_funding sel)"
    "carries as_reference_price (sel_primary_spot sel)" "carries as_reference_price (sel_secondary_venue sel)"
    "carries as_venue_clock (sel_venue_clock sel)" "carries as_symbol_state (sel_symbol_state sel)"
    using assms(1) by (simp_all add: selection_ok_def)
  have "assemble_frame key cutoff bar sel =
      bindE (content_hash (frame_normalized (frame_of key cutoff bar sel m []))) (\<lambda>h. frame_post_init (frame_of key cutoff bar sel m h))"
    by (simp add: assemble_frame_def event_payload_read carried m(1) best_prices(1,2) [of "read as_order_book (sel_order_book sel)", OF book] frame_of_def frame_normalized_def Let_def)
  then have "assemble_frame key cutoff bar sel = Inr (frame_of key cutoff bar sel m h)"
    by (simp add: h(1) frame_of_valid [OF h(2) book])
  then show ?thesis using m(1) h(1) frame_dict_of [of key cutoff bar sel m h "[]"] by auto
qed

end
