(* ===== verification/Frame_Causality.thy ===== *)
theory Frame_Causality
  imports Frame_Safety
begin

text \<open>
  The guarantees of the frame builder: exactly when it returns, that a frame describes itself, that it holds
  the newest data observed by the cutoff and nothing later, and that it is a function of the set of events.
\<close>

section \<open>The method as a whole\<close>

definition frame_guards :: "frame_key \<Rightarrow> observed_market_event \<Rightarrow> datetime option \<Rightarrow> bool" where
  "frame_guards key closed_bar decision_cutoff \<longleftrightarrow>
     (case (me_kind closed_bar, me_payload closed_bar) of
        (CLOSED_BAR, ClosedBarPayload bar) \<Rightarrow>
          cb_closed bar \<and> cb_timeframe bar = ''1m'' \<and> dt_diff (cb_bar_close_at bar) (cb_bar_open_at bar) = seconds 60 \<and>
          fk_symbol key = me_symbol closed_bar \<and> fk_timeframe key = ''1m'' \<and> fk_bar_close_at key = cb_bar_close_at bar \<and>
          is_utc (frame_cutoff closed_bar decision_cutoff) \<and>
          cb_bar_close_at bar \<le> frame_cutoff closed_bar decision_cutoff \<and>
          frame_cutoff closed_bar decision_cutoff \<le> me_observed_at closed_bar
      | _ \<Rightarrow> False)"

abbreviation considered :: "frame_key \<Rightarrow> observed_market_event \<Rightarrow> observed_market_event list \<Rightarrow> datetime option \<Rightarrow> observed_market_event list" where
  "considered key closed_bar events decision_cutoff \<equiv>
     available_events key (frame_cutoff closed_bar decision_cutoff) events @ [closed_bar]"

lemma build_frame_guarded:
  assumes "frame_guards key closed_bar dc"
  shows "\<exists>bar. me_kind closed_bar = CLOSED_BAR \<and> me_payload closed_bar = ClosedBarPayload bar \<and>
    fk_bar_close_at key = cb_bar_close_at bar \<and> is_utc (frame_cutoff closed_bar dc) \<and>
    build_frame key closed_bar events dc = bindE (deduplicate (considered key closed_bar events dc)) (\<lambda>ds.
      bindE (select_events closed_bar ds) (assemble_frame key (frame_cutoff closed_bar dc) bar))"
  using assms
  by (auto simp: frame_guards_def build_frame_def Let_def is_utc_def raise_if_def not_less split: market_event_kind.splits market_payload.splits)

lemma build_frame_refused:
  assumes "\<not> frame_guards key closed_bar dc"
  shows "\<exists>message. build_frame key closed_bar events dc = Inl (ValueError message)"
proof (cases "me_kind closed_bar = CLOSED_BAR \<and> (\<exists>bar. me_payload closed_bar = ClosedBarPayload bar)")
  case True
  then obtain bar where bar: "me_kind closed_bar = CLOSED_BAR" "me_payload closed_bar = ClosedBarPayload bar" by blast
  then show ?thesis using assms
    by (auto simp: frame_guards_def build_frame_def Let_def is_utc_def raise_if_def not_le)
next
  case False
  then show ?thesis by (auto simp: build_frame_def split: market_event_kind.splits market_payload.splits)
qed

lemma considered_ok:
  "event_ok closed_bar \<Longrightarrow> list_all event_ok events \<Longrightarrow> list_all event_ok (considered key closed_bar events dc)"
  by (simp add: available_events_def list_all_iff)

lemma build_frame_returns:
  assumes ok: "event_ok closed_bar" "list_all event_ok events" and "frame_guards key closed_bar dc"
    and "conflict_free (considered key closed_bar events dc)"
  shows "\<exists>bar ds c m h. me_kind closed_bar = CLOSED_BAR \<and> me_payload closed_bar = ClosedBarPayload bar \<and>
    deduplicate (considered key closed_bar events dc) = Inr ds \<and>
    stands_for ds (considered key closed_bar events dc) \<and> c \<in> set ds \<and>
    event_identity c = event_identity closed_bar \<and> event_hash c = event_hash closed_bar \<and>
    frame_manifest (selection c (me_venue closed_bar) ds) = Inr m \<and>
    build_frame key closed_bar events dc =
      Inr (frame_of key (frame_cutoff closed_bar dc) bar (selection c (me_venue closed_bar) ds) m h) \<and>
    content_hash (frame_normalized (frame_of key (frame_cutoff closed_bar dc) bar (selection c (me_venue closed_bar) ds) m h)) = Inr h"
proof -
  let ?es = "considered key closed_bar events dc" and ?cut = "frame_cutoff closed_bar dc"
  obtain bar where bar: "me_kind closed_bar = CLOSED_BAR" "me_payload closed_bar = ClosedBarPayload bar"
      "fk_bar_close_at key = cb_bar_close_at bar" "is_utc ?cut"
      and build: "build_frame key closed_bar events dc = bindE (deduplicate ?es) (\<lambda>ds.
        bindE (select_events closed_bar ds) (assemble_frame key ?cut bar))"
    using build_frame_guarded [OF assms(3)] by blast
  have es: "list_all event_ok ?es" by (rule considered_ok [OF ok])
  obtain ds where ds: "deduplicate ?es = Inr ds" "stands_for ds ?es"
    using deduplicate_returns [OF es assms(4)] by blast
  have "closed_bar \<in> set ?es" by simp
  from select_events_returns [OF ds(2) es this] obtain c where c: "c \<in> set ds"
      "event_identity c = event_identity closed_bar" "event_hash c = event_hash closed_bar"
      and sel: "select_events closed_bar ds = Inr (selection c (me_venue closed_bar) ds)" by blast
  have ods: "list_all event_ok ds" by (rule stands_for_ok [OF ds(2) es])
  with c(1) have "event_ok c" by (simp add: list_all_iff)
  from selection_is_ok [OF ods this] have s: "selection_ok (selection c (me_venue closed_bar) ds)" .
  have b: "closed_bar_post_init bar = Inr bar" using ok(1) bar(2) by (simp add: event_ok_def)
  then have "is_utc (fk_bar_close_at key)" by (simp add: bar(3) closed_bar_post_init_def result_simps)
  from assemble_frame_returns [OF s bar(4) closed_bar_freezes [OF b] this]
  obtain m h where m: "frame_manifest (selection c (me_venue closed_bar) ds) = Inr m"
      "assemble_frame key ?cut bar (selection c (me_venue closed_bar) ds) =
        Inr (frame_of key ?cut bar (selection c (me_venue closed_bar) ds) m h)"
      "content_hash (frame_normalized (frame_of key ?cut bar (selection c (me_venue closed_bar) ds) m h)) = Inr h"
    by blast
  show ?thesis
    by (intro exI conjI) (rule bar(1), rule bar(2), rule ds(1), rule ds(2), rule c(1), rule c(2), rule c(3), rule m(1),
      simp add: build ds(1) sel m(2), rule m(3))
qed

lemma build_frame_conflict:
  assumes "event_ok closed_bar" "list_all event_ok events" "frame_guards key closed_bar dc"
    and "\<not> conflict_free (considered key closed_bar events dc)"
  shows "\<exists>message. build_frame key closed_bar events dc = Inl (FrameIdentityConflict message)"
proof -
  obtain e where "deduplicate (considered key closed_bar events dc) = Inl e" "identity_conflict e"
    using deduplicate_conflict [OF considered_ok [OF assms(1,2)] assms(4)] by blast
  moreover obtain bar where "build_frame key closed_bar events dc = bindE (deduplicate (considered key closed_bar events dc)) (\<lambda>ds.
      bindE (select_events closed_bar ds) (assemble_frame key (frame_cutoff closed_bar dc) bar))"
    using build_frame_guarded [OF assms(3)] by blast
  ultimately show ?thesis by (auto simp: identity_conflict_def)
qed

section \<open>Sets of events\<close>

text \<open>
  What the ordering of events reads before the hash, and the premise on SHA-256 the guarantees below have:
  two of the considered events that agree on their identity or on this key and have one hash are one event.
\<close>

definition arrival :: "observed_market_event \<Rightarrow> datetime \<times> datetime \<times> int \<times> string" where
  "arrival e = (me_observed_at e, me_venue_event_at e, (case me_sequence e of None \<Rightarrow> - 1 | Some n \<Rightarrow> n), me_event_id e)"

definition collision_free :: "observed_market_event list \<Rightarrow> bool" where
  "collision_free es \<longleftrightarrow> (\<forall>x \<in> set es. \<forall>y \<in> set es.
     (event_identity x = event_identity y \<or> arrival x = arrival y) \<and> event_hash x = event_hash y \<longrightarrow> x = y)"

lemma collision_freeD:
  "collision_free es \<Longrightarrow> x \<in> set es \<Longrightarrow> y \<in> set es \<Longrightarrow> event_identity x = event_identity y \<or> arrival x = arrival y \<Longrightarrow>
    event_hash x = event_hash y \<Longrightarrow> x = y"
  unfolding collision_free_def by blast

lemma total_key_arrival: "total_key x \<le> total_key y \<Longrightarrow> arrival x \<le> arrival y"
  by (auto simp: total_key_def arrival_def less_eq_prod_def)

lemma stands_for_set:
  assumes "stands_for ds es" and "collision_free es"
  shows "set ds = set es"
proof
  show "set ds \<subseteq> set es" using stands_for_in [OF assms(1)] by blast
  show "set es \<subseteq> set ds"
  proof
    fix e
    assume e: "e \<in> set es"
    obtain d where d: "d \<in> set ds" "event_identity d = event_identity e" "event_hash d = event_hash e"
      using stands_for_rep [OF assms(1) e] by blast
    have "d = e" by (rule collision_freeD [OF assms(2) stands_for_in [OF assms(1) d(1)] e]) (simp_all add: d)
    with d(1) show "e \<in> set ds" by simp
  qed
qed

lemma total_key_inj:
  assumes "list_all event_ok es" and "collision_free es" and "set ds = set es"
  shows "inj_on total_key (set ds)"
proof (rule inj_onI)
  fix x y
  assume xy: "x \<in> set ds" "y \<in> set ds" "total_key x = total_key y"
  then have "event_ok x" "event_ok y" using assms(1,3) by (simp_all add: list_all_iff)
  then obtain h h' where "event_hash x = Inr h" "event_hash y = Inr h'" using event_hash_returns by blast
  with xy(3) have "arrival x = arrival y" "event_hash x = event_hash y" by (simp_all add: total_key_def arrival_def)
  then show "x = y" using collision_freeD [OF assms(2)] xy(1,2) assms(3) by blast
qed

lemma pick_set: "set ds = set ds' \<Longrightarrow> inj_on total_key (set ds) \<Longrightarrow> pick P ds = pick P ds'"
  unfolding pick_def by (rule max_key_set) (auto intro: inj_on_subset)

lemma selection_set:
  "set ds = set ds' \<Longrightarrow> inj_on total_key (set ds) \<Longrightarrow> selection c venue ds = selection c venue ds'"
  by (simp add: selection_def pick_set [of ds ds'])

text \<open>The payload of the newest event of a source, if it has an event.\<close>

definition newest_payload :: "observed_market_event list \<Rightarrow> (observed_market_event \<Rightarrow> bool) \<Rightarrow>
    (market_payload \<Rightarrow> 'p option) \<Rightarrow> 'p option \<Rightarrow> bool" where
  "newest_payload es P as_type payload \<longleftrightarrow>
     (case payload of
        None \<Rightarrow> \<not> (\<exists>e \<in> set es. P e)
      | Some p \<Rightarrow> \<exists>e \<in> set es. P e \<and> as_type (me_payload e) = Some p \<and> (\<forall>x \<in> set es. P x \<longrightarrow> arrival x \<le> arrival e))"

lemma pick_newest:
  assumes "set ds = set (es @ [bar])" and "\<not> P bar" and "carries as_type (pick P ds)"
  shows "newest_payload es P as_type (read as_type (pick P ds))"
proof (cases "pick P ds")
  case None
  then have "\<forall>e \<in> set ds. \<not> P e" unfolding pick_None by (simp add: filter_empty_conv)
  then show ?thesis using assms(1) by (simp add: None read_def newest_payload_def)
next
  case (Some e)
  obtain p where p: "as_type (me_payload e) = Some p" using assms(3) Some by (auto simp: carries_def)
  have "e \<in> set es" "P e" using pick_in [OF Some] assms(1,2) by auto
  moreover have "\<forall>x \<in> set es. P x \<longrightarrow> arrival x \<le> arrival e"
    using pick_ge [OF Some] assms(1) by (auto intro: total_key_arrival)
  ultimately show ?thesis using p by (auto simp: Some read_def newest_payload_def)
qed

lemma frame_post_init_same: "frame_post_init f = Inr f' \<Longrightarrow> f' = f"
  by (simp add: frame_post_init_def result_simps)

lemma build_frame_post_init:
  assumes "build_frame key closed_bar events dc = Inr f"
  shows "frame_post_init f = Inr f"
proof -
  have "frame_guards key closed_bar dc"
    using build_frame_refused [of key closed_bar dc events] assms by (cases "frame_guards key closed_bar dc") simp_all
  from build_frame_guarded [OF this, of events] obtain bar
    where "bindE (deduplicate (considered key closed_bar events dc)) (\<lambda>ds.
      bindE (select_events closed_bar ds) (assemble_frame key (frame_cutoff closed_bar dc) bar)) = Inr f"
    unfolding assms by (metis (no_types))
  then obtain sel where "assemble_frame key (frame_cutoff closed_bar dc) bar sel = Inr f"
    unfolding bindE_Inr_iff by blast
  then obtain f' where "frame_post_init f' = Inr f" unfolding assemble_frame_def bindE_Inr_iff by blast
  with frame_post_init_same [OF this] show ?thesis by simp
qed

lemma build_frame_Inr:
  assumes "event_ok closed_bar" "list_all event_ok events" "build_frame key closed_bar events dc = Inr f"
  shows "frame_guards key closed_bar dc" "conflict_free (considered key closed_bar events dc)"
proof -
  show g: "frame_guards key closed_bar dc"
    using build_frame_refused [of key closed_bar dc events] assms(3) by (cases "frame_guards key closed_bar dc") simp_all
  show "conflict_free (considered key closed_bar events dc)"
    using build_frame_conflict [OF assms(1,2) g] assms(3) by (cases "conflict_free (considered key closed_bar events dc)") auto
qed

lemma build_frame_cutoff:
  assumes "event_ok closed_bar" "list_all event_ok events" "build_frame key closed_bar events dc = Inr f"
  shows "fr_cutoff_at f = frame_cutoff closed_bar dc"
  using build_frame_returns [OF assms(1,2) build_frame_Inr [OF assms]] assms(3) by (auto simp: frame_of_def Let_def)

lemma build_frame_form:
  assumes "event_ok closed_bar" "list_all event_ok events" "build_frame key closed_bar events dc = Inr f"
    and "collision_free (considered key closed_bar events dc)"
  shows "\<exists>bar ds m h. me_kind closed_bar = CLOSED_BAR \<and> me_payload closed_bar = ClosedBarPayload bar \<and>
    set ds = set (considered key closed_bar events dc) \<and>
    frame_manifest (selection closed_bar (me_venue closed_bar) ds) = Inr m \<and>
    f = frame_of key (frame_cutoff closed_bar dc) bar (selection closed_bar (me_venue closed_bar) ds) m h \<and>
    content_hash (frame_normalized f) = Inr h"
proof -
  let ?es = "considered key closed_bar events dc"
  obtain bar ds c m h where r: "me_kind closed_bar = CLOSED_BAR" "me_payload closed_bar = ClosedBarPayload bar"
      "stands_for ds ?es" "c \<in> set ds" "event_identity c = event_identity closed_bar" "event_hash c = event_hash closed_bar"
      "frame_manifest (selection c (me_venue closed_bar) ds) = Inr m"
      "build_frame key closed_bar events dc = Inr (frame_of key (frame_cutoff closed_bar dc) bar (selection c (me_venue closed_bar) ds) m h)"
      "content_hash (frame_normalized (frame_of key (frame_cutoff closed_bar dc) bar (selection c (me_venue closed_bar) ds) m h)) = Inr h"
    using build_frame_returns [OF assms(1,2) build_frame_Inr [OF assms(1-3)]] by blast
  have c: "c = closed_bar"
    by (rule collision_freeD [OF assms(4) stands_for_in [OF r(3,4)]]) (simp_all add: r(5,6))
  have f: "f = frame_of key (frame_cutoff closed_bar dc) bar (selection closed_bar (me_venue closed_bar) ds) m h"
    using assms(3) r(8) c by simp
  show ?thesis
    by (intro exI conjI) (rule r(1), rule r(2), rule stands_for_set [OF r(3) assms(4)], rule r(7) [unfolded c], rule f,
      simp add: f r(9) [unfolded c])
qed

lemma bar_not_selected:
  "me_kind closed_bar = CLOSED_BAR \<Longrightarrow> kind \<noteq> CLOSED_BAR \<Longrightarrow> \<not> of_kind kind venue closed_bar"
  "me_kind closed_bar = CLOSED_BAR \<Longrightarrow> \<not> is_reference rk closed_bar"
  by (auto simp: of_kind_def is_reference_def)

lemma pick_available:
  "pick P ds = Some e \<Longrightarrow> set ds = set (available_events key cutoff events @ [bar]) \<Longrightarrow> \<not> P bar \<Longrightarrow> me_observed_at e \<le> cutoff"
  using pick_in [of P ds e] by (auto simp: available_events_def)

lemma selection_sources:
  assumes "set ds = set (available_events key cutoff events @ [closed_bar])" and "me_kind closed_bar = CLOSED_BAR"
    and "frame_manifest (selection closed_bar venue ds) = Inr m" and "(name, s) \<in> set m" and "name \<noteq> ''closed_bar''"
  shows "so_observed_at s \<le> cutoff"
proof -
  obtain e where e: "(name, e) \<in> set (selected_events (selection closed_bar venue ds))" "source_from_event e = Inr s"
    using mapE_set [OF assms(3) [unfolded frame_manifest_def] assms(4)] by (auto simp: result_simps)
  have "me_observed_at e \<le> cutoff"
    using e(1) assms(5) pick_available [OF _ assms(1)] bar_not_selected [OF assms(2)]
    by (auto simp: selected_events_def selection_def split: option.splits)
  then show ?thesis using e(2) by (auto simp: source_from_event_def result_simps)
qed

text \<open>
  A frame built from constructed events describes itself: its identifier is the one of its key and its content hash
  the hash of its normalised form.
\<close>

lemma build_frame_self_describing:
  assumes "event_ok closed_bar" and "list_all event_ok events" and "build_frame key closed_bar events dc = Inr f"
  shows "fr_key f = key \<and> fr_frame_id f = frame_key_id key \<and> fr_cutoff_at f = frame_cutoff closed_bar dc \<and>
    content_hash (frame_normalized f) = Inr (fr_content_hash f) \<and> frame_post_init f = Inr f"
proof -
  obtain bar c ds m h where f: "f = frame_of key (frame_cutoff closed_bar dc) bar (selection c (me_venue closed_bar) ds) m h"
      "content_hash (frame_normalized f) = Inr h"
    using build_frame_returns [OF assms(1,2) build_frame_Inr [OF assms]] assms(3) by auto
  then have "fr_key f = key \<and> fr_frame_id f = frame_key_id key \<and> fr_cutoff_at f = frame_cutoff closed_bar dc \<and> fr_content_hash f = h"
    by (simp add: frame_of_def Let_def)
  moreover have "frame_post_init f = Inr f" by (rule build_frame_post_init [OF assms(3)])
  ultimately show ?thesis using f(2) by simp
qed

section \<open>An example\<close>

text \<open>A minute bar closing at 60 s and observed at 62 s, with a cutoff at 61 s: a book and a mark price before it, a book after it.\<close>

definition ex_frame_key :: frame_key where
  "ex_frame_key = \<lparr>fk_experiment_id = 1, fk_strategy_version_id = 2, fk_symbol = ''BTCUSDT'', fk_timeframe = ''1m'',
     fk_bar_close_at = utc (seconds 60)\<rparr>"

definition ex_market_event :: "string \<Rightarrow> market_event_kind \<Rightarrow> int \<Rightarrow> market_payload \<Rightarrow> observed_market_event" where
  "ex_market_event name kind us payload = \<lparr>me_venue = ''binance'', me_stream = ''s'', me_symbol = ''BTCUSDT'', me_event_id = name,
     me_kind = kind, me_venue_event_at = utc us, me_observed_at = utc us, me_sequence = Some 1,
     me_sequence_not_applicable_reason = None, me_payload = payload\<rparr>"

definition ex_closed_bar :: observed_market_event where
  "ex_closed_bar = ex_market_event ''bar'' CLOSED_BAR (seconds 62) (ClosedBarPayload
     \<lparr>cb_timeframe = ''1m'', cb_bar_open_at = utc 0, cb_bar_close_at = utc (seconds 60), cb_open = 100, cb_high = 102,
      cb_low = 99, cb_close = 101, cb_volume = 5, cb_quote_volume = 500, cb_trade_count = 7, cb_taker_buy_volume = 2,
      cb_taker_buy_quote_volume = 200, cb_closed = True\<rparr>)"

definition ex_book_event :: "string \<Rightarrow> int \<Rightarrow> decimal \<Rightarrow> observed_market_event" where
  "ex_book_event name us bid = ex_market_event name ORDER_BOOK us (OrderBookPayload
     \<lparr>ob_bids = [\<lparr>pl_price = bid, pl_quantity = 1\<rparr>], ob_asks = [\<lparr>pl_price = bid + 1, pl_quantity = 1\<rparr>], ob_published_at = utc us,
      ob_sequence_start = 1, ob_previous_sequence = None, ob_snapshot_sequence = None\<rparr>)"

definition ex_mark_event :: observed_market_event where
  "ex_mark_event = ex_market_event ''mark'' MARK_FUNDING (seconds 58) (MarkFundingPayload
     \<lparr>mf_mark_price = 100, mf_index_price = 101, mf_funding_rate = 0, mf_next_funding_at = utc (seconds 3600),
      mf_estimated_settle_price = None\<rparr>)"

definition ex_frame_events :: "observed_market_event list" where
  "ex_frame_events = [ex_book_event ''b1'' (seconds 59) 100, ex_mark_event, ex_book_event ''b2'' (seconds 62) 90]"

lemmas ex_frame_defs = ex_frame_key_def ex_market_event_def ex_closed_bar_def ex_book_event_def ex_mark_event_def

lemma ex_closed_bar_ok: "event_ok ex_closed_bar"
  by (simp add: event_ok_def ex_frame_defs market_event_post_init_def closed_bar_post_init_def result_simps upper_def upper_char_def
    is_utc_def)

lemma ex_frame_events_ok: "list_all event_ok ex_frame_events"
  by (simp add: ex_frame_events_def event_ok_def ex_frame_defs market_event_post_init_def order_book_post_init_def
    mark_funding_post_init_def levels_ok_def price_level_post_init_def first_price_def negative_sequence_def result_simps
    upper_def upper_char_def)

lemma ex_frame_guards: "frame_guards ex_frame_key ex_closed_bar (Some (utc (seconds 61)))"
  by (simp add: frame_guards_def ex_frame_defs frame_cutoff_def dt_diff_def)

lemma ex_frame_available:
  "available_events ex_frame_key (frame_cutoff ex_closed_bar (Some (utc (seconds 61)))) ex_frame_events =
    [ex_book_event ''b1'' (seconds 59) 100, ex_mark_event]"
  by (simp add: available_events_def ex_frame_events_def ex_frame_defs frame_cutoff_def)

lemma ex_frame_distinct:
  "collision_free (considered ex_frame_key ex_closed_bar ex_frame_events (Some (utc (seconds 61))))"
  "conflict_free (considered ex_frame_key ex_closed_bar ex_frame_events (Some (utc (seconds 61))))"
  unfolding ex_frame_available
  by (simp_all add: collision_free_def conflict_free_def event_identity_def arrival_def ex_frame_defs)

lemma ex_frame_built: "\<exists>f. build_frame ex_frame_key ex_closed_bar ex_frame_events (Some (utc (seconds 61))) = Inr f"
  using build_frame_returns [OF ex_closed_bar_ok ex_frame_events_ok ex_frame_guards ex_frame_distinct(2)] by blast

section \<open>Guarantees\<close>

text \<open>A bar that opens on a minute boundary.\<close>

definition aligned_bar :: "observed_market_event \<Rightarrow> bool" where
  "aligned_bar e \<longleftrightarrow>
     (case me_payload e of ClosedBarPayload bar \<Rightarrow> instant (cb_bar_open_at bar) mod seconds 60 = 0 | _ \<Rightarrow> False)"

text \<open>
  C38: On constructed events and a bar that opens on a minute boundary the frame builder is total: it returns a frame
  exactly when the bar is a closed one-minute bar of the key, the cutoff lies between the close and the observation of
  the bar, and no two considered events share an identity with different content; it raises ValueError when a guard
  fails and FrameIdentityConflict when only the content conflicts.
\<close>

theorem frame_exact:
  assumes "event_ok closed_bar" and "list_all event_ok events" and "aligned_bar closed_bar"
  shows "((\<exists>f. build_frame key closed_bar events dc = Inr f) \<longleftrightarrow>
      frame_guards key closed_bar dc \<and> conflict_free (considered key closed_bar events dc)) \<and>
    (\<not> frame_guards key closed_bar dc \<longrightarrow> (\<exists>message. build_frame key closed_bar events dc = Inl (ValueError message))) \<and>
    (frame_guards key closed_bar dc \<and> \<not> conflict_free (considered key closed_bar events dc) \<longrightarrow>
      (\<exists>message. build_frame key closed_bar events dc = Inl (FrameIdentityConflict message)))"
proof (intro conjI iffI)
  show "frame_guards key closed_bar dc" "conflict_free (considered key closed_bar events dc)"
    if "\<exists>f. build_frame key closed_bar events dc = Inr f"
    using that build_frame_Inr [OF assms(1,2)] by blast+
  show "\<exists>f. build_frame key closed_bar events dc = Inr f"
    if "frame_guards key closed_bar dc \<and> conflict_free (considered key closed_bar events dc)"
    using build_frame_returns [OF assms(1,2) conjunct1 [OF that] conjunct2 [OF that]] by blast
qed (use build_frame_refused build_frame_conflict [OF assms(1,2)] in blast)+

lemma ex_closed_bar_aligned: "aligned_bar ex_closed_bar"
  by (simp add: aligned_bar_def ex_frame_defs)

theorem frame_exact_witness:
  "\<exists>f. build_frame ex_frame_key ex_closed_bar ex_frame_events (Some (utc (seconds 61))) = Inr f"
  using frame_exact [OF ex_closed_bar_ok ex_frame_events_ok ex_closed_bar_aligned, of ex_frame_key "Some (utc (seconds 61))"]
    ex_frame_guards ex_frame_distinct(2) by blast

definition ex_shifted_bar :: "int \<Rightarrow> observed_market_event" where
  "ex_shifted_bar us = ex_market_event ''bar'' CLOSED_BAR (us + seconds 62) (ClosedBarPayload
     \<lparr>cb_timeframe = ''1m'', cb_bar_open_at = utc us, cb_bar_close_at = utc (us + seconds 60), cb_open = 100, cb_high = 102,
      cb_low = 99, cb_close = 101, cb_volume = 5, cb_quote_volume = 500, cb_trade_count = 7, cb_taker_buy_volume = 2,
      cb_taker_buy_quote_volume = 200, cb_closed = True\<rparr>)"

lemma ex_shifted_bar_ok: "event_ok (ex_shifted_bar us)"
  by (simp add: event_ok_def ex_shifted_bar_def ex_frame_defs market_event_post_init_def closed_bar_post_init_def result_simps
    upper_def upper_char_def is_utc_def)

text \<open>
  C39: The builder asks for an aligned one-minute bar but does not check the alignment: for every instant, on a minute
  boundary or not, there is a constructed closed bar that opens at it, lasts sixty seconds, and is turned into a frame.
\<close>

theorem frame_any_opening:
  "\<exists>key closed_bar bar f. frame_key_post_init key = Inr key \<and> event_ok closed_bar \<and> me_payload closed_bar = ClosedBarPayload bar \<and> cb_closed bar \<and>
     cb_bar_open_at bar = utc us \<and> cb_bar_close_at bar = utc (us + seconds 60) \<and>
     build_frame key closed_bar [] None = Inr f"
proof -
  let ?key = "ex_frame_key\<lparr>fk_bar_close_at := utc (us + seconds 60)\<rparr>"
  have g: "frame_guards ?key (ex_shifted_bar us) None"
    by (simp add: frame_guards_def ex_shifted_bar_def ex_frame_defs frame_cutoff_def dt_diff_def)
  have c: "conflict_free (considered ?key (ex_shifted_bar us) [] None)"
    by (simp add: conflict_free_def available_events_def)
  have k: "frame_key_post_init ?key = Inr ?key"
    by (simp add: frame_key_post_init_def ex_frame_key_def upper_def upper_char_def)
  obtain f where "build_frame ?key (ex_shifted_bar us) [] None = Inr f"
    using build_frame_returns [OF ex_shifted_bar_ok _ g c] by auto
  then show ?thesis
    using ex_shifted_bar_ok [of us] k
    by (intro exI [of _ ?key] exI [of _ "ex_shifted_bar us"]) (simp add: ex_shifted_bar_def ex_market_event_def)
qed

text \<open>
  C11: a frame holds, for each of its sources, the data of the newest available event of that source, or nothing when
  there is none: the book, mark and funding, the two reference prices, the venue clock and the symbol state.  Every
  source but the closed bar itself was observed by the cutoff.  The premise on the hash is that considered events
  with one identity, or one place in the order, and one content hash are the same event.
\<close>

theorem frame_latest:
  assumes "event_ok closed_bar" and "list_all event_ok events" and "build_frame key closed_bar events dc = Inr f"
    and "collision_free (considered key closed_bar events dc)"
  shows "(\<exists>book mark spot secondary clock state.
      newest_payload (available_events key (fr_cutoff_at f) events) (of_kind ORDER_BOOK (me_venue closed_bar)) as_order_book book \<and>
      newest_payload (available_events key (fr_cutoff_at f) events) (of_kind MARK_FUNDING (me_venue closed_bar)) as_mark_funding mark \<and>
      newest_payload (available_events key (fr_cutoff_at f) events) (is_reference PRIMARY_SPOT) as_reference_price spot \<and>
      newest_payload (available_events key (fr_cutoff_at f) events) (is_reference SECONDARY_VENUE) as_reference_price secondary \<and>
      newest_payload (available_events key (fr_cutoff_at f) events) (of_kind VENUE_CLOCK (me_venue closed_bar)) as_venue_clock clock \<and>
      newest_payload (available_events key (fr_cutoff_at f) events) (of_kind SYMBOL_STATE (me_venue closed_bar)) as_symbol_state state \<and>
      fr_book_bids f = levels_of ob_bids book \<and> fr_book_asks f = levels_of ob_asks book \<and>
      fr_mark_price f = map_option mf_mark_price mark \<and> fr_index_price f = map_option mf_index_price mark \<and>
      fr_funding_rate f = map_option mf_funding_rate mark \<and> fr_primary_spot_price f = map_option rp_price spot \<and>
      fr_secondary_venue_price f = map_option rp_price secondary \<and>
      fr_venue_server_time f = map_option vc_server_time clock \<and> fr_symbol_status f = map_option sy_status state) \<and>
    (\<forall>(name, s) \<in> set (fr_source_manifest f). name \<noteq> ''closed_bar'' \<longrightarrow> so_observed_at s \<le> fr_cutoff_at f)"
proof -
  let ?sel = "\<lambda>ds. selection closed_bar (me_venue closed_bar) ds"
  obtain bar ds m h where r: "me_kind closed_bar = CLOSED_BAR" "set ds = set (considered key closed_bar events dc)"
      "frame_manifest (?sel ds) = Inr m" "f = frame_of key (frame_cutoff closed_bar dc) bar (?sel ds) m h"
    using build_frame_form [OF assms] by blast
  have cut: "fr_cutoff_at f = frame_cutoff closed_bar dc" and m: "fr_source_manifest f = m"
    by (simp_all add: r(4) frame_of_def Let_def)
  have ok: "list_all event_ok ds" using considered_ok [OF assms(1,2), of key dc] by (simp add: list_all_iff r(2))
  have carried: "selection_ok (?sel ds)" by (rule selection_is_ok [OF ok assms(1)])
  note newest = pick_newest [OF r(2) [folded cut]]
  note sel = carried [unfolded selection_ok_def selection_def frame_selection.simps]
  have "\<forall>(name, s) \<in> set m. name \<noteq> ''closed_bar'' \<longrightarrow> so_observed_at s \<le> fr_cutoff_at f"
    using selection_sources [OF r(2) [folded cut] r(1,3)] by blast
  moreover have "fr_book_bids f = levels_of ob_bids (read as_order_book (sel_order_book (?sel ds)))"
    "fr_book_asks f = levels_of ob_asks (read as_order_book (sel_order_book (?sel ds)))"
    "fr_mark_price f = map_option mf_mark_price (read as_mark_funding (sel_mark_funding (?sel ds)))"
    "fr_index_price f = map_option mf_index_price (read as_mark_funding (sel_mark_funding (?sel ds)))"
    "fr_funding_rate f = map_option mf_funding_rate (read as_mark_funding (sel_mark_funding (?sel ds)))"
    "fr_primary_spot_price f = map_option rp_price (read as_reference_price (sel_primary_spot (?sel ds)))"
    "fr_secondary_venue_price f = map_option rp_price (read as_reference_price (sel_secondary_venue (?sel ds)))"
    "fr_venue_server_time f = map_option vc_server_time (read as_venue_clock (sel_venue_clock (?sel ds)))"
    "fr_symbol_status f = map_option sy_status (read as_symbol_state (sel_symbol_state (?sel ds)))"
    by (simp_all add: r(4) frame_of_def Let_def)
  ultimately show ?thesis
    unfolding m selection_def frame_selection.simps
    by (intro conjI exI) (rule newest; (rule bar_not_selected; simp add: r(1))?; simp add: sel; fail | assumption)+
qed

theorem frame_latest_witness:
  "\<exists>f. build_frame ex_frame_key ex_closed_bar ex_frame_events (Some (utc (seconds 61))) = Inr f \<and>
    fr_book_bids f = [\<lparr>pl_price = 100, pl_quantity = 1\<rparr>] \<and> fr_mark_price f = Some 100 \<and> fr_symbol_status f = None"
proof -
  obtain f where f: "build_frame ex_frame_key ex_closed_bar ex_frame_events (Some (utc (seconds 61))) = Inr f"
    using ex_frame_built by blast
  have cut: "fr_cutoff_at f = frame_cutoff ex_closed_bar (Some (utc (seconds 61)))"
    by (rule build_frame_cutoff [OF ex_closed_bar_ok ex_frame_events_ok f])
  have venue: "me_venue ex_closed_bar = ''binance''" by (simp add: ex_frame_defs)
  from frame_latest [OF ex_closed_bar_ok ex_frame_events_ok f ex_frame_distinct(1), unfolded cut ex_frame_available venue]
  obtain book mark state where
    "newest_payload [ex_book_event ''b1'' (seconds 59) 100, ex_mark_event] (of_kind ORDER_BOOK ''binance'') as_order_book book"
    "newest_payload [ex_book_event ''b1'' (seconds 59) 100, ex_mark_event] (of_kind MARK_FUNDING ''binance'') as_mark_funding mark"
    "newest_payload [ex_book_event ''b1'' (seconds 59) 100, ex_mark_event] (of_kind SYMBOL_STATE ''binance'') as_symbol_state state"
    "fr_book_bids f = levels_of ob_bids book" "fr_mark_price f = map_option mf_mark_price mark"
    "fr_symbol_status f = map_option sy_status state" by blast
  then have "fr_book_bids f = [\<lparr>pl_price = 100, pl_quantity = 1\<rparr>]" "fr_mark_price f = Some 100" "fr_symbol_status f = None"
    by (cases book; cases mark; cases state; simp add: newest_payload_def ex_frame_defs of_kind_def levels_of_def; auto)+
  with f show ?thesis by blast
qed

text \<open>
  C13: a frame is a function of the set of events available by the cutoff: events in another order, delivered again,
  of another symbol or observed later leave the whole frame, its manifest and content hash included, unchanged.
\<close>

theorem frame_order_independent:
  assumes "event_ok closed_bar" and "list_all event_ok events" and "list_all event_ok events'"
    and "set (available_events key (frame_cutoff closed_bar dc) events') = set (available_events key (frame_cutoff closed_bar dc) events)"
    and "collision_free (considered key closed_bar events dc)"
    and "build_frame key closed_bar events dc = Inr f"
  shows "build_frame key closed_bar events' dc = Inr f"
proof -
  let ?sel = "\<lambda>ds. selection closed_bar (me_venue closed_bar) ds"
  have same: "set (considered key closed_bar events' dc) = set (considered key closed_bar events dc)" using assms(4) by simp
  have cf: "collision_free (considered key closed_bar events' dc)" using assms(5) unfolding collision_free_def same .
  have "conflict_free (considered key closed_bar events' dc)"
    by (rule conflict_free_subset [OF build_frame_Inr(2) [OF assms(1,2,6)] equalityD1 [OF same]])
  then obtain f' where f': "build_frame key closed_bar events' dc = Inr f'"
    using build_frame_returns [OF assms(1,3) build_frame_Inr(1) [OF assms(1,2,6)]] by blast
  obtain bar ds m h where r: "me_payload closed_bar = ClosedBarPayload bar" "set ds = set (considered key closed_bar events dc)"
      "frame_manifest (?sel ds) = Inr m" "f = frame_of key (frame_cutoff closed_bar dc) bar (?sel ds) m h"
      "content_hash (frame_normalized f) = Inr h"
    using build_frame_form [OF assms(1,2,6,5)] by blast
  obtain bar' ds' m' h' where r': "me_payload closed_bar = ClosedBarPayload bar'" "set ds' = set (considered key closed_bar events' dc)"
      "frame_manifest (?sel ds') = Inr m'" "f' = frame_of key (frame_cutoff closed_bar dc) bar' (?sel ds') m' h'"
      "content_hash (frame_normalized f') = Inr h'"
    using build_frame_form [OF assms(1,3) f' cf] by blast
  have "?sel ds = ?sel ds'"
    by (rule selection_set [OF _ total_key_inj [OF considered_ok [OF assms(1,2)] assms(5) r(2)]]) (simp only: r(2) r'(2) same)
  then have eq: "?sel ds' = ?sel ds" "m' = m" "bar' = bar" using r(1,3) r'(1,3) by simp_all
  then have "h' = h" using r(4,5) r'(4,5) frame_dict_of [of key "frame_cutoff closed_bar dc" bar "?sel ds" m h h'] by simp
  with f' r(4) r'(4) eq show ?thesis by simp
qed

theorem frame_order_independent_witness:
  "\<exists>f. build_frame ex_frame_key ex_closed_bar ex_frame_events (Some (utc (seconds 61))) = Inr f \<and>
    build_frame ex_frame_key ex_closed_bar
      [ex_mark_event, ex_book_event ''b1'' (seconds 59) 100, ex_mark_event] (Some (utc (seconds 61))) = Inr f"
proof -
  let ?again = "[ex_mark_event, ex_book_event ''b1'' (seconds 59) 100, ex_mark_event]"
  obtain f where f: "build_frame ex_frame_key ex_closed_bar ex_frame_events (Some (utc (seconds 61))) = Inr f"
    using ex_frame_built by blast
  have ok: "list_all event_ok ?again" using ex_frame_events_ok by (simp add: ex_frame_events_def)
  have "set (available_events ex_frame_key (frame_cutoff ex_closed_bar (Some (utc (seconds 61)))) ?again) =
      set (available_events ex_frame_key (frame_cutoff ex_closed_bar (Some (utc (seconds 61)))) ex_frame_events)"
    unfolding ex_frame_available by (auto simp: available_events_def ex_frame_defs frame_cutoff_def)
  from f frame_order_independent [OF ex_closed_bar_ok ex_frame_events_ok ok this ex_frame_distinct(1) f] show ?thesis by blast
qed

end
