(* ===== verification/Integrity_Safety.thy ===== *)
theory Integrity_Safety
  imports Integrity Frame_Causality
begin

text \<open>
  The guarantees of the integrity checks: the condition of each of the eighteen checks stated over the frame and the
  context, that the evaluation decides exactly these conditions, and what an expected warm-up is.
\<close>

section \<open>Results\<close>

lemma integrity_result_id: "integrity_result_post_init r = Inr r' \<Longrightarrow> r' = r"
  by (auto simp: integrity_result_post_init_def result_simps freeze_json_pyval simp del: json_pyval.simps)

lemma check_result_fields:
  assumes "check_result check status reason details = Inr r"
  shows "ir_check r = check \<and> ir_status r = status \<and> ir_reason_code r = reason"
proof -
  obtain j where "(case j of JObject _ \<Rightarrow> integrity_result_post_init
      \<lparr>ir_check = check, ir_status = status, ir_reason_code = reason, ir_details = j\<rparr> | _ \<Rightarrow> Inl AssertionError) = Inr r"
    using assms unfolding check_result_def bindE_Inr_iff by blast
  then show ?thesis by (cases j) (auto dest: integrity_result_id)
qed

interpretation itg: gate_chain check_result ir_check ir_status integrity_result_dict
proof
  fix reason c s g and details :: "(string \<times> pyval) list"
  show "\<exists>g. check_result c s reason details = Inr g" if "reason \<noteq> []" "list_all (\<lambda>(k, v). freezes v) details"
  proof -
    have "freezes (pydict details)" using that(2) by simp
    then obtain j where j: "freeze_json (pydict details) = Inr j" unfolding freezes_def by blast
    then obtain ms where "j = JObject ms" using freeze_pydict_Inr by blast
    with j that(1) show ?thesis
      by (simp add: check_result_def integrity_result_post_init_def freeze_json_pyval require_mapping_def del: json_pyval.simps)
  qed
  show "ir_check g = c \<and> ir_status g = s" if "check_result c s reason details = Inr g"
    using check_result_fields [OF that] by simp
  show "freezes (integrity_result_dict g)" by (simp add: integrity_result_dict_def)
qed

lemma passed_if_PASSED [simp]: "PASSED = passed_if valid \<longleftrightarrow> valid" "passed_if valid = PASSED \<longleftrightarrow> valid"
  by (simp_all add: passed_if_def)

section \<open>The conditions\<close>

text \<open>The current return lies within the threshold of the recent ones; with no variance it equals their mean.\<close>

definition return_plausible :: "integrity_policy \<Rightarrow> decimal \<Rightarrow> decimal \<Rightarrow> decimal list \<Rightarrow> bool" where
  "return_plausible p close previous values \<longleftrightarrow>
     (let current = ddiv (dsub close previous) previous;
          mean = ddiv (dsum values) (of_nat (length values));
          variance = ddiv (dsum (map (\<lambda>x. dsquare (dsub x mean)) values)) (of_nat (length values) - 1)
      in if variance = 0 then current = mean
         else ddiv (dabs (dsub current mean)) (dsqrt variance) \<le> ip_outlier_z_threshold p)"

fun sequence_follows :: "sequence_rule \<Rightarrow> int \<Rightarrow> int \<Rightarrow> bool" where
  "sequence_follows CONTIGUOUS previous current \<longleftrightarrow> current = previous + 1"
| "sequence_follows MONOTONIC previous current \<longleftrightarrow> previous < current"

fun integrity_condition :: "integrity_policy \<Rightarrow> integrity_context \<Rightarrow> integrity_check \<Rightarrow> bool" where
  "integrity_condition p c REQUIRED_SOURCES \<longleftrightarrow> ip_required_sources p \<subseteq> fst ` set (fr_source_manifest (ic_frame c))"
| "integrity_condition p c MISSING_INTERVAL \<longleftrightarrow> ic_previous_bar_close_at c = Some (cb_bar_open_at (fr_bar (ic_frame c)))"
| "integrity_condition p c DUPLICATE_CONFLICT \<longleftrightarrow> True"
| "integrity_condition p c SEQUENCE \<longleftrightarrow> (\<forall>(name, rule) \<in> set (ip_sequence_rules p). \<exists>current. source_sequence c name = Some current \<and>
     (\<forall>previous. map_of (ic_prior_sequences c) name = Some previous \<longrightarrow> sequence_follows rule previous current))"
| "integrity_condition p c VENUE_TIMESTAMP \<longleftrightarrow> (\<forall>(name, s) \<in> set (fr_source_manifest (ic_frame c)).
     so_timestamp_basis s = LOCAL_OBSERVATION \<or> \<bar>dt_diff (so_observed_at s) (so_venue_event_at s)\<bar> \<le> skew_limit p name)"
| "integrity_condition p c OBSERVED_LAG \<longleftrightarrow> 0 \<le> decision_lag c \<and> decision_lag c \<le> ip_max_decision_lag p"
| "integrity_condition p c SOURCE_FRESHNESS \<longleftrightarrow> (\<forall>name \<in> ip_required_sources p. \<exists>maximum. map_of (ip_source_max_age p) name = Some maximum \<and>
     (\<forall>s. frame_source c name = Some s \<longrightarrow> dt_diff (fr_cutoff_at (ic_frame c)) (so_observed_at s) \<le> maximum))"
| "integrity_condition p c CLOCK_DRIFT \<longleftrightarrow> (\<exists>s t. frame_source c ''venue_clock'' = Some s \<and> fr_venue_server_time (ic_frame c) = Some t \<and>
     \<bar>dt_diff t (so_observed_at s)\<bar> \<le> ip_max_venue_clock_drift p)"
| "integrity_condition p c STALE_BOOK \<longleftrightarrow> (\<exists>s. frame_source c ''order_book'' = Some s \<and>
     dt_diff (fr_cutoff_at (ic_frame c)) (so_observed_at s) \<le> ip_max_book_age p)"
| "integrity_condition p c API_OUTAGE \<longleftrightarrow> decision_lag c \<le> ip_max_decision_lag p"
| "integrity_condition p c OHLC \<longleftrightarrow> (let bar = fr_bar (ic_frame c) in
     cb_low bar \<le> cb_open bar \<and> cb_low bar \<le> cb_close bar \<and> cb_open bar \<le> cb_high bar \<and> cb_close bar \<le> cb_high bar)"
| "integrity_condition p c VOLUME \<longleftrightarrow> 0 \<le> cb_volume (fr_bar (ic_frame c)) \<and> 0 \<le> cb_quote_volume (fr_bar (ic_frame c))"
| "integrity_condition p c CROSSED_BOOK \<longleftrightarrow> (\<exists>bid ask. fr_best_bid (ic_frame c) = Some bid \<and> fr_best_ask (ic_frame c) = Some ask \<and> bid < ask)"
| "integrity_condition p c SYMBOL_STATE_CHECK \<longleftrightarrow> fr_symbol_status (ic_frame c) = Some ''TRADING''"
| "integrity_condition p c HISTORICAL_COVERAGE \<longleftrightarrow> ip_minimum_history_bars p \<le> ic_historical_bar_count c"
| "integrity_condition p c CLOSE_RETURN_OUTLIER \<longleftrightarrow> ip_minimum_history_bars p \<le> ic_historical_bar_count c \<and>
     ip_minimum_outlier_returns p \<le> int (length (ic_recent_close_returns c)) \<and>
     (\<exists>previous. ic_previous_close c = Some previous \<and> return_plausible p (cb_close (fr_bar (ic_frame c))) previous (ic_recent_close_returns c))"
| "integrity_condition p c FUTURES_SPOT_BASIS \<longleftrightarrow> (\<exists>mark spot. fr_mark_price (ic_frame c) = Some mark \<and>
     fr_primary_spot_price (ic_frame c) = Some spot \<and> ddiv (dabs (dsub mark spot)) spot \<le> ip_maximum_basis_fraction p)"
| "integrity_condition p c SECONDARY_REFERENCE \<longleftrightarrow> (\<exists>mark reference. fr_mark_price (ic_frame c) = Some mark \<and>
     fr_secondary_venue_price (ic_frame c) = Some reference \<and> ddiv (dabs (dsub mark reference)) reference \<le> ip_maximum_secondary_divergence p)"

text \<open>Policies and contexts as their constructors build them; a frozenset is finite, and the frame's bar and prices are constructed.\<close>

definition policy_sound :: "integrity_policy \<Rightarrow> bool" where
  "policy_sound p \<longleftrightarrow> integrity_policy_post_init p = Inr p \<and> finite (ip_required_sources p)"

definition frame_fit :: "causal_minute_frame \<Rightarrow> bool" where
  "frame_fit f \<longleftrightarrow> is_utc (cb_bar_open_at (fr_bar f)) \<and> (\<forall>x. fr_primary_spot_price f = Some x \<longrightarrow> 0 < x) \<and>
     (\<forall>x. fr_secondary_venue_price f = Some x \<longrightarrow> 0 < x)"

definition context_sound :: "integrity_context \<Rightarrow> bool" where
  "context_sound c \<longleftrightarrow> integrity_context_post_init c = Inr c \<and> frame_fit (ic_frame c)"

lemma policy_sound_facts:
  assumes "policy_sound p"
  shows "finite (ip_required_sources p)" "2 \<le> ip_minimum_outlier_returns p"
  using assms by (auto simp: policy_sound_def integrity_policy_post_init_def result_simps)

lemma context_sound_facts:
  assumes "context_sound c"
  shows "ic_previous_bar_close_at c = Some t \<Longrightarrow> is_utc t" "is_utc (cb_bar_open_at (fr_bar (ic_frame c)))"
    "ic_previous_close c = Some x \<Longrightarrow> 0 < x" "fr_primary_spot_price (ic_frame c) = Some x \<Longrightarrow> 0 < x"
    "fr_secondary_venue_price (ic_frame c) = Some x \<Longrightarrow> 0 < x"
  using assms by (auto simp: context_sound_def frame_fit_def integrity_context_post_init_def result_simps)

section \<open>Each check decides its condition\<close>

abbreviation decides :: "integrity_result result \<Rightarrow> integrity_check \<Rightarrow> bool \<Rightarrow> bool" where
  "decides m check condition \<equiv> produces ir_check ir_status m check condition"

lemma sorted_list_of_set_Nil: "finite A \<Longrightarrow> sorted_list_of_set A = [] \<longleftrightarrow> A = {}"
  by (metis set_sorted_list_of_set sorted_list_of_set.sorted_key_list_of_set_empty empty_set)

lemma required_sources_decides:
  assumes "finite (ip_required_sources p)"
  shows "decides (required_sources_check p c) REQUIRED_SOURCES (integrity_condition p c REQUIRED_SOURCES)"
proof -
  have "sorted_list_of_set (ip_required_sources p - fst ` set (fr_source_manifest (ic_frame c))) = [] \<longleftrightarrow>
      integrity_condition p c REQUIRED_SOURCES"
    using assms by (simp add: sorted_list_of_set_Nil)
  then show ?thesis unfolding required_sources_check_def Let_def by (simp add: itg.produces_make_iff del: integrity_condition.simps)
qed

lemma missing_interval_decides:
  assumes "context_sound c"
  shows "decides (missing_interval_check c) MISSING_INTERVAL (integrity_condition p c MISSING_INTERVAL)"
  using context_sound_facts(1,2) [OF assms]
  by (cases "ic_previous_bar_close_at c") (simp_all add: missing_interval_check_def itg.produces_make_iff)

lemma sequence_follows_iff: "sequence_follows rule previous current \<longleftrightarrow> \<not> sequence_violation rule previous current"
  by (cases rule) (auto simp: sequence_violation_def)

lemma bad_sequence_None:
  "source_sequence c name = Some current \<Longrightarrow>
    bad_sequence c (name, rule) = None \<longleftrightarrow> (\<forall>previous. map_of (ic_prior_sequences c) name = Some previous \<longrightarrow> sequence_follows rule previous current)"
  by (auto simp: bad_sequence_def sequence_follows_iff split: option.splits)

lemma sequence_condition:
  "integrity_condition p c SEQUENCE \<longleftrightarrow>
    (\<forall>(name, rule) \<in> set (ip_sequence_rules p). source_sequence c name \<noteq> None) \<and>
    (\<forall>(name, rule) \<in> set (ip_sequence_rules p). bad_sequence c (name, rule) = None)"
proof -
  have "(\<exists>current. source_sequence c name = Some current \<and>
      (\<forall>previous. map_of (ic_prior_sequences c) name = Some previous \<longrightarrow> sequence_follows rule previous current)) \<longleftrightarrow>
    source_sequence c name \<noteq> None \<and> bad_sequence c (name, rule) = None" for name rule
    by (cases "source_sequence c name") (simp_all add: bad_sequence_None)
  then show ?thesis by (simp add: split_def ball_conj_distrib)
qed

lemma sequence_outcome:
  "list_all freezes bad \<Longrightarrow>
    decides (if missing \<noteq> [] then check_result SEQUENCE NOT_APPLICABLE ''required_sequence_missing'' [(''sources'', strings missing)]
      else if bad \<noteq> [] then check_result SEQUENCE FAILED ''sequence_gap_or_regression'' [(''sources'', PySequence bad)]
      else check_result SEQUENCE PASSED ''sequences_contiguous_or_initialized'' []) SEQUENCE (missing = [] \<and> bad = [])"
  by (simp add: itg.produces_make_iff)

lemma sequence_decides: "decides (sequence_check p c) SEQUENCE (integrity_condition p c SEQUENCE)"
proof -
  let ?rules = "sort_key fst (ip_sequence_rules p)"
  let ?bad = "concat (map (\<lambda>(name, rule). case bad_sequence c (name, rule) of None \<Rightarrow> []
    | Some (previous, current) \<Rightarrow> [pydict [(''source'', PyStr name), (''rule'', PyEnum (PyStr (sequence_rule_value rule))),
        (''previous'', PyInt previous), (''current'', PyInt current)]]) ?rules)"
  have m: "map fst (filter (\<lambda>(name, rule). source_sequence c name = None) ?rules) = [] \<longleftrightarrow>
      (\<forall>(name, rule) \<in> set (ip_sequence_rules p). source_sequence c name \<noteq> None)"
    by (auto simp: filter_empty_conv)
  have b: "?bad = [] \<longleftrightarrow> (\<forall>(name, rule) \<in> set (ip_sequence_rules p). bad_sequence c (name, rule) = None)"
    unfolding concat_eq_Nil_conv by (auto split: option.splits)
  have f: "list_all freezes ?bad" by (auto simp: list_all_iff split: option.splits)
  show ?thesis
    unfolding sequence_check_def Let_def sequence_condition m [symmetric] b [symmetric] using f by (rule sequence_outcome)
qed

lemma venue_timestamp_decides:
  "decides (venue_timestamp_check p c) VENUE_TIMESTAMP (integrity_condition p c VENUE_TIMESTAMP)"
proof -
  let ?sources = "sort_key fst (fr_source_manifest (ic_frame c))"
  have f: "list_all (\<lambda>(k, v). freezes v) (map (skew_observation p) ?sources)"
    by (auto simp: list_all_iff skew_observation_def)
  have "filter (skewed p) ?sources = [] \<longleftrightarrow> integrity_condition p c VENUE_TIMESTAMP"
    by (auto simp: filter_empty_conv skewed_def source_skew_def not_less)
  with f show ?thesis
    unfolding venue_timestamp_check_def Let_def by (simp add: itg.produces_make_iff del: integrity_condition.simps)
qed

lemma lag_decides:
  "decides (observed_lag_check p c) OBSERVED_LAG (integrity_condition p c OBSERVED_LAG)"
  "decides (api_outage_check p c) API_OUTAGE (integrity_condition p c API_OUTAGE)"
  by (auto simp: observed_lag_check_def api_outage_check_def itg.produces_make_iff)

lemma source_freshness_decides:
  assumes "finite (ip_required_sources p)"
  shows "decides (source_freshness_check p c) SOURCE_FRESHNESS (integrity_condition p c SOURCE_FRESHNESS)"
proof -
  have "(\<exists>maximum. map_of (ip_source_max_age p) name = Some maximum \<and>
      (\<forall>s. frame_source c name = Some s \<longrightarrow> dt_diff (fr_cutoff_at (ic_frame c)) (so_observed_at s) \<le> maximum)) \<longleftrightarrow>
    map_of (ip_source_max_age p) name \<noteq> None \<and> \<not> stale_source p c name" for name
    by (auto simp: stale_source_def source_age_def split: option.splits)
  then have c: "integrity_condition p c SOURCE_FRESHNESS \<longleftrightarrow>
      (\<forall>name \<in> ip_required_sources p. map_of (ip_source_max_age p) name \<noteq> None) \<and> (\<forall>name \<in> ip_required_sources p. \<not> stale_source p c name)"
    by (simp add: ball_conj_distrib)
  show ?thesis
    unfolding source_freshness_check_def Let_def c filter_empty_conv set_sorted_list_of_set [OF assms]
    by (simp add: itg.produces_make_iff)
qed

lemma clock_drift_decides: "decides (clock_drift_check p c) CLOCK_DRIFT (integrity_condition p c CLOCK_DRIFT)"
  by (cases "frame_source c ''venue_clock''"; cases "fr_venue_server_time (ic_frame c)")
    (simp_all add: clock_drift_check_def Let_def itg.produces_make_iff not_less)

lemma stale_book_decides: "decides (stale_book_check p c) STALE_BOOK (integrity_condition p c STALE_BOOK)"
  by (cases "frame_source c ''order_book''") (simp_all add: stale_book_check_def source_age_def itg.produces_make_iff not_less)

lemma bar_decides:
  "decides (ohlc_check c) OHLC (integrity_condition p c OHLC)"
  "decides (volume_check c) VOLUME (integrity_condition p c VOLUME)"
  by (auto simp: ohlc_check_def volume_check_def Let_def itg.produces_make_iff)

lemma crossed_book_decides: "decides (crossed_book_check c) CROSSED_BOOK (integrity_condition p c CROSSED_BOOK)"
  by (cases "fr_best_bid (ic_frame c)"; cases "fr_best_ask (ic_frame c)") (simp_all add: crossed_book_check_def itg.produces_make_iff)

lemma symbol_state_decides: "decides (symbol_state_check c) SYMBOL_STATE_CHECK (integrity_condition p c SYMBOL_STATE_CHECK)"
  by (cases "fr_symbol_status (ic_frame c)") (simp_all add: symbol_state_check_def itg.produces_make_iff)

lemma historical_coverage_decides:
  "decides (historical_coverage_check p c) HISTORICAL_COVERAGE (integrity_condition p c HISTORICAL_COVERAGE)"
  by (simp add: historical_coverage_check_def itg.produces_make_iff)

lemma dsquare_nonneg: "0 \<le> dsquare x"
  by (simp add: dsquare_def round_prec_nonneg)

lemma variance_nonneg: "2 \<le> length xs \<Longrightarrow> 0 \<le> ddiv (dsum (map (\<lambda>x. dsquare (dsub x mean)) xs)) (of_nat (length xs) - 1)"
  by (simp add: ddiv_def dsum_nonneg dsquare_nonneg)

lemma return_outlier_decides:
  assumes "0 \<le> variance"
  shows "decides (return_outlier_check p current mean variance) CLOSE_RETURN_OUTLIER
    (if variance = 0 then current = mean else ddiv (dabs (dsub current mean)) (dsqrt variance) \<le> ip_outlier_z_threshold p)"
proof (cases "variance = 0")
  case True
  then show ?thesis by (simp add: return_outlier_check_def itg.produces_make_iff)
next
  case False
  with assms dsqrt_pos [of variance] have "dsqrt variance \<noteq> 0" by simp
  with False show ?thesis by (simp add: return_outlier_check_def itg.produces_make_iff not_less)
qed

lemma close_return_outlier_decides:
  assumes "policy_sound p" and "context_sound c"
  shows "decides (close_return_outlier_check p c) CLOSE_RETURN_OUTLIER (integrity_condition p c CLOSE_RETURN_OUTLIER)"
proof (cases "ip_minimum_history_bars p \<le> ic_historical_bar_count c \<and>
    ip_minimum_outlier_returns p \<le> int (length (ic_recent_close_returns c)) \<and> ic_previous_close c \<noteq> None")
  case True
  let ?xs = "ic_recent_close_returns c"
  from True obtain previous where previous: "ic_previous_close c = Some previous" by blast
  have n: "2 \<le> length ?xs" using True policy_sound_facts(2) [OF assms(1)] by linarith
  have nz: "previous \<noteq> 0" "(of_nat (length ?xs) :: rat) \<noteq> 0" "of_nat (length ?xs) - 1 \<noteq> (0 :: rat)"
    using context_sound_facts(3) [OF assms(2) previous] n by auto
  show ?thesis
    using True previous nz return_outlier_decides [OF variance_nonneg [OF n]]
    by (simp add: close_return_outlier_check_def Let_def returns_mean_def returns_variance_def return_plausible_def)
next
  case False
  then show ?thesis
    by (cases "ic_previous_close c") (auto simp: close_return_outlier_check_def Let_def itg.produces_make_iff)
qed

lemma divergence_decides:
  assumes "context_sound c"
  shows "decides (futures_spot_basis_check p c) FUTURES_SPOT_BASIS (integrity_condition p c FUTURES_SPOT_BASIS)"
    "decides (secondary_reference_check p c) SECONDARY_REFERENCE (integrity_condition p c SECONDARY_REFERENCE)"
proof -
  show "decides (futures_spot_basis_check p c) FUTURES_SPOT_BASIS (integrity_condition p c FUTURES_SPOT_BASIS)"
    using context_sound_facts(4) [OF assms]
    by (cases "fr_mark_price (ic_frame c)"; cases "fr_primary_spot_price (ic_frame c)")
      (auto simp: futures_spot_basis_check_def divergence_def itg.produces_make_iff not_less)
  show "decides (secondary_reference_check p c) SECONDARY_REFERENCE (integrity_condition p c SECONDARY_REFERENCE)"
    using context_sound_facts(5) [OF assms]
    by (cases "fr_mark_price (ic_frame c)"; cases "fr_secondary_venue_price (ic_frame c)")
      (auto simp: secondary_reference_check_def divergence_def itg.produces_make_iff not_less)
qed

section \<open>The evaluation\<close>

text \<open>With every check required, a check blocks exactly when it does not pass.\<close>

lemma blocking_all_required:
  assumes "ip_required_checks p = UNIV"
  shows "integrity_blocking p results = map ir_check (filter (\<lambda>r. ir_status r \<noteq> PASSED) results)"
proof -
  have "(status = FAILED \<or> status = NOT_APPLICABLE \<and> check \<in> ip_required_checks p) \<longleftrightarrow> status \<noteq> PASSED" for status check
    using assms by (cases status) simp_all
  then show ?thesis by (simp add: integrity_blocking_def)
qed

lemma integrity_results_ok:
  assumes "policy_sound p" and "context_sound c"
  shows "\<exists>rs. integrity_results p c = Inr rs \<and> map ir_check rs = all_integrity_checks \<and>
    map ir_check (filter (\<lambda>r. ir_status r \<noteq> PASSED) rs) = filter (\<lambda>k. \<not> integrity_condition p c k) all_integrity_checks"
proof -
  let ?cps = "map (\<lambda>k. (k, integrity_condition p c k)) all_integrity_checks"
  note fin = policy_sound_facts(1) [OF assms(1)]
  have duplicate: "decides (check_result DUPLICATE_CONFLICT PASSED ''frame_identity_canonical'' []) DUPLICATE_CONFLICT
      (integrity_condition p c DUPLICATE_CONFLICT)"
    by (simp add: itg.produces_make_iff)
  have "list_all2 (\<lambda>m (k, P). decides m k P)
     [required_sources_check p c, missing_interval_check c,
      check_result DUPLICATE_CONFLICT PASSED ''frame_identity_canonical'' [],
      sequence_check p c, venue_timestamp_check p c, observed_lag_check p c, source_freshness_check p c,
      clock_drift_check p c, stale_book_check p c, api_outage_check p c, ohlc_check c, volume_check c,
      crossed_book_check c, symbol_state_check c, historical_coverage_check p c, close_return_outlier_check p c,
      futures_spot_basis_check p c, secondary_reference_check p c] ?cps"
    unfolding all_integrity_checks_def list.map
    by (intro list_all2_Cons [THEN iffD2] conjI; (simp only: prod.case list_all2_Nil)?)
      (rule required_sources_decides [OF fin] missing_interval_decides [OF assms(2)] duplicate sequence_decides
        venue_timestamp_decides lag_decides source_freshness_decides [OF fin] clock_drift_decides stale_book_decides
        bar_decides crossed_book_decides symbol_state_decides historical_coverage_decides
        close_return_outlier_decides [OF assms] divergence_decides [OF assms(2)])+
  from itg.chain_returns [OF this] obtain rs where rs: "integrity_results p c = Inr rs" "map ir_check rs = map fst ?cps"
    "list_all2 (\<lambda>r (k, P). ir_status r = PASSED \<longleftrightarrow> P) rs ?cps"
    unfolding integrity_results_def by blast
  have "map ir_check (filter (\<lambda>r. ir_status r \<noteq> PASSED) rs) = map fst (filter (\<lambda>(k, P). \<not> P) ?cps)"
    by (rule itg.chain_blocking [OF rs(3,2)])
  moreover have "map fst (filter (\<lambda>(k, P). \<not> P) ?cps) = filter (\<lambda>k. \<not> integrity_condition p c k) all_integrity_checks"
    by (simp add: filter_map o_def del: integrity_condition.simps)
  ultimately show ?thesis using rs(1,2) by (simp add: o_def del: integrity_condition.simps)
qed

lemma integrity_evaluate_ok:
  assumes "policy_sound p" and "context_sound c" and "ip_required_checks p = UNIV"
  shows "\<exists>a rs. integrity_evaluate p c = Inr a \<and> integrity_results p c = Inr rs \<and> as_results a = rs \<and>
    map ir_check rs = all_integrity_checks \<and> as_frame_id a = fr_frame_id (ic_frame c) \<and>
    as_blocking_checks a = filter (\<lambda>k. \<not> integrity_condition p c k) all_integrity_checks \<and>
    (as_admission a = ADMITTED \<longleftrightarrow> as_blocking_checks a = []) \<and>
    (as_quality_status a = PASSED \<longleftrightarrow> as_blocking_checks a = []) \<and> length (as_content_hash a) = 64"
proof -
  obtain rs where rs: "integrity_results p c = Inr rs" "map ir_check rs = all_integrity_checks"
    "integrity_blocking p rs = filter (\<lambda>k. \<not> integrity_condition p c k) all_integrity_checks"
    using integrity_results_ok [OF assms(1,2)] unfolding blocking_all_required [OF assms(3)] by blast
  let ?b = "integrity_blocking p rs"
  let ?o = "pydict [(''frame_id'', PyUUID (fr_frame_id (ic_frame c))),
     (''admission'', PyEnum (PyStr (frame_admission_value (if ?b \<noteq> [] then QUARANTINED else ADMITTED)))),
     (''quality_status'', PyEnum (PyStr (quality_status_value (if ?b \<noteq> [] then FAILED else PASSED)))),
     (''results'', PySequence (map integrity_result_dict rs)),
     (''blocking_checks'', PySequence (map (\<lambda>k. PyEnum (PyStr (integrity_check_value k))) ?b))]"
  have "freezes ?o" using itg.dicts_freeze by (simp add: list_all_iff)
  then obtain h where h: "content_hash ?o = Inr h" "length h = 64" using content_hash_shape unfolding freezes_def by blast
  show ?thesis
    unfolding integrity_evaluate_def rs(1) bindE.simps Let_def h(1)
    using rs(2) h(2) by (simp add: rs(3) [symmetric])
qed

lemma all_integrity_checks_UNIV: "set all_integrity_checks = UNIV"
proof -
  have "k \<in> set all_integrity_checks" for k by (cases k) (simp_all add: all_integrity_checks_def)
  then show ?thesis by blast
qed

section \<open>Warm-up\<close>

lemma by_check_nth:
  assumes "map ir_check rs = all_integrity_checks" and "i < length all_integrity_checks"
  shows "map_of (rev (map (\<lambda>r. (ir_check r, r)) rs)) (all_integrity_checks ! i) = Some (rs ! i)"
proof -
  have "length rs = length all_integrity_checks" using arg_cong [OF assms(1), of length] by simp
  then have i: "i < length rs" and k: "all_integrity_checks ! i = ir_check (rs ! i)"
    using assms(2) by (simp_all add: assms(1) [symmetric])
  have "distinct (map fst (rev (map (\<lambda>r. (ir_check r, r)) rs)))"
    using assms(1) by (simp add: rev_map [symmetric] o_def all_integrity_checks_def)
  then show ?thesis unfolding k by (rule map_of_is_SomeI) (use i in simp)
qed

definition warmup_result :: "integrity_result \<Rightarrow> bool" where
  "warmup_result r \<longleftrightarrow> ir_status r = NOT_APPLICABLE \<and> ir_reason_code r \<in> expected_reasons (ir_check r)"

lemma missing_interval_warmup: "missing_interval_check c = Inr r \<Longrightarrow> warmup_result r \<longleftrightarrow> ic_previous_bar_close_at c = None"
  by (auto simp: missing_interval_check_def warmup_result_def split: option.splits if_splits dest!: check_result_fields)

lemma historical_coverage_warmup:
  "historical_coverage_check p c = Inr r \<Longrightarrow> warmup_result r \<longleftrightarrow> ic_historical_bar_count c < ip_minimum_history_bars p"
  by (auto simp: historical_coverage_check_def warmup_result_def split: if_splits dest!: check_result_fields)

lemma passed_if_not_NA [simp]: "passed_if valid \<noteq> NOT_APPLICABLE" "NOT_APPLICABLE \<noteq> passed_if valid"
  by (simp_all add: passed_if_def)

lemma return_outlier_check_status:
  "return_outlier_check p current mean variance = Inr r \<Longrightarrow> ir_status r \<noteq> NOT_APPLICABLE"
  by (auto simp: return_outlier_check_def result_simps split: if_splits dest!: check_result_fields)

lemma close_return_outlier_warmup:
  "close_return_outlier_check p c = Inr r \<Longrightarrow> warmup_result r \<longleftrightarrow>
    ic_historical_bar_count c < ip_minimum_history_bars p \<or> ic_previous_close c = None \<or>
    int (length (ic_recent_close_returns c)) < ip_minimum_outlier_returns p"
  by (auto simp: close_return_outlier_check_def warmup_result_def Let_def result_simps split: if_splits option.splits
    dest!: check_result_fields dest: return_outlier_check_status)

text \<open>A check that waits for history: it does not apply yet, for the reason that the history is short.\<close>

fun waits_for_history :: "integrity_policy \<Rightarrow> integrity_context \<Rightarrow> integrity_check \<Rightarrow> bool" where
  "waits_for_history p c MISSING_INTERVAL \<longleftrightarrow> ic_previous_bar_close_at c = None"
| "waits_for_history p c HISTORICAL_COVERAGE \<longleftrightarrow> ic_historical_bar_count c < ip_minimum_history_bars p"
| "waits_for_history p c CLOSE_RETURN_OUTLIER \<longleftrightarrow> ic_historical_bar_count c < ip_minimum_history_bars p \<or>
     ic_previous_close c = None \<or> int (length (ic_recent_close_returns c)) < ip_minimum_outlier_returns p"
| "waits_for_history p c _ \<longleftrightarrow> False"

lemma history_results:
  assumes "integrity_results p c = Inr rs"
  shows "missing_interval_check c = Inr (rs ! 1)" "historical_coverage_check p c = Inr (rs ! 14)"
    "close_return_outlier_check p c = Inr (rs ! 15)"
  using mapE_nth [OF assms [unfolded integrity_results_def], of 1] mapE_nth [OF assms [unfolded integrity_results_def], of 14]
    mapE_nth [OF assms [unfolded integrity_results_def], of 15]
  by simp_all

lemma by_check_warmup:
  assumes "integrity_results p c = Inr rs" and "map ir_check rs = all_integrity_checks"
  shows "(case map_of (rev (map (\<lambda>r. (ir_check r, r)) rs)) k of None \<Rightarrow> False
    | Some r \<Rightarrow> ir_status r = NOT_APPLICABLE \<and> ir_reason_code r \<in> expected_reasons k) \<longleftrightarrow> waits_for_history p c k"
proof -
  note nth = by_check_nth [OF assms(2)]
  have names: "ir_check (rs ! i) = all_integrity_checks ! i" if "i < length all_integrity_checks" for i
    using that arg_cong [OF assms(2), of length] by (simp add: assms(2) [symmetric])
  note h = history_results [OF assms(1)]
  have "map_of (rev (map (\<lambda>r. (ir_check r, r)) rs)) MISSING_INTERVAL = Some (rs ! 1)" "ir_check (rs ! 1) = MISSING_INTERVAL"
    "map_of (rev (map (\<lambda>r. (ir_check r, r)) rs)) HISTORICAL_COVERAGE = Some (rs ! 14)" "ir_check (rs ! 14) = HISTORICAL_COVERAGE"
    "map_of (rev (map (\<lambda>r. (ir_check r, r)) rs)) CLOSE_RETURN_OUTLIER = Some (rs ! 15)" "ir_check (rs ! 15) = CLOSE_RETURN_OUTLIER"
    using nth [of 1] nth [of 14] nth [of 15] names [of 1] names [of 14] names [of 15] by (simp_all add: all_integrity_checks_def)
  then show ?thesis
    using missing_interval_warmup [OF h(1)] historical_coverage_warmup [OF h(2)] close_return_outlier_warmup [OF h(3)]
    by (cases k) (simp_all add: warmup_result_def split: option.splits)
qed

end
