(* ===== verification/Integrity_Admission.thy ===== *)
theory Integrity_Admission
  imports Integrity_Safety
begin

text \<open>
  The guarantees of the admission of frames: which frames the integrity checks admit, which quarantines are an
  expected warm-up, and what an admitted frame of the builder rests on.
\<close>

section \<open>Frames of the builder\<close>

lemma reference_price_pos:
  assumes "carries as_reference_price event" and "read as_reference_price event = Some r"
  shows "0 < rp_price r"
proof -
  obtain e where e: "event_ok e" "as_reference_price (me_payload e) = Some r" using carries_read_ok [OF assms] by blast
  then have "me_payload e = ReferencePricePayload r" by (cases "me_payload e") simp_all
  with e(1) show ?thesis by (simp add: event_ok_def reference_price_post_init_def result_simps)
qed

lemma built_frame_source:
  assumes "frame_manifest (selection c venue ds) = Inr m" and "map_of m ''order_book'' = Some s"
  shows "\<exists>e. pick (of_kind ORDER_BOOK venue) ds = Some e \<and> so_observed_at s = me_observed_at e"
proof -
  obtain e where e: "(''order_book'', e) \<in> set (selected_events (selection c venue ds))" "source_from_event e = Inr s"
    using mapE_set [OF assms(1) [unfolded frame_manifest_def] map_of_SomeD [OF assms(2)]] by (auto simp: result_simps)
  from e(1) have "pick (of_kind ORDER_BOOK venue) ds = Some e"
    by (auto simp: selected_events_def selection_def split: option.splits)
  moreover have "so_observed_at s = me_observed_at e" using e(2) by (auto simp: source_from_event_def result_simps)
  ultimately show ?thesis by blast
qed

lemma build_frame_selection:
  assumes "event_ok closed_bar" "list_all event_ok events" "build_frame key closed_bar events dc = Inr f"
  shows "\<exists>bar c ds m h. me_kind closed_bar = CLOSED_BAR \<and> payload_ok (ClosedBarPayload bar) \<and>
    set ds \<subseteq> set (considered key closed_bar events dc) \<and> selection_ok (selection c (me_venue closed_bar) ds) \<and>
    frame_manifest (selection c (me_venue closed_bar) ds) = Inr m \<and>
    f = frame_of key (frame_cutoff closed_bar dc) bar (selection c (me_venue closed_bar) ds) m h"
proof -
  let ?es = "considered key closed_bar events dc"
  obtain bar ds c m h where r: "me_kind closed_bar = CLOSED_BAR" "me_payload closed_bar = ClosedBarPayload bar"
      "stands_for ds ?es" "c \<in> set ds" "frame_manifest (selection c (me_venue closed_bar) ds) = Inr m"
      "build_frame key closed_bar events dc = Inr (frame_of key (frame_cutoff closed_bar dc) bar (selection c (me_venue closed_bar) ds) m h)"
    using build_frame_returns [OF assms(1,2) build_frame_Inr [OF assms]] by blast
  have ok: "list_all event_ok ds" by (rule stands_for_ok [OF r(3) considered_ok [OF assms(1,2)]])
  then have "event_ok c" using r(4) by (simp add: list_all_iff)
  from selection_is_ok [OF ok this] have sel: "selection_ok (selection c (me_venue closed_bar) ds)" .
  have bar: "payload_ok (ClosedBarPayload bar)" using assms(1) r(2) by (simp add: event_ok_def)
  have sub: "set ds \<subseteq> set ?es" using stands_for_in [OF r(3)] by blast
  have f: "f = frame_of key (frame_cutoff closed_bar dc) bar (selection c (me_venue closed_bar) ds) m h"
    using assms(3) r(6) by simp
  show ?thesis by (intro exI conjI) (rule r(1), rule bar, rule sub, rule sel, rule r(5), rule f)
qed

lemma built_frame_fit:
  assumes "event_ok closed_bar" "list_all event_ok events" "build_frame key closed_bar events dc = Inr f"
  shows "frame_fit f"
proof -
  obtain bar sel m h where r: "payload_ok (ClosedBarPayload bar)" "selection_ok sel"
      "f = frame_of key (frame_cutoff closed_bar dc) bar sel m h"
    using build_frame_selection [OF assms] by blast
  have "is_utc (cb_bar_open_at bar)" using r(1) by (simp add: closed_bar_post_init_def result_simps)
  then show ?thesis
    using r(2) by (auto simp: r(3) frame_fit_def frame_of_def Let_def selection_ok_def intro: reference_price_pos)
qed

text \<open>The order-book source of a built frame is an event of the venue observed by the cutoff.\<close>

lemma built_frame_book:
  assumes "event_ok closed_bar" "list_all event_ok events" "build_frame key closed_bar events dc = Inr f"
    and "map_of (fr_source_manifest f) ''order_book'' = Some s"
  shows "\<exists>e \<in> set (available_events key (fr_cutoff_at f) events). of_kind ORDER_BOOK (me_venue closed_bar) e \<and>
    me_observed_at e = so_observed_at s"
proof -
  obtain bar c ds m h where r: "me_kind closed_bar = CLOSED_BAR" "set ds \<subseteq> set (considered key closed_bar events dc)"
      "frame_manifest (selection c (me_venue closed_bar) ds) = Inr m"
      "f = frame_of key (frame_cutoff closed_bar dc) bar (selection c (me_venue closed_bar) ds) m h"
    using build_frame_selection [OF assms(1-3)] by blast
  have m: "fr_source_manifest f = m" "fr_cutoff_at f = frame_cutoff closed_bar dc" by (simp_all add: r(4) frame_of_def Let_def)
  obtain e where e: "pick (of_kind ORDER_BOOK (me_venue closed_bar)) ds = Some e" "so_observed_at s = me_observed_at e"
    using built_frame_source [OF r(3)] assms(4) m(1) by auto
  have "e \<in> set (considered key closed_bar events dc)" "of_kind ORDER_BOOK (me_venue closed_bar) e"
    using pick_in [OF e(1)] r(2) by auto
  moreover from this have "e \<noteq> closed_bar" using bar_not_selected(1) [OF r(1)] by auto
  ultimately show ?thesis using e(2) m(2) by auto
qed

section \<open>An example\<close>

text \<open>The official policy, a frame with all seven sources, and sixty bars of flat history.\<close>

definition ex_integrity_policy :: integrity_policy where
  "ex_integrity_policy = projr official_integrity_policy"

definition ex_frame_source :: "int \<Rightarrow> source_observation" where
  "ex_frame_source us = \<lparr>so_venue = ''binance'', so_stream = ''s'', so_event_id = ''e'', so_content_hash = ''h'', so_venue_event_at = utc us,
     so_observed_at = utc us, so_sequence = Some 7, so_source_published_at = None, so_source_engine_at = None,
     so_timestamp_basis = LOCAL_OBSERVATION\<rparr>"

definition ex_full_frame :: causal_minute_frame where
  "ex_full_frame = \<lparr>fr_key = ex_frame_key, fr_frame_id = 5, fr_cutoff_at = utc (seconds 61),
     fr_bar = \<lparr>cb_timeframe = ''1m'', cb_bar_open_at = utc 0, cb_bar_close_at = utc (seconds 60), cb_open = 100, cb_high = 102,
       cb_low = 99, cb_close = 101, cb_volume = 5, cb_quote_volume = 500, cb_trade_count = 7, cb_taker_buy_volume = 2,
       cb_taker_buy_quote_volume = 200, cb_closed = True\<rparr>,
     fr_book_bids = [\<lparr>pl_price = 100, pl_quantity = 1\<rparr>], fr_book_asks = [\<lparr>pl_price = 101, pl_quantity = 1\<rparr>],
     fr_best_bid = Some 100, fr_best_ask = Some 101, fr_mark_price = Some 100, fr_index_price = Some 100, fr_funding_rate = Some 0,
     fr_primary_spot_price = Some 100, fr_secondary_venue_price = Some 100, fr_venue_server_time = Some (utc (seconds 60)),
     fr_symbol_status = Some ''TRADING'',
     fr_source_manifest = map (\<lambda>name. (name, ex_frame_source (seconds 60)))
       [''closed_bar'', ''order_book'', ''mark_funding'', ''primary_spot'', ''secondary_venue'', ''venue_clock'', ''symbol_state''],
     fr_content_hash = ''h''\<rparr>"

definition ex_integrity_context :: "causal_minute_frame \<Rightarrow> int \<Rightarrow> integrity_context" where
  "ex_integrity_context f bars = \<lparr>ic_frame = f, ic_evaluated_at = utc (seconds 62), ic_previous_bar_close_at = Some (utc 0),
     ic_previous_close = Some 101, ic_prior_sequences = [(''closed_bar'', 6), (''order_book'', 3)],
     ic_recent_close_returns = replicate 20 0, ic_historical_bar_count = bars\<rparr>"

lemma ex_policy_eq: "official_integrity_policy = Inr ex_integrity_policy"
  by (simp add: ex_integrity_policy_def official_integrity_policy_def integrity_policy_post_init_def all_integrity_checks_def)

lemmas ex_policy_fields = ex_integrity_policy_def official_integrity_policy_def integrity_policy_post_init_def all_integrity_checks_def

lemma ex_policy_sound: "policy_sound ex_integrity_policy" "ip_required_checks ex_integrity_policy = UNIV"
proof -
  show "policy_sound ex_integrity_policy" by (simp add: policy_sound_def ex_policy_fields)
  have "ip_required_checks ex_integrity_policy = set all_integrity_checks" by (simp add: ex_policy_fields)
  then show "ip_required_checks ex_integrity_policy = UNIV" by (simp add: all_integrity_checks_UNIV)
qed

lemma ex_context_post_init: "0 \<le> bars \<Longrightarrow> integrity_context_post_init (ex_integrity_context f bars) = Inr (ex_integrity_context f bars)"
  by (simp add: integrity_context_post_init_def ex_integrity_context_def require_utc_option_def)

lemma ex_integrity_context_sound: "0 \<le> bars \<Longrightarrow> context_sound (ex_integrity_context ex_full_frame bars)"
  using ex_context_post_init [of bars ex_full_frame]
  by (simp add: context_sound_def frame_fit_def) (simp add: ex_integrity_context_def ex_full_frame_def)

lemma flat_returns_plausible: "return_plausible p x x (replicate 20 0)" if "x \<noteq> 0" for x
  using that by (simp add: return_plausible_def ddiv_def dsub_def dsum_def dsquare_def dadd_def numeral_eq_Suc)

lemma ex_conditions:
  assumes "k \<noteq> HISTORICAL_COVERAGE" "k \<noteq> CLOSE_RETURN_OUTLIER"
  shows "integrity_condition ex_integrity_policy (ex_integrity_context ex_full_frame bars) k"
  using assms
  by (cases k) (simp_all add: ex_policy_fields ex_integrity_context_def ex_full_frame_def ex_frame_source_def source_sequence_def frame_source_def
    skew_limit_def decision_lag_def dt_diff_def dec_defs)

lemma ex_history_conditions:
  "integrity_condition ex_integrity_policy (ex_integrity_context ex_full_frame bars) HISTORICAL_COVERAGE \<longleftrightarrow> 60 \<le> bars"
  "integrity_condition ex_integrity_policy (ex_integrity_context ex_full_frame bars) CLOSE_RETURN_OUTLIER \<longleftrightarrow> 60 \<le> bars"
  by (simp_all add: ex_policy_fields ex_integrity_context_def ex_full_frame_def flat_returns_plausible)

section \<open>Guarantees\<close>

text \<open>
  C12: Under a policy that requires every check, the evaluation of a constructed context always returns an assessment
  with the eighteen results in order and a hash; it admits the frame exactly when the condition of every check holds,
  and the blocking checks are those whose condition does not, in order.
\<close>

theorem integrity_exact:
  assumes "policy_sound p" and "context_sound c" and "ip_required_checks p = UNIV"
  shows "\<exists>a. integrity_evaluate p c = Inr a \<and> map ir_check (as_results a) = all_integrity_checks \<and>
    (as_admission a = ADMITTED \<longleftrightarrow> (\<forall>k. integrity_condition p c k)) \<and>
    (as_quality_status a = PASSED \<longleftrightarrow> as_admission a = ADMITTED) \<and>
    as_blocking_checks a = filter (\<lambda>k. \<not> integrity_condition p c k) all_integrity_checks \<and> length (as_content_hash a) = 64"
proof -
  obtain a where a: "integrity_evaluate p c = Inr a" "map ir_check (as_results a) = all_integrity_checks"
    "as_blocking_checks a = filter (\<lambda>k. \<not> integrity_condition p c k) all_integrity_checks"
    "as_admission a = ADMITTED \<longleftrightarrow> as_blocking_checks a = []" "as_quality_status a = PASSED \<longleftrightarrow> as_blocking_checks a = []"
    "length (as_content_hash a) = 64"
    using integrity_evaluate_ok [OF assms] by blast
  have "as_blocking_checks a = [] \<longleftrightarrow> (\<forall>k. integrity_condition p c k)"
    unfolding a(3) filter_empty_conv all_integrity_checks_UNIV by blast
  with a show ?thesis by blast
qed

theorem integrity_exact_witness:
  "\<exists>a. integrity_evaluate ex_integrity_policy (ex_integrity_context ex_full_frame 60) = Inr a \<and> as_admission a = ADMITTED"
proof -
  have "integrity_condition ex_integrity_policy (ex_integrity_context ex_full_frame 60) k" for k
    using ex_conditions [of k 60] ex_history_conditions [of 60] by (cases "k = HISTORICAL_COVERAGE \<or> k = CLOSE_RETURN_OUTLIER") auto
  with integrity_exact [OF ex_policy_sound(1) ex_integrity_context_sound [of 60] ex_policy_sound(2)] show ?thesis by auto
qed

text \<open>
  C40: A quarantine counts as an expected warm-up exactly when some check fails its condition and each such check is
  one of the three that wait for history, and waits for it: no previous bar, too few bars, no previous close or too
  few returns.  So a warm-up never hides a failed check, nor a gap or an outlier.
\<close>

theorem integrity_warmup:
  assumes "policy_sound p" and "context_sound c" and "ip_required_checks p = UNIV" and "integrity_evaluate p c = Inr a"
  shows "is_expected_warmup a \<longleftrightarrow> as_admission a \<noteq> ADMITTED \<and> (\<forall>k. integrity_condition p c k \<or> waits_for_history p c k)"
proof -
  obtain rs where r: "integrity_results p c = Inr rs" "as_results a = rs" "map ir_check rs = all_integrity_checks"
    "as_blocking_checks a = filter (\<lambda>k. \<not> integrity_condition p c k) all_integrity_checks"
    "as_admission a = ADMITTED \<longleftrightarrow> as_blocking_checks a = []"
    using integrity_evaluate_ok [OF assms(1-3)] assms(4) by auto
  have "is_expected_warmup a \<longleftrightarrow> as_blocking_checks a \<noteq> [] \<and> (\<forall>k \<in> set (as_blocking_checks a). waits_for_history p c k)"
    unfolding is_expected_warmup_def Let_def r(2) by_check_warmup [OF r(1,3)] list_all_iff ..
  moreover have "set (as_blocking_checks a) = {k. \<not> integrity_condition p c k}"
    unfolding r(4) set_filter all_integrity_checks_UNIV by blast
  ultimately show ?thesis using r(5) by blast
qed

theorem integrity_warmup_witness:
  "\<exists>a. integrity_evaluate ex_integrity_policy (ex_integrity_context ex_full_frame 3) = Inr a \<and> is_expected_warmup a"
proof -
  note sound = ex_policy_sound(1) ex_integrity_context_sound [of 3, simplified] ex_policy_sound(2)
  obtain a where a: "integrity_evaluate ex_integrity_policy (ex_integrity_context ex_full_frame 3) = Inr a"
    "as_blocking_checks a = filter (\<lambda>k. \<not> integrity_condition ex_integrity_policy (ex_integrity_context ex_full_frame 3) k) all_integrity_checks"
    "as_admission a = ADMITTED \<longleftrightarrow> as_blocking_checks a = []"
    using integrity_evaluate_ok [OF sound] by blast
  have "\<not> integrity_condition ex_integrity_policy (ex_integrity_context ex_full_frame 3) HISTORICAL_COVERAGE"
    unfolding ex_history_conditions(1) by simp
  then have "as_admission a \<noteq> ADMITTED" unfolding a(2,3) filter_empty_conv all_integrity_checks_UNIV by blast
  moreover have "integrity_condition ex_integrity_policy (ex_integrity_context ex_full_frame 3) k \<or>
      waits_for_history ex_integrity_policy (ex_integrity_context ex_full_frame 3) k" for k
  proof (cases "k = HISTORICAL_COVERAGE \<or> k = CLOSE_RETURN_OUTLIER")
    case True
    moreover have "ip_minimum_history_bars ex_integrity_policy = 60" by (simp add: ex_policy_fields)
    ultimately have "waits_for_history ex_integrity_policy (ex_integrity_context ex_full_frame 3) k"
      by (auto simp: ex_integrity_context_def)
    then show ?thesis ..
  qed (simp add: ex_conditions del: integrity_condition.simps)
  ultimately show ?thesis using a(1) integrity_warmup [OF sound a(1)] by blast
qed

text \<open>
  C14: Every frame the builder returns can be assessed: the frame carries the identifier of its key and the hash of its
  content, the assessment refers to that identifier, and if the frame is admitted it rests on an order-book event of
  the bar's venue that was observed by the cutoff and at most the maximal book age before it, with an uncrossed book.
\<close>

theorem frame_assessed:
  assumes "event_ok closed_bar" and "list_all event_ok events" and "build_frame key closed_bar events dc = Inr (ic_frame c)"
    and "policy_sound p" and "ip_required_checks p = UNIV" and "integrity_context_post_init c = Inr c"
  shows "content_hash (frame_normalized (ic_frame c)) = Inr (fr_content_hash (ic_frame c)) \<and>
    (\<exists>a. integrity_evaluate p c = Inr a \<and> as_frame_id a = frame_key_id key \<and>
      (as_admission a = ADMITTED \<longrightarrow>
        (\<exists>e \<in> set (available_events key (fr_cutoff_at (ic_frame c)) events). of_kind ORDER_BOOK (me_venue closed_bar) e \<and>
          dt_diff (fr_cutoff_at (ic_frame c)) (me_observed_at e) \<le> ip_max_book_age p) \<and>
        (\<exists>bid ask. fr_best_bid (ic_frame c) = Some bid \<and> fr_best_ask (ic_frame c) = Some ask \<and> bid < ask)))"
proof -
  have sound: "context_sound c" using assms(6) built_frame_fit [OF assms(1-3)] by (simp add: context_sound_def)
  note self = build_frame_self_describing [OF assms(1-3)]
  obtain a where a: "integrity_evaluate p c = Inr a" "as_frame_id a = fr_frame_id (ic_frame c)"
    "as_blocking_checks a = filter (\<lambda>k. \<not> integrity_condition p c k) all_integrity_checks"
    "as_admission a = ADMITTED \<longleftrightarrow> as_blocking_checks a = []"
    using integrity_evaluate_ok [OF assms(4) sound assms(5)] by blast
  have "(\<exists>e \<in> set (available_events key (fr_cutoff_at (ic_frame c)) events). of_kind ORDER_BOOK (me_venue closed_bar) e \<and>
        dt_diff (fr_cutoff_at (ic_frame c)) (me_observed_at e) \<le> ip_max_book_age p) \<and>
      (\<exists>bid ask. fr_best_bid (ic_frame c) = Some bid \<and> fr_best_ask (ic_frame c) = Some ask \<and> bid < ask)"
    if "as_admission a = ADMITTED"
  proof -
    have all: "integrity_condition p c k" for k
      using that a(3,4) all_integrity_checks_UNIV by (simp add: filter_empty_conv del: integrity_condition.simps)
    obtain s where s: "map_of (fr_source_manifest (ic_frame c)) ''order_book'' = Some s"
      "dt_diff (fr_cutoff_at (ic_frame c)) (so_observed_at s) \<le> ip_max_book_age p"
      using all [of STALE_BOOK] by (auto simp: frame_source_def)
    from built_frame_book [OF assms(1-3) s(1)] s(2) all [of CROSSED_BOOK] show ?thesis by auto
  qed
  with self a(1,2) show ?thesis by auto
qed

theorem frame_assessed_witness:
  "\<exists>f a. build_frame ex_frame_key ex_closed_bar ex_frame_events (Some (utc (seconds 61))) = Inr f \<and>
    integrity_evaluate ex_integrity_policy (ex_integrity_context f 60) = Inr a \<and> as_frame_id a = frame_key_id ex_frame_key"
proof -
  obtain f where f: "build_frame ex_frame_key ex_closed_bar ex_frame_events (Some (utc (seconds 61))) = Inr f"
    using ex_frame_built by blast
  then have "build_frame ex_frame_key ex_closed_bar ex_frame_events (Some (utc (seconds 61))) = Inr (ic_frame (ex_integrity_context f 60))"
    by (simp add: ex_integrity_context_def)
  from frame_assessed [OF ex_closed_bar_ok ex_frame_events_ok this ex_policy_sound ex_context_post_init [of 60 f]]
  show ?thesis using f by auto
qed

end
