(* ===== verification/Spec2Isabelle.thy ===== *)
theory Spec2Isabelle
  imports Broker_Safety Sensitivity Risk_Limits Decision_Safety Admission_Safety Integrity_Admission
begin

text \<open>
  A verification development of MAAIS, a paper-trading system for perpetual futures: agents vote on a
  direction, a decision policy weighs the votes, a risk engine sizes the trade, and a local broker
  executes it against recorded order books without ever sending an order to a venue.

  \<^bold>\<open>The program and the theories.\<close>  Paths are relative to \<^verbatim>\<open>src/maais\<close>.

  \<^item> \<open>Prelude\<close>: Python exceptions as values (\<open>'a result\<close> with \<open>bindE\<close>, \<open>checks\<close>, \<open>mapE\<close>, \<open>foldE\<close>),
    timezone-aware timestamps in microseconds, and the collections \<open>result_simps\<close> and
    \<open>raises_intros\<close> the component proofs use.
  \<^item> \<open>Decimal\<close>: \<^verbatim>\<open>decimal.Decimal\<close> in the default context.  A finite Decimal is its rational value
    and every operation rounds once, half-even, to 28 significant digits.  The locale
    \<open>decimal_context\<close> states what a rounding promises (monotone, exact on representable values); it
    is interpreted on \<open>dround\<close>.  On a grid of powers of ten, with values that fit 28 digits, the
    operations are exact.
  \<^item> \<open>Sha256\<close>, \<open>Json\<close> (\<^verbatim>\<open>domain/json.py\<close>): SHA-256 and HMAC on words, \<^verbatim>\<open>freeze_json\<close>, the canonical
    bytes and the content hash; \<open>Domain\<close> (\<^verbatim>\<open>domain/enums.py\<close>): the enumerations.
  \<^item> \<open>Market\<close> (\<^verbatim>\<open>execution/paper/clock.py\<close>, \<^verbatim>\<open>market.py\<close>): guards, eligibility after latency, order
    books.  \<open>Filters\<close> (\<^verbatim>\<open>filters.py\<close>): the venue's trading rules.  \<open>Fills\<close> (\<^verbatim>\<open>fills.py\<close>): the walk
    through the visible depth and the price of a fill.  \<open>Orders\<close> (\<^verbatim>\<open>orders.py\<close>): the life cycle of an
    order and the queue of a resting limit order.  \<open>Positions\<close>, \<open>Position_Values\<close>
    (\<^verbatim>\<open>positions.py\<close>): lots, first in, first out.  \<open>Account\<close>, \<open>Account_Books\<close> (\<^verbatim>\<open>account.py\<close>): cash,
    equity, margin and reconciliation.  \<open>Exits\<close> (\<^verbatim>\<open>exits.py\<close>): stop, target and time exits.
    \<open>Authorization\<close> (\<^verbatim>\<open>authorization.py\<close>): signed execution capabilities.  \<open>Records\<close>
    (\<^verbatim>\<open>records.py\<close>): what an execution stores.  \<open>Broker\<close>, \<open>Broker_Safety\<close> (\<^verbatim>\<open>broker.py\<close>): entries and
    exits, which compose all of these.  \<open>Sensitivity\<close> (\<^verbatim>\<open>sensitivity.py\<close>): the outcome of a fill
    under three assumptions.
  \<^item> \<open>Events\<close> (\<^verbatim>\<open>market_data/events.py\<close>): the eight market payloads and the observed event.  \<open>Uuid5\<close>:
    SHA-1 and \<^verbatim>\<open>uuid.uuid5\<close>.  \<open>Frames\<close> (\<^verbatim>\<open>market_data/frames.py\<close>): frame keys, source observations and
    the builder \<open>build_frame\<close>; \<open>Frame_Safety\<close> and \<open>Frame_Causality\<close> hold its lemmas and guarantees.
  \<^item> \<open>Decimal_Root\<close>: squares, square roots and the seconds of a duration.  \<open>Integrity\<close>
    (\<^verbatim>\<open>market_data/integrity/state_machine.py\<close>): the policy, the context, the eighteen checks and the
    assessment of a frame; \<open>Integrity_Safety\<close> states the condition of each check, \<open>Integrity_Admission\<close>
    the guarantees.
  \<^item> \<open>Manifest\<close> (\<^verbatim>\<open>experiments/manifest.py\<close>): the experiment manifest and its agents.  \<open>Agents\<close>,
    \<open>Agent_Matrix\<close> (\<^verbatim>\<open>agents/evaluations.py\<close>): the matrix of the eight agents' evaluations.
  \<^item> \<open>Decision\<close>, \<open>Decision_Safety\<close> (\<^verbatim>\<open>decision/official.py\<close>): consensus, probabilities, expected value
    and alpha.
  \<^item> \<open>Admission\<close>, \<open>Admission_Safety\<close> (\<^verbatim>\<open>monitoring/admission.py\<close>): the six monitoring gates.
  \<^item> \<open>Risk\<close>, \<open>Risk_Limits\<close> (\<^verbatim>\<open>risk/official.py\<close>): the eight ordered gates and the sizing.
  \<^item> \<open>Gates\<close>: the locale \<open>gate_chain\<close>, what a constructor of gate results promises and what follows for
    a chain of them; it is interpreted on the monitoring, the risk and the integrity gates.

  A minute runs through them in this order: events become a frame, the integrity checks admit it, the
  agents vote, the decision weighs the votes, monitoring and risk admit and size the trade, the broker
  executes it.

  A dataclass is a record whose fields carry a two-letter prefix, its \<^verbatim>\<open>__post_init__\<close> is the
  function \<open>_post_init\<close> that returns the (normalised) record or the exception, and a method is a
  function whose first argument is the object.  State is passed explicitly and returned updated, as
  the frozen dataclasses of the code are.

  \<^bold>\<open>What the theorems show.\<close>  The broker executes an entry only for a capability that verifies in its
  window and matches the prepared order, fills it from the first eligible book and leaves a
  reconciled account whose position has an active exit plan; an exit leaves its position flat, and
  a refusal of the venue or market becomes a halt.  A fill uses real depth, best prices first, and its
  sensitivity scenarios are ordered from better to worse.  An order's events record its commands one
  by one, walk the edges of the life cycle and account for every fill.  Closing a position
  agrees with an exact first-in, first-out reference, and an account keeps its cash equation.  Exit
  plans keep their terms, only tighten their stop and move forward, trigger exactly at their levels
  and can be resumed.  The risk engine always
  returns a decision, and one that approves respects every limit.

  For an aligned bar a frame is built exactly when its guards hold and no event identity has two contents; it holds the
  newest data observed by its cutoff and nothing later, and depends on the set of the available events
  only, given that SHA-256 tells the considered events apart (\<open>collision_free\<close>).  The integrity checks
  admit a frame exactly when eighteen stated conditions hold, an expected warm-up hides no failed check,
  and an admitted frame of the builder rests on a recent order-book event.  A manifest has one canonical
  form.  A run of the agents counts only the votes of enabled, compatible agents and ends in a complete matrix.  A decision
  is always returned, fails closed, follows the weighted majority and, with every vote and the funding bias turned around, differs only in the fields
  that name a direction.
  Monitoring admits exactly under its six conditions, and an admission lapses unless renewed.

  Four theorems exhibit behaviour the code does not intend: the reconciliation can refuse a sound fill when
  a margin does not divide exactly, the sizing can reject a trade it has sized itself, a non-finite feature
  makes an exception escape the agents' matrix, and the frame builder accepts one-minute bars that do not
  open on a minute boundary.

  \<^bold>\<open>Bounds and fuel.\<close>  No definition needs fuel: every loop of the modelled code runs over a finite
  sequence.  Exactness theorems assume prices and quantities on a grid \<open>10\<^sup>-\<^sup>k\<close> and amounts within 28
  digits, as the venues' tick and step sizes give them; the other theorems hold for every Decimal.
  The text of a duration is exact below \<open>2\<^sup>3\<^sup>3\<close> seconds, where the float of \<^verbatim>\<open>total_seconds\<close> still
  separates microseconds.

  \<^bold>\<open>Not modelled.\<close>  Non-finite Decimals and the exponent range of the Decimal context; the agents'
  own indicator arithmetic on floats (an agent is a function of the features; one that changed the shared
  \<^verbatim>\<open>FeatureSet\<close> for the others is outside the model); everything that is input and output or orchestration around
  it: the database (\<^verbatim>\<open>db\<close>, \<^verbatim>\<open>alembic\<close>), the HTTP interface (\<^verbatim>\<open>api\<close>), the venue connectors
  (\<^verbatim>\<open>market_data/connectors\<close>) and the tasks around them, artifact stores, cloud operations, observability, the command line and
  the dashboard.
\<close>

end
